(* ===== verification/Prelude.thy ===== *)
theory Prelude
  imports Complex_Main "HOL-Library.Sublist"
begin

text \<open>
  What the components share: Python numbers, rounding and strings, the JSON values that
  settings and table columns hold, error results, and the two interfaces most components are
  instances of: a log that only grows while a loop walks its input (\<open>append_log\<close>) and a
  state machine with an invariant (\<open>invariant_run\<close>).

  A Python \<open>float\<close> that the code computes with is a rational number: every finite double is
  one, comparisons agree, and the rounding of each arithmetic operation is left out. Where the
  code tests for NaN or infinity the value has the type \<open>pyfloat\<close>, which has them.
\<close>

named_theorems kernel_defs "definitions the execution kernel's step unfolds to"
named_theorems inv_rules "preservation rules of the components' invariants"

section \<open>Errors\<close>

datatype pyerr = TypeError | ValueError | KeyError | OverflowError | ZeroDivisionError
  | RuntimeError | HTTPError nat

type_synonym 'a result = "pyerr + 'a"

section \<open>Numbers\<close>

datatype pyfloat = Fin rat | PInf | NInf | NaN

fun isfinite :: "pyfloat \<Rightarrow> bool" where
  "isfinite (Fin _) = True"
| "isfinite _ = False"

text \<open>Python's \<open>round\<close>: to the nearest, a tie to the even neighbour.\<close>

definition round_half_even :: "rat \<Rightarrow> int" where
  "round_half_even x =
     (let f = \<lfloor>x\<rfloor>; d = x - of_int f
      in if d < 1/2 then f else if 1/2 < d then f + 1 else if even f then f else f + 1)"

definition py_round :: "rat \<Rightarrow> nat \<Rightarrow> rat" where
  "py_round x n = of_int (round_half_even (x * 10 ^ n)) / 10 ^ n"

lemma round_half_even_near: "\<bar>of_int (round_half_even x) - x\<bar> \<le> 1/2"
proof -
  have "of_int \<lfloor>x\<rfloor> \<le> x" and "x < of_int \<lfloor>x\<rfloor> + 1" by linarith+
  then show ?thesis
    unfolding round_half_even_def Let_def
    by (cases "x - of_int \<lfloor>x\<rfloor> < 1/2"; cases "1/2 < x - of_int \<lfloor>x\<rfloor>") (auto simp: abs_le_iff)
qed

lemma round_half_even_of_int [simp]: "round_half_even (of_int i) = i"
  by (simp add: round_half_even_def)

lemma round_half_even_mono: "x \<le> y \<Longrightarrow> round_half_even x \<le> round_half_even y"
proof -
  assume le: "x \<le> y"
  have fl: "\<lfloor>x\<rfloor> \<le> \<lfloor>y\<rfloor>" using le by (rule floor_mono)
  have x1: "of_int \<lfloor>x\<rfloor> \<le> x" "x < of_int \<lfloor>x\<rfloor> + 1" by linarith+
  have y1: "of_int \<lfloor>y\<rfloor> \<le> y" "y < of_int \<lfloor>y\<rfloor> + 1" by linarith+
  show ?thesis
  proof (cases "\<lfloor>x\<rfloor> = \<lfloor>y\<rfloor>")
    case True
    then show ?thesis using le by (auto simp: round_half_even_def Let_def)
  next
    case False
    with fl have "\<lfloor>x\<rfloor> + 1 \<le> \<lfloor>y\<rfloor>" by simp
    moreover have "round_half_even x \<le> \<lfloor>x\<rfloor> + 1" by (simp add: round_half_even_def Let_def)
    moreover have "\<lfloor>y\<rfloor> \<le> round_half_even y" by (simp add: round_half_even_def Let_def)
    ultimately show ?thesis by linarith
  qed
qed

lemma py_round_near: "\<bar>py_round x n - x\<bar> \<le> 1 / (2 * 10 ^ n)"
proof -
  have p: "(0::rat) < 10 ^ n" by simp
  have "py_round x n - x = (of_int (round_half_even (x * 10 ^ n)) - x * 10 ^ n) / 10 ^ n"
    using p by (simp add: py_round_def field_simps)
  then have "\<bar>py_round x n - x\<bar> = \<bar>of_int (round_half_even (x * 10 ^ n)) - x * 10 ^ n\<bar> / 10 ^ n"
    by (simp add: abs_divide)
  also have "\<dots> \<le> (1/2) / 10 ^ n"
    by (rule divide_right_mono [OF round_half_even_near]) simp
  finally show ?thesis by (simp add: field_simps)
qed

lemma py_round_0 [simp]: "py_round 0 n = 0"
  using round_half_even_of_int [of 0] by (simp add: py_round_def)

lemma py_round_nonneg: "0 \<le> x \<Longrightarrow> 0 \<le> py_round x n"
proof -
  assume "0 \<le> x"
  then have "round_half_even (of_int 0) \<le> round_half_even (x * 10 ^ n)"
    by (intro round_half_even_mono) simp
  then show ?thesis by (simp only: round_half_even_of_int py_round_def) simp
qed

section \<open>Strings\<close>

definition is_space :: "char \<Rightarrow> bool" where
  "is_space c \<longleftrightarrow> c \<in> {CHR '' '', CHR 0x09, CHR 0x0A, CHR 0x0B, CHR 0x0C, CHR 0x0D}"

definition py_lstrip :: "string \<Rightarrow> string" where
  "py_lstrip s = dropWhile is_space s"

definition py_strip :: "string \<Rightarrow> string" where
  "py_strip s = rev (dropWhile is_space (rev (py_lstrip s)))"

definition lower_char :: "char \<Rightarrow> char" where
  "lower_char c = (if 65 \<le> (of_char c :: nat) \<and> (of_char c :: nat) \<le> 90
                   then char_of ((of_char c :: nat) + 32) else c)"

definition upper_char :: "char \<Rightarrow> char" where
  "upper_char c = (if 97 \<le> (of_char c :: nat) \<and> (of_char c :: nat) \<le> 122
                   then char_of ((of_char c :: nat) - 32) else c)"

definition py_lower :: "string \<Rightarrow> string" where
  "py_lower s = map lower_char s"

definition py_upper :: "string \<Rightarrow> string" where
  "py_upper s = map upper_char s"

definition is_digit :: "char \<Rightarrow> bool" where
  "is_digit c \<longleftrightarrow> 48 \<le> (of_char c :: nat) \<and> (of_char c :: nat) \<le> 57"

definition digit_val :: "char \<Rightarrow> nat" where
  "digit_val c = (of_char c :: nat) - 48"

lemma py_strip_Nil [simp]: "py_strip [] = []"
  by (simp add: py_strip_def py_lstrip_def)

lemma py_lower_Nil [simp]: "py_lower [] = []"
  by (simp add: py_lower_def)

lemma lower_char_idem [simp]: "lower_char (lower_char c) = lower_char c"
  by (simp add: lower_char_def)

lemma py_lower_idem [simp]: "py_lower (py_lower s) = py_lower s"
  by (simp add: py_lower_def)

lemma py_strip_idem [simp]: "py_strip (py_strip s) = py_strip s"
proof -
  define l where "l = dropWhile is_space s"
  define r where "r = rev (dropWhile is_space (rev l))"
  have r: "dropWhile is_space r = r"
  proof (cases "r = []")
    case False
    have "prefix r l" unfolding r_def by (metis rev_rev_ident suffix_dropWhile suffix_to_prefix)
    then have "hd r = hd l" "l \<noteq> []" using False by (auto simp: prefix_def)
    then have "\<not> is_space (hd r)" using hd_dropWhile [of is_space s] by (simp add: l_def)
    then show ?thesis using False by (cases r) auto
  qed simp
  have "py_strip s = r" by (simp add: py_strip_def py_lstrip_def r_def l_def)
  moreover have "py_strip r = r"
    unfolding py_strip_def py_lstrip_def r by (simp add: r_def)
  ultimately show ?thesis by simp
qed

lemma is_space_code: "is_space c \<longleftrightarrow> (of_char c :: nat) \<in> {32, 9, 10, 11, 12, 13}"
  unfolding is_space_def insert_iff empty_iff of_char_eq_iff [where ?'a = nat, symmetric] by simp

lemma of_char_upper: "(of_char (upper_char c) :: nat) =
    (if 97 \<le> (of_char c :: nat) \<and> (of_char c :: nat) \<le> 122 then of_char c - 32 else of_char c)"
  by (auto simp: upper_char_def intro!: mod_less)

lemma of_char_lower: "(of_char (lower_char c) :: nat) =
    (if 65 \<le> (of_char c :: nat) \<and> (of_char c :: nat) \<le> 90 then of_char c + 32 else of_char c)"
  by (auto simp: lower_char_def intro!: mod_less)

lemma is_space_case [simp]: "is_space (upper_char c) = is_space c" "is_space (lower_char c) = is_space c"
  by (auto simp: is_space_code of_char_upper of_char_lower)

lemma dropWhile_space_upper: "dropWhile is_space (map upper_char s) = map upper_char (dropWhile is_space s)"
  by (induction s) auto

lemma dropWhile_space_lower: "dropWhile is_space (map lower_char s) = map lower_char (dropWhile is_space s)"
  by (induction s) auto

lemma strip_upper: "py_strip (py_upper s) = py_upper (py_strip s)"
  by (simp add: py_strip_def py_lstrip_def py_upper_def dropWhile_space_upper rev_map)

lemma strip_lower: "py_strip (py_lower s) = py_lower (py_strip s)"
  by (simp add: py_strip_def py_lstrip_def py_lower_def dropWhile_space_lower rev_map)

lemma upper_char_idem [simp]: "upper_char (upper_char c) = upper_char c"
proof -
  have "\<not> (97 \<le> (of_char (upper_char c) :: nat) \<and> (of_char (upper_char c) :: nat) \<le> 122)"
    by (auto simp: of_char_upper)
  then show ?thesis by (auto simp: upper_char_def [of "upper_char c"])
qed

lemma py_upper_idem [simp]: "py_upper (py_upper s) = py_upper s"
  by (simp add: py_upper_def)

lemma py_lower_eq_Nil: "py_lower s = [] \<longleftrightarrow> s = []"
  by (simp add: py_lower_def)

section \<open>Numbers read from strings\<close>

text \<open>A digit part: digits with single underscores between them.\<close>

fun take_digits :: "string \<Rightarrow> string \<times> string" where
  "take_digits [] = ([], [])"
| "take_digits [c] = (if is_digit c then ([c], []) else ([], [c]))"
| "take_digits (c # d # r) =
     (if is_digit c then
        (if d = CHR ''_'' \<and> r \<noteq> [] \<and> is_digit (hd r)
         then (let (ds, rest) = take_digits r in (c # ds, rest))
         else (let (ds, rest) = take_digits (d # r) in (c # ds, rest)))
      else ([], c # d # r))"

definition digits_nat :: "string \<Rightarrow> nat" where
  "digits_nat ds = foldl (\<lambda>a c. 10 * a + digit_val c) 0 ds"

definition take_sign :: "string \<Rightarrow> bool \<times> string" where
  "take_sign s = (case s of [] \<Rightarrow> (False, []) | c # r \<Rightarrow>
     if c = CHR ''-'' then (True, r) else if c = CHR ''+'' then (False, r) else (False, s))"

definition pow10 :: "int \<Rightarrow> rat" where
  "pow10 e = (if 0 \<le> e then 10 ^ nat e else 1 / 10 ^ nat (- e))"

definition take_exponent :: "string \<Rightarrow> int option" where
  "take_exponent s = (case s of [] \<Rightarrow> Some 0 | c # r \<Rightarrow>
     if c = CHR ''e'' \<or> c = CHR ''E'' then
       (let (neg, r') = take_sign r; (ds, rest) = take_digits r'
        in if ds \<noteq> [] \<and> rest = [] then Some (if neg then - int (digits_nat ds) else int (digits_nat ds))
           else None)
     else None)"

definition parse_decimal :: "string \<Rightarrow> rat option" where
  "parse_decimal s =
     (let (ip, r) = take_digits s;
          (fp, r') = (case r of [] \<Rightarrow> ([], []) | c # q \<Rightarrow> if c = CHR ''.'' then take_digits q else ([], r))
      in if ip = [] \<and> fp = [] then None
         else map_option (\<lambda>e. of_nat (digits_nat (ip @ fp)) * pow10 (e - int (length fp)))
                (take_exponent r'))"

text \<open>\<open>float(s)\<close> and \<open>int(s)\<close> of a string; None stands for the ValueError.\<close>

definition float_of_string :: "string \<Rightarrow> pyfloat option" where
  "float_of_string s =
     (let (neg, r) = take_sign (py_strip s); w = py_lower r
      in if w = ''inf'' \<or> w = ''infinity'' then Some (if neg then NInf else PInf)
         else if w = ''nan'' then Some NaN
         else map_option (\<lambda>q. Fin (if neg then - q else q)) (parse_decimal r))"

definition int_of_string :: "string \<Rightarrow> int option" where
  "int_of_string s =
     (let (neg, r) = take_sign (py_strip s); (ds, rest) = take_digits r
      in if ds \<noteq> [] \<and> rest = [] then Some (if neg then - int (digits_nat ds) else int (digits_nat ds))
         else None)"

section \<open>JSON values\<close>

datatype jv = JNull | JBool bool | JInt int | JFloat pyfloat | JStr string
  | JList "jv list" | JObj "(string \<times> jv) list"

type_synonym jobj = "(string \<times> jv) list"

text \<open>\<open>d.get(key)\<close>: None when the key is absent.\<close>

definition jget :: "jobj \<Rightarrow> string \<Rightarrow> jv" where
  "jget d k = (case map_of d k of None \<Rightarrow> JNull | Some v \<Rightarrow> v)"

fun truthy :: "jv \<Rightarrow> bool" where
  "truthy JNull = False"
| "truthy (JBool b) = b"
| "truthy (JInt i) = (i \<noteq> 0)"
| "truthy (JFloat f) = (f \<noteq> Fin 0)"
| "truthy (JStr s) = (s \<noteq> [])"
| "truthy (JList l) = (l \<noteq> [])"
| "truthy (JObj d) = (d \<noteq> [])"

text \<open>\<open>float(v)\<close>: a TypeError on None, lists and dicts, a ValueError on other text.\<close>

fun py_float :: "jv \<Rightarrow> pyfloat result" where
  "py_float JNull = Inl TypeError"
| "py_float (JBool b) = Inr (Fin (if b then 1 else 0))"
| "py_float (JInt i) = Inr (Fin (of_int i))"
| "py_float (JFloat f) = Inr f"
| "py_float (JStr s) = (case float_of_string s of None \<Rightarrow> Inl ValueError | Some f \<Rightarrow> Inr f)"
| "py_float (JList _) = Inl TypeError"
| "py_float (JObj _) = Inl TypeError"

definition rat_trunc :: "rat \<Rightarrow> int" where
  "rat_trunc q = (if 0 \<le> q then \<lfloor>q\<rfloor> else \<lceil>q\<rceil>)"

fun int_of_float :: "pyfloat \<Rightarrow> int result" where
  "int_of_float (Fin q) = Inr (rat_trunc q)"
| "int_of_float NaN = Inl ValueError"
| "int_of_float _ = Inl OverflowError"

text \<open>\<open>int(v)\<close>: infinities raise an OverflowError, which few callers catch.\<close>

fun py_int :: "jv \<Rightarrow> int result" where
  "py_int JNull = Inl TypeError"
| "py_int (JBool b) = Inr (if b then 1 else 0)"
| "py_int (JInt i) = Inr i"
| "py_int (JFloat f) = int_of_float f"
| "py_int (JStr s) = (case int_of_string s of None \<Rightarrow> Inl ValueError | Some i \<Rightarrow> Inr i)"
| "py_int (JList _) = Inl TypeError"
| "py_int (JObj _) = Inl TypeError"

text \<open>
  The word of a value the code passes through \<open>str(v or '')\<close> before it compares it with fixed
  words: a string is itself; the text of any other value is none of the words compared, and
  the callers treat every unknown word like the empty one.
\<close>

fun word_of :: "jv \<Rightarrow> string" where
  "word_of (JStr s) = s"
| "word_of _ = []"

section \<open>Association lists as dicts\<close>

fun dict_set :: "'k \<Rightarrow> 'v \<Rightarrow> ('k \<times> 'v) list \<Rightarrow> ('k \<times> 'v) list" where
  "dict_set k v [] = [(k, v)]"
| "dict_set k v ((a, b) # d) = (if a = k then (k, v) # d else (a, b) # dict_set k v d)"

definition dict_pop :: "'k \<Rightarrow> ('k \<times> 'v) list \<Rightarrow> ('k \<times> 'v) list" where
  "dict_pop k d = filter (\<lambda>p. fst p \<noteq> k) d"

definition dict_update :: "('k \<times> 'v) list \<Rightarrow> ('k \<times> 'v) list \<Rightarrow> ('k \<times> 'v) list" where
  "dict_update d e = foldl (\<lambda>acc p. dict_set (fst p) (snd p) acc) d e"

lemma map_of_dict_set: "map_of (dict_set k v d) = (map_of d)(k \<mapsto> v)"
  by (induction d) (auto simp: fun_eq_iff)

lemma dom_dict_set: "fst ` set (dict_set k v d) = insert k (fst ` set d)"
proof (induction d)
  case (Cons p d)
  then show ?case by (cases p) auto
qed simp

lemma distinct_dict_set: "distinct (map fst d) \<Longrightarrow> distinct (map fst (dict_set k v d))"
proof (induction d)
  case (Cons p d)
  then show ?case by (cases p) (auto simp: dom_dict_set)
qed simp

lemma map_of_dict_pop: "map_of (dict_pop k d) = (map_of d)(k := None)"
  by (induction d) (auto simp: dict_pop_def fun_eq_iff)

lemma jget_dict_set: "jget (dict_set k v d) j = (if j = k then v else jget d j)"
  by (simp add: jget_def map_of_dict_set)

lemma jget_dict_pop: "jget (dict_pop k d) j = (if j = k then JNull else jget d j)"
  by (simp add: jget_def map_of_dict_pop)

section \<open>A log that only grows\<close>

text \<open>
  A loop that walks its input one element at a time and appends to a log. The log of a run
  over a prefix of the input is then a prefix of the log of the whole run: what was reported
  once is never revised.
\<close>

locale append_log =
  fixes step :: "'s \<Rightarrow> 'b \<Rightarrow> 's"
    and log :: "'s \<Rightarrow> 'e list"
  assumes step_extends: "prefix (log s) (log (step s b))"
begin

lemma run_extends: "prefix (log s) (log (foldl step s bs))"
proof (induction bs arbitrary: s)
  case Nil
  show ?case by simp
next
  case (Cons b bs)
  have "prefix (log s) (log (step s b))" by (rule step_extends)
  moreover have "prefix (log (step s b)) (log (foldl step (step s b) bs))" by (rule Cons.IH)
  ultimately show ?case by (simp add: prefix_order.order_trans [of "log s"])
qed

lemma run_prefix: "prefix (log (foldl step s bs)) (log (foldl step s (bs @ cs)))"
  by (simp add: run_extends)

end

section \<open>A state machine with an invariant\<close>

locale invariant_run =
  fixes step :: "'s \<Rightarrow> 'e \<Rightarrow> 's"
    and inv :: "'s \<Rightarrow> bool"
  assumes step_inv: "inv s \<Longrightarrow> inv (step s e)"
begin

lemma run_inv: "inv s \<Longrightarrow> inv (foldl step s es)"
  by (induction es arbitrary: s) (auto intro: step_inv)

end

text \<open>The same for an invariant that only the admissible events keep.\<close>

locale guarded_run =
  fixes step :: "'s \<Rightarrow> 'e \<Rightarrow> 's"
    and inv :: "'s \<Rightarrow> bool"
    and ok :: "'e \<Rightarrow> bool"
  assumes guarded_step: "inv s \<Longrightarrow> ok e \<Longrightarrow> inv (step s e)"
begin

lemma guarded_inv: "inv s \<Longrightarrow> \<forall>e\<in>set es. ok e \<Longrightarrow> inv (foldl step s es)"
  by (induction es arbitrary: s) (auto intro: guarded_step)

end

sublocale invariant_run \<subseteq> every: guarded_run step inv "\<lambda>_. True"
  by unfold_locales (rule step_inv)

section \<open>Generic lemmas\<close>

lemma foldl_cong_set:
  "(\<And>s x. x \<in> set xs \<Longrightarrow> f s x = g s x) \<Longrightarrow> foldl f s xs = foldl g s xs"
  by (induction xs arbitrary: s) auto

lemma sum_list_scaled: "sum_list (map (\<lambda>x. x * c) xs) = sum_list xs * (c :: rat)"
  by (induction xs) (auto simp: distrib_right)

lemma sum_list_nonneg_rat: "(\<And>x. x \<in> set xs \<Longrightarrow> 0 \<le> x) \<Longrightarrow> 0 \<le> sum_list (xs :: rat list)"
  by (induction xs) auto

lemma sum_list_pos_rat: "xs \<noteq> [] \<Longrightarrow> (\<And>x. x \<in> set xs \<Longrightarrow> 0 < x) \<Longrightarrow> 0 < sum_list (xs :: rat list)"
proof (induction xs)
  case (Cons x xs)
  then show ?case by (cases xs) (auto intro: add_pos_pos)
qed simp

end
