(* ===== verification/Pytime.thy ===== *)
theory Pytime
  imports Prelude
begin

text \<open>
  \<open>datetime.fromisoformat\<close> as the program uses it: calendar dates in the extended format, one
  separator character, a time of hours, minutes, seconds and a fraction, and a UTC offset. The
  result is the instant in microseconds since 0001-01-01T00:00 UTC; every caller reads a
  timestamp without an offset as UTC. ISO week dates and the compact formats, which nothing in
  the repository writes, are not read.
\<close>

definition is_leap :: "int \<Rightarrow> bool" where
  "is_leap y \<longleftrightarrow> y mod 4 = 0 \<and> (y mod 100 \<noteq> 0 \<or> y mod 400 = 0)"

definition days_in_month :: "int \<Rightarrow> int \<Rightarrow> int" where
  "days_in_month y m = (if m = 2 then (if is_leap y then 29 else 28)
     else if m \<in> {4, 6, 9, 11} then 30 else 31)"

definition days_before_year :: "int \<Rightarrow> int" where
  "days_before_year y = (let p = y - 1 in p * 365 + p div 4 - p div 100 + p div 400)"

definition days_before_month :: "int \<Rightarrow> int \<Rightarrow> int" where
  "days_before_month y m = sum_list (map (days_in_month y) [1 .. m - 1])"

definition day_number :: "int \<Rightarrow> int \<Rightarrow> int \<Rightarrow> int" where
  "day_number y m d = days_before_year y + days_before_month y m + d - 1"

text \<open>A number of exactly \<open>n\<close> digits at the head of the text.\<close>

definition take_num :: "nat \<Rightarrow> string \<Rightarrow> (int \<times> string) option" where
  "take_num n s = (if n \<le> length s \<and> list_all is_digit (take n s)
     then Some (int (digits_nat (take n s)), drop n s) else None)"

definition expect :: "char \<Rightarrow> string \<Rightarrow> string option" where
  "expect c s = (case s of [] \<Rightarrow> None | x # r \<Rightarrow> if x = c then Some r else None)"

definition parse_date :: "string \<Rightarrow> (int \<times> string) option" where
  "parse_date s = (case take_num 4 s of None \<Rightarrow> None | Some (y, s1) \<Rightarrow>
     (case expect CHR ''-'' s1 of None \<Rightarrow> None | Some s2 \<Rightarrow>
     (case take_num 2 s2 of None \<Rightarrow> None | Some (m, s3) \<Rightarrow>
     (case expect CHR ''-'' s3 of None \<Rightarrow> None | Some s4 \<Rightarrow>
     (case take_num 2 s4 of None \<Rightarrow> None | Some (d, s5) \<Rightarrow>
        if 1 \<le> y \<and> 1 \<le> m \<and> m \<le> 12 \<and> 1 \<le> d \<and> d \<le> days_in_month y m
        then Some (day_number y m d, s5) else None)))))"

text \<open>The fraction of a second in microseconds; digits past the sixth are dropped.\<close>

definition parse_fraction :: "string \<Rightarrow> (int \<times> string) option" where
  "parse_fraction s = (case s of [] \<Rightarrow> Some (0, []) | c # r \<Rightarrow>
     if c \<noteq> CHR ''.'' \<and> c \<noteq> CHR '','' then Some (0, s)
     else let ds = takeWhile is_digit r
          in if ds = [] then None
             else Some (int (digits_nat (take 6 (ds @ ''000000''))), dropWhile is_digit r))"

text \<open>Hours, then optional minutes, seconds and fraction: the fields and the rest of the text.\<close>

definition parse_hms :: "string \<Rightarrow> ((int \<times> int \<times> int \<times> int) \<times> string) option" where
  "parse_hms s = (case take_num 2 s of None \<Rightarrow> None | Some (h, s1) \<Rightarrow>
     (case expect CHR '':'' s1 of None \<Rightarrow> Some ((h, 0, 0, 0), s1) | Some s2 \<Rightarrow>
     (case take_num 2 s2 of None \<Rightarrow> None | Some (m, s3) \<Rightarrow>
     (case expect CHR '':'' s3 of None \<Rightarrow> Some ((h, m, 0, 0), s3) | Some s4 \<Rightarrow>
     (case take_num 2 s4 of None \<Rightarrow> None | Some (sec, s5) \<Rightarrow>
     (case parse_fraction s5 of None \<Rightarrow> None | Some (us, s6) \<Rightarrow> Some ((h, m, sec, us), s6)))))))"

definition micros :: "int \<times> int \<times> int \<times> int \<Rightarrow> int" where
  "micros t = (case t of (h, m, s, us) \<Rightarrow> ((h * 60 + m) * 60 + s) * 1000000 + us)"

definition day_micros :: int where "day_micros = 86400000000"

text \<open>The offset: nothing, Z, or a sign and a time below 24 hours.\<close>

definition parse_offset :: "string \<Rightarrow> int option" where
  "parse_offset s = (case s of [] \<Rightarrow> Some 0 | c # r \<Rightarrow>
     if c = CHR ''Z'' then (if r = [] then Some 0 else None)
     else if c = CHR ''+'' \<or> c = CHR ''-'' then
       (case parse_hms r of Some (t, []) \<Rightarrow>
          if micros t < day_micros then Some (if c = CHR ''-'' then - micros t else micros t) else None
        | _ \<Rightarrow> None)
     else None)"

definition iso_instant :: "string \<Rightarrow> int option" where
  "iso_instant s = (case parse_date s of None \<Rightarrow> None
     | Some (day, []) \<Rightarrow> Some (day * day_micros)
     | Some (day, _ # r) \<Rightarrow>
        (case parse_hms r of None \<Rightarrow> None
         | Some ((h, m, sec, us), z) \<Rightarrow>
             if h < 24 \<and> m < 60 \<and> sec < 60
             then map_option (\<lambda>off. day * day_micros + micros (h, m, sec, us) - off) (parse_offset z)
             else None))"

text \<open>The instants a \<open>datetime\<close> can hold: years 1 to 9999.\<close>

definition in_datetime_range :: "int \<Rightarrow> bool" where
  "in_datetime_range t \<longleftrightarrow> 0 \<le> t \<and> t < day_number 10000 1 1 * day_micros"

lemma iso_instant_examples:
  "iso_instant ''2024-03-01T12:00:00'' = iso_instant ''2024-03-01 12:00:00+00:00''"
  "iso_instant ''2024-03-01T14:00:00+02:00'' = iso_instant ''2024-03-01T12:00Z''"
  "iso_instant ''2024-02-30'' = None"
  "iso_instant ''1970-01-01'' = Some (719162 * day_micros)"
  by code_simp+

end
