(* ===== verification/Sizing.thy ===== *)
theory Sizing
  imports Prelude
begin

text \<open>
  Position sizing, \<open>forven/strategies/sizing.py\<close>: reading and normalising a strategy's
  execution profile, the stop distance, the fraction of equity each sizing mode deploys, and the
  pro-rata sharing of the margin that is left among entries of the same opening tick. The
  backtest kernel and the scanner both call these functions.
\<close>

section \<open>The execution profile\<close>

datatype sizing_mode = Full | Fixed | Fraction | Atr | Kelly

record exec_controls =
  ec_sizing_mode :: sizing_mode
  ec_stop_loss_pct :: "rat option"
  ec_take_profit_pct :: "rat option"
  ec_trailing_stop_pct :: "rat option"
  ec_time_stop_bars :: "int option"
  ec_risk_per_trade :: rat
  ec_fixed_size :: "rat option"
  ec_atr_stop_multiplier :: rat
  ec_kelly_multiplier :: rat
  ec_kelly_lookback :: int
  ec_needs_atr :: bool
  ec_atr_period :: int

definition HONORED_EXECUTION_CONTROL_FIELDS :: "string list" where
  "HONORED_EXECUTION_CONTROL_FIELDS =
    [''sizing_mode'', ''fixed_size'', ''risk_per_trade'', ''atr_stop_multiplier'',
     ''kelly_multiplier'', ''kelly_lookback'', ''stop_loss_pct'', ''take_profit_pct'',
     ''trailing_stop_pct'', ''time_stop_bars'']"

definition DEFAULT_RISK_PER_TRADE :: rat where "DEFAULT_RISK_PER_TRADE = 1/100"
definition DEFAULT_PROFILE_RISK_PER_TRADE :: rat where "DEFAULT_PROFILE_RISK_PER_TRADE = 2/100"
definition DEFAULT_ATR_STOP_MULTIPLIER :: rat where "DEFAULT_ATR_STOP_MULTIPLIER = 2"
definition DEFAULT_STOP_LOSS_PCT_FLOOR :: rat where "DEFAULT_STOP_LOSS_PCT_FLOOR = 3"

text \<open>
  \<open>lift_unambiguous_risk_params\<close>: a positive integer \<open>time_stop_bars\<close> at the top level of the
  parameters is copied into the nested profile unless the profile has its own. An infinity
  raises, because only TypeError and ValueError are caught.
\<close>

definition lifted_time_stop :: "jobj \<Rightarrow> int option result" where
  "lifted_time_stop out = (let raw = jget out ''time_stop_bars'' in case raw of
     JNull \<Rightarrow> Inr None
   | JBool _ \<Rightarrow> Inr None
   | _ \<Rightarrow> (case py_int raw of Inr i \<Rightarrow> Inr (if 0 < i then Some i else None)
          | Inl OverflowError \<Rightarrow> Inl OverflowError | Inl _ \<Rightarrow> Inr None))"

definition nested_profile :: "jobj \<Rightarrow> jobj" where
  "nested_profile out = (case jget out ''execution_profile'' of JObj p \<Rightarrow> p | _ \<Rightarrow> [])"

definition lift_unambiguous_risk_params :: "jv \<Rightarrow> jobj result" where
  "lift_unambiguous_risk_params params = (case params of
     JObj out \<Rightarrow> (case lifted_time_stop out of
         Inl e \<Rightarrow> Inl e
       | Inr None \<Rightarrow> Inr out
       | Inr (Some t) \<Rightarrow>
           (if jget (nested_profile out) ''time_stop_bars'' = JNull
            then Inr (dict_set ''execution_profile''
                       (JObj (dict_set ''time_stop_bars'' (JInt t) (nested_profile out))) out)
            else Inr out))
   | _ \<Rightarrow> Inr [])"

text \<open>\<open>extract_execution_profile\<close>: only the nested dict is read, only honored fields, no nulls.\<close>

definition extract_execution_profile :: "jv \<Rightarrow> jobj" where
  "extract_execution_profile params = (case params of
     JObj p \<Rightarrow> (case jget p ''execution_profile'' of
        JObj source \<Rightarrow> concat (map (\<lambda>f. let v = jget source f in if v = JNull then [] else [(f, v)])
                                 HONORED_EXECUTION_CONTROL_FIELDS)
      | _ \<Rightarrow> [])
   | _ \<Rightarrow> [])"

text \<open>\<open>_opt_pos\<close>: the finite positive number under a key, else None.\<close>

definition opt_pos :: "jobj \<Rightarrow> string \<Rightarrow> rat option" where
  "opt_pos controls key = (case py_float (jget controls key) of
     Inr (Fin v) \<Rightarrow> if 0 < v then Some v else None | _ \<Rightarrow> None)"

definition or_default :: "rat option \<Rightarrow> rat \<Rightarrow> rat" where
  "or_default x d = (case x of None \<Rightarrow> d | Some v \<Rightarrow> v)"

definition mode_of_word :: "string \<Rightarrow> sizing_mode" where
  "mode_of_word w =
     (if w = ''fixed'' then Fixed else if w = ''fraction'' then Fraction
      else if w = ''atr'' then Atr else if w = ''kelly'' then Kelly else Full)"

definition parse_time_stop :: "jobj \<Rightarrow> int option result" where
  "parse_time_stop controls = (case jget controls ''time_stop_bars'' of
     JNull \<Rightarrow> Inr None
   | raw \<Rightarrow> (case py_int raw of Inr i \<Rightarrow> Inr (if i \<le> 0 then None else Some i)
             | Inl OverflowError \<Rightarrow> Inl OverflowError | Inl _ \<Rightarrow> Inr None))"

definition parse_kelly_lookback :: "jobj \<Rightarrow> int result" where
  "parse_kelly_lookback controls =
     (let raw = jget controls ''kelly_lookback''
      in case py_int (if truthy raw then raw else JInt 100) of Inr i \<Rightarrow> Inr (max i 1)
         | Inl OverflowError \<Rightarrow> Inl OverflowError | Inl _ \<Rightarrow> Inr 100)"

definition normalize_execution_controls :: "jv \<Rightarrow> exec_controls option result" where
  "normalize_execution_controls v = (case v of
     JObj c \<Rightarrow>
       (let mode = mode_of_word (py_lower (py_strip (word_of (jget c ''sizing_mode''))));
            sl = opt_pos c ''stop_loss_pct''; tp = opt_pos c ''take_profit_pct'';
            tr = opt_pos c ''trailing_stop_pct''
        in case parse_time_stop c of Inl e \<Rightarrow> Inl e | Inr ts \<Rightarrow>
           (case parse_kelly_lookback c of Inl e \<Rightarrow> Inl e | Inr kl \<Rightarrow>
             (let has_stop = sl \<noteq> None \<or> tp \<noteq> None \<or> tr \<noteq> None \<or> ts \<noteq> None \<or> mode = Atr;
                  has_sizing = mode \<noteq> Full
              in if \<not> has_stop \<and> \<not> has_sizing then Inr None
                 else Inr (Some
                   \<lparr>ec_sizing_mode = mode, ec_stop_loss_pct = sl, ec_take_profit_pct = tp,
                    ec_trailing_stop_pct = tr, ec_time_stop_bars = ts,
                    ec_risk_per_trade = or_default (opt_pos c ''risk_per_trade'') DEFAULT_PROFILE_RISK_PER_TRADE,
                    ec_fixed_size = opt_pos c ''fixed_size'',
                    ec_atr_stop_multiplier = or_default (opt_pos c ''atr_stop_multiplier'') 2,
                    ec_kelly_multiplier = or_default (opt_pos c ''kelly_multiplier'') (1/2),
                    ec_kelly_lookback = kl, ec_needs_atr = (mode = Atr), ec_atr_period = 14\<rparr>))))
   | _ \<Rightarrow> Inr None)"

definition default_controls :: "rat \<Rightarrow> exec_controls" where
  "default_controls risk =
     \<lparr>ec_sizing_mode = Atr, ec_stop_loss_pct = Some DEFAULT_STOP_LOSS_PCT_FLOOR,
      ec_take_profit_pct = None, ec_trailing_stop_pct = None, ec_time_stop_bars = None,
      ec_risk_per_trade = risk, ec_fixed_size = None,
      ec_atr_stop_multiplier = DEFAULT_ATR_STOP_MULTIPLIER, ec_kelly_multiplier = 1/2,
      ec_kelly_lookback = 100, ec_needs_atr = True, ec_atr_period = 14\<rparr>"

text \<open>What the normaliser promises and every later computation uses.\<close>

definition opt_positive :: "rat option \<Rightarrow> bool" where
  "opt_positive x = (case x of None \<Rightarrow> True | Some v \<Rightarrow> 0 < v)"

definition wf_controls :: "exec_controls \<Rightarrow> bool" where
  "wf_controls ec \<longleftrightarrow>
     opt_positive (ec_stop_loss_pct ec) \<and> opt_positive (ec_take_profit_pct ec) \<and>
     opt_positive (ec_trailing_stop_pct ec) \<and> opt_positive (ec_fixed_size ec) \<and>
     0 < ec_risk_per_trade ec \<and> 0 < ec_atr_stop_multiplier ec \<and> 0 < ec_kelly_multiplier ec \<and>
     1 \<le> ec_kelly_lookback ec \<and> (case ec_time_stop_bars ec of None \<Rightarrow> True | Some t \<Rightarrow> 0 < t) \<and>
     (ec_sizing_mode ec = Atr \<longrightarrow> ec_needs_atr ec)"

section \<open>Sizes\<close>

definition clamp01 :: "rat \<Rightarrow> rat" where
  "clamp01 v = max 0 (min 1 v)"

definition kelly_star :: "rat \<Rightarrow> rat \<Rightarrow> rat" where
  "kelly_star win_rate payoff = max 0 (win_rate - (1 - win_rate) / payoff)"

definition kelly_fraction :: "rat list \<Rightarrow> int \<Rightarrow> rat" where
  "kelly_fraction closed_gross lookback =
     (if closed_gross = [] then 0
      else let window = drop (length closed_gross - nat (max lookback 1)) closed_gross;
               wins = filter (\<lambda>r. 0 < r) window;
               losses = map uminus (filter (\<lambda>r. r < 0) window);
               n = length window
           in if n = 0 \<or> wins = [] \<or> losses = [] then 0
              else let win_rate = of_nat (length wins) / of_nat n;
                       avg_win = sum_list wins / of_nat (length wins);
                       avg_loss = sum_list losses / of_nat (length losses)
                   in if avg_loss \<le> 0 then 0
                      else kelly_star win_rate (avg_win / avg_loss))"

definition entry_stop_dist_pct :: "exec_controls \<Rightarrow> rat \<Rightarrow> rat option \<Rightarrow> rat option" where
  "entry_stop_dist_pct ec entry_price atr_value =
     (let percent = (case ec_stop_loss_pct ec of Some s \<Rightarrow> Some (s / 100) | None \<Rightarrow>
                    (case ec_trailing_stop_pct ec of Some t \<Rightarrow> Some (t / 100) | None \<Rightarrow>
                     if ec_sizing_mode ec = Atr then Some (DEFAULT_STOP_LOSS_PCT_FLOOR / 100) else None))
      in case atr_value of
           Some a \<Rightarrow> if ec_sizing_mode ec = Atr \<and> 0 < entry_price \<and> 0 < a
                     then Some (ec_atr_stop_multiplier ec * a / entry_price) else percent
         | None \<Rightarrow> percent)"

definition size_fraction ::
  "exec_controls \<Rightarrow> rat option \<Rightarrow> rat \<Rightarrow> rat \<Rightarrow> rat list \<Rightarrow> rat option \<Rightarrow> rat" where
  "size_fraction ec stop_dist leverage initial_capital closed_gross current_equity =
     (if (case current_equity of Some e \<Rightarrow> e \<le> 0 | None \<Rightarrow> False) then 0
      else case ec_sizing_mode ec of
        Full \<Rightarrow> 1
      | Fixed \<Rightarrow> (case ec_fixed_size ec of None \<Rightarrow> 1
          | Some f \<Rightarrow> if f = 0 then 1
              else clamp01 (f / max (or_default current_equity initial_capital) (1 / 10 ^ 9)))
      | Kelly \<Rightarrow> clamp01 (ec_kelly_multiplier ec * kelly_fraction closed_gross (ec_kelly_lookback ec))
      | _ \<Rightarrow> (let lev = max leverage (1 / 10 ^ 9)
              in case stop_dist of
                   Some d \<Rightarrow> if 0 < d then clamp01 (ec_risk_per_trade ec / (d * lev))
                             else clamp01 (ec_risk_per_trade ec)
                 | None \<Rightarrow> clamp01 (ec_risk_per_trade ec)))"

definition position_units :: "rat \<Rightarrow> rat \<Rightarrow> rat \<Rightarrow> rat \<Rightarrow> rat" where
  "position_units equity sf leverage entry_price =
     (if equity \<le> 0 \<or> entry_price \<le> 0 \<or> sf \<le> 0 \<or> leverage \<le> 0 then 0
      else equity * leverage * sf / entry_price)"

definition allocate_entry_fractions :: "rat list \<Rightarrow> rat \<Rightarrow> rat \<Rightarrow> rat list" where
  "allocate_entry_fractions requests equity occupied_margin =
     (if equity \<le> 0 then replicate (length requests) 0
      else let requested = map clamp01 requests;
               available = clamp01 (1 - max occupied_margin 0 / equity);
               total = sum_list requested;
               scale = (if 0 < total then min 1 (available / total) else 0)
           in map (\<lambda>v. v * scale) requested)"

section \<open>Lemmas\<close>

lemma clamp01_range [simp]: "0 \<le> clamp01 v" "clamp01 v \<le> 1"
  by (simp_all add: clamp01_def)

lemma clamp01_le: "0 \<le> v \<Longrightarrow> clamp01 v \<le> v"
  by (simp add: clamp01_def)

lemma clamp01_pos_iff: "0 < clamp01 v \<longleftrightarrow> 0 < v"
  by (auto simp: clamp01_def)

lemma kelly_star_range: "p \<le> 1 \<Longrightarrow> 0 \<le> r \<Longrightarrow> 0 \<le> kelly_star p r \<and> kelly_star p r \<le> 1"
proof -
  assume p: "p \<le> 1" and r: "0 \<le> r"
  have "0 \<le> (1 - p) / r" using p r by simp
  then have "p - (1 - p) / r \<le> 1" using p by linarith
  then show ?thesis by (simp add: kelly_star_def)
qed

lemma mean_nonneg: "(\<And>x. x \<in> set xs \<Longrightarrow> 0 \<le> x) \<Longrightarrow> 0 \<le> sum_list (xs :: rat list) / of_nat (length xs)"
  by (intro divide_nonneg_nonneg sum_list_nonneg_rat) auto

lemma kelly_fraction_range: "0 \<le> kelly_fraction g l \<and> kelly_fraction g l \<le> 1"
proof -
  define w where "w = drop (length g - nat (max l 1)) g"
  define wins where "wins = filter (\<lambda>r. 0 < r) w"
  define losses where "losses = map uminus (filter (\<lambda>r. r < 0) w)"
  have wr: "(of_nat (length wins) :: rat) / of_nat (length w) \<le> 1"
    using length_filter_le [of "\<lambda>r. 0 < r" w]
    by (simp only: divide_le_eq_1 of_nat_le_iff of_nat_less_iff wins_def) auto
  have "0 \<le> sum_list wins / of_nat (length wins) / (sum_list losses / of_nat (length losses))"
    by (intro divide_nonneg_nonneg mean_nonneg) (auto simp: wins_def losses_def)
  with wr have "0 \<le> kelly_star (of_nat (length wins) / of_nat (length w))
        (sum_list wins / of_nat (length wins) / (sum_list losses / of_nat (length losses)))
      \<and> kelly_star (of_nat (length wins) / of_nat (length w))
        (sum_list wins / of_nat (length wins) / (sum_list losses / of_nat (length losses))) \<le> 1"
    by (rule kelly_star_range)
  then show ?thesis
    unfolding kelly_fraction_def Let_def wins_def losses_def w_def by (simp split: if_split)
qed

lemma size_fraction_range: "0 \<le> size_fraction ec d l c g e \<and> size_fraction ec d l c g e \<le> 1"
  by (auto simp: size_fraction_def Let_def split: sizing_mode.splits option.splits)

lemma length_allocate [simp]: "length (allocate_entry_fractions rs e m) = length rs"
  by (simp add: allocate_entry_fractions_def Let_def)

lemma allocate_nth:
  assumes "0 < e" and "i < length rs"
  shows "allocate_entry_fractions rs e m ! i = clamp01 (rs ! i) *
    (if 0 < sum_list (map clamp01 rs)
     then min 1 (clamp01 (1 - max m 0 / e) / sum_list (map clamp01 rs)) else 0)"
  using assms by (simp add: allocate_entry_fractions_def Let_def)

lemma allocate_range: "f \<in> set (allocate_entry_fractions rs e m) \<Longrightarrow> 0 \<le> f \<and> f \<le> 1"
proof -
  assume f: "f \<in> set (allocate_entry_fractions rs e m)"
  show ?thesis
  proof (cases "e \<le> 0")
    case True
    with f show ?thesis by (auto simp: allocate_entry_fractions_def)
  next
    case False
    let ?s = "if 0 < sum_list (map clamp01 rs)
      then min 1 (clamp01 (1 - max m 0 / e) / sum_list (map clamp01 rs)) else 0"
    from f False obtain r where r: "f = clamp01 r * ?s"
      by (auto simp: allocate_entry_fractions_def Let_def)
    have "0 \<le> ?s" "?s \<le> 1" by auto
    then show ?thesis unfolding r by (auto intro: mult_nonneg_nonneg mult_le_one)
  qed
qed

lemma sum_allocate:
  assumes "0 < e"
  shows "sum_list (allocate_entry_fractions rs e m) \<le> clamp01 (1 - max m 0 / e)"
proof -
  let ?t = "sum_list (map clamp01 rs)"
  let ?a = "clamp01 (1 - max m 0 / e)"
  have eq: "sum_list (allocate_entry_fractions rs e m) = ?t * (if 0 < ?t then min 1 (?a / ?t) else 0)"
    using assms sum_list_scaled [of _ "map clamp01 rs"]
    by (simp only: allocate_entry_fractions_def Let_def) (simp del: map_map)
  show ?thesis
  proof (cases "0 < ?t")
    case True
    then have "?t * min 1 (?a / ?t) \<le> ?t * (?a / ?t)"
      by (intro mult_left_mono) auto
    with True show ?thesis by (simp add: eq)
  qed (simp add: eq)
qed

text \<open>The margin reserved at one opening tick never exceeds what the account has left.\<close>

lemma allocate_margin:
  assumes "0 < e" and "0 \<le> m" and "m \<le> e"
  shows "m + e * sum_list (allocate_entry_fractions rs e m) \<le> e"
proof -
  have "clamp01 (1 - max m 0 / e) = 1 - m / e"
    using assms by (simp add: clamp01_def min_absorb2 max_absorb1 max_absorb2 divide_le_eq_1)
  then have "e * sum_list (allocate_entry_fractions rs e m) \<le> e * (1 - m / e)"
    using sum_allocate [OF assms(1), of rs m] assms(1) by (intro mult_left_mono) auto
  also have "\<dots> = e - m" using assms(1) by (simp add: right_diff_distrib)
  finally show ?thesis by simp
qed

lemma opt_pos_positive: "opt_positive (opt_pos c k)"
  by (auto simp: opt_positive_def opt_pos_def split: sum.splits pyfloat.splits)

lemma or_default_pos: "opt_positive x \<Longrightarrow> 0 < d \<Longrightarrow> 0 < or_default x d"
  by (auto simp: opt_positive_def or_default_def split: option.splits)

lemma normalize_wf:
  assumes "normalize_execution_controls v = Inr (Some ec)"
  shows "wf_controls ec"
proof -
  from assms obtain c ts kl where c: "v = JObj c" and ts: "parse_time_stop c = Inr ts"
    and kl: "parse_kelly_lookback c = Inr kl"
    and ec: "ec_stop_loss_pct ec = opt_pos c ''stop_loss_pct''" "ec_take_profit_pct ec = opt_pos c ''take_profit_pct''"
      "ec_trailing_stop_pct ec = opt_pos c ''trailing_stop_pct''" "ec_fixed_size ec = opt_pos c ''fixed_size''"
      "ec_risk_per_trade ec = or_default (opt_pos c ''risk_per_trade'') DEFAULT_PROFILE_RISK_PER_TRADE"
      "ec_atr_stop_multiplier ec = or_default (opt_pos c ''atr_stop_multiplier'') 2"
      "ec_kelly_multiplier ec = or_default (opt_pos c ''kelly_multiplier'') (1/2)"
      "ec_time_stop_bars ec = ts" "ec_kelly_lookback ec = kl" "ec_needs_atr ec = (ec_sizing_mode ec = Atr)"
    by (auto simp: normalize_execution_controls_def Let_def split: jv.splits sum.splits if_splits)
  have "case ts of None \<Rightarrow> True | Some t \<Rightarrow> 0 < t"
    using ts by (auto simp: parse_time_stop_def split: jv.splits sum.splits pyerr.splits if_splits)
  moreover have "1 \<le> kl"
    using kl by (auto simp: parse_kelly_lookback_def Let_def split: sum.splits pyerr.splits)
  ultimately show ?thesis
    by (simp add: wf_controls_def ec opt_pos_positive or_default_pos DEFAULT_PROFILE_RISK_PER_TRADE_def)
qed

lemma default_wf: "0 < r \<Longrightarrow> wf_controls (default_controls r)"
  by (simp add: wf_controls_def default_controls_def opt_positive_def DEFAULT_STOP_LOSS_PCT_FLOOR_def
      DEFAULT_ATR_STOP_MULTIPLIER_def)

lemma entry_stop_dist_pos:
  "wf_controls ec \<Longrightarrow> entry_stop_dist_pct ec p a = Some d \<Longrightarrow> 0 < d"
  by (auto simp: wf_controls_def opt_positive_def entry_stop_dist_pct_def Let_def
      DEFAULT_STOP_LOSS_PCT_FLOOR_def split: option.splits if_splits)

text \<open>Atr sizing never collapses to a flat notional: it always has a stop distance.\<close>

lemma atr_has_stop: "ec_sizing_mode ec = Atr \<Longrightarrow> entry_stop_dist_pct ec p a \<noteq> None"
  by (simp add: entry_stop_dist_pct_def Let_def split: option.split del: not_None_eq)

text \<open>A stop-out in the risk-based modes loses at most the configured risk, at any leverage.\<close>

lemma size_fraction_risk:
  assumes "ec_sizing_mode ec = Fraction \<or> ec_sizing_mode ec = Atr"
    and "0 < d" and "0 \<le> ec_risk_per_trade ec" and "1 / 10 ^ 9 \<le> l"
  shows "size_fraction ec (Some d) l c g e * d * l \<le> ec_risk_per_trade ec"
proof (cases "case e of Some e' \<Rightarrow> e' \<le> 0 | None \<Rightarrow> False")
  case True
  then show ?thesis using assms by (simp add: size_fraction_def)
next
  case False
  have l: "0 < l" using assms(4) by (rule less_le_trans [rotated]) simp
  have "size_fraction ec (Some d) l c g e = clamp01 (ec_risk_per_trade ec / (d * l))"
    using assms False max_absorb1 [OF assms(4)] by (auto simp: size_fraction_def Let_def simp del: power_one_over)
  moreover have "clamp01 (ec_risk_per_trade ec / (d * l)) \<le> ec_risk_per_trade ec / (d * l)"
    using assms l by (intro clamp01_le) simp
  ultimately have "size_fraction ec (Some d) l c g e * (d * l) \<le> ec_risk_per_trade ec / (d * l) * (d * l)"
    using assms l by (intro mult_right_mono) auto
  then show ?thesis using assms l by (simp add: mult.assoc)
qed

end
