(* ===== verification/Sizing_Props.thy ===== *)
theory Sizing_Props
  imports Sizing
begin

text \<open>
  The properties of \<open>strategies/sizing.py\<close>: what the normaliser guarantees to every consumer of
  a profile, the lifting of the time stop, the risk a stop-out realises, and the allocation of
  an opening tick.
\<close>

lemma lift_cases:
  assumes "lift_unambiguous_risk_params (JObj p) = Inr q"
  shows "q = p \<or> (\<exists>t. q = dict_set ''execution_profile''
    (JObj (dict_set ''time_stop_bars'' (JInt t) (nested_profile p))) p)"
  using assms by (auto simp: lift_unambiguous_risk_params_def split: sum.splits option.splits if_splits)

lemma lift_nested_known:
  assumes "jget p ''execution_profile'' = JObj prof" and "jget prof ''time_stop_bars'' \<noteq> JNull"
    and "lift_unambiguous_risk_params (JObj p) = Inr q"
  shows "q = p"
  using assms by (auto simp: lift_unambiguous_risk_params_def nested_profile_def
      split: sum.splits option.splits if_splits)

lemma lift_ok_mono:
  assumes "lift_unambiguous_risk_params (JObj p) = Inr q" and "jget p' ''time_stop_bars'' = jget p ''time_stop_bars''"
  shows "\<exists>q'. lift_unambiguous_risk_params (JObj p') = Inr q'"
proof -
  have same: "lifted_time_stop p' = lifted_time_stop p" by (simp add: lifted_time_stop_def assms(2))
  from assms(1) obtain x where "lifted_time_stop p = Inr x"
    by (auto simp: lift_unambiguous_risk_params_def split: sum.splits)
  then show ?thesis by (cases x) (simp_all add: lift_unambiguous_risk_params_def same)
qed

text \<open>Lifting the time stop into the nested profile is idempotent, so a profile the driver has already
  lifted is not changed when a later stage lifts it again.\<close>

lemma lift_idempotent:
  assumes "lift_unambiguous_risk_params v = Inr q"
  shows "lift_unambiguous_risk_params (JObj q) = Inr q"
proof (cases "\<exists>p. v = JObj p")
  case False
  then have "q = []" using assms by (cases v) (simp_all add: lift_unambiguous_risk_params_def)
  then show ?thesis by (simp add: lift_unambiguous_risk_params_def lifted_time_stop_def jget_def)
next
  case True
  then obtain p where p: "lift_unambiguous_risk_params (JObj p) = Inr q" using assms by auto
  have top: "jget q ''time_stop_bars'' = jget p ''time_stop_bars''"
    using lift_cases [OF p] by (auto simp: jget_dict_set)
  obtain q' where q': "lift_unambiguous_risk_params (JObj q) = Inr q'" using lift_ok_mono [OF p top] by blast
  show ?thesis
  proof (cases "q = p")
    case True
    with p show ?thesis by simp
  next
    case False
    with lift_cases [OF p] obtain t where
      n: "jget q ''execution_profile'' = JObj (dict_set ''time_stop_bars'' (JInt t) (nested_profile p))"
      by (auto simp: jget_dict_set)
    have "q' = q" by (rule lift_nested_known [OF n _ q']) (simp add: jget_dict_set)
    with q' show ?thesis by simp
  qed
qed

lemma infinite_time_stop_raises:
  "lift_unambiguous_risk_params (JObj [(''time_stop_bars'', JFloat PInf)]) = Inl OverflowError"
  by code_simp

text \<open>Whatever the stored profile holds (missing keys, text, NaN, negative numbers), the controls the
  normaliser returns are well formed: every distance and size is positive, the Kelly window has a bar,
  and atr sizing computes its series and always finds a stop distance.\<close>

lemma normalized_controls_sound:
  assumes "normalize_execution_controls v = Inr (Some ec)"
  shows "wf_controls ec \<and>
    (ec_sizing_mode ec = Atr \<longrightarrow> ec_needs_atr ec \<and> (\<exists>d>0. entry_stop_dist_pct ec px a = Some d))"
proof (intro conjI impI)
  show wf: "wf_controls ec" by (rule normalize_wf [OF assms])
  assume atr: "ec_sizing_mode ec = Atr"
  then show "ec_needs_atr ec" using wf by (simp add: wf_controls_def)
  obtain d where "entry_stop_dist_pct ec px a = Some d" using atr_has_stop [OF atr] by fastforce
  with entry_stop_dist_pos [OF wf this] show "\<exists>d>0. entry_stop_dist_pct ec px a = Some d" by blast
qed

text \<open>C22: A stop-out in the risk-based sizing modes loses at most the configured risk fraction of the account,
  at every leverage and stop distance, and no sizing mode ever returns a fraction outside 0..1.\<close>

theorem stop_out_loses_at_most_risk:
  assumes "normalize_execution_controls v = Inr (Some ec)" and "ec_sizing_mode ec = Fraction \<or> ec_sizing_mode ec = Atr"
    and "entry_stop_dist_pct ec px a = Some d" and "1 / 10 ^ 9 \<le> l"
  shows "size_fraction ec (Some d) l c g e * d * l \<le> ec_risk_per_trade ec \<and>
    0 \<le> size_fraction ec (Some d) l c g e \<and> size_fraction ec (Some d) l c g e \<le> 1"
proof -
  have wf: "wf_controls ec" by (rule normalize_wf [OF assms(1)])
  have "0 \<le> ec_risk_per_trade ec" using wf by (simp add: wf_controls_def less_imp_le)
  from size_fraction_risk [OF assms(2) entry_stop_dist_pos [OF wf assms(3)] this assms(4)] size_fraction_range
  show ?thesis by blast
qed

theorem stop_out_loses_at_most_risk_witness:
  "\<exists>ec. entry_stop_dist_pct ec 100 (Some 1) = Some (2/100) \<and>
     size_fraction ec (Some (2/100)) 3 1000 [] None * (2/100) * 3 \<le> 1/100"
proof -
  let ?v = "JObj [(''sizing_mode'', JStr ''atr''), (''risk_per_trade'', JFloat (Fin (1/100)))]"
  have "map_sum id (map_option (\<lambda>ec. (ec_sizing_mode ec, ec_risk_per_trade ec, entry_stop_dist_pct ec 100 (Some 1))))
      (normalize_execution_controls ?v) = Inr (Some (Atr, 1/100, Some (2/100)))"
    by code_simp
  then obtain ec where ec: "normalize_execution_controls ?v = Inr (Some ec)" and m: "ec_sizing_mode ec = Atr"
    and r: "ec_risk_per_trade ec = 1/100" and d: "entry_stop_dist_pct ec 100 (Some 1) = Some (2/100)"
    by (cases "normalize_execution_controls ?v") auto
  have l: "(1 / 10 ^ 9 :: rat) \<le> 3" by simp
  have "size_fraction ec (Some (2/100)) 3 1000 [] None * (2/100) * 3 \<le> 1/100"
    using stop_out_loses_at_most_risk [OF ec disjI2 [OF m] d l] unfolding r by blast
  with d show ?thesis by blast
qed

text \<open>Simultaneous entries are scaled pro rata: the margin they reserve and the margin already reserved
  never exceed the account, every allocation keeps the requests' proportions, and when they all fit
  nobody is scaled.\<close>

lemma allocation_is_safe_and_pro_rata:
  assumes "0 < e" and "0 \<le> m" and "m \<le> e" and "i < length rs" and "j < length rs"
  shows "m + e * sum_list (allocate_entry_fractions rs e m) \<le> e \<and>
    allocate_entry_fractions rs e m ! i * clamp01 (rs ! j) = allocate_entry_fractions rs e m ! j * clamp01 (rs ! i) \<and>
    (e * sum_list (map clamp01 rs) \<le> e - m \<longrightarrow> allocate_entry_fractions rs e m ! i = clamp01 (rs ! i))"
proof (intro conjI impI)
  show "m + e * sum_list (allocate_entry_fractions rs e m) \<le> e" using allocate_margin assms by simp
  show "allocate_entry_fractions rs e m ! i * clamp01 (rs ! j) = allocate_entry_fractions rs e m ! j * clamp01 (rs ! i)"
    using assms by (simp add: allocate_nth)
  assume fits: "e * sum_list (map clamp01 rs) \<le> e - m"
  let ?t = "sum_list (map clamp01 rs)"
  have a: "clamp01 (1 - max m 0 / e) = 1 - m / e"
    using assms by (simp add: clamp01_def min_absorb2 max_absorb1 max_absorb2 divide_le_eq_1)
  have t: "?t \<le> 1 - m / e" using fits assms(1) by (simp add: field_simps)
  show "allocate_entry_fractions rs e m ! i = clamp01 (rs ! i)"
  proof (cases "0 < ?t")
    case True
    then have one: "1 \<le> (1 - m / e) / ?t" using t by (simp add: pos_le_divide_eq)
    show ?thesis
      unfolding allocate_nth [OF assms(1,4)] a using True one by (simp only: min_absorb1 if_True mult_1_right)
  next
    case False
    have "clamp01 (rs ! i) \<le> ?t"
      by (rule member_le_sum_list) (use assms(4) in \<open>auto\<close>)
    with False have "clamp01 (rs ! i) = 0" using clamp01_range(1) [of "rs ! i"] by linarith
    with assms show ?thesis by (simp add: allocate_nth)
  qed
qed

end
