(* ===== verification/Kernel.thy ===== *)
theory Kernel
  imports Sizing
begin

text \<open>
  The execution kernel, \<open>forven/strategies/execution_kernel.py\<close>: the bar walk shared by the
  backtest and the scanner. One step of the walk is \<open>kernel_step\<close>, its three phases are
  \<open>exit_phase\<close> (orders that fill at the open), \<open>entry_phase\<close> and \<open>protect_phase\<close>;
  \<open>simulate\<close> folds it over the bars and projects the pending orders, and \<open>force_close\<close> is
  the backtest's end-of-data close.

  A row of the frame carries its prices, the four signal flags of the bar and its regime.
  The order book of open positions, the closed trades, the Kelly evidence and the realized
  equity are the record \<open>kstate\<close>. \<open>check_work_budget\<close>, which may cancel a walk, is left out.
\<close>

section \<open>Data\<close>

datatype direction = Long | Short

datatype exit_reason = TimeStop | Signal | Liquidation | TrailingStop | StopLoss | TakeProfit

datatype touch = TouchStop | TouchTp

record row =
  r_time :: string
  r_open :: rat
  r_high :: rat
  r_low :: rat
  r_close :: rat
  r_long_entry :: bool
  r_long_exit :: bool
  r_short_entry :: bool
  r_short_exit :: bool
  r_regime :: "string option"

record funding_context =
  f_rates :: "rat option list"
  f_hours_per_bar :: rat

record position =
  p_entry_bar :: nat
  p_entry_price :: rat
  p_entry_time :: string
  p_regime :: string
  p_size_fraction :: rat
  p_requested_size_fraction :: rat
  p_equity_at_entry :: rat
  p_atr_value :: "rat option"
  p_stop_price :: "rat option"
  p_target_price :: "rat option"
  p_liquidation_price :: "rat option"
  p_trail_pct :: "rat option"
  p_extreme :: rat

record trade =
  t_entry_bar :: nat
  t_entry_price :: rat
  t_exit_price :: rat
  t_entry_time :: string
  t_exit_time :: string
  t_bars_held :: nat
  t_pnl_pct :: rat
  t_pnl_pct_raw :: rat
  t_direction :: direction
  t_trade_mode :: string
  t_position_model :: string
  t_size_fraction :: rat
  t_size_fraction_raw :: rat
  t_leverage :: rat
  t_cost_drag_pct :: rat
  t_exit_reason :: exit_reason
  t_equity_at_entry :: rat
  t_margin_usd :: rat
  t_size_units :: rat
  t_pnl_usd :: rat
  t_funding :: "(rat \<times> rat \<times> bool) option"
  t_open_at_end :: bool
  t_regime :: string
  t_exit_at_open :: bool

type_synonym resolver = "string \<Rightarrow> direction \<Rightarrow> rat \<Rightarrow> rat \<Rightarrow> touch option"

record kcfg =
  c_warmup :: int
  c_leverage :: rat
  c_round_trip_drag :: rat
  c_trade_mode :: string
  c_allowed_modes :: "direction list"
  c_ec :: exec_controls
  c_initial_capital :: rat
  c_resolver :: "resolver option"
  c_funding :: "funding_context option"

record kstate =
  k_active :: "direction \<Rightarrow> position option"
  k_trades :: "trade list"
  k_gross :: "rat list"
  k_equity :: rat

definition RANGE_BOUND :: string where "RANGE_BOUND = ''RANGE_BOUND''"

section \<open>Costs and funding\<close>

definition direction_sign :: "direction \<Rightarrow> rat" where
  "direction_sign d = (case d of Short \<Rightarrow> -1 | Long \<Rightarrow> 1)"

definition round_trip_drag :: "rat \<Rightarrow> rat \<Rightarrow> rat \<Rightarrow> rat" where
  "round_trip_drag fee_bps slippage_bps leverage =
     2 * (max fee_bps 0 + max slippage_bps 0) / 10000 * max leverage 0"

definition trade_drag :: "rat \<Rightarrow> rat \<Rightarrow> rat \<Rightarrow> rat" where
  "trade_drag cost entry_price exit_price =
     (if entry_price \<le> 0 then max cost 0
      else max cost 0 * (1/2) * (1 + max exit_price 0 / entry_price))"

record cost_breakdown =
  cb_fee_bps :: rat
  cb_entry_fee_usd :: rat
  cb_exit_fee_usd :: rat
  cb_total_fees_usd :: rat
  cb_slippage_usd :: rat
  cb_funding_usd :: rat
  cb_gross_pnl_usd :: "rat option"

definition cost_breakdown_usd ::
  "rat \<Rightarrow> rat \<Rightarrow> rat \<Rightarrow> rat \<Rightarrow> rat \<Rightarrow> rat \<Rightarrow> rat option \<Rightarrow> rat \<Rightarrow> cost_breakdown" where
  "cost_breakdown_usd equity_at_entry leverage sf fee_bps slippage_bps funding_gain_pct net_pnl_usd exit_ratio =
     (let notional = max equity_at_entry 0 * max leverage 0 * max sf 0;
          xr = max exit_ratio 0;
          entry_fee = max fee_bps 0 / 10000 * notional;
          exit_fee = entry_fee * xr;
          entry_slippage = max slippage_bps 0 / 10000 * notional;
          exit_slippage = entry_slippage * xr;
          slippage_usd = entry_slippage + exit_slippage;
          funding_usd = - funding_gain_pct * max equity_at_entry 0
      in \<lparr>cb_fee_bps = max fee_bps 0,
          cb_entry_fee_usd = py_round entry_fee 6,
          cb_exit_fee_usd = py_round exit_fee 6,
          cb_total_fees_usd = py_round (entry_fee + exit_fee) 6,
          cb_slippage_usd = py_round slippage_usd 6,
          cb_funding_usd = py_round funding_usd 6,
          cb_gross_pnl_usd = map_option
            (\<lambda>net. py_round (net + entry_fee + exit_fee + slippage_usd + funding_usd) 6) net_pnl_usd\<rparr>)"

text \<open>\<open>_accrue_funding_gross\<close>: rates are None where the bar had no rate.\<close>

definition accrue_funding_gross ::
  "funding_context option \<Rightarrow> direction \<Rightarrow> nat \<Rightarrow> nat \<Rightarrow> rat \<Rightarrow> rat option \<times> bool" where
  "accrue_funding_gross funding d entry_bar exit_idx leverage = (case funding of
     None \<Rightarrow> (None, True)
   | Some f \<Rightarrow>
       (let n = length (f_rates f); hi = min exit_idx n
        in if hi \<le> entry_bar then (Some 0, True)
           else let window = take (hi - entry_bar) (drop entry_bar (f_rates f));
                    complete = list_all (\<lambda>r. r \<noteq> None) window;
                    funding_sum = sum_list (map (\<lambda>r. case r of None \<Rightarrow> 0 | Some q \<Rightarrow> q) window)
                in (Some (- direction_sign d * funding_sum * f_hours_per_bar f * max leverage 0), complete)))"

section \<open>Wilder's average true range\<close>

definition true_range :: "rat \<Rightarrow> row \<Rightarrow> rat" where
  "true_range prev_close r =
     max \<bar>r_high r - r_low r\<bar> (max \<bar>r_high r - prev_close\<bar> \<bar>r_low r - prev_close\<bar>)"

fun atr_from :: "rat \<Rightarrow> rat \<Rightarrow> rat \<Rightarrow> row list \<Rightarrow> rat list" where
  "atr_from alpha prev prev_close [] = []"
| "atr_from alpha prev prev_close (r # rs) =
     (let a = (1 - alpha) * prev + alpha * true_range prev_close r
      in a # atr_from alpha a (r_close r) rs)"

definition compute_atr_series :: "row list \<Rightarrow> int \<Rightarrow> rat list" where
  "compute_atr_series rows period = (case rows of [] \<Rightarrow> []
     | r # rs \<Rightarrow> (let a = \<bar>r_high r - r_low r\<bar>
                 in a # atr_from (1 / of_int (max period 1)) a (r_close r) rs))"

section \<open>Closing a position\<close>

text \<open>
  The trade record and the pre-size gross return of a close. The gross return carries the
  price move, the two-leg drag and, when a funding series is given, the funding accrued over
  the held bars; its size-scaled part is the trade's net return.
\<close>

definition make_trade ::
  "kcfg \<Rightarrow> position \<Rightarrow> direction \<Rightarrow> rat \<Rightarrow> nat \<Rightarrow> string \<Rightarrow> exit_reason \<Rightarrow> bool \<Rightarrow> trade \<times> rat" where
  "make_trade cfg pos d exit_price exit_idx exit_time reason open_at_end =
     (let entry_price = p_entry_price pos; leverage = c_leverage cfg;
          drag = trade_drag (c_round_trip_drag cfg) entry_price exit_price;
          gross0 = (exit_price - entry_price) / entry_price * direction_sign d * leverage - drag;
          sf = p_size_fraction pos;
          (fg, complete) = accrue_funding_gross (c_funding cfg) d (p_entry_bar pos) exit_idx leverage;
          gross = (case fg of None \<Rightarrow> gross0 | Some g \<Rightarrow> gross0 + g);
          pnl_pct = gross * sf
      in (\<lparr>t_entry_bar = p_entry_bar pos, t_entry_price = entry_price,
           t_exit_price = exit_price, t_entry_time = p_entry_time pos, t_exit_time = exit_time,
           t_bars_held = exit_idx - p_entry_bar pos,
           t_pnl_pct = py_round pnl_pct 5, t_pnl_pct_raw = pnl_pct, t_direction = d,
           t_trade_mode = c_trade_mode cfg,
           t_position_model = (if c_trade_mode cfg = ''both'' then ''hedged'' else ''single_side''),
           t_size_fraction = py_round sf 4, t_size_fraction_raw = sf, t_leverage = leverage,
           t_cost_drag_pct = py_round (drag * sf) 8, t_exit_reason = reason,
           t_equity_at_entry = p_equity_at_entry pos, t_margin_usd = p_equity_at_entry pos * sf,
           t_size_units = position_units (p_equity_at_entry pos) sf leverage entry_price,
           t_pnl_usd = p_equity_at_entry pos * pnl_pct,
           t_funding = map_option (\<lambda>g. (py_round (g * sf) 6, g * sf, complete)) fg,
           t_open_at_end = open_at_end, t_regime = p_regime pos, t_exit_at_open = False\<rparr>, gross))"

definition finalize ::
  "kcfg \<Rightarrow> trade list \<Rightarrow> rat list \<Rightarrow> position \<Rightarrow> direction \<Rightarrow> rat \<Rightarrow> nat \<Rightarrow> string \<Rightarrow> exit_reason
    \<Rightarrow> bool \<Rightarrow> trade list \<times> rat list" where
  "finalize cfg trades closed_gross pos d exit_price exit_idx exit_time reason open_at_end =
     (if p_entry_price pos \<le> 0 then (trades, closed_gross)
      else let (t, gross) = make_trade cfg pos d exit_price exit_idx exit_time reason open_at_end
           in (trades @ [t], closed_gross @ [gross]))"

text \<open>
  The walk's own \<open>_finalize\<close>: it stamps \<open>exit_at_open\<close> on the new trade, books its
  dollars on the running equity and frees the direction.
\<close>

definition close_position ::
  "kcfg \<Rightarrow> kstate \<Rightarrow> position \<Rightarrow> direction \<Rightarrow> rat \<Rightarrow> nat \<Rightarrow> string \<Rightarrow> exit_reason \<Rightarrow> bool \<Rightarrow> kstate" where
  "close_position cfg s pos d exit_price idx time reason at_open =
     (let (ts, gs) = finalize cfg (k_trades s) (k_gross s) pos d exit_price idx time reason False;
          s' = (if length (k_trades s) < length ts
                then s\<lparr>k_trades := butlast ts @ [(last ts)\<lparr>t_exit_at_open := at_open\<rparr>],
                       k_gross := gs,
                       k_equity := max 0 (k_equity s + t_pnl_usd (last ts))\<rparr>
                else s)
      in s'\<lparr>k_active := (k_active s')(d := None)\<rparr>)"

section \<open>Exit decisions\<close>

definition exit_signal :: "direction \<Rightarrow> row \<Rightarrow> bool" where
  "exit_signal d r = (case d of Long \<Rightarrow> r_long_exit r | Short \<Rightarrow> r_short_exit r)"

definition entry_signal :: "direction \<Rightarrow> row \<Rightarrow> bool" where
  "entry_signal d r = (case d of Long \<Rightarrow> r_long_entry r | Short \<Rightarrow> r_short_entry r)"

definition has_trail :: "position \<Rightarrow> bool" where
  "has_trail pos = (case p_trail_pct pos of None \<Rightarrow> False | Some t \<Rightarrow> t \<noteq> 0)"

text \<open>The fixed and the trailing stop combined into the tighter level.\<close>

definition effective_stop :: "direction \<Rightarrow> position \<Rightarrow> rat option" where
  "effective_stop d pos =
     (if has_trail pos then
        (let trail = p_extreme pos * (1 - direction_sign d * the (p_trail_pct pos))
         in case p_stop_price pos of None \<Rightarrow> Some trail
            | Some s \<Rightarrow> Some (if d = Long then max s trail else min s trail))
      else p_stop_price pos)"

definition stop_reason :: "direction \<Rightarrow> position \<Rightarrow> rat \<Rightarrow> exit_reason" where
  "stop_reason d pos stop =
     (if has_trail pos \<and> (case p_stop_price pos of None \<Rightarrow> True | Some s \<Rightarrow> 0 < direction_sign d * (stop - s))
      then TrailingStop else StopLoss)"

definition time_stop_due :: "exec_controls \<Rightarrow> nat \<Rightarrow> position \<Rightarrow> bool" where
  "time_stop_due ec idx pos = (case ec_time_stop_bars ec of None \<Rightarrow> False
     | Some t \<Rightarrow> t \<noteq> 0 \<and> t \<le> int idx - int (p_entry_bar pos))"

text \<open>
  Phase 1, what fills at the open of bar \<open>idx\<close>: the time stop, the exit signal of the bar
  before, then resting orders the gap crossed (liquidation, stop, target).
\<close>

definition open_exit :: "exec_controls \<Rightarrow> row \<Rightarrow> nat \<Rightarrow> rat \<Rightarrow> direction \<Rightarrow> position
    \<Rightarrow> (rat \<times> exit_reason) option" where
  "open_exit ec prev idx fill d pos =
     (let sgn = direction_sign d
      in if time_stop_due ec idx pos then Some (fill, TimeStop)
         else if exit_signal d prev then Some (fill, Signal)
         else if (case p_liquidation_price pos of None \<Rightarrow> False | Some l \<Rightarrow> sgn * (fill - l) \<le> 0)
              then Some (fill, Liquidation)
         else if (case effective_stop d pos of None \<Rightarrow> False | Some s \<Rightarrow> sgn * (fill - s) \<le> 0)
              then Some (fill, stop_reason d pos (the (effective_stop d pos)))
         else case p_target_price pos of None \<Rightarrow> None
              | Some t \<Rightarrow> if 0 \<le> sgn * (fill - t) then Some (t, TakeProfit) else None)"

text \<open>Phase 3, resting orders the bar's range reaches after the open.\<close>

definition at_or_below :: "direction \<Rightarrow> rat \<Rightarrow> rat \<Rightarrow> bool" where
  \<comment> \<open>the level is reached from the losing side: a long's low, a short's high\<close>
  "at_or_below d price level = (case d of Long \<Rightarrow> price \<le> level | Short \<Rightarrow> level \<le> price)"

definition worst_price :: "direction \<Rightarrow> row \<Rightarrow> rat" where
  "worst_price d r = (case d of Long \<Rightarrow> r_low r | Short \<Rightarrow> r_high r)"

definition best_price :: "direction \<Rightarrow> row \<Rightarrow> rat" where
  "best_price d r = (case d of Long \<Rightarrow> r_high r | Short \<Rightarrow> r_low r)"

definition tp_touched :: "direction \<Rightarrow> row \<Rightarrow> rat \<Rightarrow> bool" where
  "tp_touched d r tp = (case d of Long \<Rightarrow> tp \<le> r_high r | Short \<Rightarrow> r_low r \<le> tp)"

definition resolver_says_tp :: "resolver option \<Rightarrow> direction \<Rightarrow> row \<Rightarrow> rat option \<Rightarrow> rat option \<Rightarrow> bool" where
  "resolver_says_tp res d r stop tp = (case (res, stop, tp) of
     (Some f, Some s, Some t) \<Rightarrow>
        at_or_below d (worst_price d r) s \<and> tp_touched d r t \<and> f (r_time r) d s t = Some TouchTp
   | _ \<Rightarrow> False)"

definition protective_exit :: "resolver option \<Rightarrow> row \<Rightarrow> rat \<Rightarrow> direction \<Rightarrow> position
    \<Rightarrow> (rat \<times> exit_reason) option" where
  "protective_exit res r fill d pos =
     (let stop = effective_stop d pos; tp = p_target_price pos; liq = p_liquidation_price pos;
          worst = worst_price d r
      in if (case liq of None \<Rightarrow> False | Some l \<Rightarrow> at_or_below d fill l) then Some (fill, Liquidation)
         else if resolver_says_tp res d r stop tp then Some (the tp, TakeProfit)
         else if (case stop of None \<Rightarrow> False | Some s \<Rightarrow> at_or_below d worst s)
              then (let s = the stop
                    in Some ((case d of Long \<Rightarrow> min fill s | Short \<Rightarrow> max fill s), stop_reason d pos s))
         else if (case liq of None \<Rightarrow> False | Some l \<Rightarrow> at_or_below d worst l) then Some (the liq, Liquidation)
         else if (case tp of None \<Rightarrow> False | Some t \<Rightarrow> tp_touched d r t) then Some (the tp, TakeProfit)
         else None)"

definition ratchet :: "direction \<Rightarrow> row \<Rightarrow> position \<Rightarrow> position" where
  "ratchet d r pos = (if has_trail pos
     then pos\<lparr>p_extreme := (case d of Long \<Rightarrow> max (p_extreme pos) (r_high r)
                                 | Short \<Rightarrow> min (p_extreme pos) (r_low r))\<rparr> else pos)"

section \<open>The walk\<close>

definition lev_of :: "kcfg \<Rightarrow> rat" where
  "lev_of cfg = max (c_leverage cfg) (1 / 10 ^ 9)"

text \<open>The adverse move, as a fraction of the entry, at which the position is liquidated.\<close>

definition liquidation_move :: "kcfg \<Rightarrow> rat" where
  "liquidation_move cfg = (1 - 5 / 1000) / lev_of cfg"

definition exit_one :: "kcfg \<Rightarrow> row \<Rightarrow> row \<Rightarrow> nat \<Rightarrow> kstate \<Rightarrow> direction \<Rightarrow> kstate" where
  "exit_one cfg prev cur idx s d = (case k_active s d of None \<Rightarrow> s
     | Some pos \<Rightarrow> (case open_exit (c_ec cfg) prev idx (r_open cur) d pos of None \<Rightarrow> s
        | Some (px, reason) \<Rightarrow> close_position cfg s pos d px idx (r_time cur) reason True))"

definition exit_phase :: "kcfg \<Rightarrow> row \<Rightarrow> row \<Rightarrow> nat \<Rightarrow> kstate \<Rightarrow> kstate" where
  "exit_phase cfg prev cur idx s = foldl (exit_one cfg prev cur idx) s (c_allowed_modes cfg)"

definition entry_stop :: "kcfg \<Rightarrow> rat option \<Rightarrow> rat \<Rightarrow> rat option" where
  "entry_stop cfg atr fill = entry_stop_dist_pct (c_ec cfg) fill
     (if ec_sizing_mode (c_ec cfg) = Atr then atr else None)"

definition entry_candidates :: "kcfg \<Rightarrow> row \<Rightarrow> row \<Rightarrow> rat option \<Rightarrow> kstate
    \<Rightarrow> (direction \<times> rat option \<times> rat) list" where
  "entry_candidates cfg prev cur atr s =
     map (\<lambda>d. let sd = entry_stop cfg atr (r_open cur)
              in (d, sd, size_fraction (c_ec cfg) sd (lev_of cfg) (c_initial_capital cfg)
                           (k_gross s) (Some (k_equity s))))
       (filter (\<lambda>d. k_active s d = None \<and> entry_signal d prev) (c_allowed_modes cfg))"

definition position_margin :: "position \<Rightarrow> rat" where
  "position_margin pos = max (p_equity_at_entry pos * p_size_fraction pos) 0"

definition occupied_margin :: "kcfg \<Rightarrow> kstate \<Rightarrow> rat" where
  "occupied_margin cfg s = sum_list (map (\<lambda>d. case k_active s d of None \<Rightarrow> 0
     | Some pos \<Rightarrow> position_margin pos) (remdups (c_allowed_modes cfg)))"

definition new_position :: "kcfg \<Rightarrow> row \<Rightarrow> row \<Rightarrow> nat \<Rightarrow> rat option \<Rightarrow> rat \<Rightarrow> direction \<Rightarrow> rat option
    \<Rightarrow> rat \<Rightarrow> rat \<Rightarrow> position" where
  "new_position cfg prev cur idx atr equity d sd requested sf =
     (let fill = r_open cur; sgn = direction_sign d; ec = c_ec cfg; lev = lev_of cfg
      in \<lparr>p_entry_bar = idx, p_entry_price = fill, p_entry_time = r_time cur,
          p_regime = (case r_regime prev of None \<Rightarrow> RANGE_BOUND | Some g \<Rightarrow> g),
          p_size_fraction = sf, p_requested_size_fraction = requested, p_equity_at_entry = equity,
          p_atr_value = atr,
          p_stop_price = (case sd of None \<Rightarrow> None | Some x \<Rightarrow>
             if ec_stop_loss_pct ec \<noteq> None \<or> ec_sizing_mode ec = Atr
             then Some (fill * (1 - sgn * x)) else None),
          p_target_price = map_option (\<lambda>t. fill * (1 + sgn * t / 100)) (ec_take_profit_pct ec),
          p_liquidation_price = (if 1 < lev then Some (fill * (1 - sgn * liquidation_move cfg)) else None),
          p_trail_pct = map_option (\<lambda>t. t / 100) (ec_trailing_stop_pct ec),
          p_extreme = fill\<rparr>)"

definition open_one :: "kcfg \<Rightarrow> row \<Rightarrow> row \<Rightarrow> nat \<Rightarrow> rat option \<Rightarrow> kstate
    \<Rightarrow> (direction \<times> rat option \<times> rat) \<times> rat \<Rightarrow> kstate" where
  "open_one cfg prev cur idx atr s c = (case c of ((d, sd, requested), sf) \<Rightarrow>
     if sf \<le> 0 then s
     else s\<lparr>k_active := (k_active s)(d \<mapsto> new_position cfg prev cur idx atr (k_equity s) d sd requested sf)\<rparr>)"

definition entry_phase :: "kcfg \<Rightarrow> row \<Rightarrow> row \<Rightarrow> nat \<Rightarrow> rat option \<Rightarrow> kstate \<Rightarrow> kstate" where
  "entry_phase cfg prev cur idx atr s =
     (let cands = entry_candidates cfg prev cur atr s;
          allocated = allocate_entry_fractions (map (\<lambda>c. snd (snd c)) cands) (k_equity s) (occupied_margin cfg s)
      in foldl (open_one cfg prev cur idx atr) s (zip cands allocated))"

definition protect_one :: "kcfg \<Rightarrow> row \<Rightarrow> nat \<Rightarrow> kstate \<Rightarrow> direction \<Rightarrow> kstate" where
  "protect_one cfg cur idx s d = (case k_active s d of None \<Rightarrow> s
     | Some pos \<Rightarrow> (case protective_exit (c_resolver cfg) cur (r_open cur) d pos of
          None \<Rightarrow> s\<lparr>k_active := (k_active s)(d \<mapsto> ratchet d cur pos)\<rparr>
        | Some (px, reason) \<Rightarrow> close_position cfg s pos d px idx (r_time cur) reason False))"

definition protect_phase :: "kcfg \<Rightarrow> row \<Rightarrow> nat \<Rightarrow> kstate \<Rightarrow> kstate" where
  "protect_phase cfg cur idx s = foldl (protect_one cfg cur idx) s (c_allowed_modes cfg)"

definition atr_at :: "kcfg \<Rightarrow> rat list \<Rightarrow> nat \<Rightarrow> rat option" where
  "atr_at cfg atrs i = (if ec_needs_atr (c_ec cfg) then Some (atrs ! i) else None)"

definition kernel_step :: "kcfg \<Rightarrow> row list \<Rightarrow> rat list \<Rightarrow> kstate \<Rightarrow> nat \<Rightarrow> kstate" where
  "kernel_step cfg rows atrs s idx =
     (let prev = rows ! (idx - 1); cur = rows ! idx
      in if r_open cur \<le> 0 then s
         else protect_phase cfg cur idx
                (entry_phase cfg prev cur idx (atr_at cfg atrs (idx - 1))
                  (exit_phase cfg prev cur idx s)))"

definition init_state :: "kcfg \<Rightarrow> kstate" where
  "init_state cfg = \<lparr>k_active = (\<lambda>_. None), k_trades = [], k_gross = [],
                     k_equity = max (c_initial_capital cfg) 0\<rparr>"

definition walk :: "kcfg \<Rightarrow> row list \<Rightarrow> kstate" where
  "walk cfg rows =
     foldl (kernel_step cfg rows (compute_atr_series rows (ec_atr_period (c_ec cfg)))) (init_state cfg)
       [Suc (nat (c_warmup cfg)) ..< length rows]"

section \<open>Pending orders and the result\<close>

record pending_exit =
  pe_direction :: direction
  pe_entry_time :: string
  pe_entry_price :: rat
  pe_size_fraction :: rat
  pe_exit_reason :: exit_reason
  pe_signal_time :: string

record pending_entry =
  pn_direction :: direction
  pn_signal_time :: string
  pn_atr_value :: "rat option"
  pn_regime :: string

record kernel_result =
  kr_closed_trades :: "trade list"
  kr_open_positions :: "(direction \<times> position) list"
  kr_closed_gross :: "rat list"
  kr_pending_entries :: "(direction \<times> pending_entry) list"
  kr_pending_exits :: "(direction \<times> pending_exit) list"
  kr_ec :: exec_controls
  kr_exit_signals :: "(direction \<times> string list) list"

definition pending_reason :: "kcfg \<Rightarrow> nat \<Rightarrow> row \<Rightarrow> direction \<Rightarrow> position \<Rightarrow> exit_reason option" where
  "pending_reason cfg n last_row d pos =
     (if time_stop_due (c_ec cfg) n pos then Some TimeStop
      else if exit_signal d last_row then Some Signal else None)"

definition pending_exit_for :: "kcfg \<Rightarrow> row list \<Rightarrow> kstate \<Rightarrow> direction \<Rightarrow> (direction \<times> pending_exit) list" where
  "pending_exit_for cfg rows s d = (case k_active s d of None \<Rightarrow> []
     | Some pos \<Rightarrow> (case pending_reason cfg (length rows) (last rows) d pos of None \<Rightarrow> []
        | Some reason \<Rightarrow> [(d, \<lparr>pe_direction = d, pe_entry_time = p_entry_time pos,
             pe_entry_price = p_entry_price pos, pe_size_fraction = p_size_fraction pos,
             pe_exit_reason = reason, pe_signal_time = r_time (last rows)\<rparr>)]))"

definition pending_entry_for :: "kcfg \<Rightarrow> row list \<Rightarrow> rat list \<Rightarrow> kstate \<Rightarrow> direction
    \<Rightarrow> (direction \<times> pending_entry) list" where
  "pending_entry_for cfg rows atrs s d =
     (if (k_active s d = None \<or> pending_exit_for cfg rows s d \<noteq> []) \<and> entry_signal d (last rows)
      then [(d, \<lparr>pn_direction = d, pn_signal_time = r_time (last rows),
              pn_atr_value = (if ec_sizing_mode (c_ec cfg) = Atr then atr_at cfg atrs (length rows - 1) else None),
              pn_regime = (case r_regime (last rows) of None \<Rightarrow> RANGE_BOUND | Some g \<Rightarrow> g)\<rparr>)]
      else [])"

definition simulate :: "kcfg \<Rightarrow> row list \<Rightarrow> kernel_result" where
  "simulate cfg rows =
     (let s = walk cfg rows; modes = remdups (c_allowed_modes cfg);
          atrs = compute_atr_series rows (ec_atr_period (c_ec cfg));
          live = nat (c_warmup cfg) < length rows
      in \<lparr>kr_closed_trades = k_trades s,
          kr_open_positions = concat (map (\<lambda>d. case k_active s d of None \<Rightarrow> [] | Some pos \<Rightarrow> [(d, pos)]) modes),
          kr_closed_gross = k_gross s,
          kr_pending_entries = (if live then concat (map (pending_entry_for cfg rows atrs s) modes) else []),
          kr_pending_exits = (if live then concat (map (pending_exit_for cfg rows s) modes) else []),
          kr_ec = c_ec cfg,
          kr_exit_signals = map (\<lambda>d. (d, map r_time (filter (exit_signal d) (drop (nat (c_warmup cfg)) rows)))) modes\<rparr>)"

text \<open>\<open>force_close\<close>: the backtest closes what is open at the last bar's close.\<close>

definition force_close :: "kcfg \<Rightarrow> kernel_result \<Rightarrow> row list \<Rightarrow> trade list" where
  "force_close cfg res rows =
     (let final_close = (if rows = [] then 0 else r_close (last rows));
          final_time = (if rows = [] then [] else r_time (last rows))
      in fst (foldl (\<lambda>(ts, gs) (d, pos). if final_close \<le> 0 then (ts, gs)
                      else finalize cfg ts gs pos d final_close (length rows - 1) final_time Signal True)
                (kr_closed_trades res, kr_closed_gross res) (kr_open_positions res)))"

end
