(* ===== verification/Kernel_Walk.thy ===== *)
theory Kernel_Walk
  imports Kernel
begin

text \<open>
  What the execution kernel guarantees: replay safety (a walk over a prefix of the history
  reports a prefix of the trades), the invariant of the walk (sizes, stops, exit bars, the
  equity ledger, no two overlapping trades in one direction), the margin bound at every opening
  tick, the pessimistic order of the protective exits, and the projection of pending orders.
\<close>

section \<open>Closing a position\<close>

lemma close_position_eq:
  "close_position cfg s pos d px idx time reason ao =
     (if p_entry_price pos \<le> 0 then s\<lparr>k_active := (k_active s)(d := None)\<rparr>
      else let (t, g) = make_trade cfg pos d px idx time reason False
           in s\<lparr>k_active := (k_active s)(d := None),
                k_trades := k_trades s @ [t\<lparr>t_exit_at_open := ao\<rparr>],
                k_gross := k_gross s @ [g],
                k_equity := max 0 (k_equity s + t_pnl_usd t)\<rparr>)"
  by (auto simp: close_position_def finalize_def Let_def split: prod.splits)

lemma make_trade_fields:
  assumes "make_trade cfg pos d px idx time reason oe = (t, g)"
  shows "t_entry_bar t = p_entry_bar pos" "t_entry_price t = p_entry_price pos" "t_exit_price t = px"
    "t_entry_time t = p_entry_time pos" "t_exit_time t = time" "t_bars_held t = idx - p_entry_bar pos"
    "t_direction t = d" "t_exit_reason t = reason" "t_size_fraction_raw t = p_size_fraction pos"
    "t_equity_at_entry t = p_equity_at_entry pos" "t_open_at_end t = oe"
    "t_margin_usd t = p_equity_at_entry pos * p_size_fraction pos"
    "t_pnl_pct_raw t = g * p_size_fraction pos"
    "t_pnl_usd t = p_equity_at_entry pos * (g * p_size_fraction pos)"
  using assms by (auto simp: make_trade_def Let_def split: prod.splits)

lemma close_position_active [simp]:
  "k_active (close_position cfg s pos d px idx time reason ao) = (k_active s)(d := None)"
  by (simp add: close_position_eq Let_def split: prod.splits)

lemma close_position_trades:
  "prefix (k_trades s) (k_trades (close_position cfg s pos d px idx time reason ao))"
  by (simp add: close_position_eq Let_def split: prod.splits)

section \<open>The log of trades only grows\<close>

lemma exit_one_trades: "prefix (k_trades s) (k_trades (exit_one cfg prev cur idx s d))"
  by (auto simp: exit_one_def close_position_trades split: option.splits)

lemma protect_one_trades: "prefix (k_trades s) (k_trades (protect_one cfg cur idx s d))"
  by (auto simp: protect_one_def close_position_trades split: option.splits)

interpretation exits: append_log "exit_one cfg prev cur idx" k_trades for cfg prev cur idx
  by unfold_locales (rule exit_one_trades)

interpretation protects: append_log "protect_one cfg cur idx" k_trades for cfg cur idx
  by unfold_locales (rule protect_one_trades)

lemma open_one_trades [simp]:
  "k_trades (open_one cfg prev cur idx a s c) = k_trades s"
  "k_gross (open_one cfg prev cur idx a s c) = k_gross s"
  "k_equity (open_one cfg prev cur idx a s c) = k_equity s"
  by (simp_all add: open_one_def split: prod.splits)

lemma foldl_open_one [simp]:
  "k_trades (foldl (open_one cfg prev cur idx a) s cs) = k_trades s"
  "k_gross (foldl (open_one cfg prev cur idx a) s cs) = k_gross s"
  "k_equity (foldl (open_one cfg prev cur idx a) s cs) = k_equity s"
  by (induction cs arbitrary: s) auto

lemma entry_phase_keeps [simp]:
  "k_trades (entry_phase cfg prev cur idx a s) = k_trades s"
  "k_gross (entry_phase cfg prev cur idx a s) = k_gross s"
  "k_equity (entry_phase cfg prev cur idx a s) = k_equity s"
  by (simp_all add: entry_phase_def Let_def)

lemma step_trades: "prefix (k_trades s) (k_trades (kernel_step cfg rows atrs s idx))"
proof -
  let ?prev = "rows ! (idx - 1)" and ?cur = "rows ! idx"
  let ?s1 = "exit_phase cfg ?prev ?cur idx s"
  let ?s2 = "entry_phase cfg ?prev ?cur idx (atr_at cfg atrs (idx - 1)) ?s1"
  have "prefix (k_trades s) (k_trades ?s1)"
    unfolding exit_phase_def by (rule exits.run_extends)
  moreover have "prefix (k_trades ?s2) (k_trades (protect_phase cfg ?cur idx ?s2))"
    unfolding protect_phase_def by (rule protects.run_extends)
  ultimately show ?thesis
    by (auto simp: kernel_step_def Let_def intro: prefix_order.order_trans)
qed

interpretation kernel: append_log "kernel_step cfg rows atrs" k_trades for cfg rows atrs
  by unfold_locales (rule step_trades)

section \<open>A bar only reads what has closed\<close>

lemma atr_from_take: "atr_from a p c (take m rs) = take m (atr_from a p c rs)"
  by (induction rs arbitrary: m p c) (auto simp: Let_def take_Cons')

lemma compute_atr_take: "compute_atr_series (take m rows) p = take m (compute_atr_series rows p)"
  by (cases rows; cases m) (auto simp: compute_atr_series_def Let_def atr_from_take)

lemma length_atr_from [simp]: "length (atr_from a p c rs) = length rs"
  by (induction rs arbitrary: p c) (auto simp: Let_def)

lemma length_compute_atr [simp]: "length (compute_atr_series rows p) = length rows"
  by (simp add: compute_atr_series_def Let_def split: list.splits)

lemma step_take:
  assumes "idx < m" shows "kernel_step cfg (take m rows) (take m atrs) s idx = kernel_step cfg rows atrs s idx"
  using assms by (simp add: kernel_step_def atr_at_def Let_def)

text \<open>The funding rates known after \<open>m\<close> bars.\<close>

definition cut_funding :: "nat \<Rightarrow> kcfg \<Rightarrow> kcfg" where
  "cut_funding m cfg = cfg\<lparr>c_funding := map_option (\<lambda>f. f\<lparr>f_rates := take m (f_rates f)\<rparr>) (c_funding cfg)\<rparr>"

lemma accrue_cut:
  assumes "i \<le> m"
  shows "accrue_funding_gross (map_option (\<lambda>f. f\<lparr>f_rates := take m (f_rates f)\<rparr>) fc) d e i l
       = accrue_funding_gross fc d e i l"
proof (cases fc)
  case (Some f)
  have hi: "min i (length (take m (f_rates f))) = min i (length (f_rates f))" using assms by auto
  have "take (min i (length (f_rates f)) - e) (drop e (take m (f_rates f)))
      = take (min i (length (f_rates f)) - e) (drop e (f_rates f))"
    using assms by (simp add: drop_take min_def)
  with Some hi show ?thesis by (simp add: accrue_funding_gross_def Let_def)
qed (simp add: accrue_funding_gross_def)

lemma cut_funding_fields [simp]:
  "c_warmup (cut_funding m cfg) = c_warmup cfg" "c_leverage (cut_funding m cfg) = c_leverage cfg"
  "c_round_trip_drag (cut_funding m cfg) = c_round_trip_drag cfg"
  "c_trade_mode (cut_funding m cfg) = c_trade_mode cfg"
  "c_allowed_modes (cut_funding m cfg) = c_allowed_modes cfg" "c_ec (cut_funding m cfg) = c_ec cfg"
  "c_initial_capital (cut_funding m cfg) = c_initial_capital cfg"
  "c_resolver (cut_funding m cfg) = c_resolver cfg"
  by (simp_all add: cut_funding_def)

lemma cut_funding_lev [simp]:
  "lev_of (cut_funding m cfg) = lev_of cfg" "liquidation_move (cut_funding m cfg) = liquidation_move cfg"
  by (simp_all add: lev_of_def liquidation_move_def)

lemma close_position_cut:
  "idx \<le> m \<Longrightarrow> close_position (cut_funding m cfg) s pos d px idx time reason ao
    = close_position cfg s pos d px idx time reason ao"
  by (simp add: close_position_eq make_trade_def) (simp add: cut_funding_def accrue_cut)

lemma step_cut:
  assumes "idx \<le> m" shows "kernel_step (cut_funding m cfg) rows atrs s idx = kernel_step cfg rows atrs s idx"
proof -
  have e: "exit_one (cut_funding m cfg) p c idx = exit_one cfg p c idx" for p c
    using assms by (auto simp: exit_one_def close_position_cut fun_eq_iff split: option.split)
  have p: "protect_one (cut_funding m cfg) c idx = protect_one cfg c idx" for c
    using assms by (auto simp: protect_one_def close_position_cut fun_eq_iff split: option.split)
  have n: "open_one (cut_funding m cfg) pr c idx a = open_one cfg pr c idx a" for pr c a
    by (simp add: fun_eq_iff open_one_def new_position_def Let_def)
  have o: "entry_phase (cut_funding m cfg) pr c idx a t = entry_phase cfg pr c idx a t" for pr c a t
    by (simp add: entry_phase_def n) (simp add: entry_candidates_def entry_stop_def occupied_margin_def)
  show ?thesis
    by (simp add: kernel_step_def exit_phase_def protect_phase_def e p o atr_at_def Let_def)
qed

text \<open>
  Walking the first \<open>m\<close> bars, with what is known then, and continuing from there is the walk
  over the whole history.
\<close>

lemma walk_prefix:
  "walk (cut_funding m cfg) (take m rows) =
   foldl (kernel_step cfg rows (compute_atr_series rows (ec_atr_period (c_ec cfg)))) (init_state cfg)
     [Suc (nat (c_warmup cfg)) ..< min m (length rows)]"
proof -
  let ?a = "compute_atr_series rows (ec_atr_period (c_ec cfg))"
  have "walk (cut_funding m cfg) (take m rows) =
    foldl (kernel_step (cut_funding m cfg) (take m rows) (take m ?a)) (init_state cfg)
      [Suc (nat (c_warmup cfg)) ..< min m (length rows)]"
    by (simp add: walk_def compute_atr_take init_state_def min.commute)
  also have "\<dots> = foldl (kernel_step cfg rows ?a) (init_state cfg)
      [Suc (nat (c_warmup cfg)) ..< min m (length rows)]"
    by (rule foldl_cong_set) (simp add: step_take step_cut)
  finally show ?thesis .
qed

lemma walk_resume:
  assumes "Suc (nat (c_warmup cfg)) \<le> m" and "m \<le> length rows"
  shows "walk cfg rows =
    foldl (kernel_step cfg rows (compute_atr_series rows (ec_atr_period (c_ec cfg))))
      (walk (cut_funding m cfg) (take m rows)) [m ..< length rows]"
proof -
  have "[Suc (nat (c_warmup cfg)) ..< length rows]
      = [Suc (nat (c_warmup cfg)) ..< m] @ [m ..< length rows]"
    using assms upt_add_eq_append [of "Suc (nat (c_warmup cfg))" m "length rows - m"] by simp
  then show ?thesis
    using assms by (simp add: walk_prefix min_absorb1) (simp add: walk_def)
qed

lemma walk_trades_prefix:
  "prefix (k_trades (walk (cut_funding m cfg) (take m rows))) (k_trades (walk cfg rows))"
proof -
  let ?w = "Suc (nat (c_warmup cfg))"
  have "\<exists>ys. [?w ..< length rows] = [?w ..< min m (length rows)] @ ys"
  proof (cases "?w \<le> min m (length rows)")
    case True
    then show ?thesis
      using upt_add_eq_append [of ?w "min m (length rows)" "length rows - min m (length rows)"]
      by auto
  qed auto
  then obtain ys where ys: "[?w ..< length rows] = [?w ..< min m (length rows)] @ ys" by blast
  show ?thesis
    unfolding walk_prefix unfolding walk_def ys by (rule kernel.run_prefix)
qed

section \<open>The invariant of the walk\<close>

definition opt_all :: "('a \<Rightarrow> bool) \<Rightarrow> 'a option \<Rightarrow> bool" where
  "opt_all P x = (case x of None \<Rightarrow> True | Some v \<Rightarrow> P v)"

definition risk_bounded :: "kcfg \<Rightarrow> rat option \<Rightarrow> rat \<Rightarrow> bool" where
  "risk_bounded cfg sd sf \<longleftrightarrow> (0 < sf \<longrightarrow> ec_sizing_mode (c_ec cfg) \<in> {Fraction, Atr} \<longrightarrow>
      opt_all (\<lambda>x. sf * x * lev_of cfg \<le> ec_risk_per_trade (c_ec cfg)) sd)"

definition exit_bar :: "trade \<Rightarrow> nat" where
  "exit_bar t = t_entry_bar t + t_bars_held t"

definition ledger :: "rat \<Rightarrow> trade list \<Rightarrow> rat" where
  "ledger e ts = foldl (\<lambda>a t. max 0 (a + t_pnl_usd t)) e ts"

text \<open>
  A position is well formed at bar \<open>n\<close>: opened after the warm-up, on capital that was there, its
  stop, target and liquidation level on the right sides of the entry, and in the risk-based
  modes a fill at the fixed stop loses at most the configured risk, leverage included.
\<close>

definition wf_position :: "kcfg \<Rightarrow> nat \<Rightarrow> direction \<Rightarrow> position \<Rightarrow> bool" where
  "wf_position cfg n d pos \<longleftrightarrow>
     nat (c_warmup cfg) < p_entry_bar pos \<and> p_entry_bar pos \<le> n \<and> 0 < p_entry_price pos \<and>
     0 < p_size_fraction pos \<and> p_size_fraction pos \<le> 1 \<and> 0 < p_equity_at_entry pos \<and>
     opt_all (\<lambda>s. 0 < direction_sign d * (p_entry_price pos - s)) (p_stop_price pos) \<and>
     opt_all (\<lambda>t. 0 < direction_sign d * (t - p_entry_price pos)) (p_target_price pos) \<and>
     opt_all (\<lambda>l. 0 < direction_sign d * (p_entry_price pos - l)) (p_liquidation_price pos) \<and>
     0 \<le> direction_sign d * (p_extreme pos - p_entry_price pos) \<and>
     (ec_sizing_mode (c_ec cfg) \<in> {Fraction, Atr} \<longrightarrow>
       opt_all (\<lambda>s. p_size_fraction pos * (direction_sign d * (p_entry_price pos - s) / p_entry_price pos) * lev_of cfg
                  \<le> ec_risk_per_trade (c_ec cfg)) (p_stop_price pos))"

definition wf_trade :: "kcfg \<Rightarrow> nat \<Rightarrow> trade \<Rightarrow> bool" where
  "wf_trade cfg n t \<longleftrightarrow>
     nat (c_warmup cfg) < t_entry_bar t \<and> exit_bar t \<le> n \<and> 0 < t_entry_price t \<and>
     0 < t_size_fraction_raw t \<and> t_size_fraction_raw t \<le> 1 \<and> 0 < t_equity_at_entry t \<and>
     t_margin_usd t \<le> t_equity_at_entry t \<and> \<not> t_open_at_end t \<and>
     t_direction t \<in> set (c_allowed_modes cfg)"

definition kinv :: "kcfg \<Rightarrow> nat \<Rightarrow> kstate \<Rightarrow> bool" where
  "kinv cfg n s \<longleftrightarrow>
     (\<forall>d pos. k_active s d = Some pos \<longrightarrow> d \<in> set (c_allowed_modes cfg) \<and> wf_position cfg n d pos) \<and>
     (\<forall>t\<in>set (k_trades s). wf_trade cfg n t) \<and>
     sorted_wrt (\<lambda>t u. exit_bar t \<le> exit_bar u) (k_trades s) \<and>
     sorted_wrt (\<lambda>t u. t_direction t = t_direction u \<longrightarrow> exit_bar t \<le> t_entry_bar u) (k_trades s) \<and>
     (\<forall>t\<in>set (k_trades s). \<forall>pos. k_active s (t_direction t) = Some pos \<longrightarrow> exit_bar t \<le> p_entry_bar pos) \<and>
     k_equity s = ledger (max (c_initial_capital cfg) 0) (k_trades s) \<and>
     length (k_gross s) = length (k_trades s)"

lemma opt_all_simps [simp]: "opt_all P None" "opt_all P (Some v) = P v"
  by (simp_all add: opt_all_def)

lemma ledger_snoc [simp]: "ledger e (ts @ [t]) = max 0 (ledger e ts + t_pnl_usd t)"
  by (simp add: ledger_def)

lemma ledger_nonneg: "0 \<le> e \<Longrightarrow> 0 \<le> ledger e ts"
  by (induction ts rule: rev_induct) (auto simp: ledger_def)

lemma kinv_init: "kinv cfg n (init_state cfg)"
  by (simp add: kinv_def init_state_def ledger_def)

lemma kinv_mono: "kinv cfg n s \<Longrightarrow> n \<le> m \<Longrightarrow> kinv cfg m s"
  by (fastforce simp: kinv_def wf_position_def wf_trade_def)

lemma kinv_equity: "kinv cfg n s \<Longrightarrow> 0 \<le> k_equity s"
  by (simp add: kinv_def ledger_nonneg)

lemma kinv_close [inv_rules]:
  assumes inv: "kinv cfg n s" and act: "k_active s d = Some pos"
  shows "kinv cfg n (close_position cfg s pos d px n time reason ao)"
proof -
  obtain t g where tg: "make_trade cfg pos d px n time reason False = (t, g)" by fastforce
  let ?t = "t\<lparr>t_exit_at_open := ao\<rparr>"
  have wp: "wf_position cfg n d pos" and mem: "d \<in> set (c_allowed_modes cfg)"
    using inv act by (auto simp: kinv_def)
  have eb: "exit_bar ?t = n"
    using wp make_trade_fields [OF tg] by (simp add: exit_bar_def wf_position_def)
  have wt: "wf_trade cfg n ?t"
    using wp mem eb make_trade_fields [OF tg] by (simp add: wf_trade_def wf_position_def mult_left_le)
  have before: "\<forall>u\<in>set (k_trades s). exit_bar u \<le> n \<and> (t_direction u = d \<longrightarrow> exit_bar u \<le> p_entry_bar pos)"
    using inv act by (auto simp: kinv_def wf_trade_def)
  have price: "0 < p_entry_price pos" using wp by (simp add: wf_position_def)
  have eq: "close_position cfg s pos d px n time reason ao =
    s\<lparr>k_active := (k_active s)(d := None), k_trades := k_trades s @ [?t], k_gross := k_gross s @ [g],
      k_equity := max 0 (k_equity s + t_pnl_usd ?t)\<rparr>"
    using price by (simp add: close_position_eq tg Let_def)
  show ?thesis
    unfolding eq kinv_def
    using inv wt eb before make_trade_fields [OF tg]
    by (auto simp: kinv_def sorted_wrt_append)
qed

lemma exit_one_kinv: "kinv cfg n s \<Longrightarrow> kinv cfg n (exit_one cfg prev cur n s d)"
  by (auto simp: exit_one_def intro: kinv_close split: option.split)

lemma ratchet_fields [simp]:
  "p_entry_bar (ratchet d r pos) = p_entry_bar pos" "p_entry_price (ratchet d r pos) = p_entry_price pos"
  "p_size_fraction (ratchet d r pos) = p_size_fraction pos" "p_stop_price (ratchet d r pos) = p_stop_price pos"
  "p_target_price (ratchet d r pos) = p_target_price pos" "p_equity_at_entry (ratchet d r pos) = p_equity_at_entry pos"
  "p_liquidation_price (ratchet d r pos) = p_liquidation_price pos"
  by (simp_all add: ratchet_def)

lemma ratchet_extreme:
  "direction_sign d * (p_extreme pos - e) \<le> direction_sign d * (p_extreme (ratchet d r pos) - e)"
  by (cases d) (auto simp: ratchet_def direction_sign_def)

lemma ratchet_wf: "wf_position cfg n d pos \<Longrightarrow> wf_position cfg n d (ratchet d r pos)"
  using ratchet_extreme [of d pos "p_entry_price pos" r] by (simp add: wf_position_def)

lemma kinv_replace:
  assumes "kinv cfg n s" and "d \<in> set (c_allowed_modes cfg)" and "wf_position cfg n d pos"
    and "\<forall>t\<in>set (k_trades s). t_direction t = d \<longrightarrow> exit_bar t \<le> p_entry_bar pos"
  shows "kinv cfg n (s\<lparr>k_active := (k_active s)(d \<mapsto> pos)\<rparr>)"
  using assms by (auto simp: kinv_def)

lemma protect_one_kinv: "kinv cfg n s \<Longrightarrow> kinv cfg n (protect_one cfg cur n s d)"
proof (cases "k_active s d")
  case (Some pos)
  assume inv: "kinv cfg n s"
  have keep: "kinv cfg n (s\<lparr>k_active := (k_active s)(d \<mapsto> ratchet d cur pos)\<rparr>)"
    by (rule kinv_replace [OF inv]) (use inv Some in \<open>auto simp: kinv_def ratchet_wf\<close>)
  show ?thesis
    using inv Some keep by (auto simp: protect_one_def intro: kinv_close split: option.split)
qed (simp add: protect_one_def)

lemma direction_sign_square [simp]: "direction_sign d * (direction_sign d * x) = x"
  by (cases d) (simp_all add: direction_sign_def)

lemma entry_stop_pos: "wf_controls (c_ec cfg) \<Longrightarrow> entry_stop cfg a fill = Some x \<Longrightarrow> 0 < x"
  by (auto simp: entry_stop_def dest: entry_stop_dist_pos)

lemma liquidation_move_pos: "1 < lev_of cfg \<Longrightarrow> 0 < liquidation_move cfg"
  by (simp add: liquidation_move_def)

lemma new_position_wf:
  assumes wf: "wf_controls (c_ec cfg)" and sd: "opt_all (\<lambda>x. 0 < x) sd" and f: "0 < r_open cur"
    and n: "nat (c_warmup cfg) < n" and sf: "0 < sf" "sf \<le> 1" and e: "0 < e"
    and risk: "ec_sizing_mode (c_ec cfg) \<in> {Fraction, Atr} \<Longrightarrow>
      opt_all (\<lambda>x. sf * x * lev_of cfg \<le> ec_risk_per_trade (c_ec cfg)) sd"
  shows "wf_position cfg n d (new_position cfg prev cur n a e d sd req sf)"
proof -
  have tp: "opt_all (\<lambda>t. 0 < t) (ec_take_profit_pct (c_ec cfg))"
    using wf by (simp add: wf_controls_def opt_positive_def opt_all_def)
  have down: "direction_sign d * (r_open cur - r_open cur * (1 - direction_sign d * x)) = r_open cur * x" for x
    by (cases d) (simp_all add: direction_sign_def algebra_simps)
  have up: "direction_sign d * (r_open cur * (1 + direction_sign d * x / 100) - r_open cur) = r_open cur * (x / 100)" for x
    by (cases d) (simp_all add: direction_sign_def algebra_simps)
  show ?thesis
    using n sf e f sd tp liquidation_move_pos [of cfg] risk
    by (auto simp: wf_position_def new_position_def Let_def opt_all_def down up split: option.splits)
qed

lemma open_one_kinv:
  assumes "kinv cfg n s" and "wf_controls (c_ec cfg)" and "0 < r_open cur" and "nat (c_warmup cfg) < n"
    and "d \<in> set (c_allowed_modes cfg)" and "opt_all (\<lambda>x. 0 < x) sd"
    and "0 < sf \<Longrightarrow> sf \<le> 1 \<and> 0 < k_equity s"
    and "0 < sf \<Longrightarrow> ec_sizing_mode (c_ec cfg) \<in> {Fraction, Atr} \<Longrightarrow>
      opt_all (\<lambda>x. sf * x * lev_of cfg \<le> ec_risk_per_trade (c_ec cfg)) sd"
  shows "kinv cfg n (open_one cfg prev cur n a s ((d, sd, req), sf))"
proof (cases "sf \<le> 0")
  case False
  let ?p = "new_position cfg prev cur n a (k_equity s) d sd req sf"
  have w: "wf_position cfg n d ?p"
    by (rule new_position_wf [OF assms(2,6,3,4)]) (use assms(7,8) False in auto)
  have "p_entry_bar ?p = n" by (simp add: new_position_def Let_def)
  then have "kinv cfg n (s\<lparr>k_active := (k_active s)(d \<mapsto> ?p)\<rparr>)"
    using assms(1) by (intro kinv_replace [OF assms(1,5) w]) (auto simp: kinv_def wf_trade_def)
  with False show ?thesis by (simp add: open_one_def)
qed (use assms in \<open>simp add: open_one_def\<close>)

lemma open_all_kinv:
  assumes "kinv cfg n s" and "wf_controls (c_ec cfg)" and "0 < r_open cur" and "nat (c_warmup cfg) < n"
    and "\<And>d sd req sf. ((d, sd, req), sf) \<in> set cs \<Longrightarrow> d \<in> set (c_allowed_modes cfg) \<and>
      opt_all (\<lambda>x. 0 < x) sd \<and> (0 < sf \<longrightarrow> sf \<le> 1 \<and> 0 < k_equity s) \<and> risk_bounded cfg sd sf"
  shows "kinv cfg n (foldl (open_one cfg prev cur n a) s cs)"
  using assms
proof (induction cs arbitrary: s)
  case (Cons c cs)
  obtain d sd req sf where c: "c = ((d, sd, req), sf)" by (metis surj_pair)
  have "kinv cfg n (open_one cfg prev cur n a s c)"
    unfolding c using Cons.prems(5) [of d sd req sf] c
    by (intro open_one_kinv Cons.prems(1-4)) (auto simp: risk_bounded_def)
  then have "kinv cfg n (foldl (open_one cfg prev cur n a) (open_one cfg prev cur n a s c) cs)"
    by (rule Cons.IH [OF _ Cons.prems(2-4)]) (use Cons.prems(5) in auto)
  then show ?case by simp
qed simp

lemma allocate_le_request:
  assumes "i < length rs" and "0 < e" and "0 \<le> rs ! i"
  shows "allocate_entry_fractions rs e m ! i \<le> rs ! i"
proof -
  let ?s = "if 0 < sum_list (map clamp01 rs)
     then min 1 (clamp01 (1 - max m 0 / e) / sum_list (map clamp01 rs)) else 0"
  have "0 \<le> ?s" "?s \<le> 1" by auto
  then have "clamp01 (rs ! i) * ?s \<le> clamp01 (rs ! i)" by (intro mult_left_le) auto
  also have "\<dots> \<le> rs ! i" using assms(3) by (rule clamp01_le)
  finally show ?thesis by (simp add: allocate_nth assms)
qed

lemma candidate_risk:
  assumes wf: "wf_controls (c_ec cfg)" and c: "(d, sd, req) \<in> set (entry_candidates cfg prev cur a s)"
    and le: "sf \<le> req"
  shows "risk_bounded cfg sd sf"
proof (unfold risk_bounded_def, intro impI)
  assume sf: "0 < sf" and mode: "ec_sizing_mode (c_ec cfg) \<in> {Fraction, Atr}"
  have req: "req = size_fraction (c_ec cfg) sd (lev_of cfg) (c_initial_capital cfg) (k_gross s) (Some (k_equity s))"
    and sd: "sd = entry_stop cfg a (r_open cur)"
    using c by (auto simp: entry_candidates_def Let_def)
  show "opt_all (\<lambda>x. sf * x * lev_of cfg \<le> ec_risk_per_trade (c_ec cfg)) sd"
  proof (cases sd)
    case (Some x)
    have x: "0 < x" using entry_stop_pos [OF wf] Some sd by auto
    have l: "1 / 10 ^ 9 \<le> lev_of cfg" by (simp add: lev_of_def)
    then have l0: "0 < lev_of cfg" by (rule less_le_trans [rotated]) simp
    have "sf * (x * lev_of cfg) \<le> req * (x * lev_of cfg)"
      using le x l0 by (intro mult_right_mono) auto
    also have "\<dots> \<le> ec_risk_per_trade (c_ec cfg)"
      unfolding req Some mult.assoc [symmetric]
      using mode x l wf by (intro size_fraction_risk) (auto simp: wf_controls_def)
    finally show ?thesis by (simp add: Some mult.assoc)
  qed simp
qed

lemma entry_phase_kinv:
  assumes "kinv cfg n s" and "wf_controls (c_ec cfg)" and "0 < r_open cur" and "nat (c_warmup cfg) < n"
  shows "kinv cfg n (entry_phase cfg prev cur n a s)"
proof -
  let ?c = "entry_candidates cfg prev cur a s"
  let ?rs = "map (\<lambda>c. snd (snd c)) ?c"
  let ?al = "allocate_entry_fractions ?rs (k_equity s) (occupied_margin cfg s)"
  have "d \<in> set (c_allowed_modes cfg) \<and> opt_all (\<lambda>x. 0 < x) sd \<and> (0 < sf \<longrightarrow> sf \<le> 1 \<and> 0 < k_equity s)
      \<and> risk_bounded cfg sd sf"
    if m: "((d, sd, req), sf) \<in> set (zip ?c ?al)" for d sd req sf
  proof -
    obtain i where i: "i < length ?c" "?c ! i = (d, sd, req)" "?al ! i = sf"
      using m by (auto simp: set_zip)
    have c: "(d, sd, req) \<in> set ?c" and f: "sf \<in> set ?al"
      using m by (auto dest: set_zip_leftD set_zip_rightD)
    have eq: "0 < sf \<longrightarrow> 0 < k_equity s"
      using f by (auto simp: allocate_entry_fractions_def split: if_splits)
    have "risk_bounded cfg sd sf"
    proof (cases "0 < sf")
      case True
      have r: "?rs ! i = req" using i by simp
      have "0 \<le> req" using c size_fraction_range by (auto simp: entry_candidates_def Let_def)
      then have "sf \<le> req"
        using allocate_le_request [of i ?rs "k_equity s" "occupied_margin cfg s"] i r True eq by simp
      then show ?thesis by (rule candidate_risk [OF assms(2) c])
    qed (simp add: risk_bounded_def)
    then show ?thesis
      using c eq allocate_range [OF f] entry_stop_pos [OF assms(2)]
      by (auto simp: entry_candidates_def Let_def opt_all_def split: option.split)
  qed
  then show ?thesis
    unfolding entry_phase_def Let_def by (intro open_all_kinv assms) blast+
qed

lemma foldl_kinv:
  "(\<And>s d. kinv cfg n s \<Longrightarrow> kinv cfg n (f s d)) \<Longrightarrow> kinv cfg n s \<Longrightarrow> kinv cfg n (foldl f s ds)"
  by (induction ds arbitrary: s) auto

lemma kernel_step_kinv:
  assumes "kinv cfg n s" and "wf_controls (c_ec cfg)" and "nat (c_warmup cfg) < n"
  shows "kinv cfg n (kernel_step cfg rows atrs s n)"
proof (cases "r_open (rows ! n) \<le> 0")
  case False
  then show ?thesis
    using assms
    by (auto simp: kernel_step_def Let_def exit_phase_def protect_phase_def
        intro!: foldl_kinv protect_one_kinv entry_phase_kinv exit_one_kinv)
qed (use assms in \<open>simp add: kernel_step_def Let_def\<close>)

lemma walk_kinv:
  assumes "wf_controls (c_ec cfg)"
  shows "kinv cfg (length rows - 1) (walk cfg rows)"
proof -
  have "kinv cfg (n - 1) (foldl (kernel_step cfg rows atrs) (init_state cfg) [Suc (nat (c_warmup cfg)) ..< n])" for n atrs
  proof (induction n)
    case (Suc n)
    show ?case
    proof (cases "Suc (nat (c_warmup cfg)) \<le> n")
      case True
      have "kinv cfg n (foldl (kernel_step cfg rows atrs) (init_state cfg) [Suc (nat (c_warmup cfg)) ..< n])"
        by (rule kinv_mono [OF Suc.IH]) simp
      with True show ?thesis by (simp add: kernel_step_kinv assms)
    qed (simp add: kinv_init)
  qed (simp add: kinv_init)
  then show ?thesis by (simp add: walk_def)
qed

section \<open>The margin bound\<close>

lemma sum_list_map_upd:
  fixes f :: "'a \<Rightarrow> rat"
  shows "distinct xs \<Longrightarrow> d \<in> set xs \<Longrightarrow> f d = 0 \<Longrightarrow>
    sum_list (map (f(d := v)) xs) = sum_list (map f xs) + v"
proof (induction xs)
  case (Cons x xs)
  show ?case
  proof (cases "x = d")
    case True
    then have "map (f(d := v)) xs = map f xs" using Cons.prems(1) by (intro map_cong) auto
    with True Cons.prems show ?thesis by (simp only: list.map sum_list.Cons) simp
  qed (use Cons in auto)
qed simp

definition margin_of :: "kstate \<Rightarrow> direction \<Rightarrow> rat" where
  "margin_of s d = (case k_active s d of None \<Rightarrow> 0 | Some pos \<Rightarrow> position_margin pos)"

lemma occupied_margin_eq: "occupied_margin cfg s = sum_list (map (margin_of s) (remdups (c_allowed_modes cfg)))"
  by (simp add: occupied_margin_def margin_of_def cong: map_cong)

lemma occupied_nonneg: "0 \<le> occupied_margin cfg s"
  unfolding occupied_margin_eq
  by (rule sum_list_nonneg_rat) (auto simp: margin_of_def position_margin_def split: option.splits)

lemma open_one_margin:
  assumes "k_active s d = None" and "d \<in> set (c_allowed_modes cfg)" and "0 < k_equity s" and "0 \<le> sf"
  shows "occupied_margin cfg (open_one cfg prev cur idx a s ((d, sd, req), sf))
       = occupied_margin cfg s + k_equity s * sf"
proof (cases "sf = 0")
  case False
  then have pos: "\<not> sf \<le> 0" using assms(4) by simp
  let ?s = "open_one cfg prev cur idx a s ((d, sd, req), sf)"
  have "margin_of ?s = (margin_of s)(d := k_equity s * sf)"
    using pos assms(3) by (auto simp: margin_of_def open_one_def position_margin_def new_position_def Let_def)
  then show ?thesis
    unfolding occupied_margin_eq using assms(1,2)
    by (simp add: sum_list_map_upd margin_of_def [of s d])
qed (simp add: open_one_def)

lemma open_all_margin:
  assumes "0 < k_equity s" and "distinct (map (fst \<circ> fst) cs)"
    and "\<And>d sd req sf. ((d, sd, req), sf) \<in> set cs \<Longrightarrow> k_active s d = None \<and> d \<in> set (c_allowed_modes cfg) \<and> 0 \<le> sf"
  shows "occupied_margin cfg (foldl (open_one cfg prev cur idx a) s cs)
       = occupied_margin cfg s + k_equity s * sum_list (map snd cs)"
  using assms
proof (induction cs arbitrary: s)
  case (Cons c cs)
  obtain d sd req sf where c: "c = ((d, sd, req), sf)" by (metis surj_pair)
  let ?s = "open_one cfg prev cur idx a s c"
  have here: "k_active s d = None" "d \<in> set (c_allowed_modes cfg)" "0 \<le> sf"
    using Cons.prems(3) [of d sd req sf] c by auto
  have rest: "k_active ?s d' = None \<and> d' \<in> set (c_allowed_modes cfg) \<and> 0 \<le> sf'"
    if "((d', sd', req'), sf') \<in> set cs" for d' sd' req' sf'
  proof -
    have "d' \<noteq> d" using that Cons.prems(2) c by force
    then show ?thesis using Cons.prems(3) [of d' sd' req' sf'] that by (simp add: c open_one_def)
  qed
  have "occupied_margin cfg (foldl (open_one cfg prev cur idx a) ?s cs)
      = occupied_margin cfg ?s + k_equity ?s * sum_list (map snd cs)"
    using Cons.prems(1,2) rest by (intro Cons.IH) auto
  then show ?case
    using open_one_margin [OF here(1,2) Cons.prems(1) here(3)]
    by (simp add: c distrib_left)
qed simp

lemma sum_allocate_full:
  assumes "0 < e" and "e \<le> m"
  shows "set (allocate_entry_fractions rs e m) \<subseteq> {0}"
proof -
  have "clamp01 (1 - max m 0 / e) = 0"
    using assms by (simp add: clamp01_def max_absorb1 le_divide_eq_1)
  then show ?thesis using assms by (auto simp: allocate_entry_fractions_def Let_def)
qed

lemma foldl_open_none:
  "(\<And>c f. (c, f) \<in> set cs \<Longrightarrow> f \<le> 0) \<Longrightarrow> foldl (open_one cfg prev cur idx a) s cs = s"
proof (induction cs arbitrary: s)
  case (Cons c cs)
  have "open_one cfg prev cur idx a s c = s"
    using Cons.prems [of "fst c" "snd c"] by (cases c) (auto simp: open_one_def)
  moreover have "foldl (open_one cfg prev cur idx a) s cs = s"
    by (rule Cons.IH) (use Cons.prems in auto)
  ultimately show ?case by simp
qed simp

lemma distinct_candidates:
  "distinct (c_allowed_modes cfg) \<Longrightarrow> distinct (map fst (entry_candidates cfg prev cur a s))"
  by (simp add: entry_candidates_def Let_def comp_def distinct_map inj_on_def)

lemma entry_phase_margin:
  assumes dist: "distinct (c_allowed_modes cfg)" and new: "entry_phase cfg prev cur idx a s \<noteq> s"
  shows "occupied_margin cfg (entry_phase cfg prev cur idx a s) \<le> k_equity s"
proof -
  let ?c = "entry_candidates cfg prev cur a s"
  let ?m = "occupied_margin cfg s" and ?e = "k_equity s"
  let ?al = "allocate_entry_fractions (map (\<lambda>c. snd (snd c)) ?c) ?e ?m"
  have e: "0 < ?e"
  proof (rule ccontr)
    assume "\<not> 0 < ?e"
    then have "entry_phase cfg prev cur idx a s = s"
      unfolding entry_phase_def Let_def
      by (intro foldl_open_none) (auto simp: allocate_entry_fractions_def dest: set_zip_rightD)
    with new show False by simp
  qed
  have m: "?m \<le> ?e"
  proof (rule ccontr)
    assume "\<not> ?m \<le> ?e"
    then have "set ?al \<subseteq> {0}" by (intro sum_allocate_full e) simp
    then have "entry_phase cfg prev cur idx a s = s"
      unfolding entry_phase_def Let_def
      by (intro foldl_open_none) (auto dest: set_zip_rightD)
    with new show False by simp
  qed
  have len: "length ?c = length ?al" by simp
  have "map (fst \<circ> fst) (zip ?c ?al) = map fst ?c"
    using len by (metis map_fst_zip map_map)
  then have "distinct (map (fst \<circ> fst) (zip ?c ?al))"
    using distinct_candidates [OF dist] by simp
  moreover have "k_active s d = None \<and> d \<in> set (c_allowed_modes cfg) \<and> 0 \<le> sf"
    if z: "((d, sd, req), sf) \<in> set (zip ?c ?al)" for d sd req sf
    using set_zip_leftD [OF z] allocate_range [OF set_zip_rightD [OF z]]
    by (auto simp: entry_candidates_def Let_def)
  ultimately have "occupied_margin cfg (entry_phase cfg prev cur idx a s)
      = ?m + ?e * sum_list (map snd (zip ?c ?al))"
    unfolding entry_phase_def Let_def by (intro open_all_margin e) blast+
  also have "map snd (zip ?c ?al) = ?al" using len by (rule map_snd_zip)
  also have "?m + ?e * sum_list ?al \<le> ?e"
    by (rule allocate_margin [OF e occupied_nonneg m])
  finally show ?thesis .
qed

section \<open>Pending orders\<close>

lemma exits_other:
  "d \<notin> set ds \<Longrightarrow> k_active (foldl (exit_one cfg prev cur idx) s ds) d = k_active s d"
proof (induction ds arbitrary: s)
  case (Cons x ds)
  have "k_active (exit_one cfg prev cur idx s x) d = k_active s d"
    using Cons.prems by (auto simp: exit_one_def split: option.split)
  then show ?case using Cons by simp
qed simp

lemma exit_phase_closes:
  assumes act: "k_active s d = Some pos" and mem: "d \<in> set (c_allowed_modes cfg)"
    and dist: "distinct (c_allowed_modes cfg)" and price: "0 < p_entry_price pos"
    and ex: "open_exit (c_ec cfg) prev idx (r_open cur) d pos = Some (px, reason)"
  shows "\<exists>t\<in>set (k_trades (exit_phase cfg prev cur idx s)). t_direction t = d \<and>
    t_entry_time t = p_entry_time pos \<and> t_entry_price t = p_entry_price pos \<and> t_exit_price t = px \<and>
    t_exit_reason t = reason \<and> t_exit_time t = r_time cur \<and> t_exit_at_open t"
proof -
  obtain as bs where ab: "c_allowed_modes cfg = as @ d # bs" using mem by (meson split_list)
  with dist have na: "d \<notin> set as" by simp
  let ?s = "foldl (exit_one cfg prev cur idx) s as"
  obtain t g where tg: "make_trade cfg pos d px idx (r_time cur) reason False = (t, g)" by fastforce
  have "k_active ?s d = Some pos" using exits_other [OF na] act by simp
  then have "exit_one cfg prev cur idx ?s d = close_position cfg ?s pos d px idx (r_time cur) reason True"
    using ex by (simp add: exit_one_def)
  then have "k_trades (exit_one cfg prev cur idx ?s d) = k_trades ?s @ [t\<lparr>t_exit_at_open := True\<rparr>]"
    using price by (simp add: close_position_eq tg Let_def)
  moreover have "prefix (k_trades (exit_one cfg prev cur idx ?s d)) (k_trades (exit_phase cfg prev cur idx s))"
    unfolding exit_phase_def ab using exits.run_extends [of "exit_one cfg prev cur idx ?s d" cfg prev cur idx bs]
    by simp
  ultimately have "t\<lparr>t_exit_at_open := True\<rparr> \<in> set (k_trades (exit_phase cfg prev cur idx s))"
    by (metis in_set_conv_decomp set_mono_prefix subset_iff)
  then show ?thesis
    using make_trade_fields [OF tg] by (intro bexI [of _ "t\<lparr>t_exit_at_open := True\<rparr>"]) auto
qed

lemma kernel_step_exit_trades:
  "0 < r_open (rows ! idx) \<Longrightarrow>
   set (k_trades (exit_phase cfg (rows ! (idx - 1)) (rows ! idx) idx s)) \<subseteq> set (k_trades (kernel_step cfg rows atrs s idx))"
  unfolding kernel_step_def Let_def protect_phase_def
  by (simp, metis entry_phase_keeps(1) protects.run_extends set_mono_prefix)

lemma walk_snoc:
  assumes "nat (c_warmup cfg) < length rows"
  shows "walk cfg (rows @ [r]) = kernel_step cfg (rows @ [r])
    (compute_atr_series (rows @ [r]) (ec_atr_period (c_ec cfg))) (walk cfg rows) (length rows)"
proof -
  let ?a = "compute_atr_series (rows @ [r]) (ec_atr_period (c_ec cfg))"
  have a: "compute_atr_series rows (ec_atr_period (c_ec cfg)) = take (length rows) ?a"
    using compute_atr_take [of "length rows" "rows @ [r]"] by simp
  have "walk cfg rows = foldl (kernel_step cfg (take (length rows) (rows @ [r])) (take (length rows) ?a))
      (init_state cfg) [Suc (nat (c_warmup cfg)) ..< length rows]"
    by (simp add: walk_def a)
  also have "\<dots> = foldl (kernel_step cfg (rows @ [r]) ?a) (init_state cfg) [Suc (nat (c_warmup cfg)) ..< length rows]"
    by (rule foldl_cong_set) (rule step_take, simp)
  finally have w: "walk cfg rows = \<dots>" .
  show ?thesis using assms by (simp add: walk_def [of cfg "rows @ [r]"] w)
qed

lemma pending_is_open_exit:
  assumes "pending_reason cfg (length rows) (last rows) d pos = Some reason"
  shows "open_exit (c_ec cfg) (last rows) (length rows) fill d pos = Some (fill, reason)"
  using assms by (auto simp: pending_reason_def open_exit_def Let_def split: if_splits)

section \<open>Protective exits and costs\<close>

lemma protective_exit_cases:
  assumes "protective_exit None r fill d pos = Some (px, reason)"
  shows "(reason = TakeProfit \<and> p_target_price pos = Some px \<and>
            opt_all (\<lambda>s. \<not> at_or_below d (worst_price d r) s) (effective_stop d pos)) \<or>
         (reason \<in> {StopLoss, TrailingStop} \<and>
            (\<exists>s. effective_stop d pos = Some s \<and> at_or_below d px s \<and> at_or_below d px fill)) \<or>
         (reason = Liquidation \<and> (\<exists>l. p_liquidation_price pos = Some l \<and> at_or_below d px l))"
proof (cases "\<exists>l. p_liquidation_price pos = Some l \<and> at_or_below d fill l")
  case True
  then show ?thesis using assms by (auto simp: protective_exit_def Let_def split: option.splits)
next
  case no_gap: False
  show ?thesis
  proof (cases "\<exists>s. effective_stop d pos = Some s \<and> at_or_below d (worst_price d r) s")
    case True
    then show ?thesis
      using assms no_gap
      by (cases d) (auto simp: protective_exit_def Let_def resolver_says_tp_def stop_reason_def at_or_below_def
          split: option.splits)
  next
    case False
    then show ?thesis
      using assms no_gap
      by (cases d) (auto simp: protective_exit_def Let_def resolver_says_tp_def at_or_below_def opt_all_def
          split: option.splits if_splits)
  qed
qed

lemma abs_sum4:
  "\<bar>a - a'\<bar> \<le> e \<Longrightarrow> \<bar>b - b'\<bar> \<le> e \<Longrightarrow> \<bar>c - c'\<bar> \<le> e \<Longrightarrow> \<bar>g - (n + a' + b' + c')\<bar> \<le> e
    \<Longrightarrow> \<bar>g - (n + a + b + c)\<bar> \<le> 4 * (e :: rat)"
  by (simp add: abs_le_iff)

lemma round6: "\<bar>py_round x 6 - x\<bar> \<le> 1 / 2000000"
  using py_round_near [of x 6] by simp

lemma breakdown_sums:
  assumes "cost_breakdown_usd e l sf fee slip fund (Some net) xr = cb"
  shows "\<bar>the (cb_gross_pnl_usd cb) - (net + cb_total_fees_usd cb + cb_slippage_usd cb + cb_funding_usd cb)\<bar> \<le> 4 * (1 / 2000000)"
  unfolding assms [symmetric] cost_breakdown_usd_def Let_def
  by (simp only: cost_breakdown.select_convs option.map option.sel, rule abs_sum4; (rule round6)?)
    (use round6 in \<open>simp add: add.assoc\<close>)

lemma abs_sum2: "\<bar>a - a'\<bar> \<le> e \<Longrightarrow> \<bar>b - b'\<bar> \<le> e \<Longrightarrow> \<bar>a + b - (a' + b')\<bar> \<le> 2 * (e::rat)"
  by (simp add: abs_le_iff)

lemma breakdown_fields:
  assumes "0 \<le> e" and "0 \<le> sf" and "0 \<le> xr"
  shows "cb_total_fees_usd (cost_breakdown_usd e l sf fee slip fund net xr)
      = py_round (max fee 0 / 10000 * (e * max l 0 * sf) + max fee 0 / 10000 * (e * max l 0 * sf) * xr) 6"
    and "cb_slippage_usd (cost_breakdown_usd e l sf fee slip fund net xr)
      = py_round (max slip 0 / 10000 * (e * max l 0 * sf) + max slip 0 / 10000 * (e * max l 0 * sf) * xr) 6"
  using assms by (simp_all only: cost_breakdown_usd_def Let_def cost_breakdown.select_convs max_absorb1)

lemma breakdown_drag:
  assumes "cost_breakdown_usd e l sf fee slip fund net (px / entry) = cb"
    and "0 \<le> e" and "0 \<le> sf" and "0 < entry" and "0 \<le> px"
  shows "\<bar>cb_total_fees_usd cb + cb_slippage_usd cb - trade_drag (round_trip_drag fee slip l) entry px * (e * sf)\<bar>
    \<le> 2 * (1 / 2000000)"
proof -
  define xr where "xr = px / entry"
  define f where "f = max fee 0 / 10000 * (e * max l 0 * sf)"
  define g where "g = max slip 0 / 10000 * (e * max l 0 * sf)"
  have xr: "0 \<le> xr" using assms by (simp add: xr_def)
  have cb: "cb_total_fees_usd cb = py_round (f + f * xr) 6" "cb_slippage_usd cb = py_round (g + g * xr) 6"
    unfolding assms(1) [symmetric] xr_def [symmetric] f_def g_def
    by (rule breakdown_fields [OF assms(2,3) xr])+
  have rt: "0 \<le> round_trip_drag fee slip l" by (simp add: round_trip_drag_def)
  have "trade_drag (round_trip_drag fee slip l) entry px = round_trip_drag fee slip l * (1/2) * (1 + xr)"
    using assms rt by (simp add: trade_drag_def max_absorb1 xr_def)
  then have "trade_drag (round_trip_drag fee slip l) entry px * (e * sf) = (f + f * xr) + (g + g * xr)"
    by (simp add: round_trip_drag_def f_def g_def algebra_simps add_divide_distrib)
  then show ?thesis
    unfolding cb by (simp only:) (rule abs_sum2 [OF round6 round6])
qed

lemma pending_exit_mem:
  assumes "(d, pe) \<in> set (pending_exit_for cfg rows s d')"
  obtains pos where "k_active s d = Some pos"
    and "pending_reason cfg (length rows) (last rows) d pos = Some (pe_exit_reason pe)"
    and "pe_entry_time pe = p_entry_time pos" and "pe_entry_price pe = p_entry_price pos"
proof (cases "k_active s d'")
  case None
  with assms show thesis by (simp add: pending_exit_for_def)
next
  case (Some pos)
  show thesis
  proof (cases "pending_reason cfg (length rows) (last rows) d' pos")
    case None
    with assms Some show thesis by (simp add: pending_exit_for_def)
  next
    case (Some x)
    with assms \<open>k_active s d' = Some pos\<close> show thesis
      by (intro that [of pos]) (simp_all add: pending_exit_for_def)
  qed
qed

section \<open>The properties\<close>

text \<open>Inputs of the witnesses: a long trade over four bars with the default risk controls.\<close>

definition demo_row :: "string \<Rightarrow> rat \<Rightarrow> rat \<Rightarrow> rat \<Rightarrow> rat \<Rightarrow> bool \<Rightarrow> bool \<Rightarrow> row" where
  "demo_row t op hi lo cl en ex = \<lparr>r_time = t, r_open = op, r_high = hi, r_low = lo, r_close = cl,
     r_long_entry = en, r_long_exit = ex, r_short_entry = False, r_short_exit = False, r_regime = None\<rparr>"

definition demo_cfg :: kcfg where
  "demo_cfg = \<lparr>c_warmup = 0, c_leverage = 2, c_round_trip_drag = 1/1000, c_trade_mode = ''long_only'',
     c_allowed_modes = [Long, Short], c_ec = default_controls (1/100), c_initial_capital = 10000,
     c_resolver = None, c_funding = None\<rparr>"

definition demo_rows :: "row list" where
  "demo_rows = [demo_row ''t0'' 100 102 98 101 True False, demo_row ''t1'' 101 103 100 102 False False,
     demo_row ''t2'' 102 104 101 103 False True]"

definition demo_next :: row where
  "demo_next = demo_row ''t3'' 103 105 102 104 False False"

lemma demo_wf: "wf_controls (c_ec demo_cfg)"
  by (simp add: demo_cfg_def default_wf)

text \<open>C2: Replay safety. Running the kernel over the first m bars, with the funding rates known by then,
  reports a prefix of the trades the full history gives: a scanner that walks a growing history
  never has to revise a trade it has already recorded.\<close>

theorem replay_safe:
  "prefix (kr_closed_trades (simulate (cut_funding m cfg) (take m rows))) (kr_closed_trades (simulate cfg rows))"
  by (simp add: simulate_def Let_def walk_trades_prefix)

text \<open>Every closed trade of a walk was opened after the warm-up and closed within the frame, at a positive
  price, with a margin no larger than the equity at its entry, in an allowed direction, and none is
  a synthetic end-of-data close.\<close>

lemma trades_well_formed:
  assumes "wf_controls (c_ec cfg)" and "t \<in> set (kr_closed_trades (simulate cfg rows))"
  shows "nat (c_warmup cfg) < t_entry_bar t \<and> exit_bar t \<le> length rows - 1 \<and> 0 < t_entry_price t \<and>
    0 < t_size_fraction_raw t \<and> t_margin_usd t \<le> t_equity_at_entry t \<and>
    t_direction t \<in> set (c_allowed_modes cfg) \<and> \<not> t_open_at_end t"
  using walk_kinv [OF assms(1), of rows] assms(2)
  by (auto simp: simulate_def Let_def kinv_def wf_trade_def)

text \<open>Trades come out in the order of their exit bars, and two trades of the same direction never
  overlap: the later one is entered no earlier than the bar the former one was closed on.\<close>

lemma no_overlapping_trades:
  assumes "wf_controls (c_ec cfg)" and "i < j" and "j < length (kr_closed_trades (simulate cfg rows))"
  shows "exit_bar (kr_closed_trades (simulate cfg rows) ! i) \<le> exit_bar (kr_closed_trades (simulate cfg rows) ! j) \<and>
    (t_direction (kr_closed_trades (simulate cfg rows) ! i) = t_direction (kr_closed_trades (simulate cfg rows) ! j) \<longrightarrow>
     exit_bar (kr_closed_trades (simulate cfg rows) ! i) \<le> t_entry_bar (kr_closed_trades (simulate cfg rows) ! j))"
  using walk_kinv [OF assms(1), of rows] assms(2,3)
  by (auto simp: simulate_def Let_def kinv_def sorted_wrt_iff_nth_less)

definition demo_rows2 :: "row list" where
  "demo_rows2 = [demo_row ''t0'' 100 102 98 101 True False, demo_row ''t1'' 101 103 100 102 True True,
     demo_row ''t2'' 102 104 101 103 False True, demo_row ''t3'' 103 105 102 104 False False]"

text \<open>C4: Every position still open at the end of a walk is well formed: its stop and liquidation level are on
  the losing side of the entry and its target on the winning side, and in the risk-based sizing
  modes a fill at its fixed stop loses at most the configured share of equity, at any leverage.\<close>

theorem open_positions_protected:
  assumes "wf_controls (c_ec cfg)" and "(d, pos) \<in> set (kr_open_positions (simulate cfg rows))"
  shows "opt_all (\<lambda>s. 0 < direction_sign d * (p_entry_price pos - s)) (p_stop_price pos) \<and>
    opt_all (\<lambda>t. 0 < direction_sign d * (t - p_entry_price pos)) (p_target_price pos) \<and>
    opt_all (\<lambda>l. 0 < direction_sign d * (p_entry_price pos - l)) (p_liquidation_price pos) \<and>
    (ec_sizing_mode (c_ec cfg) \<in> {Fraction, Atr} \<longrightarrow>
      opt_all (\<lambda>s. p_size_fraction pos * (direction_sign d * (p_entry_price pos - s) / p_entry_price pos) * lev_of cfg
                 \<le> ec_risk_per_trade (c_ec cfg)) (p_stop_price pos))"
proof -
  have "k_active (walk cfg rows) d = Some pos"
    using assms(2) by (auto simp: simulate_def Let_def split: option.splits)
  then have "wf_position cfg (length rows - 1) d pos"
    using walk_kinv [OF assms(1), of rows] by (simp add: kinv_def)
  then show ?thesis by (simp add: wf_position_def)
qed

theorem open_positions_protected_witness:
  "\<exists>pos. (Long, pos) \<in> set (kr_open_positions (simulate demo_cfg demo_rows)) \<and>
     p_stop_price pos = Some 93 \<and> p_size_fraction pos * ((p_entry_price pos - 93) / p_entry_price pos) * 2 \<le> 1/100"
proof -
  obtain pos where p: "kr_open_positions (simulate demo_cfg demo_rows) = [(Long, pos)]"
  proof -
    have "map fst (kr_open_positions (simulate demo_cfg demo_rows)) = [Long]" by code_simp
    then show thesis using that by (cases "kr_open_positions (simulate demo_cfg demo_rows)") auto
  qed
  have "map (p_stop_price \<circ> snd) (kr_open_positions (simulate demo_cfg demo_rows)) = [Some 93]" by code_simp
  with p have st: "p_stop_price pos = Some 93" by simp
  have l: "lev_of demo_cfg = 2" by (simp add: lev_of_def demo_cfg_def)
  have m: "ec_sizing_mode (c_ec demo_cfg) = Atr" "ec_risk_per_trade (c_ec demo_cfg) = 1/100"
    by (simp_all add: demo_cfg_def default_controls_def)
  have "(Long, pos) \<in> set (kr_open_positions (simulate demo_cfg demo_rows))" using p by simp
  from open_positions_protected [OF demo_wf this] show ?thesis
    using p st l m by (auto simp: direction_sign_def)
qed

text \<open>C3: The running equity of a walk is the ledger of its closed trades: the initial capital plus each
  trade's dollars in order, floored at zero, hence never negative.\<close>

theorem equity_is_ledger:
  assumes "wf_controls (c_ec cfg)"
  shows "k_equity (walk cfg rows)
      = ledger (max (c_initial_capital cfg) 0) (kr_closed_trades (simulate cfg rows)) \<and>
    0 \<le> k_equity (walk cfg rows) \<and>
    length (kr_closed_gross (simulate cfg rows)) = length (kr_closed_trades (simulate cfg rows))"
  using walk_kinv [OF assms, of rows] kinv_equity [OF walk_kinv [OF assms, of rows]]
  by (simp add: simulate_def Let_def kinv_def)

theorem equity_is_ledger_witness:
  "k_equity (walk demo_cfg (demo_rows @ [demo_next])) = 10000 + 1949 / 80"
proof -
  have "ledger 10000 (kr_closed_trades (simulate demo_cfg (demo_rows @ [demo_next]))) = 10000 + 1949 / 80"
    by code_simp
  moreover have "max (c_initial_capital demo_cfg) 0 = 10000" by (simp add: demo_cfg_def)
  ultimately show ?thesis
    using equity_is_ledger [OF demo_wf, of "demo_rows @ [demo_next]"] by simp
qed

text \<open>C14: Whenever the entry phase opens a position, the margin reserved by all open positions together is at
  most the realized equity: simultaneous entries share what is left and cannot over-allocate.\<close>

theorem margin_never_over_allocated:
  assumes "distinct (c_allowed_modes cfg)" and "entry_phase cfg prev cur idx a s \<noteq> s"
  shows "occupied_margin cfg (entry_phase cfg prev cur idx a s) \<le> k_equity (entry_phase cfg prev cur idx a s)"
  using entry_phase_margin [OF assms] by simp

definition hedge_cfg :: kcfg where
  "hedge_cfg = demo_cfg\<lparr>c_ec := (default_controls (1/100))\<lparr>ec_sizing_mode := Full\<rparr>\<rparr>"

theorem margin_never_over_allocated_witness:
  "occupied_margin hedge_cfg (entry_phase hedge_cfg (demo_next\<lparr>r_long_entry := True, r_short_entry := True\<rparr>)
      demo_next 3 None (init_state hedge_cfg)) \<le> 10000"
proof -
  let ?prev = "demo_next\<lparr>r_long_entry := True, r_short_entry := True\<rparr>"
  let ?s = "entry_phase hedge_cfg ?prev demo_next 3 None (init_state hedge_cfg)"
  have "map_option p_size_fraction (k_active ?s Long) = Some (1/2)" by code_simp
  moreover have "k_active (init_state hedge_cfg) Long = None" by (simp add: init_state_def)
  ultimately have new: "?s \<noteq> init_state hedge_cfg" by auto
  have dist: "distinct (c_allowed_modes hedge_cfg)" by (simp add: hedge_cfg_def demo_cfg_def)
  show ?thesis
    using margin_never_over_allocated [OF dist new] by (simp add: init_state_def hedge_cfg_def demo_cfg_def)
qed

text \<open>C15: Protective exits are pessimistic without a sub-bar resolver: a take-profit fills exactly at its target
  and only on a bar that did not touch the stop; a stop fills no better than its level and no better
  than the open; a liquidation fills no better than the liquidation level.\<close>

theorem protective_exit_pessimistic:
  assumes "protective_exit None r fill d pos = Some (px, reason)"
  shows "(reason = TakeProfit \<and> p_target_price pos = Some px \<and>
            opt_all (\<lambda>s. \<not> at_or_below d (worst_price d r) s) (effective_stop d pos)) \<or>
         (reason \<in> {StopLoss, TrailingStop} \<and>
            (\<exists>s. effective_stop d pos = Some s \<and> at_or_below d px s \<and> at_or_below d px fill)) \<or>
         (reason = Liquidation \<and> (\<exists>l. p_liquidation_price pos = Some l \<and> at_or_below d px l))"
  using assms by (rule protective_exit_cases)

definition demo_pos :: position where
  "demo_pos = \<lparr>p_entry_bar = 1, p_entry_price = 100, p_entry_time = ''t1'', p_regime = RANGE_BOUND,
     p_size_fraction = 1/2, p_requested_size_fraction = 1/2, p_equity_at_entry = 1000, p_atr_value = None,
     p_stop_price = Some 95, p_target_price = Some 110, p_liquidation_price = None, p_trail_pct = None,
     p_extreme = 100\<rparr>"

theorem protective_exit_pessimistic_witness:
  "\<exists>s. effective_stop Long demo_pos = Some s \<and> at_or_below Long 95 s"
proof -
  have "protective_exit None (demo_row ''t2'' 100 112 94 101 False False) 100 Long demo_pos = Some (95, StopLoss)"
    by code_simp
  from protective_exit_pessimistic [OF this] show ?thesis by auto
qed

text \<open>The pending exit projected at the close of the last bar is what the walk does next: once a further bar
  with a positive open is in the frame, that position has been closed at its open for that reason.\<close>

lemma pending_exit_is_executed:
  assumes "wf_controls (c_ec cfg)" and "distinct (c_allowed_modes cfg)" and "0 < r_open r"
    and "(d, pe) \<in> set (kr_pending_exits (simulate cfg rows))"
  shows "\<exists>t\<in>set (kr_closed_trades (simulate cfg (rows @ [r]))).
    t_direction t = d \<and> t_entry_time t = pe_entry_time pe \<and> t_entry_price t = pe_entry_price pe \<and>
    t_exit_price t = r_open r \<and> t_exit_reason t = pe_exit_reason pe \<and> t_exit_at_open t"
proof -
  have live: "nat (c_warmup cfg) < length rows"
    using assms(4) by (simp add: simulate_def Let_def split: if_split_asm)
  obtain d' where "(d, pe) \<in> set (pending_exit_for cfg rows (walk cfg rows) d')"
    using assms(4) live by (auto simp: simulate_def Let_def)
  then obtain pos where act: "k_active (walk cfg rows) d = Some pos"
    and reason: "pending_reason cfg (length rows) (last rows) d pos = Some (pe_exit_reason pe)"
    and pe: "pe_entry_time pe = p_entry_time pos" "pe_entry_price pe = p_entry_price pos"
    by (rule pending_exit_mem)
  have mem: "d \<in> set (c_allowed_modes cfg)" and price: "0 < p_entry_price pos"
    using walk_kinv [OF assms(1), of rows] act by (auto simp: kinv_def wf_position_def)
  have last: "(rows @ [r]) ! (length rows - 1) = last rows"
    using live by (cases "rows = []") (auto simp: nth_append last_conv_nth)
  have cur: "(rows @ [r]) ! length rows = r" by simp
  let ?a = "compute_atr_series (rows @ [r]) (ec_atr_period (c_ec cfg))"
  have "set (k_trades (exit_phase cfg (last rows) r (length rows) (walk cfg rows)))
      \<subseteq> set (k_trades (kernel_step cfg (rows @ [r]) ?a (walk cfg rows) (length rows)))"
    using kernel_step_exit_trades [of "rows @ [r]" "length rows" cfg "walk cfg rows" ?a] assms(3)
    by (simp only: cur last simp_thms)
  moreover have "kr_closed_trades (simulate cfg (rows @ [r]))
      = k_trades (kernel_step cfg (rows @ [r]) ?a (walk cfg rows) (length rows))"
    unfolding simulate_def Let_def kernel_result.select_convs walk_snoc [OF live] ..
  moreover obtain t where "t \<in> set (k_trades (exit_phase cfg (last rows) r (length rows) (walk cfg rows)))"
    and "t_direction t = d" "t_entry_time t = p_entry_time pos" "t_entry_price t = p_entry_price pos"
      "t_exit_price t = r_open r" "t_exit_reason t = pe_exit_reason pe" "t_exit_at_open t"
    using exit_phase_closes [where cur = r, OF act mem assms(2) price pending_is_open_exit [OF reason, of "r_open r"]]
    by blast
  ultimately show ?thesis unfolding pe by (intro bexI [of _ t] conjI) (simp_all only: subset_iff)
qed

text \<open>The itemized costs written next to a trade add up: gross profit equals net plus fees, slippage and
  funding, and fees plus slippage are the drag the kernel charged, up to the six-digit rounding.\<close>

lemma cost_breakdown_consistent:
  assumes "cost_breakdown_usd e l sf fee slip fund (Some net) (px / entry) = cb"
    and "0 \<le> e" and "0 \<le> sf" and "0 < entry" and "0 \<le> px"
  shows "\<bar>the (cb_gross_pnl_usd cb) - (net + cb_total_fees_usd cb + cb_slippage_usd cb + cb_funding_usd cb)\<bar>
       \<le> 4 * (1 / 2000000) \<and>
    \<bar>cb_total_fees_usd cb + cb_slippage_usd cb - trade_drag (round_trip_drag fee slip l) entry px * (e * sf)\<bar>
       \<le> 2 * (1 / 2000000)"
  using breakdown_sums [OF assms(1)] breakdown_drag [OF assms] by blast

end
