(* ===== verification/Reconcile.thy ===== *)
theory Reconcile
  imports Kernel Pytime
begin

text \<open>
  \<open>strategies/paper_reconcile.py\<close>: the kernel's view of a strategy (closed trades, open
  positions, pending orders) against the recorded paper trades, turned into the ordered actions
  the scanner applies. A recorded trade is identified by its place in the list, as the code
  identifies the dicts it was handed by \<open>id()\<close>.
\<close>

section \<open>Timestamps and keys\<close>

definition space_to_T :: "string \<Rightarrow> string" where
  "space_to_T s = map (\<lambda>c. if c = CHR '' '' then CHR ''T'' else c) s"

definition z_to_offset :: "string \<Rightarrow> string" where
  "z_to_offset s = concat (map (\<lambda>c. if c = CHR ''Z'' then ''+00:00'' else [c]) s)"

definition parse_ts :: "string \<Rightarrow> int option" where
  "parse_ts s = (let s' = space_to_T (py_strip s) in if s' = [] then None else iso_instant (z_to_offset s'))"

fun str_less :: "string \<Rightarrow> string \<Rightarrow> bool" where
  "str_less _ [] = False"
| "str_less [] (_ # _) = True"
| "str_less (a # as) (b # bs) =
     ((of_char a :: nat) < of_char b \<or> (a = b \<and> str_less as bs))"

definition ts_lt :: "string \<Rightarrow> string \<Rightarrow> bool" where
  "ts_lt a b = (case (parse_ts a, parse_ts b) of (Some x, Some y) \<Rightarrow> x < y | _ \<Rightarrow> str_less a b)"

text \<open>The canonical timestamp: an instant, or the text itself when it does not parse.\<close>

datatype canon = Instant int | RawText string

definition canonical_ts :: "string \<Rightarrow> canon" where
  "canonical_ts t = (let s = space_to_T (py_strip t) in
     if s = [] then RawText []
     else case iso_instant (z_to_offset s) of
         Some x \<Rightarrow> if in_datetime_range x then Instant x else RawText t
       | None \<Rightarrow> RawText t)"

definition norm_direction :: "string \<Rightarrow> string" where
  "norm_direction d = py_lower (py_strip (if d = [] then ''long'' else d))"

definition key :: "string \<Rightarrow> string \<Rightarrow> string \<times> canon" where
  "key d t = (norm_direction d, canonical_ts t)"

definition direction_word :: "direction \<Rightarrow> string" where
  "direction_word d = (case d of Long \<Rightarrow> ''long'' | Short \<Rightarrow> ''short'')"

section \<open>Recorded trades and actions\<close>

record rec_trade =
  rt_direction :: string
  rt_entry_time :: string
  rt_status :: string

definition rec_open :: "rec_trade \<Rightarrow> bool" where
  "rec_open r \<longleftrightarrow> py_lower (py_strip (if rt_status r = [] then ''open'' else rt_status r)) \<noteq> ''closed''"

definition rec_key :: "rec_trade \<Rightarrow> string \<times> canon" where
  "rec_key r = key (rt_direction r) (rt_entry_time r)"

datatype action_kind = AOpen | AClose | ABackfill | ARefresh | AOrphanClose

datatype payload = NoPayload | Position position | Trade trade | PendingExit pending_exit
  | PendingEntry pending_entry

record action =
  a_kind :: action_kind
  a_direction :: string
  a_entry_time :: string
  a_payload :: payload
  a_recorded :: "nat option"
  a_late_entry :: bool
  a_pending :: bool

definition mk_action :: "action_kind \<Rightarrow> string \<Rightarrow> string \<Rightarrow> payload \<Rightarrow> nat option \<Rightarrow> bool \<Rightarrow> bool \<Rightarrow> action" where
  "mk_action k d t p r late pend = \<lparr>a_kind = k, a_direction = d, a_entry_time = t, a_payload = p,
     a_recorded = r, a_late_entry = late, a_pending = pend\<rparr>"

text \<open>The index by key (the last row of a key wins) and the first open row of each direction.\<close>

definition by_key :: "rec_trade list \<Rightarrow> string \<times> canon \<Rightarrow> nat option" where
  "by_key rs k = map_of (rev (map (\<lambda>i. (rec_key (rs ! i), i)) [0 ..< length rs])) k"

definition open_slots :: "rec_trade list \<Rightarrow> (string \<times> nat) list" where
  "open_slots rs = foldl (\<lambda>acc i. let r = rs ! i; d = norm_direction (rt_direction r)
       in if rec_open r \<and> map_of acc d = None then acc @ [(d, i)] else acc) [] [0 ..< length rs]"

record cutoffs =
  recent_cutoff :: "string option"
  window_start :: "string option"
  fresh_cutoff :: "string option"

definition recent :: "cutoffs \<Rightarrow> string \<Rightarrow> bool" where
  "recent c t = (case recent_cutoff c of None \<Rightarrow> True | Some x \<Rightarrow> \<not> ts_lt t x)"

definition fresh :: "cutoffs \<Rightarrow> string \<Rightarrow> bool" where
  "fresh c t = (case fresh_cutoff c of None \<Rightarrow> True | Some x \<Rightarrow> \<not> ts_lt t x)"

section \<open>The passes\<close>

text \<open>Each pass collects its actions and the recorded rows it has matched.\<close>

record rstate =
  rs_closes :: "action list"
  rs_backfills :: "action list"
  rs_pending_closes :: "action list"
  rs_opens :: "action list"
  rs_refreshes :: "action list"
  rs_pending_opens :: "action list"
  rs_matched :: "nat list"
  rs_closing :: "nat list"

definition init_rstate :: rstate where
  "init_rstate = \<lparr>rs_closes = [], rs_backfills = [], rs_pending_closes = [], rs_opens = [],
     rs_refreshes = [], rs_pending_opens = [], rs_matched = [], rs_closing = []\<rparr>"

definition close_one :: "cutoffs \<Rightarrow> rec_trade list \<Rightarrow> rstate \<Rightarrow> trade \<Rightarrow> rstate" where
  "close_one c rs s kc =
     (if t_open_at_end kc then s
      else let d = direction_word (t_direction kc); t = t_entry_time kc in
        (case by_key rs (key d t) of
           None \<Rightarrow> if recent c t \<and> fresh c t
                   then s\<lparr>rs_backfills := rs_backfills s @ [mk_action ABackfill d t (Trade kc) None False False]\<rparr>
                   else s
         | Some i \<Rightarrow> if rec_open (rs ! i)
                   then s\<lparr>rs_closes := rs_closes s @ [mk_action AClose d t (Trade kc) (Some i) False False],
                          rs_matched := i # rs_matched s, rs_closing := i # rs_closing s\<rparr>
                   else s\<lparr>rs_matched := i # rs_matched s\<rparr>))"

definition pending_close_one :: "rec_trade list \<Rightarrow> rstate \<Rightarrow> direction \<times> pending_exit \<Rightarrow> rstate" where
  "pending_close_one rs s p =
     (let d = direction_word (fst p); t = pe_entry_time (snd p) in
        (case by_key rs (key d t) of
           None \<Rightarrow> s
         | Some i \<Rightarrow> if \<not> rec_open (rs ! i) \<or> i \<in> set (rs_matched s) then s
                   else s\<lparr>rs_pending_closes := rs_pending_closes s
                            @ [mk_action AClose d t (PendingExit (snd p)) (Some i) False True],
                          rs_matched := i # rs_matched s, rs_closing := i # rs_closing s\<rparr>))"

definition refresh_row :: "rstate \<Rightarrow> string \<Rightarrow> string \<Rightarrow> position \<Rightarrow> nat \<Rightarrow> rstate" where
  "refresh_row s d t pos i = s\<lparr>rs_refreshes := rs_refreshes s @ [mk_action ARefresh d t (Position pos) (Some i) False False],
     rs_matched := i # rs_matched s\<rparr>"

definition exits_now :: "kernel_result \<Rightarrow> cutoffs \<Rightarrow> direction \<Rightarrow> string \<Rightarrow> bool" where
  "exits_now res c d t \<longleftrightarrow> fresh_cutoff c \<noteq> None \<and>
     key (direction_word d) (case map_of (kr_pending_exits res) d of None \<Rightarrow> [] | Some pe \<Rightarrow> pe_entry_time pe)
       = key (direction_word d) t"

definition open_new :: "kernel_result \<Rightarrow> cutoffs \<Rightarrow> rstate \<Rightarrow> direction \<Rightarrow> position \<Rightarrow> rstate" where
  "open_new res c s d pos =
     (let w = direction_word d; t = p_entry_time pos in
      if exits_now res c d t then s
      else if fresh_cutoff c = None
        then s\<lparr>rs_opens := rs_opens s @ [mk_action AOpen w t (Position pos) None False False]\<rparr>
      else if fresh c t
        then s\<lparr>rs_opens := rs_opens s @ [mk_action AOpen w t (Position pos) None True False]\<rparr>
      else s)"

definition position_one :: "kernel_result \<Rightarrow> cutoffs \<Rightarrow> rec_trade list \<Rightarrow> rstate \<Rightarrow> direction \<times> position \<Rightarrow> rstate" where
  "position_one res c rs s p =
     (let d = direction_word (fst p); t = p_entry_time (snd p); r = by_key rs (key d t)
      in case (case r of Some i \<Rightarrow> if rec_open (rs ! i) \<and> i \<notin> set (rs_matched s) then Some i else None
                     | None \<Rightarrow> None) of
           Some i \<Rightarrow> refresh_row s d t (snd p) i
         | None \<Rightarrow>
             (case (case map_of (open_slots rs) d of
                      Some i \<Rightarrow> if i \<notin> set (rs_matched s) then Some i else None | None \<Rightarrow> None) of
                Some i \<Rightarrow> refresh_row s d t (snd p) i
              | None \<Rightarrow> if r \<noteq> None then s
                        else if recent c t then open_new res c s (fst p) (snd p)
                        else s))"

text \<open>
  The pending entries come with the entry time the scanner stamped on them, the label of the bar
  that is forming (empty when it stamped none).
\<close>

definition pending_open_one :: "kernel_result \<Rightarrow> cutoffs \<Rightarrow> rec_trade list \<Rightarrow> (direction \<Rightarrow> string) \<Rightarrow> rstate
    \<Rightarrow> direction \<times> pending_entry \<Rightarrow> rstate" where
  "pending_open_one res c rs stamp s p =
     (let d = direction_word (fst p); t = stamp (fst p)
      in if t = [] then s
         else if fst p \<in> fst ` set (kr_open_positions res) \<and> fst p \<notin> fst ` set (kr_pending_exits res) then s
         else case by_key rs (key d t) of
             Some i \<Rightarrow> s\<lparr>rs_matched := i # rs_matched s\<rparr>
           | None \<Rightarrow>
               if (case map_of (open_slots rs) d of Some i \<Rightarrow> i \<notin> set (rs_closing s) | None \<Rightarrow> False) then s
               else if \<not> recent c t then s
               else s\<lparr>rs_pending_opens := rs_pending_opens s
                        @ [mk_action AOpen d t (PendingEntry (snd p)) None True True]\<rparr>)"

definition orphan_for :: "kernel_result \<Rightarrow> cutoffs \<Rightarrow> rec_trade list \<Rightarrow> rstate \<Rightarrow> string \<times> nat \<Rightarrow> action list" where
  "orphan_for res c rs s p =
     (let t = rt_entry_time (rs ! snd p) in
      if snd p \<in> set (rs_matched s) \<or> fst p \<in> (direction_word \<circ> fst) ` set (kr_open_positions res) then []
      else if (case window_start c of None \<Rightarrow> False | Some w \<Rightarrow> t \<noteq> [] \<and> ts_lt t w) then []
      else [mk_action AOrphanClose (fst p) t NoPayload (Some (snd p)) False False])"

definition run_passes :: "kernel_result \<Rightarrow> (direction \<Rightarrow> string) \<Rightarrow> rec_trade list \<Rightarrow> cutoffs \<Rightarrow> rstate" where
  "run_passes res stamp rs c =
     (let s1 = foldl (close_one c rs) init_rstate (kr_closed_trades res);
          s2 = (if fresh_cutoff c = None then s1 else foldl (pending_close_one rs) s1 (kr_pending_exits res));
          s3 = foldl (position_one res c rs) s2 (kr_open_positions res)
      in if fresh_cutoff c = None then s3
         else foldl (pending_open_one res c rs stamp) s3 (kr_pending_entries res))"

definition reconcile :: "kernel_result \<Rightarrow> (direction \<Rightarrow> string) \<Rightarrow> rec_trade list \<Rightarrow> cutoffs \<Rightarrow> action list" where
  "reconcile res stamp rs c =
     (let s = run_passes res stamp rs c
      in rs_closes s @ rs_pending_closes s @ rs_backfills s @ rs_opens s @ rs_pending_opens s
         @ rs_refreshes s @ concat (map (orphan_for res c rs s) (open_slots rs)))"

end
