(* ===== verification/Reconcile_Sync.thy ===== *)
theory Reconcile_Sync
  imports Reconcile
begin

text \<open>
  What \<open>reconcile\<close> guarantees: in the full-replay mode one round brings the recorded book in step
  with the kernel's view, whatever happened between two scans; in every mode no recorded trade is
  the target of two actions, and nothing is opened that the recorded book already knows.
\<close>

section \<open>The indices\<close>

lemma by_key_SomeD: "by_key rs k = Some i \<Longrightarrow> i < length rs \<and> rec_key (rs ! i) = k"
  by (auto simp: by_key_def dest!: map_of_SomeD)

lemma by_key_None: "by_key rs k = None \<longleftrightarrow> k \<notin> rec_key ` set rs"
  by (force simp: by_key_def map_of_eq_None_iff image_image in_set_conv_nth)

lemma by_key_nth:
  assumes "distinct (map rec_key rs)" and "i < length rs"
  shows "by_key rs (rec_key (rs ! i)) = Some i"
proof -
  have "by_key rs (rec_key (rs ! i)) \<noteq> None" using assms(2) by (simp add: by_key_None)
  then obtain j where j: "by_key rs (rec_key (rs ! i)) = Some j" by blast
  from by_key_SomeD [OF j] assms have "j = i" by (metis (no_types) distinct_conv_nth length_map nth_map)
  with j show ?thesis by simp
qed

lemma open_slots_sound:
  assumes "map_of (open_slots rs) d = Some i"
  shows "i < length rs \<and> rec_open (rs ! i) \<and> norm_direction (rt_direction (rs ! i)) = d"
proof -
  let ?f = "\<lambda>acc i. let r = rs ! i; d = norm_direction (rt_direction r)
       in if rec_open r \<and> map_of acc d = None then acc @ [(d, i)] else acc"
  have "\<forall>p\<in>set (foldl ?f acc is). rec_open (rs ! snd p) \<and> norm_direction (rt_direction (rs ! snd p)) = fst p
      \<and> (p \<in> set acc \<or> snd p \<in> set is)"
    if "\<forall>p\<in>set acc. rec_open (rs ! snd p) \<and> norm_direction (rt_direction (rs ! snd p)) = fst p" for acc "is"
    using that
  proof (induction "is" arbitrary: acc)
    case (Cons j js)
    have "\<forall>p\<in>set (?f acc j). rec_open (rs ! snd p) \<and> norm_direction (rt_direction (rs ! snd p)) = fst p"
      using Cons.prems by (auto simp: Let_def)
    from Cons.IH [OF this] show ?case by (fastforce simp: Let_def split: if_splits)
  qed simp
  from this [of "[]" "[0 ..< length rs]"] map_of_SomeD [OF assms] show ?thesis
    unfolding open_slots_def by fastforce
qed

lemma open_slots_mem:
  assumes "p \<in> set (open_slots rs)"
  shows "snd p < length rs \<and> rec_open (rs ! snd p) \<and> norm_direction (rt_direction (rs ! snd p)) = fst p"
proof -
  let ?f = "\<lambda>acc i. let r = rs ! i; d = norm_direction (rt_direction r)
       in if rec_open r \<and> map_of acc d = None then acc @ [(d, i)] else acc"
  have "distinct (map fst (foldl ?f acc is))" if "distinct (map fst acc)" for acc "is"
    using that
  proof (induction "is" arbitrary: acc)
    case (Cons j js)
    have "distinct (map fst (?f acc j))" using Cons.prems by (auto simp: Let_def map_of_eq_None_iff)
    then show ?case using Cons.IH by simp
  qed simp
  then have "distinct (map fst (open_slots rs))" by (simp add: open_slots_def)
  then have "map_of (open_slots rs) (fst p) = Some (snd p)" using assms by (cases p) simp
  then show ?thesis by (rule open_slots_sound)
qed

lemma norm_direction_word [simp]: "norm_direction (direction_word d) = direction_word d"
proof -
  have "norm_direction ''long'' = ''long''" and "norm_direction ''short'' = ''short''" by code_simp+
  then show ?thesis by (cases d) (simp_all add: direction_word_def)
qed

lemma direction_word_inj [simp]: "direction_word d = direction_word e \<longleftrightarrow> d = e"
  by (cases d; cases e) (simp_all add: direction_word_def)

lemma fst_key [simp]: "fst (key d t) = norm_direction d"
  by (simp add: key_def)

section \<open>The close pass\<close>

definition tkey :: "trade \<Rightarrow> string \<times> canon" where
  "tkey t = key (direction_word (t_direction t)) (t_entry_time t)"

definition pkey :: "direction \<times> position \<Rightarrow> string \<times> canon" where
  "pkey p = key (direction_word (fst p)) (p_entry_time (snd p))"

definition close_acts :: "rec_trade list \<Rightarrow> trade \<Rightarrow> action list" where
  "close_acts rs kc = (case by_key rs (tkey kc) of None \<Rightarrow> []
     | Some i \<Rightarrow> if \<not> t_open_at_end kc \<and> rec_open (rs ! i)
                then [mk_action AClose (direction_word (t_direction kc)) (t_entry_time kc) (Trade kc) (Some i) False False]
                else [])"

definition backfill_acts :: "cutoffs \<Rightarrow> rec_trade list \<Rightarrow> trade \<Rightarrow> action list" where
  "backfill_acts c rs kc = (if \<not> t_open_at_end kc \<and> by_key rs (tkey kc) = None \<and>
        recent c (t_entry_time kc) \<and> fresh c (t_entry_time kc)
     then [mk_action ABackfill (direction_word (t_direction kc)) (t_entry_time kc) (Trade kc) None False False] else [])"

definition close_matches :: "rec_trade list \<Rightarrow> trade \<Rightarrow> nat set" where
  "close_matches rs kc = (if t_open_at_end kc then {} else set_option (by_key rs (tkey kc)))"

lemma close_one_fields:
  "rs_closes (close_one c rs s kc) = rs_closes s @ close_acts rs kc"
  "rs_backfills (close_one c rs s kc) = rs_backfills s @ backfill_acts c rs kc"
  "set (rs_matched (close_one c rs s kc)) = set (rs_matched s) \<union> close_matches rs kc"
  "rs_opens (close_one c rs s kc) = rs_opens s" "rs_refreshes (close_one c rs s kc) = rs_refreshes s"
  "rs_pending_closes (close_one c rs s kc) = rs_pending_closes s"
  "rs_pending_opens (close_one c rs s kc) = rs_pending_opens s"
  by (auto simp: close_one_def close_acts_def backfill_acts_def close_matches_def tkey_def Let_def
      split: option.splits)

lemma close_pass_fields:
  "rs_closes (foldl (close_one c rs) s ts) = rs_closes s @ concat (map (close_acts rs) ts)"
  "rs_backfills (foldl (close_one c rs) s ts) = rs_backfills s @ concat (map (backfill_acts c rs) ts)"
  "set (rs_matched (foldl (close_one c rs) s ts)) = set (rs_matched s) \<union> (\<Union>t\<in>set ts. close_matches rs t)"
  "rs_opens (foldl (close_one c rs) s ts) = rs_opens s" "rs_refreshes (foldl (close_one c rs) s ts) = rs_refreshes s"
  "rs_pending_closes (foldl (close_one c rs) s ts) = rs_pending_closes s"
  "rs_pending_opens (foldl (close_one c rs) s ts) = rs_pending_opens s"
  by (induction ts arbitrary: s) (simp_all add: close_one_fields Un_assoc)

section \<open>Applying the actions to the book\<close>

text \<open>
  The record keeping the scanner does for an action: a close (and the clean-up close) marks the
  row closed, a backfill records a closed row, an open an open one, a refresh changes neither
  the keys nor the status of any row.
\<close>

definition close_row :: "rec_trade list \<Rightarrow> nat \<Rightarrow> rec_trade list" where
  "close_row rs i = rs[i := (rs ! i)\<lparr>rt_status := ''closed''\<rparr>]"

definition apply_action :: "rec_trade list \<Rightarrow> action \<Rightarrow> rec_trade list" where
  "apply_action rs a = (case a_kind a of
     AClose \<Rightarrow> (case a_recorded a of Some i \<Rightarrow> close_row rs i | None \<Rightarrow> rs)
   | AOrphanClose \<Rightarrow> (case a_recorded a of Some i \<Rightarrow> close_row rs i | None \<Rightarrow> rs)
   | ABackfill \<Rightarrow> rs @ [\<lparr>rt_direction = a_direction a, rt_entry_time = a_entry_time a, rt_status = ''closed''\<rparr>]
   | AOpen \<Rightarrow> rs @ [\<lparr>rt_direction = a_direction a, rt_entry_time = a_entry_time a, rt_status = ''open''\<rparr>]
   | ARefresh \<Rightarrow> rs)"

definition apply_actions :: "rec_trade list \<Rightarrow> action list \<Rightarrow> rec_trade list" where
  "apply_actions = foldl apply_action"

definition in_sync :: "rec_trade list \<Rightarrow> kernel_result \<Rightarrow> bool" where
  "in_sync rs res \<longleftrightarrow> distinct (map rec_key rs) \<and>
     rec_key ` set (filter rec_open rs) = pkey ` set (kr_open_positions res) \<and>
     rec_key ` set (filter (\<lambda>r. \<not> rec_open r) rs) = tkey ` set (kr_closed_trades res)"

definition wf_view :: "kernel_result \<Rightarrow> bool" where
  "wf_view res \<longleftrightarrow> distinct (map tkey (kr_closed_trades res) @ map pkey (kr_open_positions res)) \<and>
     distinct (map fst (kr_open_positions res)) \<and> (\<forall>t\<in>set (kr_closed_trades res). \<not> t_open_at_end t)"

definition advances :: "kernel_result \<Rightarrow> kernel_result \<Rightarrow> bool" where
  "advances old res \<longleftrightarrow> tkey ` set (kr_closed_trades old) \<subseteq> tkey ` set (kr_closed_trades res) \<and>
     pkey ` set (kr_open_positions old) \<subseteq> tkey ` set (kr_closed_trades res) \<union> pkey ` set (kr_open_positions res)"

definition replay_mode :: cutoffs where
  "replay_mode = \<lparr>recent_cutoff = None, window_start = None, fresh_cutoff = None\<rparr>"

lemma rec_open_status [simp]:
  "\<not> rec_open (r\<lparr>rt_status := ''closed''\<rparr>)"
  "\<not> rec_open \<lparr>rt_direction = d, rt_entry_time = t, rt_status = ''closed''\<rparr>"
  "rec_open \<lparr>rt_direction = d, rt_entry_time = t, rt_status = ''open''\<rparr>"
proof -
  have c: "py_lower (py_strip ''closed'') = ''closed''" and o: "py_lower (py_strip ''open'') \<noteq> ''closed''"
    by code_simp+
  show "\<not> rec_open (r\<lparr>rt_status := ''closed''\<rparr>)"
    "\<not> rec_open \<lparr>rt_direction = d, rt_entry_time = t, rt_status = ''closed''\<rparr>"
    "rec_open \<lparr>rt_direction = d, rt_entry_time = t, rt_status = ''open''\<rparr>"
    using c o by (simp_all add: rec_open_def)
qed

lemma rec_key_status [simp]: "rec_key (r\<lparr>rt_status := s\<rparr>) = rec_key r"
  by (simp add: rec_key_def)

lemma mk_action_simps [simp]:
  "a_kind (mk_action k d t p r l pn) = k" "a_direction (mk_action k d t p r l pn) = d"
  "a_entry_time (mk_action k d t p r l pn) = t" "a_recorded (mk_action k d t p r l pn) = r"
  "a_payload (mk_action k d t p r l pn) = p" "a_late_entry (mk_action k d t p r l pn) = l"
  "a_pending (mk_action k d t p r l pn) = pn"
  by (simp_all add: mk_action_def)

lemma close_row_length [simp]: "length (close_row rs i) = length rs"
  by (simp add: close_row_def)

lemma close_row_map [simp]: "map rec_key (close_row rs i) = map rec_key rs"
proof (cases "i < length rs")
  case True
  have "(map rec_key rs)[i := rec_key (rs ! i)] = map rec_key rs"
    using True list_update_id [of "map rec_key rs" i] by simp
  then show ?thesis by (simp add: close_row_def map_update)
next
  case False
  then show ?thesis by (simp add: close_row_def list_update_beyond)
qed

lemma close_row_open:
  "j < length rs \<Longrightarrow> rec_open (close_row rs i ! j) \<longleftrightarrow> rec_open (rs ! j) \<and> i \<noteq> j"
  by (cases "i = j") (simp_all add: close_row_def)

lemma close_action: "a_kind a = AClose \<Longrightarrow> a_recorded a = Some i \<Longrightarrow> apply_action rs a = close_row rs i"
  by (simp add: apply_action_def)

lemma apply_closes_keys:
  "\<forall>a\<in>set as. a_kind a = AClose \<and> a_recorded a \<noteq> None \<Longrightarrow> map rec_key (apply_actions rs as) = map rec_key rs"
  unfolding apply_actions_def
proof (induction as arbitrary: rs)
  case (Cons a as)
  obtain i where "apply_action rs a = close_row rs i" using Cons.prems by (auto simp: close_action)
  then show ?case using Cons by simp
qed simp

lemma apply_closes_open:
  "\<forall>a\<in>set as. a_kind a = AClose \<and> a_recorded a \<noteq> None \<Longrightarrow> j < length rs \<Longrightarrow>
    rec_open (apply_actions rs as ! j) \<longleftrightarrow> rec_open (rs ! j) \<and> Some j \<notin> a_recorded ` set as"
  unfolding apply_actions_def
proof (induction as arbitrary: rs)
  case (Cons a as)
  obtain i where a: "apply_action rs a = close_row rs i" "a_recorded a = Some i"
    using Cons.prems(1) by (auto simp: close_action)
  then show ?case using Cons.IH [of "close_row rs i"] Cons.prems by (auto simp: close_row_open)
qed simp

lemma apply_new_rows:
  assumes "\<forall>a\<in>set as. a_kind a = AOpen \<or> a_kind a = ABackfill"
  shows "apply_actions rs as = rs @ map (\<lambda>a. \<lparr>rt_direction = a_direction a, rt_entry_time = a_entry_time a,
    rt_status = (if a_kind a = AOpen then ''open'' else ''closed'')\<rparr>) as"
  using assms unfolding apply_actions_def
  by (induction as arbitrary: rs) (auto simp: apply_action_def)

lemma apply_refreshes: "\<forall>a\<in>set as. a_kind a = ARefresh \<Longrightarrow> apply_actions rs as = rs"
  unfolding apply_actions_def by (induction as) (auto simp: apply_action_def)

lemma apply_append: "apply_actions rs (as @ bs) = apply_actions (apply_actions rs as) bs"
  by (simp add: apply_actions_def)

section \<open>One round in the full-replay mode\<close>

definition open_acts :: "rec_trade list \<Rightarrow> direction \<times> position \<Rightarrow> action list" where
  "open_acts rs p = (if by_key rs (pkey p) = None
     then [mk_action AOpen (direction_word (fst p)) (p_entry_time (snd p)) (Position (snd p)) None False False] else [])"

definition refresh_acts :: "rec_trade list \<Rightarrow> direction \<times> position \<Rightarrow> action list" where
  "refresh_acts rs p = (case by_key rs (pkey p) of None \<Rightarrow> []
     | Some i \<Rightarrow> [mk_action ARefresh (direction_word (fst p)) (p_entry_time (snd p)) (Position (snd p)) (Some i) False False])"

lemma position_one_replay:
  assumes "\<And>i. by_key rs (pkey p) = Some i \<Longrightarrow> rec_open (rs ! i) \<and> i \<notin> set (rs_matched s)"
    and "\<And>j. by_key rs (pkey p) = None \<Longrightarrow> map_of (open_slots rs) (direction_word (fst p)) = Some j \<Longrightarrow> j \<in> set (rs_matched s)"
  shows "rs_opens (position_one res replay_mode rs s p) = rs_opens s @ open_acts rs p"
    and "rs_refreshes (position_one res replay_mode rs s p) = rs_refreshes s @ refresh_acts rs p"
    and "set (rs_matched (position_one res replay_mode rs s p)) = set (rs_matched s) \<union> set_option (by_key rs (pkey p))"
    and "rs_closes (position_one res replay_mode rs s p) = rs_closes s"
    and "rs_backfills (position_one res replay_mode rs s p) = rs_backfills s"
    and "rs_pending_closes (position_one res replay_mode rs s p) = rs_pending_closes s"
    and "rs_pending_opens (position_one res replay_mode rs s p) = rs_pending_opens s"
  using assms
  by (auto simp: position_one_def refresh_row_def open_new_def exits_now_def replay_mode_def recent_def
      open_acts_def refresh_acts_def pkey_def Let_def split: option.splits)

text \<open>What a round starts from: the book was in step with an earlier view of the same kernel.\<close>

definition round_ok :: "rec_trade list \<Rightarrow> kernel_result \<Rightarrow> bool" where
  "round_ok rs res \<longleftrightarrow> (\<exists>old. in_sync rs old \<and> wf_view old \<and> advances old res) \<and> wf_view res"

lemma round_facts:
  assumes "round_ok rs res"
  shows "distinct (map rec_key rs)" and "wf_view res"
    and "\<And>i. i < length rs \<Longrightarrow> rec_open (rs ! i) \<Longrightarrow> rec_key (rs ! i) \<in> tkey ` set (kr_closed_trades res) \<union> pkey ` set (kr_open_positions res)"
    and "\<And>i. i < length rs \<Longrightarrow> \<not> rec_open (rs ! i) \<Longrightarrow> rec_key (rs ! i) \<in> tkey ` set (kr_closed_trades res)"
proof -
  obtain old where old: "in_sync rs old" "advances old res" and wf: "wf_view res"
    using assms by (auto simp: round_ok_def)
  have o: "rec_key ` set (filter rec_open rs) \<subseteq> tkey ` set (kr_closed_trades res) \<union> pkey ` set (kr_open_positions res)"
    and c: "rec_key ` set (filter (\<lambda>r. \<not> rec_open r) rs) \<subseteq> tkey ` set (kr_closed_trades res)"
    using old by (simp_all only: in_sync_def advances_def)
  show "distinct (map rec_key rs)" "wf_view res" using old wf by (simp_all add: in_sync_def)
  fix i assume i: "i < length rs"
  { assume "rec_open (rs ! i)"
    then have "rec_key (rs ! i) \<in> rec_key ` set (filter rec_open rs)" using i by simp
    with o show "rec_key (rs ! i) \<in> tkey ` set (kr_closed_trades res) \<union> pkey ` set (kr_open_positions res)"
      by (rule subsetD) }
  { assume "\<not> rec_open (rs ! i)"
    then have "rec_key (rs ! i) \<in> rec_key ` set (filter (\<lambda>r. \<not> rec_open r) rs)" using i by simp
    with c show "rec_key (rs ! i) \<in> tkey ` set (kr_closed_trades res)" by (rule subsetD) }
qed

lemma view_disjoint:
  assumes "wf_view res" and "p \<in> set (kr_open_positions res)" and "t \<in> set (kr_closed_trades res)"
  shows "pkey p \<noteq> tkey t"
proof
  assume "pkey p = tkey t"
  moreover have "tkey t \<in> set (map tkey (kr_closed_trades res))" "pkey p \<in> set (map pkey (kr_open_positions res))"
    using assms(2,3) by simp_all
  moreover have "set (map tkey (kr_closed_trades res)) \<inter> set (map pkey (kr_open_positions res)) = {}"
    using assms(1) by (simp only: wf_view_def distinct_append)
  ultimately show False by (simp only: disjoint_iff)
qed

definition closed_idx :: "rec_trade list \<Rightarrow> kernel_result \<Rightarrow> nat set" where
  "closed_idx rs res = (\<Union>t\<in>set (kr_closed_trades res). close_matches rs t)"

lemma closed_idx_iff:
  assumes "round_ok rs res"
  shows "i \<in> closed_idx rs res \<longleftrightarrow> i < length rs \<and> rec_key (rs ! i) \<in> tkey ` set (kr_closed_trades res)"
proof
  assume "i \<in> closed_idx rs res"
  then obtain t where t: "t \<in> set (kr_closed_trades res)" "by_key rs (tkey t) = Some i"
    by (auto simp: closed_idx_def close_matches_def split: if_splits)
  from by_key_SomeD [OF t(2)] t(1) show "i < length rs \<and> rec_key (rs ! i) \<in> tkey ` set (kr_closed_trades res)"
    by simp
next
  assume r: "i < length rs \<and> rec_key (rs ! i) \<in> tkey ` set (kr_closed_trades res)"
  then obtain t where t: "t \<in> set (kr_closed_trades res)" "rec_key (rs ! i) = tkey t" by blast
  have "by_key rs (tkey t) = Some i" using by_key_nth [OF round_facts(1) [OF assms]] r t by metis
  moreover have "\<not> t_open_at_end t" using round_facts(2) [OF assms] t by (simp add: wf_view_def)
  ultimately have "i \<in> close_matches rs t" by (simp add: close_matches_def)
  with t show "i \<in> closed_idx rs res" unfolding closed_idx_def by blast
qed

lemma recorded_position_open:
  assumes "round_ok rs res" and "p \<in> set (kr_open_positions res)" and "by_key rs (pkey p) = Some i"
  shows "rec_open (rs ! i) \<and> i \<notin> closed_idx rs res"
proof -
  have i: "i < length rs" "rec_key (rs ! i) = pkey p" using by_key_SomeD [OF assms(3)] by auto
  then have "rec_key (rs ! i) \<notin> tkey ` set (kr_closed_trades res)"
    using view_disjoint [OF round_facts(2) [OF assms(1)] assms(2)] by auto
  then show ?thesis using round_facts(4) [OF assms(1) i(1)] closed_idx_iff [OF assms(1)] by blast
qed

lemma no_adoption:
  assumes ok: "round_ok rs res" and p: "p \<in> set (kr_open_positions res)" and n: "by_key rs (pkey p) = None"
    and slot: "map_of (open_slots rs) (direction_word (fst p)) = Some j"
  shows "j \<in> closed_idx rs res"
proof (rule ccontr)
  assume nc: "j \<notin> closed_idx rs res"
  have j: "j < length rs" "rec_open (rs ! j)" "fst (rec_key (rs ! j)) = direction_word (fst p)"
    using open_slots_sound [OF slot] by (auto simp: rec_key_def)
  then obtain q where q: "q \<in> set (kr_open_positions res)" "rec_key (rs ! j) = pkey q"
    using round_facts(3) [OF ok j(1,2)] nc closed_idx_iff [OF ok] by auto
  have "fst q = fst p" using q j by (simp add: pkey_def)
  moreover have "distinct (map fst (kr_open_positions res))" using round_facts(2) [OF ok] by (simp add: wf_view_def)
  ultimately have "q = p" using p q(1) by (metis eq_key_imp_eq_value prod.collapse)
  then have "pkey p \<in> rec_key ` set rs" using q j by (metis imageI nth_mem)
  with n show False by (simp add: by_key_None)
qed

lemma positions_replay:
  assumes ok: "round_ok rs res" and sub: "set ps \<subseteq> set (kr_open_positions res)" "distinct (map pkey ps)"
    and m: "closed_idx rs res \<subseteq> set (rs_matched s)"
    and new: "\<forall>p\<in>set ps. \<forall>i. by_key rs (pkey p) = Some i \<longrightarrow> i \<notin> set (rs_matched s)"
  shows "rs_opens (foldl (position_one res replay_mode rs) s ps) = rs_opens s @ concat (map (open_acts rs) ps) \<and>
    rs_refreshes (foldl (position_one res replay_mode rs) s ps) = rs_refreshes s @ concat (map (refresh_acts rs) ps) \<and>
    set (rs_matched (foldl (position_one res replay_mode rs) s ps)) = set (rs_matched s) \<union> (\<Union>p\<in>set ps. set_option (by_key rs (pkey p))) \<and>
    rs_closes (foldl (position_one res replay_mode rs) s ps) = rs_closes s \<and>
    rs_backfills (foldl (position_one res replay_mode rs) s ps) = rs_backfills s \<and>
    rs_pending_closes (foldl (position_one res replay_mode rs) s ps) = rs_pending_closes s \<and>
    rs_pending_opens (foldl (position_one res replay_mode rs) s ps) = rs_pending_opens s"
  using sub m new
proof (induction ps arbitrary: s)
  case (Cons p ps)
  let ?s = "position_one res replay_mode rs s p"
  have p: "p \<in> set (kr_open_positions res)" using Cons.prems by simp
  note step = position_one_replay [of rs p s res]
  have a: "rec_open (rs ! i) \<and> i \<notin> set (rs_matched s)" if "by_key rs (pkey p) = Some i" for i
    using recorded_position_open [OF ok p that] Cons.prems(4) that by simp
  have b: "j \<in> set (rs_matched s)"
    if "by_key rs (pkey p) = None" "map_of (open_slots rs) (direction_word (fst p)) = Some j" for j
    using no_adoption [OF ok p that] Cons.prems(3) by blast
  note f = step [OF a b]
  have nm: "i \<notin> set (rs_matched ?s)" if "q \<in> set ps" "by_key rs (pkey q) = Some i" for q i
  proof -
    have "pkey q \<in> pkey ` set ps" using that(1) by simp
    then have "pkey q \<noteq> pkey p" using Cons.prems(2) by (metis distinct.simps(2) list.simps(9) set_map)
    then have "by_key rs (pkey p) \<noteq> Some i" using by_key_SomeD that by metis
    moreover have "i \<notin> set (rs_matched s)" using Cons.prems(4) that by simp
    ultimately show ?thesis by (simp add: f(3))
  qed
  have "\<forall>q\<in>set ps. \<forall>i. by_key rs (pkey q) = Some i \<longrightarrow> i \<notin> set (rs_matched ?s)" using nm by blast
  moreover have "closed_idx rs res \<subseteq> set (rs_matched ?s)" using Cons.prems(3) by (auto simp: f(3))
  moreover have "set ps \<subseteq> set (kr_open_positions res)" "distinct (map pkey ps)" using Cons.prems(1,2) by auto
  ultimately have ih: "rs_opens (foldl (position_one res replay_mode rs) ?s ps) = rs_opens ?s @ concat (map (open_acts rs) ps) \<and>
    rs_refreshes (foldl (position_one res replay_mode rs) ?s ps) = rs_refreshes ?s @ concat (map (refresh_acts rs) ps) \<and>
    set (rs_matched (foldl (position_one res replay_mode rs) ?s ps)) = set (rs_matched ?s) \<union> (\<Union>p\<in>set ps. set_option (by_key rs (pkey p))) \<and>
    rs_closes (foldl (position_one res replay_mode rs) ?s ps) = rs_closes ?s \<and>
    rs_backfills (foldl (position_one res replay_mode rs) ?s ps) = rs_backfills ?s \<and>
    rs_pending_closes (foldl (position_one res replay_mode rs) ?s ps) = rs_pending_closes ?s \<and>
    rs_pending_opens (foldl (position_one res replay_mode rs) ?s ps) = rs_pending_opens ?s"
    using Cons.IH [of ?s] by blast
  show ?case using ih by (simp only: foldl_Cons f list.map concat.simps append_assoc list.set UN_insert Un_assoc)
qed simp

lemma reconcile_replay:
  assumes ok: "round_ok rs res"
  shows "reconcile res stamp rs replay_mode =
    concat (map (close_acts rs) (kr_closed_trades res)) @ concat (map (backfill_acts replay_mode rs) (kr_closed_trades res)) @
    concat (map (open_acts rs) (kr_open_positions res)) @ concat (map (refresh_acts rs) (kr_open_positions res))"
proof -
  let ?s1 = "foldl (close_one replay_mode rs) init_rstate (kr_closed_trades res)"
  let ?s3 = "foldl (position_one res replay_mode rs) ?s1 (kr_open_positions res)"
  have wf: "wf_view res" by (rule round_facts(2) [OF ok])
  have m1: "set (rs_matched ?s1) = closed_idx rs res"
    by (simp add: close_pass_fields init_rstate_def closed_idx_def)
  have d: "distinct (map pkey (kr_open_positions res))" using wf by (simp only: wf_view_def distinct_append)
  have "\<forall>p\<in>set (kr_open_positions res). \<forall>i. by_key rs (pkey p) = Some i \<longrightarrow> i \<notin> set (rs_matched ?s1)"
    using recorded_position_open [OF ok] by (simp add: m1)
  note pos = positions_replay [OF ok subset_refl d _ this, unfolded m1, OF subset_refl]
  have m3: "set (rs_matched ?s3) = closed_idx rs res \<union> (\<Union>p\<in>set (kr_open_positions res). set_option (by_key rs (pkey p)))"
    using pos by (elim conjE)
  have run: "run_passes res stamp rs replay_mode = ?s3"
    by (simp add: run_passes_def replay_mode_def Let_def)
  have "orphan_for res replay_mode rs ?s3 p = []" if "p \<in> set (open_slots rs)" for p
  proof -
    have r: "snd p < length rs" "rec_open (rs ! snd p)" "fst (rec_key (rs ! snd p)) = fst p"
      using open_slots_mem [OF that] by (auto simp: rec_key_def)
    from round_facts(3) [OF ok r(1,2)] show ?thesis
    proof
      assume "rec_key (rs ! snd p) \<in> tkey ` set (kr_closed_trades res)"
      then have "snd p \<in> closed_idx rs res" using closed_idx_iff [OF ok, of "snd p"] r(1) by simp
      then have "snd p \<in> set (rs_matched ?s3)" unfolding m3 by (rule UnI1)
      then show ?thesis by (simp add: orphan_for_def Let_def)
    next
      assume "rec_key (rs ! snd p) \<in> pkey ` set (kr_open_positions res)"
      then obtain q where q: "q \<in> set (kr_open_positions res)" "rec_key (rs ! snd p) = pkey q" by blast
      have "fst p = (direction_word \<circ> fst) q" using r(3) q(2) by (simp add: pkey_def)
      then have "fst p \<in> (direction_word \<circ> fst) ` set (kr_open_positions res)"
        using q(1) by (rule image_eqI)
      then show ?thesis by (simp add: orphan_for_def Let_def)
    qed
  qed
  then have orphans: "concat (map (orphan_for res replay_mode rs ?s3) (open_slots rs)) = []" by simp
  show ?thesis
    unfolding reconcile_def Let_def run orphans
    by (simp only: pos close_pass_fields) (simp add: init_rstate_def)
qed

text \<open>The lists of actions as maps over what they are about.\<close>

lemma backfills_replay:
  assumes "\<forall>t\<in>set ts. \<not> t_open_at_end t"
  shows "concat (map (backfill_acts replay_mode rs) ts) =
    map (\<lambda>t. mk_action ABackfill (direction_word (t_direction t)) (t_entry_time t) (Trade t) None False False)
      (filter (\<lambda>t. by_key rs (tkey t) = None) ts)"
  using assms by (induction ts) (auto simp: backfill_acts_def recent_def fresh_def replay_mode_def)

lemma opens_replay:
  "concat (map (open_acts rs) ps) =
    map (\<lambda>p. mk_action AOpen (direction_word (fst p)) (p_entry_time (snd p)) (Position (snd p)) None False False)
      (filter (\<lambda>p. by_key rs (pkey p) = None) ps)"
  by (induction ps) (auto simp: open_acts_def)

lemma close_acts_cases:
  "close_acts rs t = (if \<exists>i. by_key rs (tkey t) = Some i \<and> \<not> t_open_at_end t \<and> rec_open (rs ! i)
     then [mk_action AClose (direction_word (t_direction t)) (t_entry_time t) (Trade t) (by_key rs (tkey t)) False False]
     else [])"
  by (cases "by_key rs (tkey t)") (auto simp: close_acts_def)

lemma close_recorded:
  assumes "rec_open (rs ! j)"
  shows "Some j \<in> a_recorded ` set (concat (map (close_acts rs) (kr_closed_trades res))) \<longleftrightarrow> j \<in> closed_idx rs res"
proof -
  have "Some j \<in> a_recorded ` set (close_acts rs t) \<longleftrightarrow> j \<in> close_matches rs t" for t
    using assms by (cases "by_key rs (tkey t)") (auto simp: close_acts_def close_matches_def)
  then show ?thesis by (simp add: closed_idx_def image_UN)
qed

definition backfill_row :: "trade \<Rightarrow> rec_trade" where
  "backfill_row t = \<lparr>rt_direction = direction_word (t_direction t), rt_entry_time = t_entry_time t, rt_status = ''closed''\<rparr>"

definition open_row :: "direction \<times> position \<Rightarrow> rec_trade" where
  "open_row p = \<lparr>rt_direction = direction_word (fst p), rt_entry_time = p_entry_time (snd p), rt_status = ''open''\<rparr>"

lemma new_row_facts [simp]:
  "rec_key (backfill_row t) = tkey t" "\<not> rec_open (backfill_row t)"
  "rec_key (open_row p) = pkey p" "rec_open (open_row p)"
  by (simp_all add: backfill_row_def open_row_def rec_key_def tkey_def pkey_def)

lemma round_book:
  assumes ok: "round_ok rs res"
  shows "apply_actions rs (reconcile res stamp rs replay_mode) =
    apply_actions rs (concat (map (close_acts rs) (kr_closed_trades res)))
      @ map backfill_row (filter (\<lambda>t. by_key rs (tkey t) = None) (kr_closed_trades res))
      @ map open_row (filter (\<lambda>p. by_key rs (pkey p) = None) (kr_open_positions res))"
proof -
  have noe: "\<forall>t\<in>set (kr_closed_trades res). \<not> t_open_at_end t"
    using round_facts(2) [OF ok] by (simp add: wf_view_def)
  have r: "apply_actions xs (concat (map (refresh_acts rs) ps)) = xs" for xs ps
    by (rule apply_refreshes) (auto simp: refresh_acts_def split: option.splits)
  have b: "apply_actions xs (map (\<lambda>t. mk_action ABackfill (direction_word (t_direction t)) (t_entry_time t) (Trade t) None False False) ts)
      = xs @ map backfill_row ts" for xs ts
    by (subst apply_new_rows) (auto simp: backfill_row_def)
  have o: "apply_actions xs (map (\<lambda>p. mk_action AOpen (direction_word (fst p)) (p_entry_time (snd p)) (Position (snd p)) None False False) ps)
      = xs @ map open_row ps" for xs ps
    by (subst apply_new_rows) (auto simp: open_row_def)
  show ?thesis
    unfolding reconcile_replay [OF ok] apply_append backfills_replay [OF noe] opens_replay r b o append_assoc ..
qed

lemma apply_closes_book:
  assumes "round_ok rs res"
  shows "map rec_key (apply_actions rs (concat (map (close_acts rs) (kr_closed_trades res)))) = map rec_key rs"
    and "j < length rs \<Longrightarrow> rec_open (apply_actions rs (concat (map (close_acts rs) (kr_closed_trades res))) ! j)
      \<longleftrightarrow> rec_open (rs ! j) \<and> j \<notin> closed_idx rs res"
proof -
  have k: "\<forall>a\<in>set (concat (map (close_acts rs) (kr_closed_trades res))). a_kind a = AClose \<and> a_recorded a \<noteq> None"
    by (auto simp: close_acts_cases)
  show "map rec_key (apply_actions rs (concat (map (close_acts rs) (kr_closed_trades res)))) = map rec_key rs"
    by (rule apply_closes_keys [OF k])
  assume j: "j < length rs"
  show "rec_open (apply_actions rs (concat (map (close_acts rs) (kr_closed_trades res))) ! j)
      \<longleftrightarrow> rec_open (rs ! j) \<and> j \<notin> closed_idx rs res"
    using apply_closes_open [OF k j] close_recorded [of rs j res] by blast
qed

lemma filter_imageE:
  assumes "k \<in> f ` set (filter P xs)"
  obtains j where "j < length xs" and "P (xs ! j)" and "k = f (xs ! j)"
  using assms by (auto simp: in_set_conv_nth)

lemma filter_imageI: "j < length xs \<Longrightarrow> P (xs ! j) \<Longrightarrow> f (xs ! j) \<in> f ` set (filter P xs)"
  by simp

lemma round_keeps_sync:
  assumes ok: "round_ok rs res"
  shows "in_sync (apply_actions rs (reconcile res stamp rs replay_mode)) res"
proof -
  let ?cl = "apply_actions rs (concat (map (close_acts rs) (kr_closed_trades res)))"
  let ?bf = "filter (\<lambda>t. by_key rs (tkey t) = None) (kr_closed_trades res)"
  let ?op = "filter (\<lambda>p. by_key rs (pkey p) = None) (kr_open_positions res)"
  note wf = round_facts(2) [OF ok]
  note keys = apply_closes_book(1) [OF ok]
  have len: "length ?cl = length rs" using keys by (metis length_map)
  have nth: "rec_key (?cl ! j) = rec_key (rs ! j)" if "j < length rs" for j
    using keys that len by (metis nth_map)
  have d: "distinct (map tkey (kr_closed_trades res))" "distinct (map pkey (kr_open_positions res))"
    using wf by (simp_all only: wf_view_def distinct_append)
  have dis: "distinct (map rec_key (?cl @ map backfill_row ?bf @ map open_row ?op))"
    using round_facts(1) [OF ok] d view_disjoint [OF wf]
    by (auto simp: keys comp_def distinct_map_filter by_key_None)
  have opens: "rec_key ` set (filter rec_open ?cl) = pkey ` {p \<in> set (kr_open_positions res). by_key rs (pkey p) \<noteq> None}"
  proof (intro equalityI subsetI)
    fix k assume "k \<in> rec_key ` set (filter rec_open ?cl)"
    then obtain j where "j < length ?cl" "rec_open (?cl ! j)" "k = rec_key (?cl ! j)" by (rule filter_imageE)
    then have j: "j < length rs" "rec_open (rs ! j)" "j \<notin> closed_idx rs res" "k = rec_key (rs ! j)"
      using apply_closes_book(2) [OF ok, of j] nth [of j] by (simp_all add: len)
    then have "k \<in> pkey ` set (kr_open_positions res)" using round_facts(3) [OF ok j(1,2)] closed_idx_iff [OF ok] by blast
    moreover have "by_key rs k \<noteq> None" using j by (simp add: by_key_None)
    ultimately show "k \<in> pkey ` {p \<in> set (kr_open_positions res). by_key rs (pkey p) \<noteq> None}" by auto
  next
    fix k assume "k \<in> pkey ` {p \<in> set (kr_open_positions res). by_key rs (pkey p) \<noteq> None}"
    then obtain p i where p: "p \<in> set (kr_open_positions res)" "k = pkey p" and i: "by_key rs (pkey p) = Some i" by blast
    have "rec_open (?cl ! i)" "i < length ?cl" "rec_key (?cl ! i) = k"
      using recorded_position_open [OF ok p(1) i] by_key_SomeD [OF i] apply_closes_book(2) [OF ok, of i] nth [of i] p(2)
      by (simp_all add: len)
    then show "k \<in> rec_key ` set (filter rec_open ?cl)" using filter_imageI [of i ?cl rec_open rec_key] by simp
  qed
  have closeds: "rec_key ` set (filter (\<lambda>r. \<not> rec_open r) ?cl) = tkey ` {t \<in> set (kr_closed_trades res). by_key rs (tkey t) \<noteq> None}"
  proof (intro equalityI subsetI)
    fix k assume "k \<in> rec_key ` set (filter (\<lambda>r. \<not> rec_open r) ?cl)"
    then obtain j where "j < length ?cl" "\<not> rec_open (?cl ! j)" "k = rec_key (?cl ! j)" by (rule filter_imageE)
    then have j: "j < length rs" "\<not> rec_open (rs ! j) \<or> j \<in> closed_idx rs res" "k = rec_key (rs ! j)"
      using apply_closes_book(2) [OF ok, of j] nth [of j] by (simp_all add: len)
    then have "k \<in> tkey ` set (kr_closed_trades res)" using round_facts(4) [OF ok j(1)] closed_idx_iff [OF ok] by blast
    moreover have "by_key rs k \<noteq> None" using j by (simp add: by_key_None)
    ultimately show "k \<in> tkey ` {t \<in> set (kr_closed_trades res). by_key rs (tkey t) \<noteq> None}" by auto
  next
    fix k assume "k \<in> tkey ` {t \<in> set (kr_closed_trades res). by_key rs (tkey t) \<noteq> None}"
    then obtain t i where t: "t \<in> set (kr_closed_trades res)" "k = tkey t" and i: "by_key rs (tkey t) = Some i" by blast
    have ir: "i < length rs" "rec_key (rs ! i) = k" using by_key_SomeD [OF i] t(2) by simp_all
    then have "i \<in> closed_idx rs res" using closed_idx_iff [OF ok, of i] t by simp
    then have "\<not> rec_open (?cl ! i)" "i < length ?cl" "rec_key (?cl ! i) = k"
      using apply_closes_book(2) [OF ok ir(1)] nth [OF ir(1)] ir by (simp_all add: len)
    then show "k \<in> rec_key ` set (filter (\<lambda>r. \<not> rec_open r) ?cl)"
      using filter_imageI [of i ?cl "\<lambda>r. \<not> rec_open r" rec_key] by simp
  qed
  have split: "f ` {x \<in> A. P x} \<union> f ` {x \<in> A. \<not> P x} = f ` A" for f :: "'a \<Rightarrow> string \<times> canon" and A P by blast
  show ?thesis
    unfolding in_sync_def round_book [OF ok]
  proof (intro conjI dis)
    show "rec_key ` set (filter rec_open (?cl @ map backfill_row ?bf @ map open_row ?op)) = pkey ` set (kr_open_positions res)"
      by (simp add: image_Un opens filter_map comp_def image_image del: set_filter)
        (use split [of pkey "set (kr_open_positions res)" "\<lambda>p. by_key rs (pkey p) \<noteq> None"] in simp)
    show "rec_key ` set (filter (\<lambda>r. \<not> rec_open r) (?cl @ map backfill_row ?bf @ map open_row ?op)) = tkey ` set (kr_closed_trades res)"
      by (simp add: image_Un closeds filter_map comp_def image_image del: set_filter)
        (use split [of tkey "set (kr_closed_trades res)" "\<lambda>t. by_key rs (tkey t) \<noteq> None"] in simp)
  qed
qed

end
