(* ===== verification/Reconcile_Props.thy ===== *)
theory Reconcile_Props
  imports Reconcile_Sync
begin

text \<open>
  The safety of a reconcile round in every mode, live cutoffs and pending orders included: which
  recorded trades the actions touch, and what may be opened.
\<close>

section \<open>One action per recorded trade\<close>

definition targets :: "action list \<Rightarrow> nat list" where
  "targets as = concat (map (\<lambda>a. case a_recorded a of None \<Rightarrow> [] | Some i \<Rightarrow> [i]) as)"

lemma targets_simps [simp]:
  "targets [] = []" "targets (as @ bs) = targets as @ targets bs"
  "targets [mk_action k d t p r l pn] = (case r of None \<Rightarrow> [] | Some i \<Rightarrow> [i])"
  by (simp_all add: targets_def)

definition one_each :: "rstate \<Rightarrow> bool" where
  "one_each s \<longleftrightarrow> distinct (targets (rs_closes s @ rs_pending_closes s @ rs_refreshes s)) \<and>
     set (targets (rs_closes s @ rs_pending_closes s @ rs_refreshes s)) \<subseteq> set (rs_matched s) \<and>
     targets (rs_backfills s @ rs_opens s @ rs_pending_opens s) = []"

lemma close_pass_one_each:
  assumes "distinct (map tkey ts)"
  shows "distinct (targets (concat (map (close_acts rs) ts))) \<and>
    set (targets (concat (map (close_acts rs) ts))) \<subseteq> {i. i < length rs \<and> rec_key (rs ! i) \<in> tkey ` set ts} \<and>
    set (targets (concat (map (close_acts rs) ts))) \<subseteq> (\<Union>t\<in>set ts. close_matches rs t)"
  using assms
proof (induction ts)
  case (Cons t ts)
  show ?case
  proof (cases "by_key rs (tkey t)")
    case None
    then show ?thesis using Cons by (auto simp: close_acts_def)
  next
    case (Some i)
    let ?rest = "set (targets (concat (map (close_acts rs) ts)))"
    have head: "set (targets (close_acts rs t)) \<subseteq> close_matches rs t" "distinct (targets (close_acts rs t))"
      "set (targets (close_acts rs t)) \<subseteq> {i}"
      using Some by (auto simp: close_acts_def close_matches_def)
    have ih: "distinct (targets (concat (map (close_acts rs) ts)))"
      "?rest \<subseteq> {i. i < length rs \<and> rec_key (rs ! i) \<in> tkey ` set ts}" "?rest \<subseteq> (\<Union>t\<in>set ts. close_matches rs t)"
      using Cons by simp_all
    have "tkey t \<notin> tkey ` set ts" using Cons.prems by simp
    then have "i \<notin> ?rest" using ih(2) by_key_SomeD [OF Some] by (metis (mono_tags, lifting) mem_Collect_eq subsetD)
    then have "set (targets (close_acts rs t)) \<inter> ?rest = {}" using head(3) by blast
    moreover have "set (targets (close_acts rs t)) \<subseteq> {i. i < length rs \<and> rec_key (rs ! i) \<in> tkey ` set (t # ts)}"
      using head(3) by_key_SomeD [OF Some] by auto
    moreover have "?rest \<subseteq> {i. i < length rs \<and> rec_key (rs ! i) \<in> tkey ` set (t # ts)}" using ih(2) by auto
    moreover have "targets (concat (map (close_acts rs) (t # ts)))
        = targets (close_acts rs t) @ targets (concat (map (close_acts rs) ts))" by simp
    moreover have "(\<Union>u\<in>set (t # ts). close_matches rs u) = close_matches rs t \<union> (\<Union>u\<in>set ts. close_matches rs u)"
      by simp
    ultimately show ?thesis
      using ih(1,3) head(1,2) by (simp only: distinct_append set_append Un_least le_supI1 le_supI2 simp_thms)
  qed
qed simp

lemma targets_backfills: "targets (concat (map (backfill_acts c rs) ts)) = []"
  by (induction ts) (auto simp: backfill_acts_def)

lemma close_foldl_one_each:
  assumes "distinct (map tkey ts)"
  shows "one_each (foldl (close_one c rs) init_rstate ts)"
  using close_pass_one_each [OF assms]
  by (simp add: one_each_def close_pass_fields init_rstate_def targets_backfills)

lemma pending_close_one_each: "one_each s \<Longrightarrow> one_each (pending_close_one rs s p)"
  by (auto simp: one_each_def pending_close_one_def Let_def split: option.split)

lemma refresh_one_each: "one_each s \<Longrightarrow> i \<notin> set (rs_matched s) \<Longrightarrow> one_each (refresh_row s d t pos i)"
  by (auto simp: one_each_def refresh_row_def)

lemma position_one_each: "one_each s \<Longrightarrow> one_each (position_one res c rs s p)"
proof -
  assume s: "one_each s"
  then have "one_each (open_new res c s d pos)" for d pos by (auto simp: one_each_def open_new_def Let_def)
  with s refresh_one_each [OF s] show ?thesis
    unfolding position_one_def Let_def by (auto split: option.split)
qed

lemma pending_open_one_each: "one_each s \<Longrightarrow> one_each (pending_open_one res c rs stamp s p)"
  by (auto simp: one_each_def pending_open_one_def Let_def split: option.split)

lemma foldl_one_each: "(\<And>s x. one_each s \<Longrightarrow> one_each (f s x)) \<Longrightarrow> one_each s \<Longrightarrow> one_each (foldl f s xs)"
  by (induction xs arbitrary: s) auto

lemma run_passes_one_each:
  assumes "distinct (map tkey (kr_closed_trades res))"
  shows "one_each (run_passes res stamp rs c)"
  unfolding run_passes_def Let_def
  by (auto intro!: foldl_one_each pending_open_one_each position_one_each pending_close_one_each
      close_foldl_one_each [OF assms])

lemma open_slots_distinct: "distinct (map snd (open_slots rs))"
proof -
  let ?f = "\<lambda>acc i. let r = rs ! i; d = norm_direction (rt_direction r)
       in if rec_open r \<and> map_of acc d = None then acc @ [(d, i)] else acc"
  have "distinct (map snd (foldl ?f acc is))"
    if "distinct (map snd acc)" "distinct is" "snd ` set acc \<inter> set is = {}" for acc "is"
    using that
  proof (induction "is" arbitrary: acc)
    case (Cons j js)
    have "distinct (map snd (?f acc j)) \<and> snd ` set (?f acc j) \<inter> set js = {}"
      using Cons.prems by (auto simp: Let_def)
    then show ?case using Cons.IH [of "?f acc j"] Cons.prems(2) by simp
  qed simp
  from this [of "[]" "[0 ..< length rs]"] show ?thesis by (simp add: open_slots_def)
qed

lemma orphan_targets:
  "distinct (map snd ps) \<Longrightarrow> distinct (targets (concat (map (orphan_for res c rs s) ps))) \<and>
    set (targets (concat (map (orphan_for res c rs s) ps))) \<subseteq> snd ` set ps - set (rs_matched s)"
proof (induction ps)
  case (Cons p ps)
  then show ?case by (auto simp: orphan_for_def Let_def)
qed simp

text \<open>In every mode no recorded trade is the target of two actions of one round: it is closed, refreshed,
  adopted or cleaned up, but never twice, so applying a round cannot book one exit two times.\<close>

lemma one_action_per_recorded_trade:
  assumes "distinct (map tkey (kr_closed_trades res))"
  shows "distinct (targets (reconcile res stamp rs c))"
proof -
  let ?s = "run_passes res stamp rs c"
  have "one_each ?s" by (rule run_passes_one_each [OF assms])
  then show ?thesis
    using orphan_targets [OF open_slots_distinct, of res c rs ?s rs]
    by (auto simp: reconcile_def Let_def one_each_def)
qed

definition demo_view :: kernel_result where
  "demo_view = \<lparr>kr_closed_trades = [], kr_open_positions = [], kr_closed_gross = [], kr_pending_entries = [],
     kr_pending_exits = [(Long, \<lparr>pe_direction = Long, pe_entry_time = ''2024-01-01 00:00:00'', pe_entry_price = 100,
       pe_size_fraction = 1, pe_exit_reason = Signal, pe_signal_time = ''2024-01-01 01:00:00''\<rparr>)],
     kr_ec = default_controls (1/100), kr_exit_signals = []\<rparr>"

definition demo_book :: "rec_trade list" where
  "demo_book = [\<lparr>rt_direction = ''LONG'', rt_entry_time = ''2024-01-01T00:00:00+00:00'', rt_status = ''open''\<rparr>,
    \<lparr>rt_direction = ''short'', rt_entry_time = ''2024-01-01T00:00:00+00:00'', rt_status = []\<rparr>]"

definition live_cut :: cutoffs where
  "live_cut = \<lparr>recent_cutoff = Some ''2024-01-01'', window_start = None, fresh_cutoff = Some ''2024-01-01 02:00''\<rparr>"

section \<open>What may be opened\<close>

definition open_allowed :: "rec_trade list \<Rightarrow> cutoffs \<Rightarrow> action \<Rightarrow> bool" where
  "open_allowed rs c a \<longleftrightarrow> key (a_direction a) (a_entry_time a) \<notin> rec_key ` set rs \<and> recent c (a_entry_time a) \<and>
     (if fresh_cutoff c = None then \<not> a_late_entry a \<and> \<not> a_pending a
      else a_late_entry a \<and> (a_pending a \<or> fresh c (a_entry_time a)))"

definition opens_ok :: "rec_trade list \<Rightarrow> cutoffs \<Rightarrow> rstate \<Rightarrow> bool" where
  "opens_ok rs c s \<longleftrightarrow> (\<forall>a\<in>set (rs_opens s @ rs_pending_opens s). open_allowed rs c a) \<and>
     (\<forall>a\<in>set (rs_closes s @ rs_pending_closes s @ rs_backfills s @ rs_refreshes s). a_kind a \<noteq> AOpen)"

lemma close_one_opens_ok: "opens_ok rs c s \<Longrightarrow> opens_ok rs c (close_one c rs s kc)"
  by (auto simp: opens_ok_def close_one_def Let_def split: option.split)

lemma pending_close_opens_ok: "opens_ok rs c s \<Longrightarrow> opens_ok rs c (pending_close_one rs s p)"
  by (auto simp: opens_ok_def pending_close_one_def Let_def split: option.split)

lemma refresh_opens_ok: "opens_ok rs c s \<Longrightarrow> opens_ok rs c (refresh_row s d t pos i)"
  by (auto simp: opens_ok_def refresh_row_def)

lemma open_new_opens_ok:
  assumes "opens_ok rs c s" and "by_key rs (key (direction_word d) (p_entry_time pos)) = None"
    and "recent c (p_entry_time pos)"
  shows "opens_ok rs c (open_new res c s d pos)"
  using assms by (auto simp: opens_ok_def open_new_def open_allowed_def Let_def by_key_None)

lemma position_opens_ok: "opens_ok rs c s \<Longrightarrow> opens_ok rs c (position_one res c rs s p)"
  unfolding position_one_def Let_def
  by (auto intro: refresh_opens_ok open_new_opens_ok split: option.split)

lemma pending_open_opens_ok:
  "fresh_cutoff c \<noteq> None \<Longrightarrow> opens_ok rs c s \<Longrightarrow> opens_ok rs c (pending_open_one res c rs stamp s p)"
  by (auto simp: opens_ok_def pending_open_one_def open_allowed_def Let_def by_key_None split: option.split)

lemma foldl_opens_ok: "(\<And>s x. opens_ok rs c s \<Longrightarrow> opens_ok rs c (f s x)) \<Longrightarrow> opens_ok rs c s \<Longrightarrow> opens_ok rs c (foldl f s xs)"
  by (induction xs arbitrary: s) auto

lemma run_passes_opens_ok: "opens_ok rs c (run_passes res stamp rs c)"
proof -
  have "opens_ok rs c init_rstate" by (simp add: opens_ok_def init_rstate_def)
  then show ?thesis
    unfolding run_passes_def Let_def
    by (auto intro!: foldl_opens_ok pending_open_opens_ok position_opens_ok pending_close_opens_ok close_one_opens_ok)
qed

text \<open>C16: An open action is never for a position the book already records, open or closed (a manual close is
  never reverted), never for an entry before tracking began, and in the live mode only at the current
  mark for a fresh entry or for the pending order of the forming bar.\<close>

theorem opens_are_allowed:
  assumes "a \<in> set (reconcile res stamp rs c)" and "a_kind a = AOpen"
  shows "open_allowed rs c a"
proof -
  let ?s = "run_passes res stamp rs c"
  have "a \<notin> set (concat (map (orphan_for res c rs ?s) (open_slots rs)))"
    using assms(2) by (auto simp: orphan_for_def Let_def split: if_splits)
  then show ?thesis
    using assms run_passes_opens_ok [of rs c res stamp]
    by (auto simp: reconcile_def Let_def opens_ok_def)
qed

definition demo_open_view :: kernel_result where
  "demo_open_view = demo_view\<lparr>kr_pending_exits := [],
     kr_pending_entries := [(Long, \<lparr>pn_direction = Long, pn_signal_time = ''2024-01-01 02:00:00'', pn_atr_value = None, pn_regime = []\<rparr>)]\<rparr>"

theorem opens_are_allowed_witness:
  "\<exists>a\<in>set (reconcile demo_open_view (\<lambda>_. ''2024-01-01 03:00:00'') [] live_cut).
     a_kind a = AOpen \<and> a_late_entry a \<and> open_allowed [] live_cut a"
proof -
  let ?r = "reconcile demo_open_view (\<lambda>_. ''2024-01-01 03:00:00'') [] live_cut"
  have "map (\<lambda>a. (a_kind a, a_late_entry a)) ?r = [(AOpen, True)]" by code_simp
  then obtain a where "a \<in> set ?r" "a_kind a = AOpen" "a_late_entry a" by (auto simp: map_eq_Cons_conv)
  with opens_are_allowed [of a] show ?thesis by blast
qed

end
