(* ===== verification/Paper_Parity.thy ===== *)
theory Paper_Parity
  imports Kernel_Walk Reconcile_Sync
begin

text \<open>
  Paper trading equals the backtest: every trade and position of a walk is identified by its
  direction and entry bar, these identities are never lost from one bar to the next, and so the
  book a scanner keeps by applying \<open>reconcile\<close> after each of its scans, however irregular, is the
  book of the kernel's own replay.
\<close>

section \<open>Where trades and positions come from\<close>

definition tpair :: "trade \<Rightarrow> direction \<times> nat" where
  "tpair t = (t_direction t, t_entry_bar t)"

definition apairs :: "kstate \<Rightarrow> (direction \<times> nat) set" where
  "apairs s = {(d, p_entry_bar pos) | d pos. k_active s d = Some pos}"

definition pairs :: "kstate \<Rightarrow> (direction \<times> nat) set" where
  "pairs s = tpair ` set (k_trades s) \<union> apairs s"

definition sourced :: "row list \<Rightarrow> nat \<Rightarrow> kstate \<Rightarrow> bool" where
  "sourced rows n s \<longleftrightarrow> (\<forall>p\<in>pairs s. snd p < n) \<and>
     (\<forall>t\<in>set (k_trades s). t_entry_time t = r_time (rows ! t_entry_bar t)) \<and>
     (\<forall>d pos. k_active s d = Some pos \<longrightarrow> p_entry_time pos = r_time (rows ! p_entry_bar pos)) \<and>
     distinct (map tpair (k_trades s)) \<and> tpair ` set (k_trades s) \<inter> apairs s = {}"

lemma sourced_mono: "sourced rows n s \<Longrightarrow> n \<le> m \<Longrightarrow> sourced rows m s"
  by (fastforce simp: sourced_def)

lemma apairs_upd: "apairs (s\<lparr>k_active := (k_active s)(d := None)\<rparr>) = {q \<in> apairs s. fst q \<noteq> d}"
  by (auto simp: apairs_def)

lemma close_pairs:
  assumes "k_active s d = Some pos" and "0 < p_entry_price pos"
  shows "pairs (close_position cfg s pos d px n time reason ao) = pairs s"
    and "sourced rows m s \<Longrightarrow> sourced rows m (close_position cfg s pos d px n time reason ao)"
proof -
  obtain t g where tg: "make_trade cfg pos d px n time reason False = (t, g)" by fastforce
  let ?t = "t\<lparr>t_exit_at_open := ao\<rparr>"
  let ?s = "close_position cfg s pos d px n time reason ao"
  have eq: "?s = s\<lparr>k_active := (k_active s)(d := None), k_trades := k_trades s @ [?t], k_gross := k_gross s @ [g],
      k_equity := max 0 (k_equity s + t_pnl_usd ?t)\<rparr>"
    using assms(2) by (simp add: close_position_eq tg Let_def)
  have tp: "tpair ?t = (d, p_entry_bar pos)" using make_trade_fields [OF tg] by (simp add: tpair_def)
  have ap: "apairs s = insert (d, p_entry_bar pos) {q \<in> apairs s. fst q \<noteq> d}" using assms(1) by (auto simp: apairs_def)
  have ap': "apairs ?s = {q \<in> apairs s. fst q \<noteq> d}" unfolding eq by (auto simp: apairs_def)
  have tr: "k_trades ?s = k_trades s @ [?t]" unfolding eq by simp
  show p: "pairs ?s = pairs s" unfolding pairs_def ap' tr using ap tp by auto
  assume src: "sourced rows m s"
  have "tpair ?t \<notin> tpair ` set (k_trades s)" using src ap tp by (auto simp: sourced_def)
  moreover have "t_entry_time ?t = r_time (rows ! t_entry_bar ?t)"
    using src assms(1) make_trade_fields [OF tg] by (simp add: sourced_def)
  ultimately show "sourced rows m ?s"
    using src p ap unfolding sourced_def ap' tr by (auto simp: tp eq)
qed

lemma foldl_pair_inv:
  assumes "\<And>s x. x \<in> set xs \<Longrightarrow> P s \<Longrightarrow> P (f s x) \<and> pairs s \<subseteq> pairs (f s x)" and "P s"
  shows "P (foldl f s xs) \<and> pairs s \<subseteq> pairs (foldl f s xs)"
  using assms
proof (induction xs arbitrary: s)
  case (Cons x xs)
  have one: "P (f s x) \<and> pairs s \<subseteq> pairs (f s x)" by (rule Cons.prems(1)) (use Cons.prems(2) in simp_all)
  have "P (foldl f (f s x) xs) \<and> pairs (f s x) \<subseteq> pairs (foldl f (f s x) xs)"
    by (rule Cons.IH [OF Cons.prems(1)]) (use one in simp_all)
  with one show ?case by (simp only: foldl_Cons) blast
qed simp

lemma exit_one_pairs:
  assumes "kinv cfg n s \<and> sourced rows m s"
  shows "(kinv cfg n (exit_one cfg prev cur n s d) \<and> sourced rows m (exit_one cfg prev cur n s d)) \<and>
    pairs s \<subseteq> pairs (exit_one cfg prev cur n s d)"
proof (cases "k_active s d")
  case (Some pos)
  have "0 < p_entry_price pos" using assms Some by (auto simp: kinv_def wf_position_def)
  then show ?thesis
    using assms Some close_pairs [OF Some] exit_one_kinv by (auto simp: exit_one_def intro: kinv_close split: option.split)
qed (use assms in \<open>simp add: exit_one_def\<close>)

lemma protect_one_pairs:
  assumes "kinv cfg n s \<and> sourced rows m s"
  shows "(kinv cfg n (protect_one cfg cur n s d) \<and> sourced rows m (protect_one cfg cur n s d)) \<and>
    pairs s \<subseteq> pairs (protect_one cfg cur n s d)"
proof (cases "k_active s d")
  case (Some pos)
  have price: "0 < p_entry_price pos" using assms Some by (auto simp: kinv_def wf_position_def)
  have t: "p_entry_time (ratchet d cur pos) = p_entry_time pos" by (simp add: ratchet_def)
  have ap: "apairs (s\<lparr>k_active := (k_active s)(d \<mapsto> ratchet d cur pos)\<rparr>) = apairs s"
    using Some by (auto simp: apairs_def)
  have keep: "sourced rows m (s\<lparr>k_active := (k_active s)(d \<mapsto> ratchet d cur pos)\<rparr>) \<and>
      pairs (s\<lparr>k_active := (k_active s)(d \<mapsto> ratchet d cur pos)\<rparr>) = pairs s"
    using assms Some t unfolding sourced_def pairs_def ap by auto
  show ?thesis
    using assms Some close_pairs [OF Some price] keep protect_one_kinv [of cfg n s cur d]
    by (auto simp: protect_one_def split: option.splits)
qed (use assms in \<open>simp add: protect_one_def\<close>)

lemma open_one_pairs:
  assumes "sourced rows (Suc n) s" and "\<forall>t\<in>set (k_trades s). t_entry_bar t < n"
    and "r_time cur = r_time (rows ! n)" and "\<forall>pos. k_active s (fst (fst c)) = Some pos \<longrightarrow> p_entry_bar pos = n"
  shows "sourced rows (Suc n) (open_one cfg prev cur n a s c) \<and> pairs s \<subseteq> pairs (open_one cfg prev cur n a s c)"
proof -
  obtain d sd req sf where c: "c = ((d, sd, req), sf)" by (metis surj_pair)
  show ?thesis
  proof (cases "sf \<le> 0")
    case False
    let ?p = "new_position cfg prev cur n a (k_equity s) d sd req sf"
    let ?s = "s\<lparr>k_active := (k_active s)(d \<mapsto> ?p)\<rparr>"
    have p: "p_entry_bar ?p = n" "p_entry_time ?p = r_time (rows ! n)"
      using assms(3) by (simp_all add: new_position_def Let_def)
    have ap: "apairs ?s = insert (d, n) (apairs s)"
      using p(1) assms(4) by (auto simp: apairs_def c split: if_splits)
    have "(d, n) \<notin> tpair ` set (k_trades s)" using assms(2) by (auto simp: tpair_def)
    then have "sourced rows (Suc n) ?s"
      using assms(1) p unfolding sourced_def pairs_def ap by auto
    then show ?thesis using False by (auto simp: c open_one_def pairs_def ap)
  qed (use assms in \<open>simp add: c open_one_def\<close>)
qed

lemma open_one_active:
  assumes "\<forall>pos. k_active s d = Some pos \<longrightarrow> p_entry_bar pos = n"
  shows "\<forall>pos. k_active (open_one cfg prev cur n a s c) d = Some pos \<longrightarrow> p_entry_bar pos = n"
  using assms by (auto simp: open_one_def new_position_def Let_def split: prod.splits)

lemma open_all_pairs:
  assumes "sourced rows (Suc n) s" and "\<forall>t\<in>set (k_trades s). t_entry_bar t < n"
    and "r_time cur = r_time (rows ! n)"
    and "\<forall>c\<in>set cs. \<forall>pos. k_active s (fst (fst c)) = Some pos \<longrightarrow> p_entry_bar pos = n"
  shows "sourced rows (Suc n) (foldl (open_one cfg prev cur n a) s cs) \<and>
    pairs s \<subseteq> pairs (foldl (open_one cfg prev cur n a) s cs)"
  using assms
proof (induction cs arbitrary: s)
  case (Cons c cs)
  let ?s = "open_one cfg prev cur n a s c"
  have one: "sourced rows (Suc n) ?s" "pairs s \<subseteq> pairs ?s"
    using open_one_pairs [of rows n s cur c] Cons.prems by auto
  have "\<forall>c'\<in>set cs. \<forall>pos. k_active ?s (fst (fst c')) = Some pos \<longrightarrow> p_entry_bar pos = n"
    using open_one_active Cons.prems(4) by (metis list.set_intros(2))
  with Cons.IH [of ?s] one Cons.prems show ?case by auto
qed simp

lemma entry_phase_pairs:
  assumes "sourced rows n s" and "r_time cur = r_time (rows ! n)"
  shows "sourced rows (Suc n) (entry_phase cfg prev cur n a s) \<and> pairs s \<subseteq> pairs (entry_phase cfg prev cur n a s)"
proof -
  let ?c = "entry_candidates cfg prev cur a s"
  have up: "sourced rows (Suc n) s" by (rule sourced_mono [OF assms(1)]) simp
  have bars: "\<forall>t\<in>set (k_trades s). t_entry_bar t < n"
  proof
    fix t assume "t \<in> set (k_trades s)"
    then have "tpair t \<in> pairs s" by (simp add: pairs_def)
    with assms(1) have "snd (tpair t) < n" by (simp add: sourced_def)
    then show "t_entry_bar t < n" by (simp add: tpair_def)
  qed
  have none: "k_active s (fst x) = None" if "x \<in> set ?c" for x
    using that by (auto simp: entry_candidates_def Let_def)
  have act: "k_active s (fst (fst c)) = None" if "c \<in> set (zip ?c al)" for c and al :: "rat list"
    using set_zip_leftD [of "fst c" "snd c" ?c al] that none by simp
  show ?thesis
    unfolding entry_phase_def Let_def by (rule open_all_pairs [OF up bars assms(2)], intro ballI allI impI, drule act, simp)
qed

lemma kernel_step_pairs:
  assumes "kinv cfg n s" and "sourced rows n s" and "wf_controls (c_ec cfg)" and "nat (c_warmup cfg) < n"
  shows "sourced rows (Suc n) (kernel_step cfg rows atrs s n) \<and> pairs s \<subseteq> pairs (kernel_step cfg rows atrs s n)"
proof (cases "r_open (rows ! n) \<le> 0")
  case True
  have "sourced rows (Suc n) s" by (rule sourced_mono [OF assms(2)]) simp
  with True show ?thesis by (simp add: kernel_step_def Let_def)
next
  case False
  let ?prev = "rows ! (n - 1)" and ?cur = "rows ! n"
  let ?s1 = "exit_phase cfg ?prev ?cur n s"
  let ?s2 = "entry_phase cfg ?prev ?cur n (atr_at cfg atrs (n - 1)) ?s1"
  have one: "(kinv cfg n ?s1 \<and> sourced rows n ?s1) \<and> pairs s \<subseteq> pairs ?s1"
    unfolding exit_phase_def
    by (rule foldl_pair_inv [where P = "\<lambda>s. kinv cfg n s \<and> sourced rows n s"]) (rule exit_one_pairs, assumption, use assms in simp)
  then have two: "sourced rows (Suc n) ?s2 \<and> pairs ?s1 \<subseteq> pairs ?s2"
    by (intro entry_phase_pairs) auto
  have k2: "kinv cfg n ?s2" by (rule entry_phase_kinv) (use one assms False in auto)
  have "(kinv cfg n (protect_phase cfg ?cur n ?s2) \<and> sourced rows (Suc n) (protect_phase cfg ?cur n ?s2)) \<and>
      pairs ?s2 \<subseteq> pairs (protect_phase cfg ?cur n ?s2)"
    unfolding protect_phase_def
    by (rule foldl_pair_inv [where P = "\<lambda>s. kinv cfg n s \<and> sourced rows (Suc n) s"]) (rule protect_one_pairs, assumption, use k2 two in simp)
  with one two False show ?thesis by (auto simp: kernel_step_def Let_def)
qed

section \<open>The walk over a growing history\<close>

definition walk_to :: "kcfg \<Rightarrow> row list \<Rightarrow> nat \<Rightarrow> kstate" where
  "walk_to cfg rows m = foldl (kernel_step cfg rows (compute_atr_series rows (ec_atr_period (c_ec cfg))))
     (init_state cfg) [Suc (nat (c_warmup cfg)) ..< m]"

lemma walk_to_take:
  assumes "c_funding cfg = None"
  shows "walk cfg (take m rows) = walk_to cfg rows (min m (length rows))"
proof -
  have "cut_funding m cfg = cfg" using assms by (simp add: cut_funding_def)
  with walk_prefix [of m cfg rows] show ?thesis by (simp add: walk_to_def)
qed

lemma sourced_init: "sourced rows n (init_state cfg)"
  by (simp add: sourced_def pairs_def apairs_def init_state_def)

lemma walk_to_inv:
  assumes "wf_controls (c_ec cfg)"
  shows "kinv cfg (m - 1) (walk_to cfg rows m) \<and> sourced rows m (walk_to cfg rows m)"
proof (induction m)
  case (Suc m)
  show ?case
  proof (cases "Suc (nat (c_warmup cfg)) \<le> m")
    case True
    have k: "kinv cfg m (walk_to cfg rows m)" by (rule kinv_mono [OF conjunct1 [OF Suc]]) simp
    from True show ?thesis
      using kernel_step_kinv [OF k assms] kernel_step_pairs [OF k conjunct2 [OF Suc] assms]
      by (simp add: walk_to_def)
  qed (simp add: walk_to_def kinv_init sourced_init)
qed (simp add: walk_to_def kinv_init sourced_init)

lemma walk_to_grows:
  assumes "wf_controls (c_ec cfg)" and "m \<le> k"
  shows "pairs (walk_to cfg rows m) \<subseteq> pairs (walk_to cfg rows k) \<and>
    tpair ` set (k_trades (walk_to cfg rows m)) \<subseteq> tpair ` set (k_trades (walk_to cfg rows k))"
  using assms(2)
proof (induction k rule: dec_induct)
  case (step k)
  show ?case
  proof (cases "Suc (nat (c_warmup cfg)) \<le> k")
    case True
    have ki: "kinv cfg k (walk_to cfg rows k)"
      by (rule kinv_mono [OF conjunct1 [OF walk_to_inv [OF assms(1)]]]) simp
    have "walk_to cfg rows (Suc k) = kernel_step cfg rows (compute_atr_series rows (ec_atr_period (c_ec cfg))) (walk_to cfg rows k) k"
      using True by (simp add: walk_to_def)
    then have p: "pairs (walk_to cfg rows k) \<subseteq> pairs (walk_to cfg rows (Suc k))"
      and t: "set (k_trades (walk_to cfg rows k)) \<subseteq> set (k_trades (walk_to cfg rows (Suc k)))"
      using kernel_step_pairs [OF ki conjunct2 [OF walk_to_inv [OF assms(1)]] assms(1)] True
        set_mono_prefix [OF step_trades] by simp_all
    from p image_mono [OF t, of tpair] step.IH show ?thesis by (meson subset_trans)
  qed (use step in \<open>simp add: walk_to_def\<close>)
qed simp

section \<open>The view of a prefix\<close>

definition bkey :: "row list \<Rightarrow> direction \<times> nat \<Rightarrow> string \<times> canon" where
  "bkey rows p = key (direction_word (fst p)) (r_time (rows ! snd p))"

definition distinct_bars :: "row list \<Rightarrow> bool" where
  "distinct_bars rows \<longleftrightarrow> distinct (map (\<lambda>r. canonical_ts (r_time r)) rows)"

lemma bkey_inj:
  assumes "distinct_bars rows" and "bkey rows p = bkey rows q" and "snd p < length rows" and "snd q < length rows"
  shows "p = q"
proof -
  have "fst p = fst q" using arg_cong [OF assms(2), of fst] by (simp add: bkey_def)
  moreover have "canonical_ts (r_time (rows ! snd p)) = canonical_ts (r_time (rows ! snd q))"
    using assms(2) by (simp add: bkey_def key_def)
  then have "snd p = snd q"
    using assms(1,3,4) by (simp add: distinct_bars_def distinct_conv_nth) metis
  ultimately show ?thesis by (simp add: prod_eq_iff)
qed

lemma opens_mem:
  "(d, pos) \<in> set (concat (map (\<lambda>d. case f d of None \<Rightarrow> [] | Some x \<Rightarrow> [(d, x)]) ds)) \<longleftrightarrow> d \<in> set ds \<and> f d = Some pos"
  by (induction ds) (auto split: option.splits)

lemma opens_distinct:
  "distinct ds \<Longrightarrow> distinct (map fst (concat (map (\<lambda>d. case f d of None \<Rightarrow> [] | Some x \<Rightarrow> [(d, x)]) ds)))"
  by (induction ds) (auto split: option.splits)

lemma view_fields:
  assumes "c_funding cfg = None" and "m \<le> length rows"
  shows "kr_closed_trades (simulate cfg (take m rows)) = k_trades (walk_to cfg rows m)"
    and "kr_open_positions (simulate cfg (take m rows)) =
      concat (map (\<lambda>d. case k_active (walk_to cfg rows m) d of None \<Rightarrow> [] | Some x \<Rightarrow> [(d, x)]) (remdups (c_allowed_modes cfg)))"
  using walk_to_take [OF assms(1), of m rows] assms(2)
  by (simp_all add: simulate_def Let_def min_absorb1)

lemma view_keys:
  assumes "wf_controls (c_ec cfg)" and "c_funding cfg = None" and "m \<le> length rows"
  shows "t \<in> set (kr_closed_trades (simulate cfg (take m rows))) \<Longrightarrow> tkey t = bkey rows (tpair t)"
    and "p \<in> set (kr_open_positions (simulate cfg (take m rows))) \<Longrightarrow> pkey p = bkey rows (fst p, p_entry_bar (snd p))"
    and "tkey ` set (kr_closed_trades (simulate cfg (take m rows))) = bkey rows ` tpair ` set (k_trades (walk_to cfg rows m))"
    and "pkey ` set (kr_open_positions (simulate cfg (take m rows))) = bkey rows ` apairs (walk_to cfg rows m)"
proof -
  let ?w = "walk_to cfg rows m"
  let ?r = "simulate cfg (take m rows)"
  have src: "sourced rows m ?w" and ki: "kinv cfg (m - 1) ?w" using walk_to_inv [OF assms(1)] by auto
  have opn: "(d, pos) \<in> set (kr_open_positions ?r) \<longleftrightarrow> k_active ?w d = Some pos" for d pos
    unfolding view_fields(2) [OF assms(2,3)] opens_mem using ki by (auto simp: kinv_def)
  show t: "tkey t = bkey rows (tpair t)" if "t \<in> set (kr_closed_trades ?r)" for t
    using that src by (simp add: view_fields(1) [OF assms(2,3)] sourced_def tkey_def bkey_def tpair_def)
  show p: "pkey p = bkey rows (fst p, p_entry_bar (snd p))" if "p \<in> set (kr_open_positions ?r)" for p
    using that opn [of "fst p" "snd p"] src by (simp add: sourced_def pkey_def bkey_def)
  show "tkey ` set (kr_closed_trades ?r) = bkey rows ` tpair ` set (k_trades ?w)"
    using t by (simp add: view_fields(1) [OF assms(2,3)] image_image)
  have "apairs ?w = (\<lambda>p. (fst p, p_entry_bar (snd p))) ` set (kr_open_positions ?r)"
    using opn by (force simp: apairs_def)
  then show "pkey ` set (kr_open_positions ?r) = bkey rows ` apairs ?w" using p by (simp add: image_image)
qed

lemma simulate_wf_view:
  assumes "wf_controls (c_ec cfg)" and "c_funding cfg = None" and "m \<le> length rows" and "distinct_bars rows"
  shows "wf_view (simulate cfg (take m rows))"
proof -
  let ?w = "walk_to cfg rows m"
  let ?r = "simulate cfg (take m rows)"
  note v = view_keys [OF assms(1-3)]
  have src: "sourced rows m ?w" and ki: "kinv cfg (m - 1) ?w" using walk_to_inv [OF assms(1)] by auto
  have bnd: "p \<in> pairs ?w \<Longrightarrow> snd p < length rows" for p
    using src assms(3) unfolding sourced_def by (meson less_le_trans)
  have inj: "inj_on (bkey rows) (pairs ?w)"
    by (rule inj_onI) (rule bkey_inj [OF assms(4)], auto intro: bnd)
  have "distinct (map (bkey rows) (map tpair (k_trades ?w)))"
    unfolding distinct_map [of "bkey rows"]
    using src inj_on_subset [OF inj] by (auto simp: sourced_def pairs_def)
  then have dt: "distinct (map tkey (kr_closed_trades ?r))"
    using v(1) by (simp add: view_fields(1) [OF assms(2,3)] comp_def cong: map_cong)
  have df: "distinct (map fst (kr_open_positions ?r))"
    unfolding view_fields(2) [OF assms(2,3)] by (rule opens_distinct) simp
  have "map (direction_word \<circ> fst) (kr_open_positions ?r) = map fst (map pkey (kr_open_positions ?r))"
    by (simp add: pkey_def)
  moreover have "distinct (map (direction_word \<circ> fst) (kr_open_positions ?r))"
    using df by (simp add: distinct_map comp_def inj_on_def)
  ultimately have dp: "distinct (map pkey (kr_open_positions ?r))" by (metis distinct_map)
  have "tkey ` set (kr_closed_trades ?r) \<inter> pkey ` set (kr_open_positions ?r) = {}"
    unfolding v(3,4) using src inj_on_image_Int [OF inj, of "tpair ` set (k_trades ?w)" "apairs ?w"]
    by (simp add: sourced_def pairs_def)
  moreover have "\<forall>t\<in>set (kr_closed_trades ?r). \<not> t_open_at_end t"
    using ki by (simp add: view_fields(1) [OF assms(2,3)] kinv_def wf_trade_def)
  ultimately show ?thesis using dt df dp by (simp add: wf_view_def)
qed

lemma simulate_advances:
  assumes "wf_controls (c_ec cfg)" and "c_funding cfg = None" and "k \<le> m" and "m \<le> length rows"
  shows "advances (simulate cfg (take k rows)) (simulate cfg (take m rows))"
proof -
  have k: "k \<le> length rows" using assms by simp
  note g = walk_to_grows [OF assms(1,3), of rows]
  have "bkey rows ` tpair ` set (k_trades (walk_to cfg rows k)) \<subseteq> bkey rows ` tpair ` set (k_trades (walk_to cfg rows m))"
    using g by (intro image_mono [of _ _ "bkey rows"]) simp
  moreover have "bkey rows ` apairs (walk_to cfg rows k) \<subseteq> bkey rows ` pairs (walk_to cfg rows m)"
    using g by (intro image_mono) (auto simp: pairs_def)
  ultimately show ?thesis
    unfolding advances_def view_keys(3,4) [OF assms(1,2) k] view_keys(3,4) [OF assms(1,2,4)]
    by (simp add: pairs_def image_Un)
qed

section \<open>The scanner's loop\<close>

text \<open>One scan: the kernel replays the first \<open>n\<close> bars and the actions of \<open>reconcile\<close> are applied.\<close>

definition scan :: "kcfg \<Rightarrow> (direction \<Rightarrow> string) \<Rightarrow> row list \<Rightarrow> rec_trade list \<Rightarrow> nat \<Rightarrow> rec_trade list" where
  "scan cfg stamp rows book n = apply_actions book (reconcile (simulate cfg (take n rows)) stamp book replay_mode)"

definition scans :: "kcfg \<Rightarrow> (direction \<Rightarrow> string) \<Rightarrow> row list \<Rightarrow> nat list \<Rightarrow> rec_trade list" where
  "scans cfg stamp rows ns = foldl (scan cfg stamp rows) [] ns"

lemma scan_in_sync:
  assumes "wf_controls (c_ec cfg)" and "c_funding cfg = None" and "distinct_bars rows"
    and "k \<le> m" and "m \<le> length rows" and "in_sync book (simulate cfg (take k rows))"
  shows "in_sync (scan cfg stamp rows book m) (simulate cfg (take m rows))"
proof -
  have "round_ok book (simulate cfg (take m rows))"
    unfolding round_ok_def
    using assms simulate_wf_view [OF assms(1,2) _ assms(3)] simulate_advances [OF assms(1,2,4,5)]
    by (metis le_trans)
  then show ?thesis unfolding scan_def by (rule round_keeps_sync)
qed

lemma simulate_empty: "kr_closed_trades (simulate cfg []) = [] \<and> kr_open_positions (simulate cfg []) = []"
  by (auto simp: simulate_def Let_def walk_def init_state_def)

lemma scans_in_sync:
  assumes "wf_controls (c_ec cfg)" and "c_funding cfg = None" and "distinct_bars rows"
    and "sorted ns" and "\<forall>n\<in>set ns. n \<le> length rows"
  shows "in_sync (scans cfg stamp rows ns) (simulate cfg (take (last (0 # ns)) rows))"
  using assms(4,5)
proof (induction ns rule: rev_induct)
  case Nil
  show ?case by (simp add: scans_def in_sync_def simulate_empty)
next
  case (snoc n ns)
  have "last (0 # ns) \<le> n" using snoc.prems(1) by (auto simp: sorted_append)
  moreover have "in_sync (scans cfg stamp rows ns) (simulate cfg (take (last (0 # ns)) rows))"
    using snoc by (simp add: sorted_append)
  ultimately have "in_sync (scan cfg stamp rows (scans cfg stamp rows ns) n) (simulate cfg (take n rows))"
    using scan_in_sync [OF assms(1-3)] snoc.prems(2) by simp
  then show ?case by (simp add: scans_def)
qed

end
