(* ===== verification/Gauntlet.thy ===== *)
theory Gauntlet
  imports Prelude "HOL-Library.Product_Lexorder" "HOL-Library.List_Lexorder" "HOL-Library.Char_ord"
begin

text \<open>
  \<open>gauntlet/models.py\<close>, \<open>definition.py\<close>, \<open>store.py\<close>, \<open>engine.py\<close> and the status functions of
  \<open>status.py\<close>: the validation workflow of a strategy as rows of steps, and the operations that
  create, claim, complete, block, retry, recover, re-queue, drain, cancel and reset them. A time
  is a number of microseconds; the JSON columns hold parsed values; each operation runs in one
  transaction and so is one function on the tables.
\<close>

section \<open>The tables\<close>

datatype step_status = StPending | StQueued | StRunning | StPassed | StFailedGate | StBlockedData
  | StBlockedRuntime | StBlockedOperator | StSkipped | StCancelled

datatype wf_status = WfPending | WfRunning | WfPassed | WfFailedGate | WfBlockedData
  | WfBlockedRuntime | WfBlockedOperator | WfCancelled

definition STEP_TERMINAL_STATUSES :: "step_status list" where
  "STEP_TERMINAL_STATUSES = [StPassed, StFailedGate, StBlockedData, StBlockedRuntime, StBlockedOperator,
     StSkipped, StCancelled]"

definition RETRYABLE_STEP_STATUSES :: "step_status list" where
  "RETRYABLE_STEP_STATUSES = [StBlockedData, StBlockedRuntime]"

definition WORKFLOW_TERMINAL_STATUSES :: "wf_status list" where
  "WORKFLOW_TERMINAL_STATUSES = [WfPassed, WfFailedGate, WfCancelled]"

definition step_status_word :: "step_status \<Rightarrow> string" where
  "step_status_word s = (case s of StPending \<Rightarrow> ''pending'' | StQueued \<Rightarrow> ''queued'' | StRunning \<Rightarrow> ''running''
     | StPassed \<Rightarrow> ''passed'' | StFailedGate \<Rightarrow> ''failed_gate'' | StBlockedData \<Rightarrow> ''blocked_data''
     | StBlockedRuntime \<Rightarrow> ''blocked_runtime'' | StBlockedOperator \<Rightarrow> ''blocked_operator''
     | StSkipped \<Rightarrow> ''skipped'' | StCancelled \<Rightarrow> ''cancelled'')"

record step =
  st_id :: string
  st_key :: string
  st_status :: step_status
  st_required :: bool
  st_deps :: "string list"
  st_attempts :: int
  st_max :: int
  st_output :: jobj
  st_error :: "jobj option"
  st_result :: jv
  st_started :: "int option"
  st_completed :: "int option"
  st_updated :: int

record workflow =
  w_id :: string
  w_strategy :: string
  w_version :: int
  w_status :: wf_status
  w_current :: "string option"
  w_error :: "jobj option"
  w_updated :: int
  w_completed :: "int option"
  w_cancelled :: "int option"
  w_steps :: "step list"

record gevent =
  ev_workflow :: string
  ev_step :: "string option"
  ev_type :: string

text \<open>\<open>g_outcomes\<close>: the step and job of every background outcome artifact; \<open>g_stage\<close>: strategies.\<close>

record gdb =
  g_workflows :: "workflow list"
  g_events :: "gevent list"
  g_outcomes :: "(string \<times> string) list"
  g_stage :: "(string \<times> string) list"

section \<open>The workflow definition\<close>

record step_definition =
  d_key :: string
  d_deps :: "string list"
  d_required :: bool
  d_max_attempts :: int

definition wf_step :: "string \<Rightarrow> string list \<Rightarrow> step_definition" where
  "wf_step k deps = \<lparr>d_key = k, d_deps = deps, d_required = True, d_max_attempts = 3\<rparr>"

definition WORKFLOW_DEFINITION_VERSION :: int where "WORKFLOW_DEFINITION_VERSION = 3"

definition WORKFLOW_STEPS :: "step_definition list" where
  "WORKFLOW_STEPS =
    [wf_step ''quick_screen'' [],
     wf_step ''timeframe_sweep'' [''quick_screen''],
     wf_step ''quick_screen_gate'' [''timeframe_sweep''],
     wf_step ''validation_optimization'' [''quick_screen_gate''],
     wf_step ''apply_optimized_defaults'' [''validation_optimization''],
     wf_step ''confirmation_backtest'' [''apply_optimized_defaults''],
     wf_step ''walk_forward'' [''confirmation_backtest''],
     wf_step ''cost_stress'' [''walk_forward''],
     wf_step ''monte_carlo'' [''cost_stress''],
     wf_step ''regime_split'' [''monte_carlo''],
     wf_step ''parameter_jitter'' [''regime_split''],
     wf_step ''paper_promotion_gate''
       [''walk_forward'', ''monte_carlo'', ''parameter_jitter'', ''cost_stress'', ''regime_split'']]"

definition STEP_KEY_ALIASES :: "(string \<times> string) list" where
  "STEP_KEY_ALIASES =
    [(''param_jitter'', ''parameter_jitter''), (''parameter_generator'', ''parameter_jitter''),
     (''parameter generator'', ''parameter_jitter''), (''parameter-jitter'', ''parameter_jitter''),
     (''parameter_stability'', ''parameter_jitter''), (''regime_performance'', ''regime_split'')]"

definition normalize_step_key :: "string \<Rightarrow> string" where
  "normalize_step_key v =
     (let raw = map (\<lambda>c. if c = CHR ''-'' then CHR ''_'' else c) (py_lower (py_strip v))
      in case map_of STEP_KEY_ALIASES raw of Some k \<Rightarrow> k | None \<Rightarrow> raw)"

section \<open>JSON payloads\<close>

text \<open>\<open>sanitize_non_finite\<close>: NaN and infinities become null, at every depth.\<close>

fun sanitize_non_finite :: "jv \<Rightarrow> jv" where
  "sanitize_non_finite (JFloat f) = (if isfinite f then JFloat f else JNull)"
| "sanitize_non_finite (JList l) = JList (map sanitize_non_finite l)"
| "sanitize_non_finite (JObj d) = JObj (map (\<lambda>(k, v). (k, sanitize_non_finite v)) d)"
| "sanitize_non_finite v = v"

definition stored_json :: "jobj \<Rightarrow> jobj" where
  "stored_json d = map (\<lambda>(k, v). (k, sanitize_non_finite v)) d"

definition dict_setdefault :: "string \<Rightarrow> jv \<Rightarrow> jobj \<Rightarrow> jobj" where
  "dict_setdefault k v d = (case map_of d k of None \<Rightarrow> dict_set k v d | Some _ \<Rightarrow> d)"

definition step_block_reason_code :: "jobj option \<Rightarrow> string" where
  "step_block_reason_code error = (case error of None \<Rightarrow> []
     | Some p \<Rightarrow>
        (let code = (if truthy (jget p ''reason_code'') then jget p ''reason_code''
                     else case jget p ''transition'' of JObj t \<Rightarrow> jget t ''reason_code'' | _ \<Rightarrow> jget p ''reason_code'')
         in py_lower (py_strip (word_of code))))"

section \<open>Retry economics\<close>

definition TRANSIENT_MAX_ATTEMPTS :: int where "TRANSIENT_MAX_ATTEMPTS = 8"

definition SLOW_BLOCK_BACKOFF_MINUTES :: "(string \<times> rat) list" where
  "SLOW_BLOCK_BACKOFF_MINUTES = [(''holdout_budget_exhausted'', 360), (''paper_queue_full'', 120)]"

definition NO_DRAIN_REASON_CODES :: "string list" where
  "NO_DRAIN_REASON_CODES =
    [''gate_contention'', ''awaiting_data_backfill'', ''stale_validation'', ''artifacts_pending'',
     ''validation_in_flight'', ''stale_engine_artifacts'', ''stale_data_artifacts'', ''dsr_unavailable'',
     ''missing_evidence'', ''wfa_window_insufficient'', ''source_reconciliation_pending'', ''holdout_pending'',
     ''holdout_budget_exhausted'', ''paper_queue_full'']"

definition effective_max_attempts :: "int \<Rightarrow> int" where
  "effective_max_attempts m = max (if m = 0 then 3 else m) TRANSIENT_MAX_ATTEMPTS"

definition requeue_backoff_minutes :: "int \<Rightarrow> string \<Rightarrow> rat" where
  "requeue_backoff_minutes attempts reason = (case map_of SLOW_BLOCK_BACKOFF_MINUTES reason of
       Some b \<Rightarrow> b
     | None \<Rightarrow> if reason \<in> set NO_DRAIN_REASON_CODES then 10
               else min (2 * 2 ^ nat (max attempts 1 - 1)) 30)"

section \<open>Rows\<close>

definition map_steps :: "(step \<Rightarrow> step) \<Rightarrow> workflow \<Rightarrow> workflow" where
  "map_steps f w = w\<lparr>w_steps := map f (w_steps w)\<rparr>"

definition upd_workflow :: "string \<Rightarrow> (workflow \<Rightarrow> workflow) \<Rightarrow> gdb \<Rightarrow> gdb" where
  "upd_workflow wid f db = db\<lparr>g_workflows := map (\<lambda>w. if w_id w = wid then f w else w) (g_workflows db)\<rparr>"

definition upd_step :: "string \<Rightarrow> (step \<Rightarrow> step) \<Rightarrow> gdb \<Rightarrow> gdb" where
  "upd_step sid f db = db\<lparr>g_workflows :=
     map (map_steps (\<lambda>s. if st_id s = sid then f s else s)) (g_workflows db)\<rparr>"

definition find_workflow :: "gdb \<Rightarrow> string \<Rightarrow> workflow option" where
  "find_workflow db wid = List.find (\<lambda>w. w_id w = wid) (g_workflows db)"

definition all_steps :: "gdb \<Rightarrow> (workflow \<times> step) list" where
  "all_steps db = concat (map (\<lambda>w. map (Pair w) (w_steps w)) (g_workflows db))"

definition find_step :: "gdb \<Rightarrow> string \<Rightarrow> (workflow \<times> step) option" where
  "find_step db sid = List.find (\<lambda>p. st_id (snd p) = sid) (all_steps db)"

definition add_event :: "string \<Rightarrow> string option \<Rightarrow> string \<Rightarrow> gdb \<Rightarrow> gdb" where
  "add_event wid sid ty db =
     db\<lparr>g_events := g_events db @ [\<lparr>ev_workflow = wid, ev_step = sid, ev_type = ty\<rparr>]\<rparr>"

section \<open>Dependencies and the status of a workflow\<close>

definition status_by_key :: "step list \<Rightarrow> string \<Rightarrow> step_status option" where
  "status_by_key steps k = map_of (rev (map (\<lambda>s. (st_key s, st_status s)) steps)) k"

definition deps_passed :: "step \<Rightarrow> (string \<Rightarrow> step_status option) \<Rightarrow> bool" where
  "deps_passed s status \<longleftrightarrow> list_all (\<lambda>d. status d = Some StPassed) (st_deps s)"

definition queue_ready_steps :: "int \<Rightarrow> workflow \<Rightarrow> workflow" where
  "queue_ready_steps now w = (let status = status_by_key (w_steps w) in
     map_steps (\<lambda>s. if st_status s = StPending \<and> deps_passed s status
                    then s\<lparr>st_status := StQueued, st_updated := now\<rparr> else s) w)"

definition workflow_status :: "step_status list \<Rightarrow> wf_status" where
  "workflow_status ss =
     (if ss \<noteq> [] \<and> list_all (\<lambda>s. s = StCancelled \<or> s = StPassed) ss
      then (if StCancelled \<in> set ss then WfCancelled else WfPassed)
      else if StBlockedData \<in> set ss then WfBlockedData
      else if StBlockedRuntime \<in> set ss then WfBlockedRuntime
      else if StBlockedOperator \<in> set ss then WfBlockedOperator
      else if StFailedGate \<in> set ss then WfFailedGate
      else if StRunning \<in> set ss then WfRunning
      else WfPending)"

definition refresh_workflow :: "int \<Rightarrow> workflow \<Rightarrow> workflow" where
  "refresh_workflow now w =
     (let status = workflow_status (map st_status (w_steps w));
          current = map_option st_key (List.find (\<lambda>s. st_status s \<notin> {StPassed, StSkipped, StCancelled}) (w_steps w))
      in w\<lparr>w_status := status, w_current := current, w_updated := now,
           w_completed := (if status \<in> {WfPassed, WfFailedGate, WfCancelled} then Some now else None)\<rparr>)"

section \<open>Creating a workflow\<close>

text \<open>\<open>uuid\<close> supplies the fresh identifiers: the workflow's, then one per step.\<close>

definition new_steps :: "(nat \<Rightarrow> string) \<Rightarrow> int \<Rightarrow> step list" where
  "new_steps uuid now = map (\<lambda>i. let d = WORKFLOW_STEPS ! i in
     \<lparr>st_id = ''gws_'' @ uuid (Suc i), st_key = d_key d,
      st_status = (if i = 0 then StQueued else StPending), st_required = d_required d, st_deps = d_deps d,
      st_attempts = 0, st_max = d_max_attempts d, st_output = [], st_error = None, st_result = JNull,
      st_started = None, st_completed = None, st_updated = now\<rparr>) [0 ..< length WORKFLOW_STEPS]"

definition new_workflow :: "(nat \<Rightarrow> string) \<Rightarrow> int \<Rightarrow> string \<Rightarrow> workflow" where
  "new_workflow uuid now strategy =
     \<lparr>w_id = ''gw_'' @ uuid 0, w_strategy = strategy, w_version = WORKFLOW_DEFINITION_VERSION,
      w_status = WfPending, w_current = Some (d_key (hd WORKFLOW_STEPS)), w_error = None, w_updated = now,
      w_completed = None, w_cancelled = None, w_steps = new_steps uuid now\<rparr>"

definition create_or_get_workflow :: "(nat \<Rightarrow> string) \<Rightarrow> int \<Rightarrow> string \<Rightarrow> gdb \<Rightarrow> (workflow \<times> gdb) result" where
  "create_or_get_workflow uuid now strategy_id db =
     (let sid = py_strip strategy_id in
      if sid = [] then Inl ValueError
      else case List.find (\<lambda>w. w_strategy w = sid \<and> w_version w = WORKFLOW_DEFINITION_VERSION) (g_workflows db) of
          Some w \<Rightarrow> Inr (w, db)
        | None \<Rightarrow> if map_of (g_stage db) sid = None then Inl ValueError
            else (let w = new_workflow uuid now sid
                  in Inr (w, add_event (w_id w) None ''workflow_created'' (db\<lparr>g_workflows := g_workflows db @ [w]\<rparr>))))"

definition has_active_workflow :: "gdb \<Rightarrow> string \<Rightarrow> bool" where
  "has_active_workflow db strategy_id =
     (let ws = filter (\<lambda>w. w_strategy w = py_strip strategy_id) (g_workflows db);
          top = filter (\<lambda>w. \<forall>v\<in>set ws. w_version v \<le> w_version w) ws
      in case top of [] \<Rightarrow> False | w # _ \<Rightarrow> w_status w \<notin> set WORKFLOW_TERMINAL_STATUSES)"

end
