(* ===== verification/Gauntlet_Engine.thy ===== *)
theory Gauntlet_Engine
  imports Gauntlet
begin

text \<open>
  The operations of \<open>gauntlet/engine.py\<close> on the tables of \<open>Gauntlet\<close>: claiming a step and writing
  its outcome under the identity of the attempt, the sweeps that recover, re-queue and drain
  blocked steps, cancellation, reset, and the loop of \<open>resume_workflow\<close> around a runner.
\<close>

section \<open>Claiming\<close>

definition runnable :: "workflow \<Rightarrow> step option" where
  "runnable w = List.find (\<lambda>s. st_status s \<in> {StQueued, StPending} \<and> deps_passed s (status_by_key (w_steps w)))
     (w_steps w)"

definition claim_step :: "int \<Rightarrow> step \<Rightarrow> step" where
  "claim_step now s = s\<lparr>st_status := StRunning, st_attempts := st_attempts s + 1,
     st_started := Some now, st_updated := now\<rparr>"

text \<open>\<open>claim_next_step\<close>: the transaction is immediate, so the compare-and-set always wins.\<close>

definition claim_next_step :: "int \<Rightarrow> string \<Rightarrow> gdb \<Rightarrow> (step option \<times> gdb) result" where
  "claim_next_step now workflow_id db =
     (let wid = py_strip workflow_id in
      if wid = [] then Inl ValueError
      else case find_workflow db wid of None \<Rightarrow> Inl ValueError
      | Some w \<Rightarrow>
         if w_status w \<in> set WORKFLOW_TERMINAL_STATUSES then Inr (None, db)
         else if \<exists>s\<in>set (w_steps w). st_status s = StRunning then Inr (None, db)
         else (let w' = queue_ready_steps now w in
           case runnable w' of
             None \<Rightarrow> Inr (None, upd_workflow wid (\<lambda>_. refresh_workflow now w') db)
           | Some c \<Rightarrow>
               Inr (Some (claim_step now c),
                 upd_workflow wid (\<lambda>_. (map_steps (\<lambda>s. if st_id s = st_id c then claim_step now s else s) w')
                   \<lparr>w_status := WfRunning, w_current := Some (st_key c), w_updated := now\<rparr>) db)))"

section \<open>Outcomes\<close>

text \<open>The guard of an outcome write: the attempt it belongs to is still the one running.\<close>

definition outcome_guard :: "int option \<Rightarrow> int option \<Rightarrow> step \<Rightarrow> bool" where
  "outcome_guard expected_attempt expected_started s \<longleftrightarrow>
     st_status s \<notin> {StCancelled, StPassed} \<and>
     (case expected_attempt of None \<Rightarrow> True | Some a \<Rightarrow> st_status s = StRunning \<and> st_attempts s = a) \<and>
     (case expected_started of None \<Rightarrow> True | Some t \<Rightarrow> st_started s = Some t)"

definition coalesce :: "jv \<Rightarrow> jv \<Rightarrow> jv" where
  "coalesce a b = (if a = JNull then b else a)"

definition complete_one :: "int \<Rightarrow> jobj \<Rightarrow> int option \<Rightarrow> int option \<Rightarrow> step \<Rightarrow> step" where
  "complete_one now output ea es s = (if outcome_guard ea es s
     then s\<lparr>st_status := StPassed, st_output := stored_json output,
            st_result := coalesce (jget output ''result_id'') (st_result s), st_error := None,
            st_completed := Some now, st_updated := now\<rparr> else s)"

definition complete_step :: "int \<Rightarrow> string \<Rightarrow> jobj \<Rightarrow> int option \<Rightarrow> int option \<Rightarrow> gdb \<Rightarrow> gdb result" where
  "complete_step now step_id output ea es db =
     (let sid = py_strip step_id in
      if sid = [] then Inl ValueError
      else case find_step db sid of None \<Rightarrow> Inl ValueError
      | Some (w, _) \<Rightarrow>
          Inr (upd_workflow (w_id w) (\<lambda>v. refresh_workflow now (queue_ready_steps now v))
                (upd_step sid (complete_one now output ea es) db)))"

definition BLOCK_STATUSES :: "step_status list" where
  "BLOCK_STATUSES = [StBlockedData, StBlockedRuntime, StBlockedOperator, StFailedGate]"

definition block_payload :: "step_status \<Rightarrow> string \<Rightarrow> bool \<Rightarrow> jobj \<Rightarrow> jobj" where
  "block_payload status message retryable payload =
     stored_json (dict_setdefault ''retryable'' (JBool retryable)
       (dict_setdefault ''message'' (JStr (if message = [] then step_status_word status else message)) payload))"

definition block_one :: "int \<Rightarrow> step_status \<Rightarrow> jobj \<Rightarrow> int option \<Rightarrow> int option \<Rightarrow> step \<Rightarrow> step" where
  "block_one now status error ea es s = (if outcome_guard ea es s
     then s\<lparr>st_status := status, st_error := Some error, st_completed := Some now, st_updated := now\<rparr> else s)"

definition block_step :: "int \<Rightarrow> string \<Rightarrow> step_status \<Rightarrow> string \<Rightarrow> bool \<Rightarrow> jobj \<Rightarrow> int option \<Rightarrow> int option
    \<Rightarrow> gdb \<Rightarrow> gdb result" where
  "block_step now sid status message retryable payload ea es db =
     (if status \<notin> set BLOCK_STATUSES then Inl ValueError
      else case find_step db sid of None \<Rightarrow> Inl ValueError
      | Some (w, _) \<Rightarrow>
          Inr (upd_workflow (w_id w) (refresh_workflow now)
                (upd_step sid (block_one now status (block_payload status message retryable payload) ea es) db)))"

section \<open>Retrying, cancelling, resetting\<close>

definition requeue_one :: "int \<Rightarrow> step \<Rightarrow> step" where
  "requeue_one now s = s\<lparr>st_status := StQueued, st_error := None, st_output := [], st_result := JNull,
     st_completed := None, st_updated := now\<rparr>"

definition retry_step :: "int \<Rightarrow> string \<Rightarrow> gdb \<Rightarrow> gdb result" where
  "retry_step now step_id db =
     (let sid = py_strip step_id in
      if sid = [] then Inl ValueError
      else case find_step db sid of None \<Rightarrow> Inl ValueError
      | Some (w, s) \<Rightarrow>
          if st_status s \<notin> set RETRYABLE_STEP_STATUSES then Inl ValueError
          else Inr (upd_workflow (w_id w) (refresh_workflow now)
                 (add_event (w_id w) (Some sid) ''step_retried'' (upd_step sid (requeue_one now) db))))"

definition cancel_one :: "int \<Rightarrow> step \<Rightarrow> step" where
  "cancel_one now s = (if st_status s \<noteq> StPassed
     then s\<lparr>st_status := StCancelled, st_completed := Some now, st_updated := now\<rparr> else s)"

definition cancelled_workflow :: "int \<Rightarrow> string \<Rightarrow> string \<Rightarrow> workflow \<Rightarrow> workflow" where
  "cancelled_workflow now actor reason w = (map_steps (cancel_one now) w)
     \<lparr>w_status := WfCancelled, w_cancelled := Some now, w_completed := Some now, w_updated := now,
      w_error := Some [(''actor'', JStr actor), (''reason'', JStr reason)]\<rparr>"

definition cancel_workflow :: "int \<Rightarrow> string \<Rightarrow> string \<Rightarrow> string \<Rightarrow> gdb \<Rightarrow> gdb result" where
  "cancel_workflow now workflow_id actor reason db =
     (let wid = py_strip workflow_id in
      if wid = [] then Inl ValueError
      else case find_workflow db wid of None \<Rightarrow> Inl ValueError
      | Some w \<Rightarrow>
          if w_status w \<in> set WORKFLOW_TERMINAL_STATUSES then Inr db
          else Inr (add_event wid None ''workflow_cancelled''
                 (upd_workflow wid (cancelled_workflow now actor reason) db)))"

definition reset_one :: "int \<Rightarrow> step \<Rightarrow> step" where
  "reset_one now s = s\<lparr>st_status := StPending, st_attempts := 0, st_error := None, st_output := [],
     st_result := JNull, st_started := None, st_completed := None, st_updated := now\<rparr>"

definition reset_workflow_to_pending :: "int \<Rightarrow> string \<Rightarrow> gdb \<Rightarrow> gdb" where
  "reset_workflow_to_pending now wid db = add_event wid None ''workflow_reset''
     (upd_workflow wid (\<lambda>w. (map_steps (reset_one now) w)
        \<lparr>w_status := WfPending, w_current := None, w_error := None, w_completed := None, w_cancelled := None,
         w_updated := now\<rparr>) db)"

section \<open>Recovering steps a restart orphaned\<close>

definition MAX_RESTART_REFUNDS :: nat where "MAX_RESTART_REFUNDS = 3"

definition RESTART_REFUND_EVENT :: string where "RESTART_REFUND_EVENT = ''restart_attempt_refunded''"

text \<open>SQLite's \<open>datetime()\<close> compares whole seconds; the job id of a background step is a text.\<close>

definition stale_running :: "int \<Rightarrow> int \<Rightarrow> step \<Rightarrow> bool" where
  "stale_running now minutes s \<longleftrightarrow> st_status s = StRunning \<and>
     (case st_started s of None \<Rightarrow> True
      | Some t \<Rightarrow> t div 1000000 < (now - max minutes 1 * 60000000) div 1000000)"

definition outcome_ready :: "gdb \<Rightarrow> step \<Rightarrow> bool" where
  "outcome_ready db s = (case jget (st_output s) ''background_job_id'' of
     JStr j \<Rightarrow> j \<noteq> [] \<and> (st_id s, j) \<in> set (g_outcomes db) | _ \<Rightarrow> False)"

definition recover_payload :: jobj where
  "recover_payload = [(''message'', JStr ''Recovered after process restart; step was previously running.''),
     (''retryable'', JBool True)]"

definition refunds :: "gdb \<Rightarrow> string \<Rightarrow> nat" where
  "refunds db sid = length (filter (\<lambda>e. ev_step e = Some sid \<and> ev_type e = RESTART_REFUND_EVENT) (g_events db))"

definition recover_step :: "int \<Rightarrow> bool \<Rightarrow> gdb \<Rightarrow> workflow \<times> step \<Rightarrow> gdb" where
  "recover_step now refund db p =
     (let w = fst p; s = snd p; sid = st_id s in
      if outcome_ready db s then db
      else let blocked = upd_step sid (\<lambda>v. if st_status v = StRunning \<and> st_started v = st_started s
                then v\<lparr>st_status := StBlockedRuntime, st_completed := Some now, st_updated := now,
                       st_error := Some recover_payload\<rparr> else v) db;
               refunded = (if refund \<and> 0 < st_attempts s \<and> refunds db sid < MAX_RESTART_REFUNDS
                then add_event (w_id w) (Some sid) RESTART_REFUND_EVENT
                       (upd_step sid (\<lambda>v. v\<lparr>st_attempts := st_attempts v - 1\<rparr>) blocked)
                else blocked)
           in upd_workflow (w_id w) (refresh_workflow now) refunded)"

definition recover_stale_running_steps :: "int \<Rightarrow> int \<Rightarrow> bool \<Rightarrow> gdb \<Rightarrow> gdb" where
  "recover_stale_running_steps now minutes refund db =
     foldl (recover_step now refund) db (filter (\<lambda>p. stale_running now minutes (snd p)) (all_steps db))"

section \<open>Re-queueing and draining blocked steps\<close>

definition not_retryable :: "step \<Rightarrow> bool" where
  "not_retryable s = (case st_error s of Some p \<Rightarrow> jget p ''retryable'' = JBool False | None \<Rightarrow> False)"

definition exempt_from_attempts :: "step \<Rightarrow> bool" where
  "exempt_from_attempts s \<longleftrightarrow> step_block_reason_code (st_error s) \<in> set NO_DRAIN_REASON_CODES"

definition backoff_over :: "int \<Rightarrow> step \<Rightarrow> bool" where
  "backoff_over now s \<longleftrightarrow>
     requeue_backoff_minutes (st_attempts s) (step_block_reason_code (st_error s)) * 60000000 \<le> of_int (now - st_updated s)"

definition requeue_eligible :: "int \<Rightarrow> step \<Rightarrow> bool" where
  "requeue_eligible now s \<longleftrightarrow> \<not> not_retryable s \<and>
     (exempt_from_attempts s \<or> st_attempts s < effective_max_attempts (st_max s)) \<and> backoff_over now s"

definition blocked_rows :: "gdb \<Rightarrow> (workflow \<times> step) list" where
  "blocked_rows db = sort_key (\<lambda>p. (st_updated (snd p) div 1000000, st_id (snd p)))
     (filter (\<lambda>p. st_status (snd p) \<in> set RETRYABLE_STEP_STATUSES \<and> w_status (fst p) \<notin> set WORKFLOW_TERMINAL_STATUSES)
       (all_steps db))"

definition refresh_all :: "int \<Rightarrow> (workflow \<times> step) list \<Rightarrow> gdb \<Rightarrow> gdb" where
  "refresh_all now rows db = foldl (\<lambda>d wid. upd_workflow wid (refresh_workflow now) d) db
     (remdups (map (w_id \<circ> fst) rows))"

definition requeue_blocked :: "int \<Rightarrow> step \<Rightarrow> step" where
  "requeue_blocked now s = (if exempt_from_attempts s then (requeue_one now s)\<lparr>st_attempts := 0\<rparr> else requeue_one now s)"

definition requeue_retryable_blocked_steps :: "int \<Rightarrow> nat \<Rightarrow> gdb \<Rightarrow> gdb" where
  "requeue_retryable_blocked_steps now limit db =
     (let rows = take (max limit 1) (filter (\<lambda>p. requeue_eligible now (snd p)) (blocked_rows db))
      in refresh_all now rows (foldl (\<lambda>d p. upd_step (st_id (snd p)) (requeue_blocked now) d) db rows))"

definition drain_eligible :: "step \<Rightarrow> bool" where
  "drain_eligible s \<longleftrightarrow> max (st_max s) TRANSIENT_MAX_ATTEMPTS \<le> st_attempts s \<and>
     \<not> not_retryable s \<and> \<not> exempt_from_attempts s"

definition drain_message :: "jobj \<Rightarrow> string" where
  "drain_message p = (let original = py_strip (word_of (jget p ''message'')) in
     ''Retries exhausted on a transient block - NOT a merit verdict; the strategy was never judged by the gate''
     @ (if original = [] then [] else '' (last block: '' @ original @ '')''))"

definition drain_payload :: "jobj option \<Rightarrow> jobj" where
  "drain_payload error =
     (let p0 = (case error of Some p \<Rightarrow> p | None \<Rightarrow> []);
          p1 = dict_set ''merit'' (JBool False) (dict_set ''exhausted'' (JBool True) p0);
          p2 = dict_setdefault ''reason_code'' (JStr ''retries_exhausted'') p1
      in stored_json (dict_set ''retryable'' (JBool False) (dict_set ''message'' (JStr (drain_message p2)) p2)))"

definition drain_one :: "int \<Rightarrow> step \<Rightarrow> step" where
  "drain_one now s = s\<lparr>st_status := StFailedGate, st_error := Some (drain_payload (st_error s)),
     st_completed := Some now, st_updated := now\<rparr>"

definition drain_exhausted_blocked_steps :: "int \<Rightarrow> nat \<Rightarrow> gdb \<Rightarrow> gdb" where
  "drain_exhausted_blocked_steps now limit db =
     (let rows = take (max limit 1) (filter (\<lambda>p. drain_eligible (snd p)) (blocked_rows db))
      in refresh_all now rows (foldl (\<lambda>d p. upd_step (st_id (snd p)) (drain_one now) d) db rows))"

section \<open>Sweeps over the strategies' stages\<close>

definition stage_of :: "gdb \<Rightarrow> workflow \<Rightarrow> string option" where
  "stage_of db w = map_option (\<lambda>s. py_lower (py_strip s)) (map_of (g_stage db) (w_strategy w))"

definition PARAM_LOCKED_STAGES :: "string list" where
  "PARAM_LOCKED_STAGES = [''paper'', ''paper_trading'', ''live_graduated'', ''deployed'']"

definition cancel_stage_workflows :: "string list \<Rightarrow> int \<Rightarrow> nat \<Rightarrow> string \<Rightarrow> gdb \<Rightarrow> gdb" where
  "cancel_stage_workflows stages now limit reason db =
     (let rows = take (max limit 1) (sort (map w_id (filter (\<lambda>w. w_status w \<notin> set WORKFLOW_TERMINAL_STATUSES \<and>
            (case stage_of db w of None \<Rightarrow> False | Some s \<Rightarrow> s \<in> set stages)) (g_workflows db))))
      in foldl (\<lambda>d wid. case cancel_workflow now wid ''gauntlet_sweep'' reason d of Inr d' \<Rightarrow> d' | Inl _ \<Rightarrow> d) db rows)"

definition cancel_param_locked_workflows :: "int \<Rightarrow> nat \<Rightarrow> gdb \<Rightarrow> gdb" where
  "cancel_param_locked_workflows now limit db = cancel_stage_workflows PARAM_LOCKED_STAGES now limit
     ''strategy reached operator-owned stage (paper/live); gauntlet workflow cancelled'' db"

definition cancel_orphaned_terminal_workflows :: "int \<Rightarrow> nat \<Rightarrow> gdb \<Rightarrow> gdb" where
  "cancel_orphaned_terminal_workflows now limit db =
     cancel_stage_workflows [''archived'', ''rejected'', ''trash'', ''backtest_failed''] now limit
     ''strategy already at a terminal stage; zombie workflow cancelled'' db"

section \<open>Polling and the driver's loop\<close>

definition running_step :: "gdb \<Rightarrow> string \<Rightarrow> step option" where
  "running_step db wid = (case find_workflow db wid of None \<Rightarrow> None
     | Some w \<Rightarrow> List.find (\<lambda>s. st_status s = StRunning) (w_steps w))"

definition preserve_one :: "int \<Rightarrow> step \<Rightarrow> jobj \<Rightarrow> step \<Rightarrow> step" where
  "preserve_one now snapshot outcome s =
     (if st_status s = StRunning \<and> st_attempts s = st_attempts snapshot \<and> st_started s = st_started snapshot
      then s\<lparr>st_output := stored_json outcome, st_result := coalesce (jget outcome ''result_id'') (st_result s),
             st_started := Some now, st_updated := now\<rparr> else s)"

definition preserve_running_step :: "int \<Rightarrow> string \<Rightarrow> step \<Rightarrow> jobj \<Rightarrow> gdb \<Rightarrow> gdb" where
  "preserve_running_step now wid snapshot outcome db =
     (let ours = (\<lambda>s. st_id s = st_id snapshot \<and> st_status s = StRunning \<and>
            st_attempts s = st_attempts snapshot \<and> st_started s = st_started snapshot)
      in if \<exists>p\<in>set (all_steps db). ours (snd p)
         then upd_workflow wid (\<lambda>w. w\<lparr>w_status := WfRunning, w_current := Some (st_key snapshot), w_updated := now\<rparr>)
                (upd_step (st_id snapshot) (preserve_one now snapshot outcome) db)
         else db)"

definition text_of :: "jv \<Rightarrow> string" where
  "text_of v = py_strip (word_of v)"

definition step_poll_handle :: "step \<Rightarrow> string option" where
  "step_poll_handle s =
     (let out = st_output s in
      if word_of (jget out ''status'') \<notin> {''running'', ''waiting''} then None
      else if truthy (jget out ''background_job_id'') then Some (word_of (jget out ''background_job_id''))
      else if text_of (st_result s) \<noteq> [] then Some (text_of (st_result s))
      else if text_of (jget out ''result_id'') \<noteq> [] then Some (text_of (jget out ''result_id''))
      else None)"

definition step_in_flight :: "step \<Rightarrow> bool" where
  "step_in_flight s \<longleftrightarrow> step_poll_handle s = None"

text \<open>
  What a runner did: raised (with its message) or returned a payload. \<open>write_outcome\<close> records the
  payload under the attempt's identity; a write that raises is recorded again with a minimal
  payload. The second component says whether the driver stops polling this workflow.
\<close>

definition block_status_of :: "string \<Rightarrow> step_status option" where
  "block_status_of w = List.find (\<lambda>s. step_status_word s = w) BLOCK_STATUSES"

definition outcome_payload :: "string + jobj \<Rightarrow> jobj" where
  "outcome_payload r = (case r of
     Inl msg \<Rightarrow> [(''status'', JStr ''blocked_runtime''), (''message'', JStr msg), (''retryable'', JBool True),
                  (''runner_error'', JBool True)]
   | Inr p \<Rightarrow> if truthy (jget p ''status'') then p
             else [(''status'', JStr ''blocked_runtime''), (''message'', JStr ''Runner returned no explicit outcome status''),
                   (''retryable'', JBool True)])"

definition outcome_message :: "jobj \<Rightarrow> string \<Rightarrow> string" where
  "outcome_message p status =
     (if truthy (jget p ''message'') then word_of (jget p ''message'')
      else if truthy (jget p ''error'') then word_of (jget p ''error'') else status)"

definition fallback_message :: "jobj \<Rightarrow> string \<Rightarrow> string" where
  \<comment> \<open>the text of the exception that follows the colon is left out\<close>
  "fallback_message p status = (if truthy (jget p ''message'') then word_of (jget p ''message'') else status)
     @ '' (outcome persistence failed: )''"

definition write_outcome :: "int \<Rightarrow> string \<Rightarrow> step \<Rightarrow> jobj \<Rightarrow> gdb \<Rightarrow> bool \<times> gdb result" where
  "write_outcome now wid s p db =
     (let status = word_of (jget p ''status''); a = Some (st_attempts s); t = st_started s;
          fallback = (case block_status_of status of Some b \<Rightarrow> b | None \<Rightarrow> StBlockedRuntime);
          again = block_step now (st_id s) fallback (fallback_message p status) (fallback \<in> set RETRYABLE_STEP_STATUSES) [] a t db
      in if status = ''passed''
           then (False, case complete_step now (st_id s) p a t db of Inr d \<Rightarrow> Inr d | Inl _ \<Rightarrow> again)
         else if status = ''running'' \<or> status = ''waiting'' then (True, Inr (preserve_running_step now wid s p db))
         else (False, case block_status_of status of
             Some b \<Rightarrow> (case block_step now (st_id s) b (outcome_message p status) (b \<in> set RETRYABLE_STEP_STATUSES) p a t db of
                        Inr d \<Rightarrow> Inr d | Inl _ \<Rightarrow> again)
           | None \<Rightarrow> (case block_step now (st_id s) StBlockedRuntime (''Unexpected outcome status: '' @ status) True p a t db of
                        Inr d \<Rightarrow> Inr d | Inl _ \<Rightarrow> again)))"

text \<open>
  \<open>resume_workflow\<close> with the budget of steps as the recursion; \<open>clk\<close> gives the times of the
  claim and of the write of each round, \<open>time_up\<close> whether the deadline has passed and \<open>capacity\<close>
  whether a worker slot is free.
\<close>

fun drive :: "nat \<Rightarrow> nat \<Rightarrow> (nat \<Rightarrow> int) \<Rightarrow> (nat \<Rightarrow> bool) \<Rightarrow> (nat \<Rightarrow> bool) \<Rightarrow> (nat \<Rightarrow> workflow \<Rightarrow> step \<Rightarrow> string + jobj) \<Rightarrow> string
    \<Rightarrow> gdb \<Rightarrow> gdb result" where
  "drive 0 i clk time_up capacity runner wid db = Inr db"
| "drive (Suc n) i clk time_up capacity runner wid db =
     (if time_up i then Inr db
      else if \<not> capacity i \<and> running_step db wid = None then Inr db
      else case claim_next_step (clk (2 * i)) wid db of Inl e \<Rightarrow> Inl e
      | Inr (claimed, db1) \<Rightarrow>
          (let target = (case claimed of Some s \<Rightarrow> Some s
               | None \<Rightarrow> (case running_step db1 wid of None \<Rightarrow> None
                          | Some s \<Rightarrow> if step_in_flight s then None else Some s))
           in case (target, find_workflow db1 wid) of
                (Some s, Some w) \<Rightarrow>
                  (case write_outcome (clk (2 * i + 1)) wid s (outcome_payload (runner i w s)) db1 of
                     (_, Inl e) \<Rightarrow> Inl e
                   | (stop, Inr db2) \<Rightarrow> if stop then Inr db2 else drive n (Suc i) clk time_up capacity runner wid db2)
              | _ \<Rightarrow> Inr db1))"

definition resume_workflow :: "nat \<Rightarrow> (nat \<Rightarrow> int) \<Rightarrow> (nat \<Rightarrow> bool) \<Rightarrow> (nat \<Rightarrow> bool) \<Rightarrow> (nat \<Rightarrow> workflow \<Rightarrow> step \<Rightarrow> string + jobj)
    \<Rightarrow> string \<Rightarrow> gdb \<Rightarrow> gdb result" where
  "resume_workflow max_steps clk time_up capacity runner wid db = (case find_workflow db wid of
     Some w \<Rightarrow>
       if w_status w \<in> set WORKFLOW_TERMINAL_STATUSES \<and> stage_of db w \<noteq> None then Inr db
       else if (case stage_of db w of None \<Rightarrow> False | Some s \<Rightarrow> s \<in> set PARAM_LOCKED_STAGES)
         then (case cancel_workflow (clk 0) wid ''gauntlet_sweep''
                 ''strategy reached operator-owned stage (paper/live); gauntlet workflow cancelled'' db of
               Inr d \<Rightarrow> Inr d | Inl _ \<Rightarrow> Inr db)
       else drive (max max_steps 1) 0 clk time_up capacity runner wid db
   | None \<Rightarrow> drive (max max_steps 1) 0 clk time_up capacity runner wid db)"

section \<open>The status API\<close>

definition status_from_steps :: "step_status list \<Rightarrow> wf_status" where
  "status_from_steps ss = (case List.find (\<lambda>s. s \<in> {StBlockedData, StBlockedRuntime, StBlockedOperator}) ss of
       Some StBlockedData \<Rightarrow> WfBlockedData
     | Some StBlockedRuntime \<Rightarrow> WfBlockedRuntime
     | Some _ \<Rightarrow> WfBlockedOperator
     | None \<Rightarrow>
        if StFailedGate \<in> set ss then WfFailedGate
        else if StCancelled \<in> set ss then WfCancelled
        else if ss \<noteq> [] \<and> list_all (\<lambda>s. s \<in> set STEP_TERMINAL_STATUSES) ss \<and> StPassed \<in> set ss then WfPassed
        else if StRunning \<in> set ss then WfRunning
        else WfPending)"

datatype result_step = RsRunning | RsQueued | RsPending | RsFailedGate | RsBlockedRuntime | RsPassed | RsNotStarted

definition result_status_to_step_status :: "string \<Rightarrow> string \<Rightarrow> result_step" where
  "result_status_to_step_status config_status verdict =
     (let status = py_lower (py_strip config_status); v = py_upper (py_strip verdict) in
      if status = ''running'' then RsRunning
      else if status = ''queued'' then RsQueued
      else if status = ''pending'' then RsPending
      else if v = ''FAIL'' then RsFailedGate
      else if status \<in> {''failed'', ''error''} then RsBlockedRuntime
      else if status \<in> {''succeeded'', ''success'', ''passed'', ''pass'', ''done'', ''completed'', ''complete''}
        then (if v = ''PASS'' then RsPassed else RsBlockedRuntime)
      else RsNotStarted)"

end
