(* ===== verification/Gauntlet_Inv.thy ===== *)
theory Gauntlet_Inv
  imports Gauntlet_Engine "HOL-Library.Multiset"
begin

text \<open>
  The invariant of the gauntlet's tables, kept by every operation in any order: a workflow has the
  steps of the definition, at most one of them runs, and a step has left \<open>pending\<close> only after all
  the steps it depends on passed.
\<close>

section \<open>The invariant of a workflow\<close>

definition active_status :: "step_status \<Rightarrow> bool" where
  "active_status st \<longleftrightarrow> st \<notin> {StPending, StSkipped, StCancelled}"

definition running_count :: "workflow \<Rightarrow> nat" where
  "running_count w = length (filter (\<lambda>s. st_status s = StRunning) (w_steps w))"

definition w_ok :: "workflow \<Rightarrow> bool" where
  "w_ok w \<longleftrightarrow>
     map (\<lambda>s. (st_key s, st_deps s)) (w_steps w) = map (\<lambda>d. (d_key d, d_deps d)) WORKFLOW_STEPS \<and>
     distinct (map st_id (w_steps w)) \<and> running_count w \<le> 1 \<and>
     (\<forall>s\<in>set (w_steps w). active_status (st_status s) \<longrightarrow> deps_passed s (status_by_key (w_steps w)))"

definition tables_ok :: "gdb \<Rightarrow> bool" where
  "tables_ok db \<longleftrightarrow> (\<forall>w\<in>set (g_workflows db). w_ok w)"

text \<open>A row update an operation may make, given the statuses it read.\<close>

definition legal :: "(string \<Rightarrow> step_status option) \<Rightarrow> (step \<Rightarrow> step) \<Rightarrow> step \<Rightarrow> bool" where
  "legal status f s \<longleftrightarrow> st_id (f s) = st_id s \<and> st_key (f s) = st_key s \<and> st_deps (f s) = st_deps s \<and>
     (st_status s = StPassed \<longrightarrow> st_status (f s) = StPassed) \<and>
     (st_status (f s) = StRunning \<longrightarrow> st_status s = StRunning) \<and>
     (active_status (st_status (f s)) \<longrightarrow> active_status (st_status s) \<or> deps_passed s status)"

lemma status_by_key_mono:
  assumes "\<And>s. s \<in> set steps \<Longrightarrow> st_key (f s) = st_key s \<and> (st_status s = StPassed \<longrightarrow> st_status (f s) = StPassed)"
    and "status_by_key steps k = Some StPassed"
  shows "status_by_key (map f steps) k = Some StPassed"
  using assms
proof (induction steps rule: rev_induct)
  case (snoc x xs)
  then show ?case by (auto simp: status_by_key_def split: if_splits)
qed (simp add: status_by_key_def)

lemma deps_passed_mono:
  assumes "\<And>s. s \<in> set steps \<Longrightarrow> st_key (f s) = st_key s \<and> (st_status s = StPassed \<longrightarrow> st_status (f s) = StPassed)"
    and "deps_passed s (status_by_key steps)" and "st_deps s' = st_deps s"
  shows "deps_passed s' (status_by_key (map f steps))"
  using assms status_by_key_mono [OF assms(1)] by (auto simp: deps_passed_def list_all_iff)

lemma running_le:
  "(\<And>s. s \<in> set xs \<Longrightarrow> st_status (f s) = StRunning \<Longrightarrow> st_status s = StRunning) \<Longrightarrow>
    length (filter (\<lambda>s. st_status s = StRunning) (map f xs)) \<le> length (filter (\<lambda>s. st_status s = StRunning) xs)"
  by (induction xs) auto

lemma map_steps_okI:
  assumes ok: "w_ok w"
    and same: "\<And>s. s \<in> set (w_steps w) \<Longrightarrow> st_id (f s) = st_id s \<and> st_key (f s) = st_key s \<and> st_deps (f s) = st_deps s"
    and pass: "\<And>s. s \<in> set (w_steps w) \<Longrightarrow> st_status s = StPassed \<Longrightarrow> st_status (f s) = StPassed"
    and run: "running_count (map_steps f w) \<le> 1"
    and act: "\<And>s. s \<in> set (w_steps w) \<Longrightarrow> active_status (st_status (f s)) \<Longrightarrow> deps_passed s (status_by_key (w_steps w))"
  shows "w_ok (map_steps f w)"
proof -
  let ?xs = "w_steps w"
  have keep: "st_key (f s) = st_key s \<and> (st_status s = StPassed \<longrightarrow> st_status (f s) = StPassed)" if "s \<in> set ?xs" for s
    using same [OF that] pass [OF that] by simp
  have keys: "map (\<lambda>s. (st_key s, st_deps s)) (map f ?xs) = map (\<lambda>s. (st_key s, st_deps s)) ?xs"
    and ids: "map st_id (map f ?xs) = map st_id ?xs"
    using same by auto
  have deps: "deps_passed (f s) (status_by_key (map f ?xs))"
    if s: "s \<in> set ?xs" and a: "active_status (st_status (f s))" for s
    using deps_passed_mono [of ?xs f s "f s"] keep act [OF s a] same [OF s] by blast
  have "w_steps (map_steps f w) = map f ?xs" by (simp add: map_steps_def)
  moreover have "\<forall>s\<in>set (map f ?xs). active_status (st_status s) \<longrightarrow> deps_passed s (status_by_key (map f ?xs))"
    using deps by (simp only: set_map) blast
  ultimately show ?thesis using ok run by (simp only: w_ok_def keys ids simp_thms)
qed

lemma map_steps_ok:
  assumes ok: "w_ok w" and l: "\<And>s. s \<in> set (w_steps w) \<Longrightarrow> legal (status_by_key (w_steps w)) f s"
  shows "w_ok (map_steps f w)"
proof (rule map_steps_okI [OF ok])
  have r: "st_status s = StRunning" if "s \<in> set (w_steps w)" "st_status (f s) = StRunning" for s
    using l [OF that(1)] that(2) unfolding legal_def by blast
  have "running_count (map_steps f w) \<le> running_count w"
    using running_le [OF r] by (simp add: running_count_def map_steps_def del: filter_map)
  also have "\<dots> \<le> 1" using ok by (simp add: w_ok_def)
  finally show "running_count (map_steps f w) \<le> 1" .
  fix s assume s: "s \<in> set (w_steps w)"
  show "st_id (f s) = st_id s \<and> st_key (f s) = st_key s \<and> st_deps (f s) = st_deps s"
    using l [OF s] by (simp add: legal_def)
  show "st_status s = StPassed \<Longrightarrow> st_status (f s) = StPassed" using l [OF s] by (simp add: legal_def)
  show "active_status (st_status (f s)) \<Longrightarrow> deps_passed s (status_by_key (w_steps w))"
    using l [OF s] ok s by (auto simp: legal_def w_ok_def)
qed

lemma w_ok_fields [simp]:
  "w_ok (w\<lparr>w_status := x\<rparr>) = w_ok w" "w_ok (w\<lparr>w_current := c\<rparr>) = w_ok w" "w_ok (w\<lparr>w_error := e\<rparr>) = w_ok w"
  "w_ok (w\<lparr>w_updated := t\<rparr>) = w_ok w" "w_ok (w\<lparr>w_completed := t'\<rparr>) = w_ok w" "w_ok (w\<lparr>w_cancelled := t'\<rparr>) = w_ok w"
  by (simp_all add: w_ok_def running_count_def)

lemma refresh_ok [simp]: "w_ok (refresh_workflow now w) = w_ok w"
  by (simp add: refresh_workflow_def Let_def)

lemma queue_ready_ok: "w_ok w \<Longrightarrow> w_ok (queue_ready_steps now w)"
  unfolding queue_ready_steps_def Let_def
  by (rule map_steps_ok) (auto simp: legal_def active_status_def)

section \<open>The invariant of the tables\<close>

lemma upd_workflow_ok:
  assumes "tables_ok db" and "\<And>w. w \<in> set (g_workflows db) \<Longrightarrow> w_ok w \<Longrightarrow> w_ok (f w)"
  shows "tables_ok (upd_workflow wid f db)"
  using assms by (auto simp: tables_ok_def upd_workflow_def)

lemma upd_step_ok:
  assumes "tables_ok db"
    and "\<And>w s. w \<in> set (g_workflows db) \<Longrightarrow> s \<in> set (w_steps w) \<Longrightarrow> st_id s = sid \<Longrightarrow>
      legal (status_by_key (w_steps w)) f s"
  shows "tables_ok (upd_step sid f db)"
proof -
  have "w_ok (map_steps (\<lambda>s. if st_id s = sid then f s else s) w)" if "w \<in> set (g_workflows db)" for w
    by (rule map_steps_ok) (use assms that in \<open>auto simp: tables_ok_def legal_def\<close>)
  then show ?thesis by (auto simp: tables_ok_def upd_step_def)
qed

lemma add_event_ok [simp]: "tables_ok (add_event w s t db) = tables_ok db"
  by (simp add: tables_ok_def add_event_def)

lemma find_Some_mem: "List.find P xs = Some x \<Longrightarrow> x \<in> set xs \<and> P x"
  by (auto simp: find_Some_iff)

lemma all_steps_mem: "(w, s) \<in> set (all_steps db) \<longleftrightarrow> w \<in> set (g_workflows db) \<and> s \<in> set (w_steps w)"
  by (auto simp: all_steps_def)

lemma find_step_mem: "find_step db sid = Some (w, s) \<Longrightarrow> w \<in> set (g_workflows db) \<and> s \<in> set (w_steps w) \<and> st_id s = sid"
  unfolding find_step_def by (drule find_Some_mem) (auto simp: all_steps_mem)

lemma distinct_filter_le: "distinct xs \<Longrightarrow> length (filter (\<lambda>i. i = k) xs) \<le> 1"
  by (induction xs) (auto simp: filter_empty_conv)

lemma claim_ok:
  assumes "tables_ok db" and "claim_next_step now wid db = Inr (r, db')"
  shows "tables_ok db'"
proof -
  from assms(2) obtain w where w: "find_workflow db (py_strip wid) = Some w" and
    c: "db' = db \<or> ((\<forall>s\<in>set (w_steps w). st_status s \<noteq> StRunning) \<and>
      (db' = upd_workflow (py_strip wid) (\<lambda>_. refresh_workflow now (queue_ready_steps now w)) db \<or>
       (\<exists>c. runnable (queue_ready_steps now w) = Some c \<and> db' = upd_workflow (py_strip wid)
          (\<lambda>_. (map_steps (\<lambda>s. if st_id s = st_id c then claim_step now s else s) (queue_ready_steps now w))
                   \<lparr>w_status := WfRunning, w_current := Some (st_key c), w_updated := now\<rparr>) db)))"
    by (auto simp: claim_next_step_def Let_def split: if_splits option.splits)
  have wm: "w \<in> set (g_workflows db)" using w unfolding find_workflow_def by (simp add: find_Some_mem)
  let ?q = "queue_ready_steps now w"
  have q: "w_ok ?q" using assms(1) wm by (intro queue_ready_ok) (simp add: tables_ok_def)
  from c consider "db' = db" | "db' = upd_workflow (py_strip wid) (\<lambda>_. refresh_workflow now ?q) db"
    | c where "\<forall>s\<in>set (w_steps w). st_status s \<noteq> StRunning" "runnable ?q = Some c" "db' = upd_workflow (py_strip wid)
          (\<lambda>_. (map_steps (\<lambda>s. if st_id s = st_id c then claim_step now s else s) ?q)
                   \<lparr>w_status := WfRunning, w_current := Some (st_key c), w_updated := now\<rparr>) db"
    by blast
  then show ?thesis
  proof cases
    case 3
    let ?f = "\<lambda>s. if st_id s = st_id c then claim_step now s else s"
    have cm: "c \<in> set (w_steps ?q)" "st_status c \<noteq> StPassed" "deps_passed c (status_by_key (w_steps ?q))"
      using find_Some_mem [OF 3(2) [unfolded runnable_def]] by auto
    have nr: "\<forall>s\<in>set (w_steps ?q). st_status s \<noteq> StRunning"
      using 3(1) by (auto simp: queue_ready_steps_def map_steps_def Let_def)
    have uniq: "s = c" if "s \<in> set (w_steps ?q)" "st_id s = st_id c" for s
      using q that cm(1) by (auto simp: w_ok_def distinct_map inj_on_def)
    have "w_ok (map_steps ?f ?q)"
    proof (rule map_steps_okI [OF q])
      have "filter (\<lambda>s. st_status s = StRunning) (map ?f (w_steps ?q))
          = map ?f (filter (\<lambda>s. st_status (?f s) = StRunning) (w_steps ?q))" by (simp add: filter_map comp_def)
      also have "filter (\<lambda>s. st_status (?f s) = StRunning) (w_steps ?q) = filter (\<lambda>s. st_id s = st_id c) (w_steps ?q)"
        using nr by (intro filter_cong) (auto simp: claim_step_def)
      finally have "running_count (map_steps ?f ?q) = length (filter (\<lambda>s. st_id s = st_id c) (w_steps ?q))"
        by (simp add: running_count_def map_steps_def)
      also have "\<dots> = length (filter (\<lambda>i. i = st_id c) (map st_id (w_steps ?q)))"
        by (simp add: filter_map comp_def)
      also have "\<dots> \<le> 1" by (rule distinct_filter_le) (use q in \<open>simp add: w_ok_def\<close>)
      finally show "running_count (map_steps ?f ?q) \<le> 1" .
      fix s assume s: "s \<in> set (w_steps ?q)"
      show "st_id (?f s) = st_id s \<and> st_key (?f s) = st_key s \<and> st_deps (?f s) = st_deps s"
        by (simp add: claim_step_def)
      show "st_status s = StPassed \<Longrightarrow> st_status (?f s) = StPassed" using uniq [OF s] cm(2) by auto
      show "active_status (st_status (?f s)) \<Longrightarrow> deps_passed s (status_by_key (w_steps ?q))"
        using q s uniq [OF s] cm(3) by (cases "st_id s = st_id c") (auto simp: w_ok_def)
    qed
    then show ?thesis using 3(3) assms(1) by (auto intro: upd_workflow_ok)
  qed (use assms(1) q in \<open>auto intro: upd_workflow_ok\<close>)
qed

lemma refresh_tables [simp]: "tables_ok db \<Longrightarrow> tables_ok (upd_workflow wid (refresh_workflow now) db)"
  by (rule upd_workflow_ok) simp_all

lemma complete_ok:
  assumes "tables_ok db" and "complete_step now sid out (Some a) es db = Inr db'"
  shows "tables_ok db'"
proof -
  have "\<exists>wid. db' = upd_workflow wid (\<lambda>v. refresh_workflow now (queue_ready_steps now v))
      (upd_step (py_strip sid) (complete_one now out (Some a) es) db)"
    using assms(2) by (auto simp: complete_step_def Let_def split: if_splits option.splits)
  then obtain wid where db': "db' = upd_workflow wid (\<lambda>v. refresh_workflow now (queue_ready_steps now v))
      (upd_step (py_strip sid) (complete_one now out (Some a) es) db)" ..
  have "tables_ok (upd_step (py_strip sid) (complete_one now out (Some a) es) db)"
    by (rule upd_step_ok [OF assms(1)]) (auto simp: legal_def complete_one_def outcome_guard_def active_status_def)
  then show ?thesis unfolding db' by (rule upd_workflow_ok) (simp add: queue_ready_ok)
qed

lemma block_ok:
  assumes "tables_ok db" and "block_step now sid st msg r p (Some a) es db = Inr db'"
  shows "tables_ok db'"
proof -
  have "\<exists>wid. db' = upd_workflow wid (refresh_workflow now)
      (upd_step sid (block_one now st (block_payload st msg r p) (Some a) es) db)" and st: "st \<in> set BLOCK_STATUSES"
    using assms(2) by (auto simp: block_step_def split: if_splits option.splits)
  then obtain wid where db': "db' = upd_workflow wid (refresh_workflow now)
      (upd_step sid (block_one now st (block_payload st msg r p) (Some a) es) db)" by blast
  have "tables_ok (upd_step sid (block_one now st (block_payload st msg r p) (Some a) es) db)"
    by (rule upd_step_ok [OF assms(1)])
      (use st in \<open>auto simp: legal_def block_one_def outcome_guard_def active_status_def BLOCK_STATUSES_def\<close>)
  then show ?thesis unfolding db' by simp
qed

lemma requeue_legal: "st_status s \<in> set RETRYABLE_STEP_STATUSES \<Longrightarrow> legal status (requeue_one now) s"
  by (auto simp: legal_def requeue_one_def RETRYABLE_STEP_STATUSES_def active_status_def)

text \<open>The step ids of a table are distinct: what the primary key of \<open>gauntlet_steps\<close> enforces.\<close>

definition distinct_ids :: "gdb \<Rightarrow> bool" where
  "distinct_ids db \<longleftrightarrow> distinct (map (st_id \<circ> snd) (all_steps db)) \<and> distinct (map w_id (g_workflows db))"

lemma same_id:
  assumes "distinct_ids db" and "(w, s) \<in> set (all_steps db)" and "(v, t) \<in> set (all_steps db)" and "st_id s = st_id t"
  shows "w = v \<and> s = t"
proof -
  have "inj_on (st_id \<circ> snd) (set (all_steps db))" using assms(1) by (simp add: distinct_ids_def distinct_map)
  from inj_onD [OF this _ assms(2,3)] assms(4) show ?thesis by simp
qed

lemma ids_upd_workflow:
  assumes "\<And>w. w \<in> set (g_workflows db) \<Longrightarrow> w_id (f w) = w_id w \<and> map st_id (w_steps (f w)) = map st_id (w_steps w)"
  shows "distinct_ids (upd_workflow wid f db) = distinct_ids db"
proof -
  have a: "map (st_id \<circ> snd) (all_steps d) = concat (map (\<lambda>w. map st_id (w_steps w)) (g_workflows d))" for d
    by (simp add: all_steps_def map_concat comp_def)
  have "map (\<lambda>w. map st_id (w_steps w)) (g_workflows (upd_workflow wid f db)) = map (\<lambda>w. map st_id (w_steps w)) (g_workflows db)"
    and "map w_id (g_workflows (upd_workflow wid f db)) = map w_id (g_workflows db)"
    using assms by (auto simp: upd_workflow_def)
  then show ?thesis unfolding distinct_ids_def a by simp
qed

lemma ids_upd_step:
  assumes "\<And>s. st_id (f s) = st_id s"
  shows "distinct_ids (upd_step sid f db) = distinct_ids db"
proof -
  have "upd_step sid f db = db\<lparr>g_workflows := map (map_steps (\<lambda>s. if st_id s = sid then f s else s)) (g_workflows db)\<rparr>"
    by (simp add: upd_step_def)
  moreover have "map st_id (w_steps (map_steps (\<lambda>s. if st_id s = sid then f s else s) w)) = map st_id (w_steps w)"
    and "w_id (map_steps (\<lambda>s. if st_id s = sid then f s else s) w) = w_id w" for w
    using assms by (auto simp: map_steps_def)
  ultimately show ?thesis
    by (simp add: distinct_ids_def all_steps_def map_concat comp_def)
qed

lemma ids_add_event [simp]: "distinct_ids (add_event w i t db) = distinct_ids db"
  by (simp add: distinct_ids_def add_event_def all_steps_def)

text \<open>A sweep that updates the steps of some rows is one update of all those steps.\<close>

definition upd_steps :: "string set \<Rightarrow> (step \<Rightarrow> step) \<Rightarrow> gdb \<Rightarrow> gdb" where
  "upd_steps ids f db = db\<lparr>g_workflows := map (map_steps (\<lambda>s. if st_id s \<in> ids then f s else s)) (g_workflows db)\<rparr>"

lemma upd_steps_empty: "upd_steps {} f db = db"
proof -
  have "map_steps (\<lambda>s. s) = (\<lambda>w. w)" by (simp add: map_steps_def fun_eq_iff)
  then show ?thesis by (simp add: upd_steps_def)
qed

lemma foldl_upd_step:
  assumes "\<And>s. st_id (f s) = st_id s" and "distinct (map (st_id \<circ> snd) rows)"
  shows "foldl (\<lambda>d p. upd_step (st_id (snd p)) f d) db rows = upd_steps (st_id ` snd ` set rows) f db"
  using assms(2)
proof (induction rows arbitrary: db)
  case Nil
  show ?case by (simp add: upd_steps_empty)
next
  case (Cons p rows)
  have n: "st_id (snd p) \<notin> st_id ` snd ` set rows" using Cons.prems by (simp add: image_image)
  have "upd_steps (st_id ` snd ` set rows) f (upd_step (st_id (snd p)) f db) = upd_steps (st_id ` snd ` set (p # rows)) f db"
    using n assms(1) by (auto simp: upd_steps_def upd_step_def map_steps_def intro!: map_cong)
  then show ?case using Cons by simp
qed

lemma ids_upd_steps:
  assumes "\<And>s. st_id (f s) = st_id s"
  shows "distinct_ids (upd_steps ids f db) = distinct_ids db"
proof -
  have "map st_id (w_steps (map_steps (\<lambda>s. if st_id s \<in> ids then f s else s) w)) = map st_id (w_steps w)"
    and "w_id (map_steps (\<lambda>s. if st_id s \<in> ids then f s else s) w) = w_id w" for w
    using assms by (auto simp: map_steps_def)
  then show ?thesis
    by (simp add: upd_steps_def distinct_ids_def all_steps_def map_concat comp_def)
qed

lemma upd_steps_ok:
  assumes "tables_ok db"
    and "\<And>w s. w \<in> set (g_workflows db) \<Longrightarrow> s \<in> set (w_steps w) \<Longrightarrow> st_id s \<in> ids \<Longrightarrow>
      legal (status_by_key (w_steps w)) f s"
  shows "tables_ok (upd_steps ids f db)"
proof -
  have "w_ok (map_steps (\<lambda>s. if st_id s \<in> ids then f s else s) w)" if "w \<in> set (g_workflows db)" for w
    by (rule map_steps_ok) (use assms that in \<open>auto simp: tables_ok_def legal_def\<close>)
  then show ?thesis by (auto simp: tables_ok_def upd_steps_def)
qed

lemma refresh_all_ok: "tables_ok db \<Longrightarrow> tables_ok (refresh_all now rows db)"
proof -
  have "tables_ok d \<Longrightarrow> tables_ok (foldl (\<lambda>d wid. upd_workflow wid (refresh_workflow now) d) d ws)" for d ws
    by (induction ws arbitrary: d) auto
  then show "tables_ok db \<Longrightarrow> tables_ok (refresh_all now rows db)" by (simp add: refresh_all_def)
qed

lemma refresh_fields [simp]:
  "w_id (refresh_workflow now w) = w_id w" "w_steps (refresh_workflow now w) = w_steps w"
  by (simp_all add: refresh_workflow_def Let_def)

lemma ids_refresh [simp]: "distinct_ids (upd_workflow wid (refresh_workflow now) db) = distinct_ids db"
  by (rule ids_upd_workflow) simp

lemma ids_refresh_all [simp]: "distinct_ids (refresh_all now rows db) = distinct_ids db"
proof -
  have "distinct_ids (foldl (\<lambda>d wid. upd_workflow wid (refresh_workflow now) d) d ws) = distinct_ids d" for d ws
    by (induction ws arbitrary: d) auto
  then show ?thesis by (simp add: refresh_all_def)
qed

text \<open>The rows a sweep selects are blocked, retryable steps with distinct ids.\<close>

lemma blocked_rows_mem:
  "p \<in> set (blocked_rows db) \<longleftrightarrow> p \<in> set (all_steps db) \<and> st_status (snd p) \<in> set RETRYABLE_STEP_STATUSES \<and>
    w_status (fst p) \<notin> set WORKFLOW_TERMINAL_STATUSES"
  by (auto simp: blocked_rows_def)

lemma distinct_map_sort_key: "distinct (map f (sort_key k xs)) = distinct (map f xs)"
proof -
  have "mset (map f (sort_key k xs)) = mset (map f xs)" by simp
  then show ?thesis by (rule mset_eq_imp_distinct_iff)
qed

lemma blocked_rows_distinct: "distinct_ids db \<Longrightarrow> distinct (map (st_id \<circ> snd) (take n (filter P (blocked_rows db))))"
proof -
  assume "distinct_ids db"
  then have "distinct (map (st_id \<circ> snd) (blocked_rows db))"
    by (simp add: blocked_rows_def distinct_map_sort_key distinct_ids_def distinct_map_filter)
  then show ?thesis by (simp add: take_map [symmetric] distinct_map_filter)
qed

lemma sweep_ok:
  assumes "tables_ok db" and "distinct_ids db" and "\<And>s. st_id (f s) = st_id s"
    and "\<And>s status. st_status s \<in> set RETRYABLE_STEP_STATUSES \<Longrightarrow> legal status f s"
    and "rows = take n (filter P (blocked_rows db))"
  shows "tables_ok (refresh_all now rows (foldl (\<lambda>d p. upd_step (st_id (snd p)) f d) db rows)) \<and>
    distinct_ids (refresh_all now rows (foldl (\<lambda>d p. upd_step (st_id (snd p)) f d) db rows))"
proof -
  have fold: "foldl (\<lambda>d p. upd_step (st_id (snd p)) f d) db rows = upd_steps (st_id ` snd ` set rows) f db"
    unfolding assms(5) by (rule foldl_upd_step [OF assms(3) blocked_rows_distinct [OF assms(2)]])
  have "legal (status_by_key (w_steps w)) f s"
    if mem: "w \<in> set (g_workflows db)" "s \<in> set (w_steps w)" and i: "st_id s \<in> st_id ` snd ` set rows" for w s
  proof -
    have "set rows \<subseteq> set (blocked_rows db)"
      unfolding assms(5) using set_take_subset [of n "filter P (blocked_rows db)"] by auto
    then obtain v t where t: "(v, t) \<in> set (blocked_rows db)" "st_id s = st_id t" using i by fastforce
    then have "s = t" using same_id [OF assms(2), of w s v t] mem by (simp add: blocked_rows_mem all_steps_mem)
    with t(1) show ?thesis by (intro assms(4)) (simp add: blocked_rows_mem)
  qed
  then show ?thesis
    unfolding fold using upd_steps_ok [OF assms(1)] ids_upd_steps [of f, OF assms(3)] assms(2)
    by (simp add: refresh_all_ok)
qed

section \<open>Every operation, in any order\<close>

datatype gevent_in = EClaim int string | EComplete int string jobj int "int option"
  | EBlock int string step_status string bool jobj int "int option"
  | ERetry int string | ECancel int string string string | EReset int string
  | ERecover int int bool | EPreserve int string step jobj | ERequeue int nat | EDrain int nat
  | ECancelLocked int nat | ECancelOrphans int nat

definition or_same :: "gdb \<Rightarrow> gdb result \<Rightarrow> gdb" where
  "or_same db r = (case r of Inr d \<Rightarrow> d | Inl _ \<Rightarrow> db)"

text \<open>An operation that raises leaves the tables as they were: its transaction rolls back.\<close>

fun gstep :: "gdb \<Rightarrow> gevent_in \<Rightarrow> gdb" where
  "gstep db (EClaim now wid) = (case claim_next_step now wid db of Inr (_, d) \<Rightarrow> d | Inl _ \<Rightarrow> db)"
| "gstep db (EComplete now sid out a es) = or_same db (complete_step now sid out (Some a) es db)"
| "gstep db (EBlock now sid st msg r p a es) = or_same db (block_step now sid st msg r p (Some a) es db)"
| "gstep db (ERetry now sid) = or_same db (retry_step now sid db)"
| "gstep db (ECancel now wid actor reason) = or_same db (cancel_workflow now wid actor reason db)"
| "gstep db (EReset now wid) = reset_workflow_to_pending now wid db"
| "gstep db (ERecover now minutes refund) = recover_stale_running_steps now minutes refund db"
| "gstep db (EPreserve now wid snap out) = preserve_running_step now wid snap out db"
| "gstep db (ERequeue now limit) = requeue_retryable_blocked_steps now limit db"
| "gstep db (EDrain now limit) = drain_exhausted_blocked_steps now limit db"
| "gstep db (ECancelLocked now limit) = cancel_param_locked_workflows now limit db"
| "gstep db (ECancelOrphans now limit) = cancel_orphaned_terminal_workflows now limit db"

definition gauntlet_inv :: "gdb \<Rightarrow> bool" where
  "gauntlet_inv db \<longleftrightarrow> tables_ok db \<and> distinct_ids db"

lemma w_steps_fields [simp]:
  "w_steps (map_steps f w) = map f (w_steps w)" "w_id (map_steps f w) = w_id w"
  "w_id (queue_ready_steps now w) = w_id w"
  by (simp_all add: map_steps_def queue_ready_steps_def Let_def)

lemma queue_ready_ids [simp]: "map st_id (w_steps (queue_ready_steps now w)) = map st_id (w_steps w)"
  by (auto simp: queue_ready_steps_def Let_def)

lemma find_workflow_mem: "find_workflow db wid = Some w \<Longrightarrow> w \<in> set (g_workflows db) \<and> w_id w = wid"
  unfolding find_workflow_def by (rule find_Some_mem)

lemma same_workflow:
  assumes "distinct_ids db" and "v \<in> set (g_workflows db)" and "w \<in> set (g_workflows db)" and "w_id v = w_id w"
  shows "v = w"
  using assms by (auto simp: distinct_ids_def distinct_map inj_on_def)

lemma ids_replace_workflow:
  assumes "distinct_ids db" and "find_workflow db wid = Some w"
    and "w_id v = w_id w" and "map st_id (w_steps v) = map st_id (w_steps w)"
  shows "distinct_ids (upd_workflow wid (\<lambda>_. v) db)"
proof -
  have "upd_workflow wid (\<lambda>_. v) db = upd_workflow wid (\<lambda>u. if u = w then v else u) db"
    using find_workflow_mem [OF assms(2)] same_workflow [OF assms(1)] by (auto simp: upd_workflow_def)
  also have "distinct_ids \<dots> = distinct_ids db" by (rule ids_upd_workflow) (use assms(3,4) in auto)
  finally show ?thesis using assms(1) by simp
qed

lemma claim_ids:
  assumes "distinct_ids db" and "claim_next_step now wid db = Inr (r, db')"
  shows "distinct_ids db'"
proof -
  have st: "map st_id (map (\<lambda>s. if st_id s = st_id c then claim_step now s else s) xs) = map st_id xs" for c xs
    by (auto simp: claim_step_def)
  from assms show ?thesis
    by (auto simp: claim_next_step_def Let_def st simp del: map_map split: if_splits option.splits
        intro!: ids_replace_workflow)
qed

lemma complete_ids: "distinct_ids db \<Longrightarrow> complete_step now sid out a es db = Inr db' \<Longrightarrow> distinct_ids db'"
proof -
  have s: "distinct_ids (upd_step i (complete_one now out a es) d) = distinct_ids d" for i d
    by (rule ids_upd_step) (simp add: complete_one_def)
  have w: "distinct_ids (upd_workflow i (\<lambda>v. refresh_workflow now (queue_ready_steps now v)) d) = distinct_ids d" for i d
    by (rule ids_upd_workflow) simp
  show "distinct_ids db \<Longrightarrow> complete_step now sid out a es db = Inr db' \<Longrightarrow> distinct_ids db'"
    by (auto simp: complete_step_def Let_def s w split: if_splits option.splits)
qed

lemma block_ids: "distinct_ids db \<Longrightarrow> block_step now sid st msg r p a es db = Inr db' \<Longrightarrow> distinct_ids db'"
proof -
  have s: "distinct_ids (upd_step i (block_one now st e a es) d) = distinct_ids d" for i d e
    by (rule ids_upd_step) (simp add: block_one_def)
  show "distinct_ids db \<Longrightarrow> block_step now sid st msg r p a es db = Inr db' \<Longrightarrow> distinct_ids db'"
    by (auto simp: block_step_def s split: if_splits option.splits)
qed

lemma retry_inv: "gauntlet_inv db \<Longrightarrow> retry_step now sid db = Inr db' \<Longrightarrow> gauntlet_inv db'"
proof -
  assume inv: "gauntlet_inv db" and r: "retry_step now sid db = Inr db'"
  then obtain w s where f: "find_step db (py_strip sid) = Some (w, s)" and st: "st_status s \<in> set RETRYABLE_STEP_STATUSES"
    and db': "db' = upd_workflow (w_id w) (refresh_workflow now)
      (add_event (w_id w) (Some (py_strip sid)) ''step_retried'' (upd_step (py_strip sid) (requeue_one now) db))"
    by (auto simp: retry_step_def Let_def split: if_splits option.splits)
  have "t = s" if "v \<in> set (g_workflows db)" "t \<in> set (w_steps v)" "st_id t = py_strip sid" for v t
    using same_id [of db v t w s] inv find_step_mem [OF f] that by (simp add: gauntlet_inv_def all_steps_mem)
  then have "tables_ok (upd_step (py_strip sid) (requeue_one now) db)"
    using inv st by (intro upd_step_ok) (auto simp: gauntlet_inv_def intro: requeue_legal)
  moreover have "distinct_ids (upd_step (py_strip sid) (requeue_one now) db) = distinct_ids db"
    by (rule ids_upd_step) (simp add: requeue_one_def)
  ultimately show ?thesis using inv by (simp add: db' gauntlet_inv_def)
qed

lemma cancelled_ok: "w_ok w \<Longrightarrow> w_ok (cancelled_workflow now actor reason w)"
  unfolding cancelled_workflow_def
  by (simp, rule map_steps_ok) (auto simp: legal_def cancel_one_def active_status_def)

lemma cancel_inv: "gauntlet_inv db \<Longrightarrow> cancel_workflow now wid actor reason db = Inr db' \<Longrightarrow> gauntlet_inv db'"
proof -
  have i: "distinct_ids (upd_workflow i (cancelled_workflow now actor reason) d) = distinct_ids d" for i d
    by (rule ids_upd_workflow) (auto simp: cancelled_workflow_def cancel_one_def)
  have c: "tables_ok (upd_workflow i (cancelled_workflow now actor reason) d)" if "tables_ok d" for i d
    using that by (rule upd_workflow_ok) (rule cancelled_ok)
  show "gauntlet_inv db \<Longrightarrow> cancel_workflow now wid actor reason db = Inr db' \<Longrightarrow> gauntlet_inv db'"
    by (auto simp: cancel_workflow_def Let_def gauntlet_inv_def i c split: if_splits option.splits)
qed

lemma cancel_stage_inv: "gauntlet_inv db \<Longrightarrow> gauntlet_inv (cancel_stage_workflows stages now limit reason db)"
proof -
  have "gauntlet_inv d \<Longrightarrow> gauntlet_inv (foldl (\<lambda>d wid. case cancel_workflow now wid ''gauntlet_sweep'' reason d of
      Inr d' \<Rightarrow> d' | Inl _ \<Rightarrow> d) d ws)" for d ws
    by (induction ws arbitrary: d) (auto split: sum.split intro: cancel_inv)
  then show "gauntlet_inv db \<Longrightarrow> gauntlet_inv (cancel_stage_workflows stages now limit reason db)"
    by (simp add: cancel_stage_workflows_def Let_def)
qed

lemma reset_w_ok: "w_ok w \<Longrightarrow> w_ok (map_steps (reset_one now) w)"
  by (auto simp: w_ok_def running_count_def reset_one_def active_status_def comp_def filter_map)

lemma reset_inv: "gauntlet_inv db \<Longrightarrow> gauntlet_inv (reset_workflow_to_pending now wid db)"
  unfolding reset_workflow_to_pending_def gauntlet_inv_def
  by (auto intro!: upd_workflow_ok simp: reset_w_ok ids_upd_workflow reset_one_def)

lemma recover_one_inv: "gauntlet_inv db \<Longrightarrow> gauntlet_inv (recover_step now refund db p)"
proof -
  assume inv: "gauntlet_inv db"
  let ?f = "\<lambda>v. if st_status v = StRunning \<and> st_started v = st_started (snd p)
    then v\<lparr>st_status := StBlockedRuntime, st_completed := Some now, st_updated := now, st_error := Some recover_payload\<rparr> else v"
  have b: "gauntlet_inv (upd_step i ?f d)" if "gauntlet_inv d" for i d
    using that unfolding gauntlet_inv_def
    by (auto intro!: upd_step_ok simp: ids_upd_step legal_def active_status_def)
  have r: "gauntlet_inv (upd_step i (\<lambda>v. v\<lparr>st_attempts := st_attempts v - 1\<rparr>) d)" if "gauntlet_inv d" for i d
    using that unfolding gauntlet_inv_def by (auto intro!: upd_step_ok simp: ids_upd_step legal_def)
  show ?thesis
    unfolding recover_step_def Let_def using inv b r by (auto simp: gauntlet_inv_def)
qed

lemma recover_inv: "gauntlet_inv db \<Longrightarrow> gauntlet_inv (recover_stale_running_steps now minutes refund db)"
proof -
  have "gauntlet_inv d \<Longrightarrow> gauntlet_inv (foldl (recover_step now refund) d ps)" for d ps
    by (induction ps arbitrary: d) (auto intro: recover_one_inv)
  then show "gauntlet_inv db \<Longrightarrow> gauntlet_inv (recover_stale_running_steps now minutes refund db)"
    by (simp add: recover_stale_running_steps_def)
qed

lemma preserve_inv: "gauntlet_inv db \<Longrightarrow> gauntlet_inv (preserve_running_step now wid snap out db)"
proof -
  assume inv: "gauntlet_inv db"
  have "tables_ok (upd_step i (preserve_one now snap out) db)" for i
    using inv by (intro upd_step_ok) (auto simp: gauntlet_inv_def legal_def preserve_one_def)
  moreover have "distinct_ids (upd_step i (preserve_one now snap out) db) = distinct_ids db" for i
    by (rule ids_upd_step) (simp add: preserve_one_def)
  ultimately show ?thesis
    using inv by (auto simp: preserve_running_step_def Let_def gauntlet_inv_def ids_upd_workflow intro!: upd_workflow_ok)
qed

lemma requeue_blocked_legal: "st_status s \<in> set RETRYABLE_STEP_STATUSES \<Longrightarrow> legal status (requeue_blocked now) s"
  using requeue_legal [of s status now] by (auto simp: requeue_blocked_def legal_def)

lemma drain_legal: "st_status s \<in> set RETRYABLE_STEP_STATUSES \<Longrightarrow> legal status (drain_one now) s"
  by (auto simp: legal_def drain_one_def RETRYABLE_STEP_STATUSES_def active_status_def)

lemma requeue_inv: "gauntlet_inv db \<Longrightarrow> gauntlet_inv (requeue_retryable_blocked_steps now limit db)"
  unfolding requeue_retryable_blocked_steps_def Let_def gauntlet_inv_def
  by (rule sweep_ok [OF _ _ _ requeue_blocked_legal refl]) (auto simp: requeue_blocked_def requeue_one_def)

lemma drain_inv: "gauntlet_inv db \<Longrightarrow> gauntlet_inv (drain_exhausted_blocked_steps now limit db)"
  unfolding drain_exhausted_blocked_steps_def Let_def gauntlet_inv_def
  by (rule sweep_ok [OF _ _ _ drain_legal refl]) (auto simp: drain_one_def)

lemma gstep_inv: "gauntlet_inv db \<Longrightarrow> gauntlet_inv (gstep db e)"
proof (cases e)
  case (EClaim now wid)
  assume "gauntlet_inv db"
  then show ?thesis using EClaim claim_ok claim_ids by (auto simp: gauntlet_inv_def split: sum.splits)
next
  case (EComplete now sid out a es)
  assume "gauntlet_inv db"
  then show ?thesis using EComplete complete_ok complete_ids by (auto simp: gauntlet_inv_def or_same_def split: sum.splits)
next
  case (EBlock now sid st msg r p a es)
  assume "gauntlet_inv db"
  then show ?thesis using EBlock block_ok block_ids by (auto simp: gauntlet_inv_def or_same_def split: sum.splits)
qed (auto simp: or_same_def cancel_param_locked_workflows_def cancel_orphaned_terminal_workflows_def split: sum.split
    intro: retry_inv cancel_inv reset_inv recover_inv preserve_inv requeue_inv drain_inv cancel_stage_inv)

interpretation gauntlet: invariant_run gstep gauntlet_inv
  by unfold_locales (rule gstep_inv)

end
