(* ===== verification/Gauntlet_Props.thy ===== *)
theory Gauntlet_Props
  imports Gauntlet_Inv
begin

text \<open>
  The properties of the gauntlet: the order and exclusiveness of the steps under every
  interleaving of the drivers and sweeps, the identity of an attempt, progress, the economics of
  the retries, and the two status functions of the API.
\<close>

section \<open>Fresh workflows\<close>

definition fresh_tables :: "gdb \<Rightarrow> bool" where
  "fresh_tables db \<longleftrightarrow> distinct_ids db \<and>
     (\<forall>w\<in>set (g_workflows db). \<exists>uuid now sid. inj uuid \<and> w = new_workflow uuid now sid)"

lemma new_workflow_ok: "inj uuid \<Longrightarrow> w_ok (new_workflow uuid now sid)"
proof -
  assume u: "inj uuid"
  let ?ss = "new_steps uuid now"
  have len: "length WORKFLOW_STEPS = 12" by (simp add: WORKFLOW_STEPS_def)
  have st: "st_status s \<noteq> StRunning \<and> (st_status s = StQueued \<longrightarrow> st_deps s = []) \<and> st_status s \<in> {StQueued, StPending}"
    if "s \<in> set ?ss" for s
    using that by (auto simp: new_steps_def Let_def WORKFLOW_STEPS_def wf_step_def split: if_splits)
  have "map (\<lambda>s. (st_key s, st_deps s)) ?ss = map (\<lambda>d. (d_key d, d_deps d)) WORKFLOW_STEPS"
    by (rule nth_equalityI) (simp_all add: new_steps_def Let_def)
  moreover have "distinct (map st_id ?ss)"
    using u by (auto simp: new_steps_def Let_def distinct_map inj_on_def)
  moreover have "running_count (new_workflow uuid now sid) = 0"
    using st by (auto simp: running_count_def new_workflow_def filter_empty_conv)
  moreover have "\<forall>s\<in>set ?ss. active_status (st_status s) \<longrightarrow> deps_passed s (status_by_key ?ss)"
    using st by (fastforce simp: active_status_def deps_passed_def)
  ultimately show ?thesis by (simp add: w_ok_def new_workflow_def)
qed

lemma fresh_inv: "fresh_tables db \<Longrightarrow> gauntlet_inv db"
  using new_workflow_ok by (auto simp: fresh_tables_def gauntlet_inv_def tables_ok_def)

lemma reachable_inv: "fresh_tables db \<Longrightarrow> gauntlet_inv (foldl gstep db es)"
  by (rule gauntlet.run_inv [OF fresh_inv])

definition demo_uuid :: "nat \<Rightarrow> string" where
  "demo_uuid n = replicate n CHR ''a''"

definition demo_db :: gdb where
  "demo_db = \<lparr>g_workflows = [new_workflow demo_uuid 0 ''S1''], g_events = [], g_outcomes = [],
     g_stage = [(''S1'', ''quick_screen'')]\<rparr>"

lemma demo_fresh: "fresh_tables demo_db"
proof -
  have "inj demo_uuid" by (auto simp: inj_def demo_uuid_def dest: arg_cong [of _ _ length])
  moreover have "distinct_ids demo_db"
  proof -
    have "distinct (map st_id (new_steps demo_uuid 0))"
      using new_workflow_ok [OF \<open>inj demo_uuid\<close>, of 0 "''S1''"] by (simp add: w_ok_def new_workflow_def)
    then show ?thesis by (simp add: distinct_ids_def demo_db_def all_steps_def new_workflow_def comp_def)
  qed
  ultimately show ?thesis by (auto simp: fresh_tables_def demo_db_def)
qed



section \<open>The promotion gate\<close>

definition ROBUSTNESS_STEP_KEYS :: "string list" where
  "ROBUSTNESS_STEP_KEYS = [''walk_forward'', ''monte_carlo'', ''parameter_jitter'', ''cost_stress'', ''regime_split'']"

lemma claimed_mem:
  assumes "claim_next_step now wid db = Inr (Some c, db')" and "find_workflow db (py_strip wid) = Some w"
  shows "\<exists>w'\<in>set (g_workflows db'). w_id w' = py_strip wid \<and> c \<in> set (w_steps w') \<and> st_status c = StRunning"
proof -
  let ?q = "queue_ready_steps now w"
  obtain c0 where r: "runnable ?q = Some c0" and c: "c = claim_step now c0" and
    db': "db' = upd_workflow (py_strip wid) (\<lambda>_. (map_steps (\<lambda>s. if st_id s = st_id c0 then claim_step now s else s) ?q)
       \<lparr>w_status := WfRunning, w_current := Some (st_key c0), w_updated := now\<rparr>) db"
    using assms by (auto simp: claim_next_step_def Let_def split: if_splits option.splits)
  have "c0 \<in> set (w_steps ?q)" using find_Some_mem [OF r [unfolded runnable_def]] by simp
  let ?v = "(map_steps (\<lambda>s. if st_id s = st_id c0 then claim_step now s else s) ?q)
       \<lparr>w_status := WfRunning, w_current := Some (st_key c0), w_updated := now\<rparr>"
  have "?v \<in> set (g_workflows db')"
    using find_workflow_mem [OF assms(2)] unfolding db' upd_workflow_def by (auto simp: image_iff)
  moreover have "c \<in> set (w_steps ?v)" using \<open>c0 \<in> set (w_steps ?q)\<close> by (auto simp: c image_iff)
  moreover have "w_id ?v = py_strip wid" "st_status c = StRunning"
    using find_workflow_mem [OF assms(2)] by (simp_all add: c claim_step_def)
  ultimately show ?thesis by blast
qed

text \<open>The paper promotion gate is claimed only when all five robustness tests have passed in that workflow,
  in every consistent state of the tables (and so in every state the gauntlet can reach).\<close>

lemma promotion_gate_needs_all_robustness:
  assumes "gauntlet_inv db" and "claim_next_step now wid db = Inr (Some c, db')"
    and "st_key c = ''paper_promotion_gate''"
  shows "\<exists>w\<in>set (g_workflows db'). w_id w = py_strip wid \<and> c \<in> set (w_steps w) \<and>
    (\<forall>k\<in>set ROBUSTNESS_STEP_KEYS. status_by_key (w_steps w) k = Some StPassed)"
proof -
  have inv: "gauntlet_inv db'"
    using gstep_inv [OF assms(1), of "EClaim now wid"] assms(2) by simp
  obtain w0 where "find_workflow db (py_strip wid) = Some w0"
    using assms(2) by (auto simp: claim_next_step_def Let_def split: if_splits option.splits)
  from claimed_mem [OF assms(2) this] obtain w where w: "w \<in> set (g_workflows db')" "w_id w = py_strip wid"
    "c \<in> set (w_steps w)" "st_status c = StRunning" by blast
  have ok: "w_ok w" using inv w by (simp add: gauntlet_inv_def tables_ok_def)
  have "(st_key c, st_deps c) \<in> set (map (\<lambda>s. (st_key s, st_deps s)) (w_steps w))" using w(3) by simp
  then have "(st_key c, st_deps c) \<in> set (map (\<lambda>d. (d_key d, d_deps d)) WORKFLOW_STEPS)"
    using ok by (simp only: w_ok_def)
  then have "set (st_deps c) = set ROBUSTNESS_STEP_KEYS"
    using assms(3) by (auto simp: WORKFLOW_STEPS_def wf_step_def ROBUSTNESS_STEP_KEYS_def)
  moreover have "deps_passed c (status_by_key (w_steps w))" using ok w by (simp add: w_ok_def active_status_def)
  ultimately show ?thesis using w by (auto simp: deps_passed_def list_all_iff)
qed

text \<open>A workflow whose first eleven steps have passed.\<close>

definition gate_db :: gdb where
  "gate_db = demo_db\<lparr>g_workflows := map (map_steps (\<lambda>s. if st_key s = ''paper_promotion_gate'' then s
     else s\<lparr>st_status := StPassed\<rparr>)) (g_workflows demo_db)\<rparr>"

lemma gate_inv: "gauntlet_inv gate_db"
proof -
  have "w_ok (hd (g_workflows gate_db))" by code_simp
  moreover have "g_workflows gate_db = [hd (g_workflows gate_db)]" by (simp add: gate_db_def demo_db_def)
  ultimately have "tables_ok gate_db" by (metis tables_ok_def list.set_cases list.set_intros(1) set_ConsD empty_iff empty_set)
  moreover have "distinct_ids gate_db" by code_simp
  ultimately show ?thesis by (simp add: gauntlet_inv_def)
qed

section \<open>The identity of an attempt\<close>

lemma find_stepI:
  assumes "distinct_ids db" and "(w, s) \<in> set (all_steps db)"
  shows "find_step db (st_id s) = Some (w, s)"
proof (cases "find_step db (st_id s)")
  case None
  then show ?thesis using assms(2) by (force simp: find_step_def find_None_iff)
next
  case (Some p)
  obtain v t where p: "p = (v, t)" by (cases p)
  from find_step_mem [OF Some [unfolded p]] same_id [OF assms(1), of v t w s] assms(2) Some p
  show ?thesis by (simp add: all_steps_mem)
qed

lemma upd_step_same:
  assumes "distinct_ids db" and "(w, s) \<in> set (all_steps db)" and "f s = s"
  shows "upd_step (st_id s) f db = db"
proof -
  have "(if st_id t = st_id s then f t else t) = t" if "v \<in> set (g_workflows db)" "t \<in> set (w_steps v)" for v t
    using same_id [OF assms(1), of v t w s] assms(2,3) that by (auto simp: all_steps_mem)
  then have "map_steps (\<lambda>t. if st_id t = st_id s then f t else t) v = v" if "v \<in> set (g_workflows db)" for v
    using that by (simp add: map_steps_def map_idI)
  then show ?thesis by (simp add: upd_step_def map_idI)
qed

text \<open>An outcome that arrives late is ignored: once the attempt it belongs to is no longer the running one
  (it was recovered, re-queued, claimed again, cancelled or completed) neither completing nor blocking
  changes anything the step has recorded, and a step that is not running does not become passed.\<close>

lemma late_outcome_is_ignored:
  assumes "distinct_ids db" and "find_step db sid = Some (w, s)" and "py_strip sid = sid"
    and "\<not> (st_status s = StRunning \<and> st_attempts s = a \<and> st_started s = Some t)"
    and "complete_step now sid out (Some a) (Some t) db = Inr db' \<or>
         block_step now sid st msg r p (Some a) (Some t) db = Inr db'"
  shows "\<exists>w' s'. find_step db' sid = Some (w', s') \<and>
    (st_status s' = st_status s \<or> st_status s = StPending \<and> st_status s' = StQueued) \<and>
    st_output s' = st_output s \<and> st_error s' = st_error s \<and> st_result s' = st_result s \<and>
    st_attempts s' = st_attempts s \<and> st_started s' = st_started s"
proof -
  have mem: "(w, s) \<in> set (all_steps db)" and sid: "sid = st_id s"
    using find_step_mem [OF assms(2)] by (auto simp: all_steps_mem)
  have guard: "\<not> outcome_guard (Some a) (Some t) s" using assms(4) by (auto simp: outcome_guard_def)
  have c: "upd_step sid (complete_one now out (Some a) (Some t)) db = db"
    unfolding sid by (rule upd_step_same [OF assms(1) mem]) (use guard in \<open>simp add: complete_one_def\<close>)
  have b: "upd_step sid (block_one now st e (Some a) (Some t)) db = db" for e
    unfolding sid by (rule upd_step_same [OF assms(1) mem]) (use guard in \<open>simp add: block_one_def\<close>)
  define f where "f = (if complete_step now sid out (Some a) (Some t) db = Inr db'
    then (\<lambda>v. refresh_workflow now (queue_ready_steps now v)) else refresh_workflow now)"
  have db': "db' = upd_workflow (w_id w) f db"
    using assms(2,3,5) c b by (auto simp: f_def complete_step_def block_step_def Let_def split: if_splits)
  define g where "g = (\<lambda>s. if complete_step now sid out (Some a) (Some t) db = Inr db' \<and> st_status s = StPending \<and>
    deps_passed s (status_by_key (w_steps w)) then s\<lparr>st_status := StQueued, st_updated := now\<rparr> else s)"
  have "g s \<in> set (w_steps (f w))"
    using mem by (auto simp: f_def g_def all_steps_mem queue_ready_steps_def Let_def image_iff)
  then have "(f w, g s) \<in> set (all_steps db')"
    using mem by (auto simp: db' all_steps_mem upd_workflow_def image_iff)
  moreover have "distinct_ids db'"
    unfolding db' using assms(1) by (subst ids_upd_workflow) (auto simp: f_def)
  moreover have "st_id (g s) = sid" by (simp add: g_def sid)
  ultimately have "find_step db' sid = Some (f w, g s)" using find_stepI by metis
  then show ?thesis by (auto simp: g_def)
qed

section \<open>No blocked step is stuck\<close>

lemma mem_refresh_all:
  "(\<exists>w. (w, s) \<in> set (all_steps (refresh_all now rows db))) \<longleftrightarrow> (\<exists>w. (w, s) \<in> set (all_steps db))"
proof -
  have ex: "(\<exists>w. (w, s) \<in> set (all_steps d)) \<longleftrightarrow> s \<in> set (concat (map w_steps (g_workflows d)))" for d
    by (auto simp: all_steps_mem)
  have one: "map w_steps (g_workflows (upd_workflow i (refresh_workflow now) d)) = map w_steps (g_workflows d)" for i d
    by (simp add: upd_workflow_def)
  have "map w_steps (g_workflows (foldl (\<lambda>d wid. upd_workflow wid (refresh_workflow now) d) d ws)) = map w_steps (g_workflows d)" for d ws
    by (induction ws arbitrary: d) (simp_all add: one)
  then show ?thesis by (simp only: ex refresh_all_def)
qed

lemma mem_upd_steps:
  "(w, s) \<in> set (all_steps db) \<Longrightarrow> \<exists>w'. (w', if st_id s \<in> ids then f s else s) \<in> set (all_steps (upd_steps ids f db))"
proof -
  assume "(w, s) \<in> set (all_steps db)"
  then have "(map_steps (\<lambda>s. if st_id s \<in> ids then f s else s) w, if st_id s \<in> ids then f s else s)
      \<in> set (all_steps (upd_steps ids f db))"
    by (auto simp: all_steps_mem upd_steps_def)
  then show ?thesis by blast
qed

lemma length_blocked_rows: "length (blocked_rows db) \<le> length (all_steps db)"
  by (simp add: blocked_rows_def)

lemma sweep_reaches:
  assumes d: "distinct_ids db" and f: "\<And>s. st_id (f s) = st_id s" and lim: "length (all_steps db) \<le> limit"
    and row: "(w, s) \<in> set (blocked_rows db)" and P: "P (w, s)"
    and rows: "rows = take (max limit 1) (filter P (blocked_rows db))"
  shows "map_option snd (find_step (refresh_all now rows (foldl (\<lambda>d p. upd_step (st_id (snd p)) f d) db rows)) (st_id s)) = Some (f s)"
proof -
  let ?d = "foldl (\<lambda>d p. upd_step (st_id (snd p)) f d) db rows"
  have "length (filter P (blocked_rows db)) \<le> limit"
    using lim length_blocked_rows [of db] length_filter_le [of P "blocked_rows db"] by linarith
  then have all: "rows = filter P (blocked_rows db)" using rows by simp
  have fold: "?d = upd_steps (st_id ` snd ` set rows) f db"
    unfolding rows by (rule foldl_upd_step [OF f blocked_rows_distinct [OF d]])
  have "st_id s \<in> st_id ` snd ` set rows" using row P all by force
  then have "\<exists>w'. (w', f s) \<in> set (all_steps ?d)"
    using mem_upd_steps [of w s db "st_id ` snd ` set rows" f] row by (simp add: fold blocked_rows_mem)
  then obtain w' where m: "(w', f s) \<in> set (all_steps (refresh_all now rows ?d))" using mem_refresh_all by blast
  have "distinct_ids (refresh_all now rows ?d)" using d ids_upd_steps [of f, OF f] by (simp add: fold)
  from find_stepI [OF this m] show ?thesis by (simp add: f)
qed

text \<open>There is no dead zone between the two sweeps. A retryable blocked step of an active workflow, unless it
  is marked not retryable, is either queued again by the re-queue sweep once its backoff is over (and for the
  exempt reasons with its attempts forgiven), or has used up its attempts and the drain sweep fails the gate
  with a payload that says this was no verdict on merit. A sweep that may touch every step is assumed.\<close>

lemma blocked_steps_never_stuck:
  assumes "distinct_ids db" and "(w, s) \<in> set (all_steps db)" and "st_status s \<in> set RETRYABLE_STEP_STATUSES"
    and "w_status w \<notin> set WORKFLOW_TERMINAL_STATUSES" and "\<not> not_retryable s" and "length (all_steps db) \<le> limit"
  shows "if exempt_from_attempts s \<or> st_attempts s < effective_max_attempts (st_max s)
    then backoff_over now s \<longrightarrow>
      map_option snd (find_step (requeue_retryable_blocked_steps now limit db) (st_id s)) = Some (requeue_blocked now s)
    else map_option snd (find_step (drain_exhausted_blocked_steps now limit db) (st_id s)) = Some (drain_one now s) \<and>
      jget (drain_payload (st_error s)) ''merit'' = JBool False"
proof -
  have row: "(w, s) \<in> set (blocked_rows db)" using assms(2-4) by (simp add: blocked_rows_mem)
  have rq: "map_option snd (find_step (requeue_retryable_blocked_steps now limit db) (st_id s)) = Some (requeue_blocked now s)"
    if "exempt_from_attempts s \<or> st_attempts s < effective_max_attempts (st_max s)" and "backoff_over now s"
    unfolding requeue_retryable_blocked_steps_def Let_def
    by (rule sweep_reaches [OF assms(1) _ assms(6) row _ refl])
      (use that assms(5) in \<open>simp_all add: requeue_eligible_def requeue_blocked_def requeue_one_def\<close>)
  have dr: "map_option snd (find_step (drain_exhausted_blocked_steps now limit db) (st_id s)) = Some (drain_one now s)"
    if "\<not> (exempt_from_attempts s \<or> st_attempts s < effective_max_attempts (st_max s))"
    unfolding drain_exhausted_blocked_steps_def Let_def
    by (rule sweep_reaches [OF assms(1) _ assms(6) row _ refl])
      (use that assms(5) in \<open>auto simp: drain_eligible_def drain_one_def effective_max_attempts_def TRANSIENT_MAX_ATTEMPTS_def split: if_splits\<close>)
  have "jget (drain_payload e) ''merit'' = JBool False" for e
  proof -
    have sj: "jget (stored_json d) k = sanitize_non_finite (jget d k)" for d k
      by (induction d) (auto simp: stored_json_def jget_def)
    show ?thesis by (simp add: drain_payload_def Let_def sj jget_dict_set dict_setdefault_def split: option.split)
  qed
  with rq dr show ?thesis by simp
qed

definition blocked_db :: gdb where
  "blocked_db = foldl gstep demo_db [EClaim 5 ''gw_'',
     EBlock 6 ''gws_a'' StBlockedData ''no rows'' True [(''reason_code'', JStr ''gate_contention'')] 1 (Some 5)]"

section \<open>Progress\<close>

lemma steps_ordered:
  "\<forall>i<length WORKFLOW_STEPS. \<forall>d\<in>set (d_deps (WORKFLOW_STEPS ! i)). \<exists>j<i. d_key (WORKFLOW_STEPS ! j) = d"
  by code_simp

lemma distinct_keys: "distinct (map d_key WORKFLOW_STEPS)"
  by code_simp

lemma status_by_key_nth:
  assumes "distinct (map st_key steps)" and "j < length steps"
  shows "status_by_key steps (st_key (steps ! j)) = Some (st_status (steps ! j))"
proof -
  have "distinct (map fst (rev (map (\<lambda>s. (st_key s, st_status s)) steps)))"
    using assms(1) by (simp add: rev_map [symmetric] comp_def)
  moreover have "(st_key (steps ! j), st_status (steps ! j)) \<in> set (rev (map (\<lambda>s. (st_key s, st_status s)) steps))"
    using assms(2) by simp
  ultimately show ?thesis unfolding status_by_key_def by (rule map_of_is_SomeI)
qed

lemma first_unpassed_ready:
  assumes "w_ok w" and "\<exists>s\<in>set (w_steps w). st_status s \<noteq> StPassed"
  shows "\<exists>s\<in>set (w_steps w). st_status s \<noteq> StPassed \<and> deps_passed s (status_by_key (w_steps w))"
proof -
  let ?ss = "w_steps w"
  let ?P = "\<lambda>i. i < length ?ss \<and> st_status (?ss ! i) \<noteq> StPassed"
  have "\<exists>i. ?P i" using assms(2) by (auto simp: in_set_conv_nth)
  then have "\<exists>i. ?P i \<and> (\<forall>j<i. \<not> ?P j)" by (rule iffD1 [OF exists_least_iff])
  then obtain i where i: "?P i" and least: "\<And>j. j < i \<Longrightarrow> \<not> ?P j" by blast
  have keys: "map (\<lambda>s. (st_key s, st_deps s)) ?ss = map (\<lambda>d. (d_key d, d_deps d)) WORKFLOW_STEPS"
    using assms(1) by (simp only: w_ok_def)
  have len: "length ?ss = length WORKFLOW_STEPS" using arg_cong [OF keys, of length] by simp
  have nth: "st_key (?ss ! j) = d_key (WORKFLOW_STEPS ! j) \<and> st_deps (?ss ! j) = d_deps (WORKFLOW_STEPS ! j)"
    if "j < length ?ss" for j
    using arg_cong [OF keys, of "\<lambda>xs. xs ! j"] that len by simp
  have "map st_key ?ss = map d_key WORKFLOW_STEPS" using arg_cong [OF keys, of "map fst"] by (simp add: comp_def)
  then have dist: "distinct (map st_key ?ss)" using distinct_keys by simp
  have "status_by_key ?ss d = Some StPassed" if d: "d \<in> set (st_deps (?ss ! i))" for d
  proof -
    have "d \<in> set (d_deps (WORKFLOW_STEPS ! i))" using d nth i by simp
    then obtain j where j: "j < i" "d_key (WORKFLOW_STEPS ! j) = d" using steps_ordered i len by metis
    then have jl: "j < length ?ss" using i by simp
    have "st_status (?ss ! j) = StPassed" using least [OF j(1)] jl by simp
    then show ?thesis using status_by_key_nth [OF dist jl] nth [OF jl] j(2) by simp
  qed
  then have "deps_passed (?ss ! i) (status_by_key ?ss)" by (simp add: deps_passed_def list_all_iff)
  with i show ?thesis by (meson nth_mem)
qed

text \<open>C24: The gauntlet never stalls: in a consistent table, a workflow that is not finished and in which every step
  is pending, queued or passed always has a step to claim, and the claim makes it the one running step.\<close>

theorem gauntlet_never_stalls:
  assumes "gauntlet_inv db" and "py_strip wid = wid" and "find_workflow db wid = Some w" and "wid \<noteq> []"
    and "w_status w \<notin> set WORKFLOW_TERMINAL_STATUSES"
    and "\<forall>s\<in>set (w_steps w). st_status s \<in> {StPending, StQueued, StPassed}"
    and "\<exists>s\<in>set (w_steps w). st_status s \<noteq> StPassed"
  shows "\<exists>c db'. claim_next_step now wid db = Inr (Some c, db') \<and> st_status c = StRunning \<and> gauntlet_inv db'"
proof -
  let ?q = "queue_ready_steps now w"
  have ok: "w_ok w" using assms(1) find_workflow_mem [OF assms(3)] by (simp add: gauntlet_inv_def tables_ok_def)
  obtain s where s: "s \<in> set (w_steps w)" "st_status s \<noteq> StPassed" "deps_passed s (status_by_key (w_steps w))"
    using first_unpassed_ready [OF ok assms(7)] by blast
  let ?f = "\<lambda>s. if st_status s = StPending \<and> deps_passed s (status_by_key (w_steps w))
                    then s\<lparr>st_status := StQueued, st_updated := now\<rparr> else s"
  have q: "w_steps ?q = map ?f (w_steps w)" by (simp add: queue_ready_steps_def Let_def)
  have "st_status s \<in> {StPending, StQueued, StPassed}" using assms(6) s(1) by (rule bspec)
  then have "st_status (?f s) \<in> {StQueued, StPending}" using s by auto
  moreover have "deps_passed (?f s) (status_by_key (w_steps ?q))"
    unfolding q by (rule deps_passed_mono [OF _ s(3)]) auto
  moreover have "?f s \<in> set (w_steps ?q)" using s(1) by (simp add: q)
  ultimately have "runnable ?q \<noteq> None"
    unfolding runnable_def find_None_iff by blast
  then obtain c where c: "runnable ?q = Some c" by blast
  have nr: "\<not> (\<exists>s\<in>set (w_steps w). st_status s = StRunning)" using assms(6) by force
  have "\<exists>db'. claim_next_step now wid db = Inr (Some (claim_step now c), db')"
    unfolding claim_next_step_def Let_def using assms(2-5) nr c by simp
  then obtain db' where cl: "claim_next_step now wid db = Inr (Some (claim_step now c), db')" by blast
  moreover have "gauntlet_inv db'" using gstep_inv [OF assms(1), of "EClaim now wid"] cl by simp
  ultimately show ?thesis by (auto simp: claim_step_def)
qed

theorem gauntlet_never_stalls_witness:
  "\<exists>c db'. claim_next_step 7 ''gw_'' demo_db = Inr (Some c, db') \<and> st_status c = StRunning"
proof -
  have s: "py_strip ''gw_'' = ''gw_''" by code_simp
  have w: "find_workflow demo_db ''gw_'' = Some (new_workflow demo_uuid 0 ''S1'')"
    by (simp add: find_workflow_def demo_db_def new_workflow_def demo_uuid_def)
  have t: "w_status (new_workflow demo_uuid 0 ''S1'') \<notin> set WORKFLOW_TERMINAL_STATUSES" by code_simp
  have a: "\<forall>s\<in>set (w_steps (new_workflow demo_uuid 0 ''S1'')). st_status s \<in> {StPending, StQueued, StPassed}"
    and u: "\<exists>s\<in>set (w_steps (new_workflow demo_uuid 0 ''S1'')). st_status s \<noteq> StPassed" by code_simp+
  from gauntlet_never_stalls [OF fresh_inv [OF demo_fresh] s w _ t a u] show ?thesis by blast
qed

section \<open>The status API\<close>

lemma find_only: "\<forall>x\<in>set ss. P x \<longrightarrow> x = b \<Longrightarrow> b \<in> set ss \<Longrightarrow> P b \<Longrightarrow> List.find P ss = Some b"
proof (induction ss)
  case (Cons x xs)
  show ?case
  proof (cases "P x")
    case True
    with Cons.prems(1) have "x = b" by (meson list.set_intros(1))
    with True show ?thesis by simp
  next
    case False
    then have "b \<in> set xs" using Cons.prems(2,3) by (metis set_ConsD)
    moreover have "\<forall>x\<in>set xs. P x \<longrightarrow> x = b" using Cons.prems(1) by (meson list.set_intros(2))
    ultimately have "List.find P xs = Some b" using Cons.IH Cons.prems(3) by blast
    with False show ?thesis by simp
  qed
qed simp

lemma status_agree_blocked:
  assumes "set ss \<inter> {StBlockedData, StBlockedRuntime, StBlockedOperator} = {b}"
  shows "status_from_steps ss = workflow_status ss"
proof -
  let ?B = "{StBlockedData, StBlockedRuntime, StBlockedOperator}"
  have "b \<in> set ss \<inter> ?B" unfolding assms by simp
  then have b: "b \<in> set ss" "b \<in> ?B" by simp_all
  have only: "\<forall>x\<in>set ss. x \<in> ?B \<longrightarrow> x = b"
  proof (intro ballI impI)
    fix x assume "x \<in> set ss" "x \<in> ?B"
    then have "x \<in> set ss \<inter> ?B" by (rule IntI)
    then show "x = b" unfolding assms by simp
  qed
  have f: "List.find (\<lambda>s. s \<in> ?B) ss = Some b" by (rule find_only [OF only b])
  have n: "\<not> list_all (\<lambda>s. s = StCancelled \<or> s = StPassed) ss" using b by (auto simp: list_all_iff)
  have m: "StBlockedData \<in> set ss \<longleftrightarrow> b = StBlockedData" "StBlockedRuntime \<in> set ss \<longleftrightarrow> b = StBlockedRuntime"
    "StBlockedOperator \<in> set ss \<longleftrightarrow> b = StBlockedOperator"
    using only b(1) by blast+
  have w: "workflow_status ss = (if b = StBlockedData then WfBlockedData else if b = StBlockedRuntime then WfBlockedRuntime
      else WfBlockedOperator)"
    using b(2) n by (auto simp: workflow_status_def m)
  from b(2) show ?thesis unfolding w status_from_steps_def f by auto
qed

lemma status_agree_unblocked:
  assumes "set ss \<inter> {StBlockedData, StBlockedRuntime, StBlockedOperator} = {}" and "StSkipped \<notin> set ss"
    and "StCancelled \<in> set ss \<Longrightarrow> set ss \<subseteq> {StPassed, StCancelled}"
  shows "status_from_steps ss = workflow_status ss"
proof -
  have nb: "StBlockedData \<notin> set ss" "StBlockedRuntime \<notin> set ss" "StBlockedOperator \<notin> set ss" using assms(1) by auto
  have f: "List.find (\<lambda>s. s \<in> {StBlockedData, StBlockedRuntime, StBlockedOperator}) ss = None"
    unfolding find_None_iff using assms(1) by blast
  show ?thesis
  proof (cases "StCancelled \<in> set ss")
    case True
    with assms(3) have sub: "set ss \<subseteq> {StPassed, StCancelled}" by blast
    have "list_all (\<lambda>s. s = StCancelled \<or> s = StPassed) ss" "ss \<noteq> []" "StFailedGate \<notin> set ss"
      using sub True by (auto simp: list_all_iff)
    with True show ?thesis unfolding status_from_steps_def f by (simp add: workflow_status_def)
  next
    case False
    show ?thesis
    proof (cases "ss \<noteq> [] \<and> list_all (\<lambda>s. s = StPassed) ss")
      case True
      then have "StFailedGate \<notin> set ss" "StPassed \<in> set ss" "list_all (\<lambda>s. s \<in> set STEP_TERMINAL_STATUSES) ss"
        "list_all (\<lambda>s. s = StCancelled \<or> s = StPassed) ss"
        by (auto simp: list_all_iff STEP_TERMINAL_STATUSES_def intro!: hd_in_set)
           (metis hd_in_set)
      with True False show ?thesis unfolding status_from_steps_def f by (simp add: workflow_status_def)
    next
      case np: False
      have w: "\<not> (ss \<noteq> [] \<and> list_all (\<lambda>s. s = StCancelled \<or> s = StPassed) ss)"
        using np False by (auto simp: list_all_iff)
      have t: "StFailedGate \<in> set ss \<or> \<not> (ss \<noteq> [] \<and> list_all (\<lambda>s. s \<in> set STEP_TERMINAL_STATUSES) ss)"
        using np False nb assms(2) by (auto simp: list_all_iff STEP_TERMINAL_STATUSES_def)
      from t show ?thesis unfolding status_from_steps_def f using False nb w by (auto simp: workflow_status_def)
    qed
  qed
qed

text \<open>The status API and the engine agree on a workflow as long as no step is skipped, cancelled steps come from
  cancelling the whole workflow, and the blocked steps are of one kind. They do not agree in general: the API
  takes the first blocked step where the engine ranks data before runtime, and calls a workflow with a skipped
  step passed where the engine calls it pending.\<close>

lemma status_api_agrees:
  assumes "StSkipped \<notin> set ss" and "StCancelled \<in> set ss \<Longrightarrow> set ss \<subseteq> {StPassed, StCancelled}"
    and "set ss \<inter> {StBlockedData, StBlockedRuntime, StBlockedOperator} \<subseteq> {b}"
  shows "status_from_steps ss = workflow_status ss \<and>
    status_from_steps [StBlockedRuntime, StBlockedData] \<noteq> workflow_status [StBlockedRuntime, StBlockedData] \<and>
    status_from_steps [StSkipped, StPassed] \<noteq> workflow_status [StSkipped, StPassed]"
proof (intro conjI)
  from assms(3) consider "set ss \<inter> {StBlockedData, StBlockedRuntime, StBlockedOperator} = {}"
    | "set ss \<inter> {StBlockedData, StBlockedRuntime, StBlockedOperator} = {b}" by blast
  then show "status_from_steps ss = workflow_status ss"
    by cases (use assms(1,2) in \<open>blast intro: status_agree_blocked status_agree_unblocked\<close>)+
qed (simp_all add: status_from_steps_def workflow_status_def STEP_TERMINAL_STATUSES_def)

section \<open>The retry budget\<close>

text \<open>A transient block is retried after 2 to 30 minutes, never sooner on a later attempt, and the seven waits
  before the drain threshold of eight attempts add up to two hours; a reason that is never drained is retried
  on a fixed cadence of at least ten minutes.\<close>

lemma retry_budget_is_two_hours:
  assumes "reason \<notin> set NO_DRAIN_REASON_CODES" and "slow \<in> set NO_DRAIN_REASON_CODES" and "a \<le> b"
  shows "2 \<le> requeue_backoff_minutes a reason \<and> requeue_backoff_minutes b reason \<le> 30 \<and>
    requeue_backoff_minutes a reason \<le> requeue_backoff_minutes b reason \<and>
    sum_list (map (\<lambda>i. requeue_backoff_minutes i reason) [1 .. effective_max_attempts 3 - 1]) = 120 \<and>
    10 \<le> requeue_backoff_minutes a slow \<and> requeue_backoff_minutes a slow = requeue_backoff_minutes b slow"
proof -
  have ns: "map_of SLOW_BLOCK_BACKOFF_MINUTES reason = None"
    using assms(1) by (auto simp: SLOW_BLOCK_BACKOFF_MINUTES_def NO_DRAIN_REASON_CODES_def)
  have f: "requeue_backoff_minutes i reason = min (2 * 2 ^ nat (max i 1 - 1)) 30" for i
    using assms(1) by (simp add: requeue_backoff_minutes_def ns)
  have "(2::rat) ^ nat (max a 1 - 1) \<le> 2 ^ nat (max b 1 - 1)"
    using assms(3) by (intro power_increasing) auto
  then have mono: "requeue_backoff_minutes a reason \<le> requeue_backoff_minutes b reason"
    unfolding f by (simp add: min.coboundedI1 min_le_iff_disj)
  have "(1::rat) \<le> 2 ^ nat (max a 1 - 1)" by simp
  then have low: "2 \<le> requeue_backoff_minutes a reason" unfolding f by (simp only: min_def) auto
  have sum: "sum_list (map (\<lambda>i. requeue_backoff_minutes i reason) [1 .. effective_max_attempts 3 - 1]) = 120"
    unfolding f by code_simp
  have s: "requeue_backoff_minutes i slow = (case map_of SLOW_BLOCK_BACKOFF_MINUTES slow of Some m \<Rightarrow> m | None \<Rightarrow> 10)" for i
    using assms(2) by (simp add: requeue_backoff_minutes_def split: option.split)
  have "10 \<le> requeue_backoff_minutes a slow"
    unfolding s by (auto simp: SLOW_BLOCK_BACKOFF_MINUTES_def split: option.splits if_splits)
  with mono low sum show ?thesis by (simp add: s) (simp add: f)
qed

end
