(* ===== verification/Breaker.thy ===== *)
theory Breaker
  imports Prelude
begin

text \<open>
  The circuit breaker of the exchange adapters (\<open>src/forven/circuit_breaker.py\<close>) and the rate
  limiter of the market-data calls (\<open>src/forven/rate_limiter.py\<close>). Both hold their lock over each
  step modelled here, so a concurrent run is a sequence of these steps. The clock is the
  argument \<open>now\<close>, in seconds.
\<close>

section \<open>The circuit breaker\<close>

datatype breaker_state = CLOSED | OPEN | HALF_OPEN

record breaker =
  b_failure_threshold :: int
  b_recovery_timeout :: rat
  b_half_open_max_calls :: int
  b_state :: breaker_state
  b_failure_count :: int
  b_last_failure_time :: rat
  b_half_open_calls :: int

definition new_breaker :: "int \<Rightarrow> rat \<Rightarrow> int \<Rightarrow> breaker" where
  "new_breaker threshold timeout max_calls =
     \<lparr>b_failure_threshold = threshold, b_recovery_timeout = timeout, b_half_open_max_calls = max_calls,
      b_state = CLOSED, b_failure_count = 0, b_last_failure_time = 0, b_half_open_calls = 0\<rparr>"

definition can_execute :: "rat \<Rightarrow> breaker \<Rightarrow> bool \<times> breaker" where
  "can_execute now b =
     (case b_state b of
        CLOSED \<Rightarrow> (True, b)
      | OPEN \<Rightarrow>
          if b_recovery_timeout b \<le> now - b_last_failure_time b
          then (True, b\<lparr>b_state := HALF_OPEN, b_half_open_calls := 0\<rparr>)
          else (False, b)
      | HALF_OPEN \<Rightarrow>
          if b_half_open_max_calls b \<le> b_half_open_calls b then (False, b)
          else (True, b\<lparr>b_half_open_calls := b_half_open_calls b + 1\<rparr>))"

definition is_likely_available :: "rat \<Rightarrow> breaker \<Rightarrow> bool" where
  "is_likely_available now b =
     (case b_state b of
        CLOSED \<Rightarrow> True
      | OPEN \<Rightarrow> b_recovery_timeout b \<le> now - b_last_failure_time b
      | HALF_OPEN \<Rightarrow> b_half_open_calls b < b_half_open_max_calls b)"

definition breaker_success :: "breaker \<Rightarrow> breaker" where
  "breaker_success b =
     (let b' = (if b_state b = HALF_OPEN then b\<lparr>b_state := CLOSED, b_half_open_calls := 0\<rparr> else b)
      in b'\<lparr>b_failure_count := 0\<rparr>)"

definition breaker_failure :: "rat \<Rightarrow> breaker \<Rightarrow> breaker" where
  "breaker_failure now b =
     (let b' = b\<lparr>b_failure_count := b_failure_count b + 1, b_last_failure_time := now, b_half_open_calls := 0\<rparr>
      in if b_state b' = HALF_OPEN then b'\<lparr>b_state := OPEN\<rparr>
         else if b_failure_threshold b' \<le> b_failure_count b' then b'\<lparr>b_state := OPEN\<rparr> else b')"

definition hl_price_breaker :: breaker where "hl_price_breaker = new_breaker 5 20 2"
definition hl_trade_breaker :: breaker where "hl_trade_breaker = new_breaker 3 30 1"
definition hl_account_breaker :: breaker where "hl_account_breaker = new_breaker 4 25 1"
definition propr_trade_breaker :: breaker where "propr_trade_breaker = new_breaker 3 30 1"
definition propr_account_breaker :: breaker where "propr_account_breaker = new_breaker 4 25 1"

section \<open>Runs of a breaker\<close>

text \<open>What its callers do with a breaker, in the order they take its lock.\<close>

datatype breaker_event = Ask rat | Peek rat | Succeeded | Failed rat

fun breaker_step :: "breaker \<Rightarrow> breaker_event \<Rightarrow> breaker" where
  "breaker_step b (Ask now) = snd (can_execute now b)"
| "breaker_step b (Peek now) = b"
| "breaker_step b Succeeded = breaker_success b"
| "breaker_step b (Failed now) = breaker_failure now b"

text \<open>The number of calls a run admits.\<close>

fun admitted :: "breaker \<Rightarrow> breaker_event list \<Rightarrow> nat" where
  "admitted b [] = 0"
| "admitted b (e # es) =
     (case e of Ask now \<Rightarrow> (if fst (can_execute now b) then 1 else 0) | _ \<Rightarrow> 0) + admitted (breaker_step b e) es"

text \<open>The failures recorded since the last success.\<close>

fun failures_in_a_row :: "breaker_event list \<Rightarrow> nat \<Rightarrow> nat" where
  "failures_in_a_row [] n = n"
| "failures_in_a_row (e # es) n =
     failures_in_a_row es (case e of Succeeded \<Rightarrow> 0 | Failed _ \<Rightarrow> n + 1 | _ \<Rightarrow> n)"

fun no_outcome :: "breaker_event \<Rightarrow> bool" where
  "no_outcome (Ask _) = True"
| "no_outcome (Peek _) = True"
| "no_outcome _ = False"

text \<open>The state of a breaker as its callers may rely on it.\<close>

definition breaker_ok :: "breaker \<Rightarrow> bool" where
  "breaker_ok b \<longleftrightarrow>
     0 < b_failure_threshold b \<and> 0 \<le> b_half_open_max_calls b \<and> 0 \<le> b_failure_count b \<and>
     0 \<le> b_half_open_calls b \<and> b_half_open_calls b \<le> b_half_open_max_calls b \<and>
     (b_state b = CLOSED \<longrightarrow> b_failure_count b < b_failure_threshold b) \<and>
     (b_state b \<noteq> HALF_OPEN \<longrightarrow> b_half_open_calls b = 0)"

section \<open>The rate limiter\<close>

record limiter =
  l_interval :: rat
  l_last_call :: rat

definition new_limiter :: "int \<Rightarrow> limiter" where
  "new_limiter calls_per_minute = \<lparr>l_interval = 60 / of_int (max 1 calls_per_minute), l_last_call = 0\<rparr>"

definition limiter_wait :: "rat \<Rightarrow> limiter \<Rightarrow> rat" where
  "limiter_wait now l = l_last_call l + l_interval l - now"

text \<open>
  \<open>acquire\<close> holds the lock while it sleeps. \<open>late\<close> is how much longer than asked the sleep and
  the second reading of the clock take; the result is the time at which the call is let through.
\<close>

definition acquire :: "rat \<Rightarrow> rat \<Rightarrow> limiter \<Rightarrow> rat \<times> limiter" where
  "acquire now late l =
     (let wait = limiter_wait now l;
          back = (if 0 < wait then now + wait + late else now + late)
      in (back, l\<lparr>l_last_call := back\<rparr>))"

text \<open>\<open>async_acquire\<close> has two locked steps with the sleep between them.\<close>

definition async_reserve :: "rat \<Rightarrow> limiter \<Rightarrow> rat \<times> limiter" where
  "async_reserve now l =
     (let wait = limiter_wait now l
      in (wait, if 0 < wait then l\<lparr>l_last_call := now + wait\<rparr> else l))"

definition async_commit :: "rat \<Rightarrow> limiter \<Rightarrow> limiter" where
  "async_commit now l = l\<lparr>l_last_call := now\<rparr>"

definition calls_per_minute :: "limiter \<Rightarrow> rat" where
  "calls_per_minute l = 60 / l_interval l"

text \<open>
  Callers that take turns: each enters with the clock at its own reading, asynchronous (True) or
  not, and the next one enters when it is back. The list of the times they are let through.
\<close>

definition async_acquire :: "rat \<Rightarrow> rat \<Rightarrow> limiter \<Rightarrow> rat \<times> limiter" where
  "async_acquire now late l =
     (let (wait, l') = async_reserve now l;
          back = (if 0 < wait then now + wait + late else now + late)
      in (back, async_commit back l'))"

fun take_turns :: "limiter \<Rightarrow> (bool \<times> rat \<times> rat) list \<Rightarrow> rat list" where
  "take_turns l [] = []"
| "take_turns l ((async, now, late) # cs) =
     (let (back, l') = (if async then async_acquire now late l else acquire now late l)
      in back # take_turns l' cs)"

text \<open>Overlapping asynchronous callers: the locked steps in the order they happen.\<close>

datatype limiter_event = Reserve rat | Commit rat

fun limiter_step :: "limiter \<Rightarrow> limiter_event \<Rightarrow> limiter" where
  "limiter_step l (Reserve now) = snd (async_reserve now l)"
| "limiter_step l (Commit now) = async_commit now l"

end
