(* ===== verification/Breaker_Props.thy ===== *)
theory Breaker_Props
  imports Breaker
begin

text \<open>
  The circuit breaker trips at its threshold and never before, stays shut for its timeout, and
  lets a bounded number of probes through after it; the rate limiter spaces its callers.
\<close>

section \<open>The breaker's invariant\<close>

lemmas breaker_defs = can_execute_def breaker_success_def breaker_failure_def Let_def

lemma breaker_step_config [simp]:
  "b_failure_threshold (breaker_step b e) = b_failure_threshold b"
  "b_recovery_timeout (breaker_step b e) = b_recovery_timeout b"
  "b_half_open_max_calls (breaker_step b e) = b_half_open_max_calls b"
  by (cases e; auto simp: breaker_defs split: breaker_state.split)+

lemma breaker_step_ok [inv_rules]: "breaker_ok b \<Longrightarrow> breaker_ok (breaker_step b e)"
  by (cases e; cases "b_state b") (auto simp: breaker_ok_def breaker_defs)

interpretation brk: invariant_run breaker_step breaker_ok
  by unfold_locales (rule breaker_step_ok)

lemma new_breaker_ok: "0 < k \<Longrightarrow> 0 \<le> m \<Longrightarrow> breaker_ok (new_breaker k t m)"
  by (simp add: breaker_ok_def new_breaker_def)

lemma run_config [simp]:
  "b_failure_threshold (foldl breaker_step b es) = b_failure_threshold b"
  "b_recovery_timeout (foldl breaker_step b es) = b_recovery_timeout b"
  "b_half_open_max_calls (foldl breaker_step b es) = b_half_open_max_calls b"
  by (induction es arbitrary: b) simp_all

lemma step_failure_count:
  "b_failure_count (breaker_step b e) =
     (case e of Succeeded \<Rightarrow> 0 | Failed _ \<Rightarrow> b_failure_count b + 1 | _ \<Rightarrow> b_failure_count b)"
  by (cases e; auto simp: breaker_defs split: breaker_state.split)

lemma run_failure_count:
  "b_failure_count b = int n \<Longrightarrow> b_failure_count (foldl breaker_step b es) = int (failures_in_a_row es n)"
proof (induction es arbitrary: b n)
  case Nil
  then show ?case by simp
next
  case (Cons e es)
  have "b_failure_count (breaker_step b e) = int (case e of Succeeded \<Rightarrow> 0 | Failed _ \<Rightarrow> n + 1 | _ \<Rightarrow> n)"
    using Cons.prems by (simp add: step_failure_count split: breaker_event.split)
  from Cons.IH [OF this] show ?case by simp
qed



text \<open>A breaker trips no earlier. A step that opens a closed breaker is a recorded failure that
  brings the failures in a row to the threshold; a step that opens a half-open one is a failed probe; nothing
  but the recovery timeout half-opens a breaker and nothing but a success closes it.\<close>

lemma breaker_transitions:
  assumes "breaker_ok b" and "b_state (breaker_step b e) \<noteq> b_state b"
  shows "case b_state (breaker_step b e) of
           OPEN \<Rightarrow> (\<exists>now. e = Failed now) \<and>
             (b_state b = HALF_OPEN \<or> b_failure_count b + 1 = b_failure_threshold b)
         | HALF_OPEN \<Rightarrow> b_state b = OPEN \<and>
             (\<exists>now. e = Ask now \<and> b_recovery_timeout b \<le> now - b_last_failure_time b)
         | CLOSED \<Rightarrow> b_state b = HALF_OPEN \<and> e = Succeeded"
  using assms
  by (cases e; cases "b_state b") (auto simp: breaker_ok_def breaker_defs split: if_splits)

section \<open>A breaker that is open\<close>

text \<open>The clock reading of an event, and the runs whose readings all lie in an interval.\<close>

fun event_time :: "breaker_event \<Rightarrow> rat option" where
  "event_time (Ask now) = Some now"
| "event_time (Peek now) = Some now"
| "event_time (Failed now) = Some now"
| "event_time Succeeded = None"

fun clock_in :: "rat \<Rightarrow> rat \<Rightarrow> breaker_event \<Rightarrow> bool" where
  "clock_in t u e = (case event_time e of None \<Rightarrow> True | Some now \<Rightarrow> t \<le> now \<and> now < u)"

definition open_since :: "rat \<Rightarrow> breaker \<Rightarrow> bool" where
  "open_since f b \<longleftrightarrow> b_state b = OPEN \<and> f \<le> b_last_failure_time b"

lemma open_step:
  assumes "open_since f b" and "clock_in f (f + b_recovery_timeout b) e"
  shows "open_since f (breaker_step b e)"
  using assms by (cases e) (auto simp: open_since_def breaker_defs split: if_splits)

lemma open_admits_none:
  assumes "open_since f b" and "t = b_recovery_timeout b" and "\<forall>e\<in>set es. clock_in f (f + t) e"
  shows "admitted b es = 0 \<and> open_since f (foldl breaker_step b es)"
  using assms
proof (induction es arbitrary: b)
  case (Cons e es)
  have w: "clock_in f (f + b_recovery_timeout b) e" using Cons.prems by simp
  have "admitted (breaker_step b e) es = 0 \<and> open_since f (foldl breaker_step (breaker_step b e) es)"
    by (rule Cons.IH) (use Cons.prems open_step [OF Cons.prems(1) w] in simp_all)
  moreover have "case e of Ask now \<Rightarrow> \<not> fst (can_execute now b) | _ \<Rightarrow> True"
    using Cons.prems(1) w by (auto simp: open_since_def breaker_defs split: breaker_event.split)
  ultimately show ?case by (auto split: breaker_event.splits)
qed simp

text \<open>An open breaker admits nothing for its recovery timeout. From a failure that leaves it open, no
  run of asks, reads, late failures and late successes whose clock stays inside the timeout lets a call
  through.\<close>

lemma open_breaker_refuses:
  assumes "b_state (breaker_failure f b) = OPEN"
    and "\<forall>e\<in>set es. clock_in f (f + b_recovery_timeout b) e"
  shows "admitted (breaker_failure f b) es = 0 \<and> b_state (foldl breaker_step (breaker_failure f b) es) = OPEN"
proof -
  have l: "b_last_failure_time (breaker_failure f b) = f"
    and t: "b_recovery_timeout b = b_recovery_timeout (breaker_failure f b)"
    by (simp_all add: breaker_defs)
  then have "open_since f (breaker_failure f b)" using assms(1) by (simp add: open_since_def)
  from open_admits_none [OF this t assms(2)] show ?thesis by (simp add: open_since_def)
qed

section \<open>Recovery\<close>

lemma half_open_admits:
  assumes "b_state b = HALF_OPEN" and "b_half_open_calls b \<le> b_half_open_max_calls b" and "\<forall>e\<in>set es. no_outcome e"
  shows "int (admitted b es) \<le> b_half_open_max_calls b - b_half_open_calls b"
  using assms
proof (induction es arbitrary: b)
  case (Cons e es)
  have n: "no_outcome e" "\<forall>e\<in>set es. no_outcome e" using Cons.prems(3) by simp_all
  show ?case
  proof (cases e)
    case (Ask now)
    show ?thesis
    proof (cases "b_half_open_max_calls b \<le> b_half_open_calls b")
      case True
      then have "breaker_step b e = b" "\<not> fst (can_execute now b)"
        using Cons.prems(1) Ask by (simp_all add: breaker_defs)
      then show ?thesis using Cons.IH [OF Cons.prems(1,2) n(2)] Ask by simp
    next
      case False
      then have c: "can_execute now b = (True, b\<lparr>b_half_open_calls := b_half_open_calls b + 1\<rparr>)"
        using Cons.prems(1) by (simp add: breaker_defs)
      then have s: "breaker_step b e = b\<lparr>b_half_open_calls := b_half_open_calls b + 1\<rparr>" using Ask by simp
      have "int (admitted (breaker_step b e) es) \<le>
          b_half_open_max_calls (breaker_step b e) - b_half_open_calls (breaker_step b e)"
        by (rule Cons.IH) (use Cons.prems n False in \<open>simp_all add: s\<close>)
      then show ?thesis using Ask by (simp add: s c)
    qed
  next
    case (Peek now)
    then show ?thesis using Cons.IH [OF Cons.prems(1,2) n(2)] by simp
  qed (use n in simp_all)
qed simp

text \<open>Recovery is probed with a bounded number of calls. From an open breaker, until the first outcome
  is recorded, however many callers ask, at most one call more than half_open_max_calls gets through (the ask
  that half-opens the breaker is not counted against the slots).\<close>

lemma recovery_probes_bounded:
  assumes "b_state b = OPEN" and "0 \<le> b_half_open_max_calls b" and "\<forall>e\<in>set es. no_outcome e"
  shows "int (admitted b es) \<le> b_half_open_max_calls b + 1"
  using assms
proof (induction es)
  case (Cons e es)
  have n: "no_outcome e" "\<forall>e\<in>set es. no_outcome e" using Cons.prems(3) by simp_all
  show ?case
  proof (cases "\<exists>now. e = Ask now \<and> fst (can_execute now b)")
    case True
    then obtain now where e: "e = Ask now" "fst (can_execute now b)" by blast
    then have c: "can_execute now b = (True, b\<lparr>b_state := HALF_OPEN, b_half_open_calls := 0\<rparr>)"
      using Cons.prems(1) by (simp add: breaker_defs split: if_splits)
    then have s: "breaker_step b e = b\<lparr>b_state := HALF_OPEN, b_half_open_calls := 0\<rparr>" using e by simp
    have "int (admitted (breaker_step b e) es) \<le>
        b_half_open_max_calls (breaker_step b e) - b_half_open_calls (breaker_step b e)"
      by (rule half_open_admits) (use Cons.prems n in \<open>simp_all add: s\<close>)
    then show ?thesis using e by (simp add: s c)
  next
    case False
    then have "breaker_step b e = b" using n Cons.prems(1) by (cases e) (auto simp: breaker_defs)
    moreover have "admitted b (e # es) = admitted (breaker_step b e) es"
      using False n by (cases e) auto
    ultimately show ?thesis using Cons.IH [OF Cons.prems(1,2) n(2)] by simp
  qed
qed simp

text \<open>is_likely_available answers what can_execute would, at every state and time, and the two agree
  with the transitions: asking changes a breaker only when it is refused by neither.\<close>

lemma likely_available_agrees:
  "is_likely_available now b = fst (can_execute now b) \<and>
   (\<not> is_likely_available now b \<longrightarrow> snd (can_execute now b) = b)"
  by (auto simp: is_likely_available_def breaker_defs split: breaker_state.split)

section \<open>The rate limiter\<close>

text \<open>Callers that take turns on a clock that does not go back.\<close>

fun in_turn :: "limiter \<Rightarrow> rat \<Rightarrow> (bool \<times> rat \<times> rat) list \<Rightarrow> bool" where
  "in_turn l t [] = True"
| "in_turn l t ((async, now, late) # cs) =
     (t \<le> now \<and> 0 \<le> late \<and>
      (let (ret, l') = (if async then async_acquire now late l else acquire now late l) in in_turn l' ret cs))"

lemma acquire_same: "async_acquire now late l = acquire now late l"
  by (simp add: async_acquire_def acquire_def async_reserve_def async_commit_def Let_def)

lemma acquire_spaced:
  assumes "0 \<le> late" and "acquire now late l = (ret, l')"
  shows "l_last_call l + l_interval l \<le> ret \<and> l_last_call l' = ret \<and> l_interval l' = l_interval l"
  using assms by (auto simp: acquire_def limiter_wait_def Let_def split: if_splits)

fun spaced_from :: "rat \<Rightarrow> rat \<Rightarrow> rat list \<Rightarrow> bool" where
  "spaced_from d t [] = True"
| "spaced_from d t (x # xs) = (t + d \<le> x \<and> spaced_from d x xs)"

lemma turns_spaced: "in_turn l t cs \<Longrightarrow> spaced_from (l_interval l) (l_last_call l) (take_turns l cs)"
proof (induction cs arbitrary: l t)
  case (Cons c cs)
  obtain async now late where c: "c = (async, now, late)" by (cases c)
  obtain ret l' where a: "acquire now late l = (ret, l')" by (cases "acquire now late l")
  have i: "(if async then async_acquire now late l else acquire now late l) = (ret, l')"
    by (cases async) (simp_all add: acquire_same a)
  have p: "0 \<le> late" "in_turn l' ret cs" using Cons.prems by (simp_all add: c i)
  from acquire_spaced [OF p(1) a] Cons.IH [OF p(2)] show ?case by (simp add: c i)
qed simp

lemma spaced_nth:
  "spaced_from d t xs \<Longrightarrow> 0 \<le> d \<Longrightarrow> i + k < length xs \<Longrightarrow> xs ! i + of_nat k * d \<le> xs ! (i + k)"
proof (induction k)
  case (Suc k)
  have step: "xs ! j + d \<le> xs ! Suc j" if "spaced_from d t xs" "Suc j < length xs" for j xs t
    using that
  proof (induction j arbitrary: xs t)
    case 0
    then show ?case by (cases xs; cases "tl xs") auto
  next
    case (Suc j)
    then show ?case by (cases xs) auto
  qed
  have "xs ! i + of_nat k * d \<le> xs ! (i + k)" using Suc by simp
  moreover have "xs ! (i + k) + d \<le> xs ! Suc (i + k)" using Suc.prems by (intro step) auto
  ultimately show ?case by (simp add: distrib_right)
qed simp

text \<open>The rate limiter keeps its rate. Callers that take turns, synchronous and asynchronous mixed, are
  let through so far apart that the (i+k)-th comes at least k intervals after the i-th: at most
  calls_per_minute calls in any minute.\<close>

lemma limiter_keeps_rate:
  assumes "in_turn (new_limiter n) t cs" and "i + k < length (take_turns (new_limiter n) cs)"
  shows "take_turns (new_limiter n) cs ! i + of_nat k * (60 / of_int (max 1 n)) \<le> take_turns (new_limiter n) cs ! (i + k)"
proof -
  have "spaced_from (60 / of_int (max 1 n)) 0 (take_turns (new_limiter n) cs)"
    using turns_spaced [OF assms(1)] by (simp add: new_limiter_def)
  moreover have "(0::rat) \<le> 60 / of_int (max 1 n)" by simp
  ultimately show ?thesis using assms(2) by (rule spaced_nth)
qed

text \<open>Overlapping asynchronous callers lose that spacing. While one sleeps, a second has reserved the
  slot after it; the first one's second locked step puts its own, earlier, time back over that reservation,
  and a third caller is given the second one's slot: both go at time 130.\<close>

lemma async_reservation_overwritten:
  "(let l1 = foldl limiter_step (new_limiter 4) [Reserve 100, Commit 100, Reserve 101];
        w1 = fst (async_reserve 101 (foldl limiter_step (new_limiter 4) [Reserve 100, Commit 100]));
        w2 = fst (async_reserve 102 l1);
        l3 = foldl limiter_step l1 [Reserve 102, Commit 115];
        w3 = fst (async_reserve 116 l3)
    in 101 + w1 = 115 \<and> 102 + w2 = 130 \<and> 116 + w3 = 130)"
  by code_simp

end
