(* ===== verification/Venue_Calls.thy ===== *)
theory Venue_Calls
  imports Breaker
begin

text \<open>
  How the exchange adapters call their venue through a breaker: signed submissions
  (\<open>_submit\<close>), reads (\<open>_with_breaker\<close>) and nonces of \<open>src/forven/exchange/hyperliquid.py\<close>, and the
  REST call (\<open>_request\<close>) of \<open>src/forven/exchange/propr.py\<close>. The venue is a parameter: what each
  attempt's call gives, and the clock when the attempt asks the breaker and when it reports to it.
\<close>

section \<open>Exceptions\<close>

record call_exc =
  x_status :: "int option"
  x_timeout :: bool
  x_text :: string

definition str_contains :: "string \<Rightarrow> string \<Rightarrow> bool" where
  "str_contains part s = (\<exists>i\<in>set [0..<Suc (length s)]. take (length part) (drop i s) = part)"

definition is_rate_limited :: "call_exc \<Rightarrow> bool" where
  "is_rate_limited e =
     (if x_status e = Some 429 then True
      else let text = py_lower (x_text e)
           in str_contains ''429'' text \<or> str_contains ''too many requests'' text \<or> str_contains ''rate limit'' text)"

definition transient_markers :: "string list" where
  "transient_markers =
     [''502'', ''503'', ''504'', ''gateway timeout'', ''bad gateway'', ''service unavailable'',
      ''temporarily unavailable'', ''timed out'', ''timeout'', ''connection reset'', ''connection aborted'',
      ''connection refused'', ''remote end closed'', ''max retries'', ''read timed out'']"

definition is_transient_upstream :: "call_exc \<Rightarrow> bool" where
  "is_transient_upstream e =
     (if x_status e \<in> {Some 502, Some 503, Some 504} then True
      else if x_timeout e then True
      else let text = py_lower (x_text e) in list_ex (\<lambda>m. str_contains m text) transient_markers)"

section \<open>Nonces\<close>

text \<open>\<open>ts\<close> is \<open>int(time.time() * 1000)\<close>; the new value of \<open>_HL_LAST_NONCE\<close> is the nonce itself.\<close>

definition next_nonce :: "int \<Rightarrow> int \<Rightarrow> int" where
  "next_nonce ts last_nonce = (if last_nonce < ts then ts else last_nonce + 1)"

fun nonces :: "int \<Rightarrow> int list \<Rightarrow> int list" where
  "nonces last_nonce [] = []"
| "nonces last_nonce (ts # tss) = (let n = next_nonce ts last_nonce in n # nonces n tss)"

section \<open>Submissions and reads on Hyperliquid\<close>

definition HL_MAX_ATTEMPTS :: nat where "HL_MAX_ATTEMPTS = 3"

definition hl_backoff :: "nat \<Rightarrow> rat" where
  "hl_backoff attempt = min (1 / 2 * 2 ^ (attempt - 1)) 4"

text \<open>One attempt: the clock when the breaker is asked, what the call gives, the clock when it is back.\<close>

record 'a attempt =
  at_asked :: rat
  at_outcome :: "call_exc + 'a"
  at_answered :: rat

datatype 'a call_result = Returned 'a | BreakerOpen | CallFailed call_exc

record 'a call_run =
  cr_result :: "'a call_result"
  cr_breaker :: breaker
  cr_calls :: nat
  cr_sleeps :: "rat list"

definition stop_run :: "'a call_result \<Rightarrow> breaker \<Rightarrow> nat \<Rightarrow> rat list \<Rightarrow> 'a call_run" where
  "stop_run r b n sl = \<lparr>cr_result = r, cr_breaker = b, cr_calls = n, cr_sleeps = sl\<rparr>"

text \<open>
  The loop of \<open>_submit\<close>: \<open>left\<close> attempts remain, of which the first is number \<open>attempt\<close>. The calls
  made and the sleeps taken are counted beside the result and the breaker.
\<close>

fun submit_loop :: "nat \<Rightarrow> nat \<Rightarrow> (nat \<Rightarrow> 'a attempt) \<Rightarrow> call_exc option \<Rightarrow> breaker \<Rightarrow> nat \<Rightarrow> rat list \<Rightarrow> 'a call_run" where
  "submit_loop 0 attempt env last_exc b n sl =
     stop_run (case last_exc of Some e \<Rightarrow> CallFailed e
               | None \<Rightarrow> CallFailed \<lparr>x_status = None, x_timeout = False, x_text = ''rate-limited''\<rparr>) b n sl"
| "submit_loop (Suc left) attempt env last_exc b n sl =
     (let (ok, b1) = can_execute (at_asked (env attempt)) b
      in if \<not> ok then stop_run BreakerOpen b1 n sl
         else case at_outcome (env attempt) of
           Inr r \<Rightarrow> stop_run (Returned r) (breaker_success b1) (Suc n) sl
         | Inl e \<Rightarrow>
             if \<not> is_rate_limited e
             then stop_run (CallFailed e) (breaker_failure (at_answered (env attempt)) b1) (Suc n) sl
             else submit_loop left (Suc attempt) env (Some e) b1 (Suc n)
                    (if left = 0 then sl else sl @ [hl_backoff attempt]))"

definition submit :: "(nat \<Rightarrow> 'a attempt) \<Rightarrow> breaker \<Rightarrow> 'a call_run" where
  "submit env b = submit_loop HL_MAX_ATTEMPTS 1 env None b 0 []"

text \<open>\<open>_with_breaker\<close>; \<open>retry\<close> is False for the price breaker.\<close>

fun read_loop :: "nat \<Rightarrow> nat \<Rightarrow> bool \<Rightarrow> (nat \<Rightarrow> 'a attempt) \<Rightarrow> call_exc option \<Rightarrow> breaker \<Rightarrow> nat \<Rightarrow> rat list \<Rightarrow> 'a call_run" where
  "read_loop 0 attempt retry env last_exc b n sl =
     stop_run (case last_exc of Some e \<Rightarrow> CallFailed e
               | None \<Rightarrow> CallFailed \<lparr>x_status = None, x_timeout = False, x_text = ''transient upstream failure''\<rparr>) b n sl"
| "read_loop (Suc left) attempt retry env last_exc b n sl =
     (let (ok, b1) = can_execute (at_asked (env attempt)) b
      in if \<not> ok then stop_run BreakerOpen b1 n sl
         else case at_outcome (env attempt) of
           Inr r \<Rightarrow> stop_run (Returned r) (breaker_success b1) (Suc n) sl
         | Inl e \<Rightarrow>
             if retry \<and> is_transient_upstream e
             then if left \<noteq> 0
                  then read_loop left (Suc attempt) retry env (Some e) b1 (Suc n) (sl @ [hl_backoff attempt])
                  else stop_run (CallFailed e) b1 (Suc n) sl
             else stop_run (CallFailed e) (breaker_failure (at_answered (env attempt)) b1) (Suc n) sl)"

definition with_breaker :: "bool \<Rightarrow> (nat \<Rightarrow> 'a attempt) \<Rightarrow> breaker \<Rightarrow> 'a call_run" where
  "with_breaker retry env b = read_loop HL_MAX_ATTEMPTS 1 retry env None b 0 []"

section \<open>REST calls on Propr\<close>

text \<open>A response: its status and its JSON payload, None when the body is not JSON.\<close>

type_synonym response = "int \<times> jv option"

datatype propr_error = NoApiKey | PBreakerOpen | Unreachable | Status int "jv option" | RetriesExhausted

record rest_attempt =
  ra_asked :: rat
  ra_response :: "response option"
  ra_answered :: rat

definition TRANSIENT_STATUSES :: "int set" where
  "TRANSIENT_STATUSES = {429, 502, 503, 504}"

text \<open>\<open>left\<close> is the number of attempts after this one, \<open>retries - attempt\<close>; the text of an error is left out.\<close>

fun request_loop :: "nat \<Rightarrow> nat \<Rightarrow> (nat \<Rightarrow> rest_attempt) \<Rightarrow> breaker \<Rightarrow> (propr_error + jv) \<times> breaker" where
  "request_loop 0 attempt env b = (Inl RetriesExhausted, b)"
| "request_loop (Suc left) attempt env b =
     (let (ok, b1) = can_execute (ra_asked (env attempt)) b
      in if \<not> ok then (Inl PBreakerOpen, b1)
         else case ra_response (env attempt) of
           None \<Rightarrow> (Inl Unreachable, breaker_failure (ra_answered (env attempt)) b1)
         | Some (status, payload) \<Rightarrow>
             if status \<in> TRANSIENT_STATUSES \<and> left \<noteq> 0 then request_loop left (Suc attempt) env b1
             else if 400 \<le> status
             then (Inl (Status status payload),
                   if 500 \<le> status then breaker_failure (ra_answered (env attempt)) b1 else breaker_success b1)
             else (Inr (case payload of Some p \<Rightarrow> if p = JNull then JObj [] else p | None \<Rightarrow> JObj []),
                   breaker_success b1))"

definition propr_request :: "string \<Rightarrow> nat \<Rightarrow> (nat \<Rightarrow> rest_attempt) \<Rightarrow> breaker \<Rightarrow> (propr_error + jv) \<times> breaker" where
  "propr_request key retries env b =
     (if key = [] then (Inl NoApiKey, b) else request_loop (Suc retries) 0 env b)"

section \<open>Runs\<close>

text \<open>One caller after another on the same breaker: the calls that reach the venue.\<close>

fun submissions :: "breaker \<Rightarrow> (nat \<Rightarrow> 'a attempt) list \<Rightarrow> nat \<times> breaker" where
  "submissions b [] = (0, b)"
| "submissions b (env # envs) =
     (let r = submit env b; (n, b') = submissions (cr_breaker r) envs in (cr_calls r + n, b'))"

text \<open>A breaker whose probes are spent and none of whose callers has an outcome to report.\<close>

definition locked :: "breaker \<Rightarrow> bool" where
  "locked b \<longleftrightarrow> b_state b = HALF_OPEN \<and> b_half_open_max_calls b \<le> b_half_open_calls b"

end
