(* ===== verification/Venue_Props.thy ===== *)
theory Venue_Props
  imports Venue_Calls Breaker_Props
begin

text \<open>
  What the adapters' calls do to their breaker: a closed one survives rate limits, a real failure
  counts once, and a half-open one whose probes are rate-limited is left without a way back.
\<close>

section \<open>Nonces\<close>

lemma next_nonce_bounds: "last_nonce < next_nonce ts last_nonce \<and> ts \<le> next_nonce ts last_nonce"
  by (simp add: next_nonce_def)

lemma nonces_above: "n \<in> set (nonces m tss) \<Longrightarrow> m < n"
proof (induction tss arbitrary: m)
  case (Cons ts tss)
  then show ?case using next_nonce_bounds [of m ts] by (auto simp: Let_def) force
qed simp

text \<open>Signed requests never reuse a nonce and never send them out of order, whatever the clock does (several
  requests in a millisecond, a clock that jumps back): every nonce is above all earlier ones and not below
  the clock.\<close>

lemma nonces_strictly_increase:
  "sorted_wrt (<) (nonces m tss) \<and> list_all2 (\<le>) tss (nonces m tss) \<and> (\<forall>n\<in>set (nonces m tss). m < n)"
proof (induction tss arbitrary: m)
  case Nil
  then show ?case by simp
next
  case (Cons ts tss)
  have "\<forall>n\<in>set (nonces (next_nonce ts m) tss). next_nonce ts m < n" using nonces_above by blast
  then show ?case using Cons.IH [of "next_nonce ts m"] next_nonce_bounds [of m ts] by (auto simp: Let_def)
qed

section \<open>One call\<close>

lemma can_execute_closed: "b_state b = CLOSED \<Longrightarrow> can_execute now b = (True, b)"
  by (simp add: can_execute_def)

lemma can_execute_count: "b_failure_count (snd (can_execute now b)) = b_failure_count b"
  by (simp add: can_execute_def split: breaker_state.split)

lemma submit_loop_rate_limited:
  assumes "b_state b = CLOSED" and "\<forall>i. attempt \<le> i \<and> i < attempt + left \<longrightarrow> (\<exists>e. at_outcome (env i) = Inl e \<and> is_rate_limited e)"
  shows "cr_breaker (submit_loop left attempt env le b n sl) = b \<and>
         cr_calls (submit_loop left attempt env le b n sl) = n + left"
  using assms
proof (induction left arbitrary: attempt le n sl)
  case 0
  then show ?case by (simp add: stop_run_def)
next
  case (Suc left)
  obtain e where e: "at_outcome (env attempt) = Inl e" "is_rate_limited e" using Suc.prems(2) by (meson less_add_same_cancel1 le_refl zero_less_Suc)
  have "\<forall>i. Suc attempt \<le> i \<and> i < Suc attempt + left \<longrightarrow> (\<exists>e. at_outcome (env i) = Inl e \<and> is_rate_limited e)"
    using Suc.prems(2) by auto
  from Suc.IH [OF Suc.prems(1) this] show ?case by (simp add: can_execute_closed [OF Suc.prems(1)] e)
qed

text \<open>A burst of rate limits does not trip the trade breaker: a submission on a closed breaker whose
  every attempt is answered with a rate limit makes all its attempts, fails with the last exception and leaves
  the breaker as it was.\<close>

lemma rate_limits_never_trip:
  assumes "b_state b = CLOSED"
    and "\<forall>i. 1 \<le> i \<and> i < 1 + HL_MAX_ATTEMPTS \<longrightarrow> (\<exists>e. at_outcome (env i) = Inl e \<and> is_rate_limited e)"
  shows "cr_breaker (submit env b) = b \<and> cr_calls (submit env b) = HL_MAX_ATTEMPTS"
  using submit_loop_rate_limited [OF assms] by (simp add: submit_def)

definition http_429 :: call_exc where
  "http_429 = \<lparr>x_status = Some 429, x_timeout = False, x_text = []\<rparr>"

definition all_429 :: "rat \<Rightarrow> nat \<Rightarrow> unit attempt" where
  "all_429 now i = \<lparr>at_asked = now, at_outcome = Inl http_429, at_answered = now\<rparr>"

text \<open>
  What a run on a closed breaker reports to it: a success for a result, nothing for an exempt
  exception, one failure for any other.
\<close>

definition reports :: "(call_exc \<Rightarrow> bool) \<Rightarrow> breaker \<Rightarrow> 'a call_run \<Rightarrow> bool" where
  "reports exempt b r =
     (case cr_result r of
        Returned _ \<Rightarrow> cr_breaker r = breaker_success b
      | BreakerOpen \<Rightarrow> False
      | CallFailed e \<Rightarrow> if exempt e then cr_breaker r = b else (\<exists>now. cr_breaker r = breaker_failure now b))"

lemma submit_loop_closed:
  assumes "b_state b = CLOSED" and "le \<noteq> None \<or> left \<noteq> 0" and "\<forall>l. le = Some l \<longrightarrow> is_rate_limited l"
  shows "reports is_rate_limited b (submit_loop left attempt env le b n sl)"
  using assms
proof (induction left arbitrary: attempt le n sl)
  case 0
  then show ?case by (auto simp: reports_def stop_run_def)
next
  case (Suc left)
  note c = can_execute_closed [OF Suc.prems(1)]
  show ?case
  proof (cases "at_outcome (env attempt)")
    case (Inr r)
    then show ?thesis by (simp add: c reports_def stop_run_def)
  next
    case (Inl e)
    show ?thesis
    proof (cases "is_rate_limited e")
      case True
      then have "submit_loop (Suc left) attempt env le b n sl =
          submit_loop left (Suc attempt) env (Some e) b (Suc n) (if left = 0 then sl else sl @ [hl_backoff attempt])"
        by (simp add: c Inl)
      also have "reports is_rate_limited b \<dots>" by (rule Suc.IH) (simp_all add: Suc.prems True)
      finally show ?thesis .
    next
      case False
      then show ?thesis by (auto simp: c Inl reports_def stop_run_def)
    qed
  qed
qed

lemma read_loop_closed:
  assumes "b_state b = CLOSED" and "left \<noteq> 0"
  shows "reports (\<lambda>e. retry \<and> is_transient_upstream e) b (read_loop left attempt retry env le b n sl)"
  using assms
proof (induction left arbitrary: attempt le n sl)
  case 0
  then show ?case by simp
next
  case (Suc left)
  note c = can_execute_closed [OF Suc.prems(1)]
  show ?case
  proof (cases "at_outcome (env attempt)")
    case (Inr r)
    then show ?thesis by (simp add: c reports_def stop_run_def)
  next
    case (Inl e)
    show ?thesis
    proof (cases "retry \<and> is_transient_upstream e \<and> left \<noteq> 0")
      case True
      then have "read_loop (Suc left) attempt retry env le b n sl =
          read_loop left (Suc attempt) retry env (Some e) b (Suc n) (sl @ [hl_backoff attempt])"
        by (simp add: c Inl)
      also have "reports (\<lambda>e. retry \<and> is_transient_upstream e) b \<dots>"
        using True by (intro Suc.IH) (simp_all add: Suc.prems)
      finally show ?thesis .
    next
      case False
      then show ?thesis by (auto simp: c Inl reports_def stop_run_def)
    qed
  qed
qed

text \<open>On a closed breaker a submission and a read report exactly what happened: a result counts as a
  success, a rate limit (submission) or a transient upstream error (read with retries) leaves the breaker as
  it was, any other exception counts as one failure, and neither is refused.\<close>

lemma closed_breaker_outcomes:
  assumes "b_state b = CLOSED"
  shows "reports is_rate_limited b (submit env b) \<and>
         reports (\<lambda>e. retry \<and> is_transient_upstream e) b (with_breaker retry env' b)"
  unfolding submit_def with_breaker_def
  by (intro conjI submit_loop_closed read_loop_closed) (simp_all add: assms HL_MAX_ATTEMPTS_def)

definition down :: "rat \<Rightarrow> nat \<Rightarrow> unit attempt" where
  "down now i = \<lparr>at_asked = now, at_outcome = Inl \<lparr>x_status = Some 500, x_timeout = False, x_text = ''boom''\<rparr>, at_answered = now\<rparr>"

section \<open>A half-open breaker whose probes are spent\<close>

lemma locked_refuses: "locked b \<Longrightarrow> can_execute now b = (False, b)"
  by (simp add: locked_def can_execute_def)

lemma locked_submit:
  assumes "locked b"
  shows "submit env b = stop_run BreakerOpen b 0 []"
  by (simp add: submit_def HL_MAX_ATTEMPTS_def numeral_3_eq_3 locked_refuses [OF assms])

lemma locked_submissions: "locked b \<Longrightarrow> submissions b envs = (0, b)"
  by (induction envs) (simp_all add: locked_submit stop_run_def)

text \<open>A recovery probe that is rate-limited locks trading. When the timeout of the open trade breaker
  (one half-open call) is over and the next submission is answered with rate limits, the breaker is left
  half-open with its probe spent and no outcome recorded; from then on no submission, whenever it comes and
  whatever the venue would answer, reaches the venue, and the breaker never changes again.\<close>

lemma rate_limited_probe_locks_trading:
  assumes "b_state b = OPEN" and "b_half_open_max_calls b = 1"
    and "b_recovery_timeout b \<le> at_asked (env 1) - b_last_failure_time b"
    and "\<forall>i. \<exists>e. at_outcome (env i) = Inl e \<and> is_rate_limited e"
  shows "cr_result (submit env b) = BreakerOpen \<and>
         submissions (cr_breaker (submit env b)) envs = (0, cr_breaker (submit env b)) \<and>
         b_state (cr_breaker (submit env b)) = HALF_OPEN"
proof -
  obtain e1 where e1: "at_outcome (env 1) = Inl e1" "is_rate_limited e1" using assms(4) by blast
  obtain e2 where e2: "at_outcome (env 2) = Inl e2" "is_rate_limited e2" using assms(4) by blast
  define h where "h = b\<lparr>b_state := HALF_OPEN, b_half_open_calls := 0\<rparr>"
  define l where "l = b\<lparr>b_state := HALF_OPEN, b_half_open_calls := 1\<rparr>"
  have c1: "can_execute (at_asked (env 1)) b = (True, h)" using assms by (simp add: can_execute_def h_def)
  have c2: "can_execute now h = (True, l)" for now using assms by (simp add: can_execute_def h_def l_def)
  have lk: "locked l" using assms by (simp add: locked_def l_def)
  have "submit env b = stop_run BreakerOpen l 2 [hl_backoff 1, hl_backoff 2]"
    unfolding submit_def HL_MAX_ATTEMPTS_def numeral_3_eq_3
    using c1 e1 e2 c2 locked_refuses [OF lk] by (simp add: numeral_2_eq_2 numeral_3_eq_3)
  then show ?thesis using locked_submissions [OF lk, of envs] by (simp add: stop_run_def l_def)
qed

section \<open>REST calls\<close>

text \<open>What one REST call on a closed breaker returns and reports.\<close>

definition rest_reports :: "breaker \<Rightarrow> propr_error + jv \<Rightarrow> breaker \<Rightarrow> bool" where
  "rest_reports b r b' =
     (case r of
        Inr p \<Rightarrow> b' = breaker_success b \<and> p \<noteq> JNull
      | Inl (Status s _) \<Rightarrow> 400 \<le> s \<and> (if 500 \<le> s then \<exists>now. b' = breaker_failure now b else b' = breaker_success b)
      | Inl Unreachable \<Rightarrow> \<exists>now. b' = breaker_failure now b
      | Inl _ \<Rightarrow> False)"

lemma request_loop_closed:
  assumes "b_state b = CLOSED"
  shows "(\<lambda>(r, b'). rest_reports b r b') (request_loop (Suc left) attempt env b)"
proof (induction left arbitrary: attempt)
  case 0
  show ?case
    by (auto simp: can_execute_closed [OF assms] rest_reports_def split: option.split)
next
  case (Suc left)
  note c = can_execute_closed [OF assms]
  show ?case
  proof (cases "ra_response (env attempt)")
    case None
    then show ?thesis by (auto simp: c rest_reports_def)
  next
    case (Some sp)
    obtain status payload where sp: "sp = (status, payload)" by (cases sp)
    show ?thesis
    proof (cases "status \<in> TRANSIENT_STATUSES")
      case True
      then have "request_loop (Suc (Suc left)) attempt env b = request_loop (Suc left) (Suc attempt) env b"
        by (subst request_loop.simps(2)) (simp add: c Some sp del: request_loop.simps)
      then show ?thesis using Suc.IH [of "Suc attempt"] by (simp del: request_loop.simps)
    next
      case False
      then show ?thesis using Some sp by (auto simp: c rest_reports_def split: option.split)
    qed
  qed
qed

text \<open>A Propr call answered with a client error keeps the breaker closed: whatever status below 500
  comes back that is not retried, or an exhausted retry of a rate limit, the closed breaker records a success,
  and a status from 500 up or an unreachable venue records one failure; the caller gets an error or a payload
  that is never null.\<close>

lemma rest_call_outcomes:
  assumes "b_state b = CLOSED" and "key \<noteq> []" and "propr_request key retries env b = (r, b')"
  shows "rest_reports b r b'"
  using request_loop_closed [OF assms(1), of retries 0 env] assms by (simp add: propr_request_def)

definition rest_400 :: "nat \<Rightarrow> rest_attempt" where
  "rest_400 i = \<lparr>ra_asked = 5, ra_response = Some (400, None), ra_answered = 5\<rparr>"

end
