(* ===== verification/Pyfloat.thy ===== *)
theory Pyfloat
  imports Prelude
begin

text \<open>
  Arithmetic on Python floats that may be infinite or NaN, for the code that computes with stored
  numbers it has not checked: finite operands give the exact result, the others follow IEEE 754
  (with a single zero). The callers never divide by zero.
\<close>

fun pf_neg :: "pyfloat \<Rightarrow> pyfloat" where
  "pf_neg (Fin a) = Fin (- a)"
| "pf_neg PInf = NInf"
| "pf_neg NInf = PInf"
| "pf_neg NaN = NaN"

fun pf_add :: "pyfloat \<Rightarrow> pyfloat \<Rightarrow> pyfloat" where
  "pf_add (Fin a) (Fin b) = Fin (a + b)"
| "pf_add NaN _ = NaN"
| "pf_add _ NaN = NaN"
| "pf_add PInf NInf = NaN"
| "pf_add NInf PInf = NaN"
| "pf_add PInf _ = PInf"
| "pf_add NInf _ = NInf"
| "pf_add _ b = b"

definition pf_sub :: "pyfloat \<Rightarrow> pyfloat \<Rightarrow> pyfloat" where
  "pf_sub a b = pf_add a (pf_neg b)"

fun pf_sgn :: "pyfloat \<Rightarrow> rat" where
  "pf_sgn (Fin a) = sgn a"
| "pf_sgn PInf = 1"
| "pf_sgn NInf = - 1"
| "pf_sgn NaN = 0"

text \<open>The product when a factor is infinite: its sign, and NaN against zero.\<close>

definition pf_inf :: "rat \<Rightarrow> pyfloat" where
  "pf_inf s = (if 0 < s then PInf else if s < 0 then NInf else NaN)"

fun pf_mul :: "pyfloat \<Rightarrow> pyfloat \<Rightarrow> pyfloat" where
  "pf_mul (Fin a) (Fin b) = Fin (a * b)"
| "pf_mul NaN _ = NaN"
| "pf_mul _ NaN = NaN"
| "pf_mul a b = pf_inf (pf_sgn a * pf_sgn b)"

fun pf_div :: "pyfloat \<Rightarrow> pyfloat \<Rightarrow> pyfloat" where
  "pf_div (Fin a) (Fin b) = Fin (a / b)"
| "pf_div NaN _ = NaN"
| "pf_div _ NaN = NaN"
| "pf_div (Fin _) _ = Fin 0"
| "pf_div a (Fin b) = pf_inf (pf_sgn a * (if b < 0 then - 1 else 1))"
| "pf_div _ _ = NaN"

fun pf_abs :: "pyfloat \<Rightarrow> pyfloat" where
  "pf_abs (Fin a) = Fin \<bar>a\<bar>"
| "pf_abs NaN = NaN"
| "pf_abs _ = PInf"

fun pf_less :: "pyfloat \<Rightarrow> pyfloat \<Rightarrow> bool" where
  "pf_less (Fin a) (Fin b) = (a < b)"
| "pf_less NaN _ = False"
| "pf_less _ NaN = False"
| "pf_less NInf b = (b \<noteq> NInf)"
| "pf_less _ PInf = True"
| "pf_less _ _ = False"

definition pf_le :: "pyfloat \<Rightarrow> pyfloat \<Rightarrow> bool" where
  "pf_le a b \<longleftrightarrow> pf_less a b \<or> (a = b \<and> a \<noteq> NaN)"

text \<open>\<open>round(x, n)\<close> with a digit count keeps infinities and NaN.\<close>

fun pf_round :: "pyfloat \<Rightarrow> nat \<Rightarrow> pyfloat" where
  "pf_round (Fin a) n = Fin (py_round a n)"
| "pf_round f _ = f"

text \<open>\<open>a or b\<close> on \<open>float | None\<close>.\<close>

definition py_or :: "pyfloat option \<Rightarrow> pyfloat option \<Rightarrow> pyfloat option" where
  "py_or a b = (case a of None \<Rightarrow> b | Some f \<Rightarrow> if f = Fin 0 then b else a)"

lemma pf_sub_Fin [simp]: "pf_sub (Fin a) (Fin b) = Fin (a - b)"
  by (simp add: pf_sub_def)

lemma pf_le_Fin [simp]: "pf_le (Fin a) (Fin b) \<longleftrightarrow> a \<le> b"
  by (auto simp: pf_le_def)

lemma pf_add_0 [simp]: "pf_add f (Fin 0) = f" "pf_add (Fin 0) f = f"
  by (cases f; simp)+

end
