(* ===== verification/Trade_State.thy ===== *)
theory Trade_State
  imports Pyfloat Kernel Breaker
begin

text \<open>
  The recorded trades and the one place they are closed (\<open>src/forven/trade_state.py\<close>), with the
  kernel's net P&L of a manual paper close (\<open>src/forven/api_domains/paper_control.py\<close>) and the
  bot ledger rebuilt after a close (\<open>src/forven/db.py\<close>). Every function that opens the database
  does so in an immediate transaction, so each is one step on the table. A column that the code
  reads through \<open>_coerce_optional_float\<close> keeps the JSON value it holds.
\<close>

section \<open>Reading a row\<close>

definition coerce_optional_float :: "jv \<Rightarrow> pyfloat option" where
  "coerce_optional_float v =
     (case v of
        JNull \<Rightarrow> None
      | JBool b \<Rightarrow> Some (Fin (if b then 1 else 0))
      | JInt i \<Rightarrow> Some (Fin (of_int i))
      | JFloat f \<Rightarrow> Some f
      | JStr s \<Rightarrow> if py_strip s = [] then None else float_of_string (py_strip s)
      | _ \<Rightarrow> None)"

definition opt_word :: "string option \<Rightarrow> string" where
  "opt_word s = (case s of None \<Rightarrow> [] | Some w \<Rightarrow> w)"

definition normalize_trade_direction :: "string option \<Rightarrow> direction" where
  "normalize_trade_direction v =
     (if py_lower (py_strip (opt_word v)) \<in> {''short'', ''sell'', ''s''} then Short else Long)"

text \<open>
  The \<open>signal_data\<close> of a row: a dict, a text, which is here what \<open>json.loads\<close> makes of it
  (None where it raises), or NULL.
\<close>

datatype sd_value = SDict jobj | SText "jv option" | SNull

definition parse_trade_signal_data :: "sd_value \<Rightarrow> jobj" where
  "parse_trade_signal_data v =
     (case v of SDict d \<Rightarrow> d | SText (Some (JObj d)) \<Rightarrow> d | _ \<Rightarrow> [])"

record trade_row =
  tr_id :: string
  tr_source :: "string option"
  tr_strategy_id :: "string option"
  tr_strategy :: "string option"
  tr_asset :: "string option"
  tr_direction :: "string option"
  tr_status :: "string option"
  tr_execution_type :: "string option"
  tr_size :: jv
  tr_leverage :: jv
  tr_entry_price :: jv
  tr_fill_entry_price :: jv
  tr_signal_entry_price :: jv
  tr_exit_price :: jv
  tr_fill_exit_price :: jv
  tr_signal_exit_price :: jv
  tr_pnl :: jv
  tr_pnl_pct :: jv
  tr_pnl_usd :: jv
  tr_net_pnl_pct :: jv
  tr_closed_at :: "string option"
  tr_signal_data :: sd_value

definition row_status :: "trade_row \<Rightarrow> string" where
  "row_status t = py_upper (py_strip (opt_word (tr_status t)))"

text \<open>An exchange id counts unless its text is empty or spells None, null or 0.\<close>

definition id_present :: "jv \<Rightarrow> bool" where
  "id_present v =
     (case v of
        JNull \<Rightarrow> False
      | JStr s \<Rightarrow> py_strip s \<notin> {[], ''None'', ''null'', ''0''}
      | JInt i \<Rightarrow> i \<noteq> 0
      | _ \<Rightarrow> True)"

definition trade_reached_exchange :: "trade_row \<Rightarrow> bool" where
  "trade_reached_exchange t =
     (let sd = parse_trade_signal_data (tr_signal_data t)
      in id_present (jget sd ''entry_exchange_order_id'') \<or> id_present (jget sd ''entry_exchange_client_order_id''))"

definition is_local_only_paper_trade :: "trade_row \<Rightarrow> bool" where
  "is_local_only_paper_trade t =
     (if py_lower (py_strip (opt_word (tr_execution_type t))) \<notin> {''paper'', ''paper_challenger''} then False
      else \<not> trade_reached_exchange t)"

definition is_live_trade :: "trade_row \<Rightarrow> bool" where
  "is_live_trade t =
     (let w = py_lower (py_strip (case tr_execution_type t of None \<Rightarrow> ''live'' | Some [] \<Rightarrow> ''live'' | Some e \<Rightarrow> e))
      in \<not> (take 5 w = ''paper'' \<or> w \<in> {''replay'', ''sim'', ''simulation'', ''backtest''}))"

definition row_entry :: "trade_row \<Rightarrow> pyfloat option" where
  "row_entry t =
     py_or (py_or (coerce_optional_float (tr_fill_entry_price t)) (coerce_optional_float (tr_entry_price t)))
       (coerce_optional_float (tr_signal_entry_price t))"

section \<open>The tables\<close>

text \<open>A bot's funding and the realized P&L its equity is built from.\<close>

record bot_ledger =
  bl_bot :: string
  bl_funding :: pyfloat
  bl_realized :: pyfloat

datatype trade_result = WIN | LOSS | UNKNOWN

text \<open>One notification of a live close, without its formatted text.\<close>

record notification =
  nt_trade :: string
  nt_side :: direction
  nt_reason :: string
  nt_result :: trade_result

record desk =
  dk_trades :: "trade_row list"
  dk_bots :: "bot_ledger list"
  dk_notes :: "notification list"
  dk_released :: "string list"

definition find_trade :: "string \<Rightarrow> desk \<Rightarrow> trade_row option" where
  "find_trade i dk = find (\<lambda>t. tr_id t = i) (dk_trades dk)"

definition put_trade :: "string \<Rightarrow> (trade_row \<Rightarrow> trade_row) \<Rightarrow> desk \<Rightarrow> desk" where
  "put_trade i f dk = dk\<lparr>dk_trades := map (\<lambda>t. if tr_id t = i then f t else t) (dk_trades dk)\<rparr>"

section \<open>A pending close\<close>

record pending_args =
  pa_signal_exit :: jv
  pa_reason :: "string option"
  pa_price_source :: "string option"
  pa_extra :: jobj
  pa_requested_at :: string
  pa_only_if_open :: bool

definition set_some :: "string \<Rightarrow> string option \<Rightarrow> jobj \<Rightarrow> jobj" where
  "set_some k v d = (case v of None \<Rightarrow> d | Some s \<Rightarrow> dict_set k (JStr s) d)"

definition pending_exit_price :: "jv \<Rightarrow> jobj \<Rightarrow> pyfloat option" where
  "pending_exit_price given sd =
     (case coerce_optional_float given of Some f \<Rightarrow> Some f
      | None \<Rightarrow>
         (case coerce_optional_float (jget sd ''pending_close_requested_execution_price'') of Some f \<Rightarrow> Some f
          | None \<Rightarrow> coerce_optional_float (jget sd ''pending_close_mid_price'')))"

text \<open>The row's new signal data and the exit price the mark asks for.\<close>

definition pending_data :: "pending_args \<Rightarrow> trade_row \<Rightarrow> jobj \<times> pyfloat option" where
  "pending_data a t =
     (let sd0 = dict_update (parse_trade_signal_data (tr_signal_data t)) (pa_extra a);
          sd1 = dict_set ''pending_close_reconcile'' (JBool True) sd0;
          sd2 = dict_set ''pending_close_reconcile_at'' (JStr (pa_requested_at a)) sd1;
          sd3 = set_some ''pending_close_reason'' (pa_reason a) sd2;
          sd4 = set_some ''pending_close_price_source'' (pa_price_source a) sd3;
          e = pending_exit_price (pa_signal_exit a) sd4
      in (case e of Some f \<Rightarrow> dict_set ''pending_close_requested_exit_price'' (JFloat f) sd4
          | None \<Rightarrow> dict_pop ''pending_close_requested_exit_price'' sd4, e))"

datatype pending_result = PNotFound | PNotOpen bool | PMarked jv

definition mark_trade_pending_close_reconcile ::
  "string \<Rightarrow> pending_args \<Rightarrow> desk \<Rightarrow> pending_result \<times> desk" where
  "mark_trade_pending_close_reconcile trade_id a dk =
     (let i = py_strip trade_id
      in if i = [] then (PNotFound, dk)
         else case find_trade i dk of None \<Rightarrow> (PNotFound, dk)
         | Some t \<Rightarrow>
             if pa_only_if_open a \<and> row_status t \<noteq> ''OPEN''
             then (PNotOpen (truthy (jget (parse_trade_signal_data (tr_signal_data t)) ''pending_close_reconcile'')), dk)
             else (let (sd, e) = pending_data a t;
                       persisted = (case e of Some f \<Rightarrow> JFloat (pf_round f 8) | None \<Rightarrow> tr_signal_exit_price t)
                   in (PMarked persisted,
                       put_trade i (\<lambda>r. r\<lparr>tr_signal_exit_price := persisted, tr_signal_data := SText (Some (JObj sd))\<rparr>) dk)))"

section \<open>Closing a trade\<close>

record close_args =
  ca_signal_exit :: jv
  ca_exit :: jv
  ca_reason :: "string option"
  ca_incomplete :: bool
  ca_price_source :: "string option"
  ca_extra :: jobj
  ca_closed_at :: string
  ca_only_if_open :: bool
  ca_override :: "jobj option"

definition stale_keys :: "string list" where
  "stale_keys = [''pending_close_reconcile'', ''pending_close_reconcile_at'', ''pending_close_reason'',
     ''pending_close_price_source'', ''pending_close_requested_exit_price'']"

definition or_source :: "string option \<Rightarrow> string \<Rightarrow> string" where
  "or_source given d = (case given of None \<Rightarrow> d | Some s \<Rightarrow> if s = [] then d else s)"

text \<open>The exit price of a close and where it comes from: a fill wins over what the caller gives.\<close>

definition resolve_exit :: "close_args \<Rightarrow> trade_row \<Rightarrow> (pyfloat \<times> string) option" where
  "resolve_exit a t =
     (case coerce_optional_float (tr_fill_exit_price t) of Some f \<Rightarrow> Some (f, ''fill_exit_price'') | None \<Rightarrow>
      case coerce_optional_float (ca_exit a) of Some f \<Rightarrow> Some (f, or_source (ca_price_source a) ''provided_exit_price'') | None \<Rightarrow>
      case coerce_optional_float (ca_signal_exit a) of Some f \<Rightarrow> Some (f, or_source (ca_price_source a) ''signal_exit_price'') | None \<Rightarrow>
      case coerce_optional_float (tr_exit_price t) of Some f \<Rightarrow> Some (f, ''existing_exit_price'') | None \<Rightarrow>
      case coerce_optional_float (tr_signal_exit_price t) of Some f \<Rightarrow> Some (f, ''existing_signal_exit_price'') | None \<Rightarrow> None)"

text \<open>The expected exit the row keeps: the one staged first wins.\<close>

definition expected_exit :: "close_args \<Rightarrow> trade_row \<Rightarrow> pyfloat \<Rightarrow> pyfloat" where
  "expected_exit a t resolved =
     (case coerce_optional_float (tr_signal_exit_price t) of Some f \<Rightarrow> f | None \<Rightarrow>
      case coerce_optional_float (ca_signal_exit a) of Some f \<Rightarrow> f | None \<Rightarrow>
      case coerce_optional_float (ca_exit a) of Some f \<Rightarrow> f | None \<Rightarrow> resolved)"

definition row_size :: "trade_row \<Rightarrow> pyfloat" where
  "row_size t = pf_abs (case py_or (coerce_optional_float (tr_size t)) (Some (Fin 0)) of Some f \<Rightarrow> f | None \<Rightarrow> Fin 0)"

definition row_leverage :: "trade_row \<Rightarrow> pyfloat" where
  "row_leverage t = (case py_or (coerce_optional_float (tr_leverage t)) (Some (Fin 1)) of Some f \<Rightarrow> f | None \<Rightarrow> Fin 1)"

text \<open>\<open>pnl_pct\<close> (on margin) and \<open>pnl_usd\<close> (on units) of a close; None without a positive entry price.\<close>

definition close_pnl :: "trade_row \<Rightarrow> pyfloat \<Rightarrow> (pyfloat \<times> pyfloat) option" where
  "close_pnl t exit_price =
     (case row_entry t of None \<Rightarrow> None
      | Some entry \<Rightarrow>
         if pf_less (Fin 0) entry
         then (let signed = Fin (direction_sign (normalize_trade_direction (tr_direction t)));
                   move = pf_sub exit_price entry
               in Some (pf_mul (pf_mul (pf_div move entry) signed) (row_leverage t),
                        pf_mul (pf_mul move (row_size t)) signed))
         else None)"

text \<open>The caller's net P&L over the computed one: (pnl_pct, pnl_usd, net_pnl_pct, parity flag).\<close>

definition apply_override ::
  "jobj option \<Rightarrow> bool \<Rightarrow> pyfloat option \<Rightarrow> pyfloat option \<Rightarrow> pyfloat option \<times> pyfloat option \<times> pyfloat option \<times> bool" where
  "apply_override ov incomplete pct usd =
     (case ov of None \<Rightarrow> (pct, usd, None, False)
      | Some d \<Rightarrow>
         if d = [] \<or> incomplete then (pct, usd, None, False)
         else (let p = coerce_optional_float (jget d ''pnl_pct'');
                   u = coerce_optional_float (jget d ''pnl_usd'');
                   n = coerce_optional_float (jget d ''net_pnl_pct'')
               in (if p \<noteq> None then p else pct, if u \<noteq> None then u else usd,
                   if n \<noteq> None then n else p, truthy (jget d ''equity_fraction''))))"

definition opt_num :: "pyfloat option \<Rightarrow> nat \<Rightarrow> jv" where
  "opt_num f n = (case f of None \<Rightarrow> JNull | Some x \<Rightarrow> JFloat (pf_round x n))"

record close_values =
  cl_exit :: "pyfloat option"
  cl_signal_exit :: "pyfloat option"
  cl_pnl_pct :: "pyfloat option"
  cl_pnl_usd :: "pyfloat option"
  cl_net :: "pyfloat option"
  cl_incomplete :: bool
  cl_signal_data :: jobj

text \<open>Everything a close writes, None where the row has no size.\<close>

definition close_report :: "close_args \<Rightarrow> trade_row \<Rightarrow> close_values option" where
  "close_report a t =
     (let sd0 = dict_update (parse_trade_signal_data (tr_signal_data t)) (ca_extra a);
          sd1 = foldl (\<lambda>d k. dict_pop k d) sd0 stale_keys;
          resolved = resolve_exit a t;
          incomplete = (ca_incomplete a \<or> resolved = None);
          source = map_option snd resolved
      in if \<not> incomplete \<and> pf_le (row_size t) (Fin 0) then None
         else (let price = (if incomplete then None else map_option fst resolved);
                   signal = (if incomplete then None else Some (expected_exit a t (fst (the resolved))));
                   own = (if incomplete then None else close_pnl t (fst (the resolved)));
                   (pct, usd, net, flag) = apply_override (ca_override a) incomplete (map_option fst own) (map_option snd own);
                   sd2 = (if flag then dict_set ''pnl_is_equity_fraction'' (JBool True) sd1 else sd1);
                   sd3 = set_some ''close_reason'' (ca_reason a) sd2;
                   sd4 = dict_set ''close_incomplete'' (JBool incomplete) sd3;
                   sd5 = (case source of Some s \<Rightarrow> dict_set ''close_price_source'' (JStr s) sd4
                          | None \<Rightarrow> if opt_word (ca_price_source a) \<noteq> []
                                    then dict_set ''close_price_source'' (JStr (opt_word (ca_price_source a))) sd4 else sd4)
               in Some \<lparr>cl_exit = price, cl_signal_exit = signal, cl_pnl_pct = pct, cl_pnl_usd = usd, cl_net = net,
                        cl_incomplete = incomplete, cl_signal_data = sd5\<rparr>))"

definition close_row_values :: "close_args \<Rightarrow> close_values \<Rightarrow> trade_row \<Rightarrow> trade_row" where
  "close_row_values a c r =
     r\<lparr>tr_status := Some ''CLOSED'', tr_closed_at := Some (ca_closed_at a),
       tr_exit_price := opt_num (cl_exit c) 8, tr_signal_exit_price := opt_num (cl_signal_exit c) 8,
       tr_pnl := opt_num (cl_pnl_usd c) 4,
       tr_pnl_pct := opt_num (cl_pnl_pct c) (if cl_net c \<noteq> None then 8 else 6),
       tr_pnl_usd := opt_num (cl_pnl_usd c) 4,
       tr_net_pnl_pct := (if cl_net c \<noteq> None then opt_num (cl_net c) 8 else tr_net_pnl_pct r),
       tr_signal_data := SText (Some (JObj (cl_signal_data c)))\<rparr>"

text \<open>The numeric value SQL sums; NULL and text count for nothing.\<close>

definition sql_num :: "jv \<Rightarrow> pyfloat" where
  "sql_num v = (case v of JInt i \<Rightarrow> Fin (of_int i) | JFloat f \<Rightarrow> f | _ \<Rightarrow> Fin 0)"

definition closed_pnl_sum :: "string \<Rightarrow> trade_row list \<Rightarrow> pyfloat" where
  "closed_pnl_sum src ts =
     foldr (\<lambda>t acc. pf_add (sql_num (tr_pnl_usd t)) acc)
       (filter (\<lambda>t. tr_source t = Some src \<and> tr_status t = Some ''CLOSED'') ts) (Fin 0)"

definition reconcile_bot_realized_pnl :: "string \<Rightarrow> desk \<Rightarrow> desk" where
  "reconcile_bot_realized_pnl bot_id dk =
     dk\<lparr>dk_bots := map (\<lambda>b. if bl_bot b = bot_id
          then b\<lparr>bl_realized := pf_sub (closed_pnl_sum (''bot:'' @ bot_id) (dk_trades dk)) (bl_funding b)\<rparr> else b) (dk_bots dk)\<rparr>"

definition reconcile_bot_ledger_after_close :: "trade_row \<Rightarrow> desk \<Rightarrow> desk" where
  "reconcile_bot_ledger_after_close t dk =
     (let src = opt_word (tr_source t)
      in if take 4 src = ''bot:'' then reconcile_bot_realized_pnl (drop 4 src) dk else dk)"

definition describe_close_reason :: "string \<Rightarrow> string" where
  "describe_close_reason reason =
     (if reason \<in> {''reconcile_missing_on_exchange'', ''reconcile_sweep_exchange_flat''}
      then ''closed on the exchange (stop or take-profit filled)''
      else if reason = [] then ''closed''
      else map (\<lambda>c. if c = CHR ''_'' then CHR '' '' else c) reason)"

definition notify_live_trade_closed :: "close_args \<Rightarrow> close_values \<Rightarrow> trade_row \<Rightarrow> desk \<Rightarrow> desk" where
  "notify_live_trade_closed a c t dk =
     (if \<not> is_live_trade t then dk
      else let result = (case cl_pnl_pct c of None \<Rightarrow> UNKNOWN
                         | Some p \<Rightarrow> if cl_incomplete c then UNKNOWN else if pf_less (Fin 0) p then WIN else LOSS)
           in dk\<lparr>dk_notes := dk_notes dk @
                [\<lparr>nt_trade = tr_id t, nt_side = normalize_trade_direction (tr_direction t),
                  nt_reason = describe_close_reason (py_strip (opt_word (ca_reason a))), nt_result = result\<rparr>]\<rparr>)"

text \<open>What a refused close reports of the row it found.\<close>

definition existing_pnl_usd :: "trade_row \<Rightarrow> pyfloat option" where
  "existing_pnl_usd t = py_or (coerce_optional_float (tr_pnl_usd t)) (coerce_optional_float (tr_pnl t))"

definition existing_exit :: "trade_row \<Rightarrow> pyfloat option" where
  "existing_exit t =
     py_or (py_or (coerce_optional_float (tr_fill_exit_price t)) (coerce_optional_float (tr_exit_price t)))
       (coerce_optional_float (tr_signal_exit_price t))"

record refused_values =
  rv_closed_at :: "string option"
  rv_entry :: "pyfloat option"
  rv_exit :: "pyfloat option"
  rv_signal_exit :: "pyfloat option"
  rv_pnl_pct :: "pyfloat option"
  rv_pnl_usd :: "pyfloat option"
  rv_incomplete :: bool
  rv_reason :: jv

definition refused_view :: "trade_row \<Rightarrow> refused_values" where
  "refused_view t =
     (let sd = parse_trade_signal_data (tr_signal_data t)
      in \<lparr>rv_closed_at = tr_closed_at t, rv_entry = row_entry t, rv_exit = existing_exit t,
          rv_signal_exit = coerce_optional_float (tr_signal_exit_price t),
          rv_pnl_pct = coerce_optional_float (tr_pnl_pct t), rv_pnl_usd = existing_pnl_usd t,
          rv_incomplete = truthy (jget sd ''close_incomplete''), rv_reason = jget sd ''close_reason''\<rparr>)"

datatype close_result = CNotFound | CNotOpen refused_values | CNoSize | CClosed close_values

definition close_trade_record :: "string \<Rightarrow> close_args \<Rightarrow> desk \<Rightarrow> close_result \<times> desk" where
  "close_trade_record trade_id a dk =
     (let i = py_strip trade_id
      in if i = [] then (CNotFound, dk)
         else case find_trade i dk of None \<Rightarrow> (CNotFound, dk)
         | Some t \<Rightarrow>
             if ca_only_if_open a \<and> row_status t \<noteq> ''OPEN'' then (CNotOpen (refused_view t), dk)
             else case close_report a t of None \<Rightarrow> (CNoSize, dk)
             | Some c \<Rightarrow>
                 (CClosed c,
                  notify_live_trade_closed a c t
                    (reconcile_bot_ledger_after_close t (put_trade i (close_row_values a c) dk))))"

section \<open>Closing the paper trades of a retired strategy\<close>

text \<open>
  The kernel's net P&L for a manual close of a kernel-managed row (the row carries its size
  fraction), None for any other row. The fee settings fall back together when one of them is no
  number. A row whose size fraction, prices, leverage, equity or fees are infinite or NaN is outside
  the model and gives None here; the itemised costs beside the override are \<open>cost_breakdown_usd\<close>.
\<close>

definition bps_setting :: "jobj \<Rightarrow> string \<Rightarrow> rat \<Rightarrow> pyfloat result" where
  "bps_setting settings key d =
     (let v = (case map_of settings key of None \<Rightarrow> JFloat (Fin d) | Some v \<Rightarrow> v)
      in py_float (if truthy v then v else JFloat (Fin d)))"

definition cost_settings :: "jobj \<Rightarrow> pyfloat \<times> pyfloat" where
  "cost_settings settings =
     (case bps_setting settings ''backtest_fee_bps'' (9/2) of Inl _ \<Rightarrow> (Fin (9/2), Fin 2)
      | Inr f \<Rightarrow> (case bps_setting settings ''backtest_slippage_bps'' 2 of Inl _ \<Rightarrow> (Fin (9/2), Fin 2)
                 | Inr s \<Rightarrow> (f, s)))"

definition manual_net :: "direction \<Rightarrow> rat \<Rightarrow> rat \<Rightarrow> rat \<Rightarrow> rat \<Rightarrow> rat \<Rightarrow> rat \<Rightarrow> rat" where
  "manual_net d fee_bps slip_bps lev entry exit_price size_frac =
     (let drag_at_entry = 2 * (fee_bps + slip_bps) / 10000 * max lev 0;
          exit_notional_ratio = exit_price / entry;
          drag = drag_at_entry * (1/2) * (1 + exit_notional_ratio)
      in ((exit_price - entry) / entry * direction_sign d * lev - drag) * size_frac)"

definition manual_paper_close_pnl_override ::
  "jobj \<Rightarrow> trade_row \<Rightarrow> pyfloat \<Rightarrow> (jobj \<times> cost_breakdown) option" where
  "manual_paper_close_pnl_override settings t exit_price =
     (let sd = parse_trade_signal_data (tr_signal_data t);
          size_frac = coerce_optional_float (jget sd ''kernel_size_fraction'');
          entry = py_or (coerce_optional_float (tr_fill_entry_price t)) (coerce_optional_float (tr_entry_price t));
          equity = py_or (coerce_optional_float (jget sd ''kernel_equity_at_entry'')) (Some (Fin 10000))
      in case (size_frac, entry, exit_price, row_leverage t, cost_settings settings, equity) of
           (Some (Fin sf), Some (Fin en), Fin ex, Fin lev, (Fin fee0, Fin slip0), Some (Fin eq)) \<Rightarrow>
             if sf = 0 \<or> en = 0 \<or> ex \<le> 0 then None
             else (let fee = max fee0 0; slip = max slip0 0;
                       net = manual_net (normalize_trade_direction (tr_direction t)) fee slip lev en ex sf;
                       usd = py_round (eq * net) 4
                   in Some ([(''net_pnl_pct'', JFloat (Fin (py_round net 8))), (''pnl_usd'', JFloat (Fin usd))],
                            cost_breakdown_usd eq lev sf fee slip 0 (Some usd) (ex / en)))
         | _ \<Rightarrow> None)"

definition cost_items :: "cost_breakdown \<Rightarrow> jobj" where
  "cost_items c =
     [(''fee_bps'', JFloat (Fin (cb_fee_bps c))), (''entry_fee_usd'', JFloat (Fin (cb_entry_fee_usd c))),
      (''exit_fee_usd'', JFloat (Fin (cb_exit_fee_usd c))), (''total_fees_usd'', JFloat (Fin (cb_total_fees_usd c))),
      (''slippage_usd'', JFloat (Fin (cb_slippage_usd c))), (''funding_usd'', JFloat (Fin (cb_funding_usd c)))] @
     (case cb_gross_pnl_usd c of None \<Rightarrow> [] | Some g \<Rightarrow> [(''gross_pnl_usd'', JFloat (Fin g))])"

text \<open>
  A fresh mark: the venue is a parameter, the prices it serves by upper-case asset or None where the
  read raises; on the Hyperliquid source a breaker that refuses the read makes the mark unavailable.
\<close>

record quote_env =
  q_binance :: bool
  q_now :: rat
  q_prices :: "breaker \<Rightarrow> (string \<Rightarrow> jv) option \<times> breaker"

definition fresh_mark_price :: "quote_env \<Rightarrow> string option \<Rightarrow> breaker \<Rightarrow> pyfloat option \<times> breaker" where
  "fresh_mark_price q asset b =
     (let normalized = py_upper (py_strip (opt_word asset));
          positive = (\<lambda>prices. case prices of None \<Rightarrow> None | Some p \<Rightarrow>
             (case coerce_optional_float (p normalized) of None \<Rightarrow> None
              | Some f \<Rightarrow> if pf_less (Fin 0) f then Some f else None))
      in if normalized = [] then (None, b)
         else if q_binance q then (positive (fst (q_prices q b)), b)
         else (let (ok, b1) = can_execute (q_now q) b
               in if \<not> ok then (None, b1)
                  else (let (prices, b2) = q_prices q b1 in (positive prices, b2))))"

definition sweep_row :: "string \<Rightarrow> trade_row \<Rightarrow> bool" where
  "sweep_row sid t \<longleftrightarrow>
     (case tr_strategy_id t of Some s \<Rightarrow> if s \<noteq> [] then Some s else tr_strategy t | None \<Rightarrow> tr_strategy t) = Some sid \<and>
     tr_status t = Some ''OPEN'' \<and>
     py_lower (case tr_execution_type t of None \<Rightarrow> ''live'' | Some e \<Rightarrow> e) \<in> {''paper'', ''paper_challenger''}"

record sweep =
  sw_desk :: desk
  sw_breaker :: breaker
  sw_closed :: "string list"
  sw_skipped :: "string list"

definition terminal_args :: "jobj \<Rightarrow> string \<Rightarrow> jv \<Rightarrow> string \<Rightarrow> trade_row \<Rightarrow> pyfloat \<Rightarrow> close_args" where
  "terminal_args settings reason note closed_at t mark =
     (let ov = manual_paper_close_pnl_override settings t mark
      in \<lparr>ca_signal_exit = JFloat mark, ca_exit = JFloat mark, ca_reason = Some reason, ca_incomplete = False,
          ca_price_source = Some ''terminal_auto_close'',
          ca_extra = dict_update [(''source'', JStr ''lifecycle''), (''terminal_close_note'', note)]
                       (case ov of None \<Rightarrow> [] | Some (_, c) \<Rightarrow> cost_items c),
          ca_closed_at = closed_at, ca_only_if_open = True, ca_override = map_option fst ov\<rparr>)"

definition sweep_step :: "jobj \<Rightarrow> string \<Rightarrow> jv \<Rightarrow> string \<Rightarrow> sweep \<Rightarrow> quote_env \<times> trade_row \<Rightarrow> sweep" where
  "sweep_step settings reason note closed_at s qt =
     (let (q, t) = qt;
          trade_id = py_strip (tr_id t);
          (mark, b) = fresh_mark_price q (tr_asset t) (sw_breaker s)
      in case mark of
           None \<Rightarrow> s\<lparr>sw_breaker := b, sw_skipped := sw_skipped s @ [trade_id]\<rparr>
         | Some m \<Rightarrow>
             (case close_trade_record trade_id (terminal_args settings reason note closed_at t m) (sw_desk s) of
                (CClosed _, dk) \<Rightarrow>
                  s\<lparr>sw_breaker := b, sw_desk := dk\<lparr>dk_released := dk_released dk @ [trade_id]\<rparr>,
                    sw_closed := sw_closed s @ [trade_id]\<rparr>
              | (_, dk) \<Rightarrow> s\<lparr>sw_breaker := b, sw_desk := dk, sw_skipped := sw_skipped s @ [trade_id]\<rparr>))"

text \<open>The venue answers the i-th trade's read with \<open>quotes i\<close>.\<close>

definition close_open_paper_trades_for_strategy ::
  "jobj \<Rightarrow> string \<Rightarrow> string \<Rightarrow> jv \<Rightarrow> string \<Rightarrow> (nat \<Rightarrow> quote_env) \<Rightarrow> desk \<Rightarrow> breaker \<Rightarrow> sweep" where
  "close_open_paper_trades_for_strategy settings strategy_id reason note closed_at quotes dk b =
     (let sid = py_strip strategy_id; s0 = \<lparr>sw_desk = dk, sw_breaker = b, sw_closed = [], sw_skipped = []\<rparr>
      in if sid = [] then s0
         else let trades = filter (sweep_row sid) (dk_trades dk)
              in foldl (sweep_step settings reason note closed_at) s0
                   (map (\<lambda>i. (quotes i, trades ! i)) [0..<length trades]))"

end
