(* ===== verification/Trade_Props.thy ===== *)
theory Trade_Props
  imports Trade_State Kernel_Walk "HOL-Library.Multiset"
begin

text \<open>
  A trade is closed once and for all, at a price the row or its caller gave; what is booked is the
  price move on its units, the bots' ledgers follow, and the sweep of a retired strategy touches
  nothing but that strategy's open paper trades.
\<close>

section \<open>The table\<close>

lemma find_put_trade:
  assumes "\<forall>t. tr_id (f t) = tr_id t"
  shows "find_trade j (put_trade i f dk) = (if j = i then map_option f (find_trade j dk) else find_trade j dk)"
proof -
  have "find (\<lambda>t. tr_id t = j) (map (\<lambda>t. if tr_id t = i then f t else t) ts) =
      (if j = i then map_option f (find (\<lambda>t. tr_id t = j) ts) else find (\<lambda>t. tr_id t = j) ts)" for ts
    using assms by (induction ts) auto
  then show ?thesis by (simp add: find_trade_def put_trade_def)
qed

lemma reconcile_trades [simp]: "dk_trades (reconcile_bot_realized_pnl bot_id dk) = dk_trades dk"
  by (simp add: reconcile_bot_realized_pnl_def)

lemma after_close_trades [simp]: "dk_trades (reconcile_bot_ledger_after_close t dk) = dk_trades dk"
  by (simp add: reconcile_bot_ledger_after_close_def Let_def)

lemma notify_trades [simp]: "dk_trades (notify_live_trade_closed a c t dk) = dk_trades dk"
  by (simp add: notify_live_trade_closed_def Let_def)

lemma notify_bots [simp]: "dk_bots (notify_live_trade_closed a c t dk) = dk_bots dk"
  by (simp add: notify_live_trade_closed_def Let_def)

lemma close_row_values_id [simp]: "tr_id (close_row_values a c r) = tr_id r" "tr_source (close_row_values a c r) = tr_source r"
  by (simp_all add: close_row_values_def)

text \<open>The two things a close can do to the table.\<close>

lemma close_cases:
  obtains (refused) "snd (close_trade_record i a dk) = dk"
      "\<And>c. fst (close_trade_record i a dk) \<noteq> CClosed c"
  | (closed) t c where "find_trade (py_strip i) dk = Some t"
      and "ca_only_if_open a \<longrightarrow> row_status t = ''OPEN''" and "close_report a t = Some c"
      and "close_trade_record i a dk = (CClosed c,
        notify_live_trade_closed a c t (reconcile_bot_ledger_after_close t (put_trade (py_strip i) (close_row_values a c) dk)))"
proof (cases "\<exists>c. fst (close_trade_record i a dk) = CClosed c")
  case True
  then obtain t c where "find_trade (py_strip i) dk = Some t"
      "ca_only_if_open a \<longrightarrow> row_status t = ''OPEN''" "close_report a t = Some c"
    by (auto simp: close_trade_record_def Let_def split: if_splits option.splits)
  moreover have "py_strip i \<noteq> []" using True by (auto simp: close_trade_record_def split: if_splits)
  ultimately show ?thesis using closed by (auto simp: close_trade_record_def Let_def)
next
  case False
  then have "snd (close_trade_record i a dk) = dk"
    by (auto simp: close_trade_record_def Let_def split: if_splits option.splits)
  then show ?thesis using False refused by blast
qed

section \<open>Closed means closed\<close>

datatype desk_event = Close string close_args | Mark string pending_args

text \<open>The callers leave \<open>only_if_open\<close> at its default.\<close>

fun desk_step :: "desk \<Rightarrow> desk_event \<Rightarrow> desk" where
  "desk_step dk (Close i a) = snd (close_trade_record i (a\<lparr>ca_only_if_open := True\<rparr>) dk)"
| "desk_step dk (Mark i a) = snd (mark_trade_pending_close_reconcile i (a\<lparr>pa_only_if_open := True\<rparr>) dk)"

definition settled :: "string \<Rightarrow> trade_row \<Rightarrow> desk \<Rightarrow> bool" where
  "settled i t dk \<longleftrightarrow> find_trade i dk = Some t \<and> row_status t \<noteq> ''OPEN''"

lemma find_only_trades: "dk_trades dk = dk_trades dk' \<Longrightarrow> find_trade i dk = find_trade i dk'"
  by (simp add: find_trade_def)

lemma close_settled:
  assumes "settled j u dk" and "ca_only_if_open a"
  shows "settled j u (snd (close_trade_record i a dk))"
proof (cases rule: close_cases [of i a dk])
  case refused
  then show ?thesis using assms by simp
next
  case (closed t c)
  have "find_trade j (put_trade (py_strip i) (close_row_values a c) dk) = find_trade j dk"
    using closed assms by (auto simp: find_put_trade settled_def)
  moreover have "find_trade j (snd (close_trade_record i a dk)) = find_trade j (put_trade (py_strip i) (close_row_values a c) dk)"
    by (rule find_only_trades) (simp add: closed)
  ultimately show ?thesis using assms by (simp add: settled_def)
qed

lemma mark_settled:
  assumes "settled j u dk" and "pa_only_if_open a"
  shows "settled j u (snd (mark_trade_pending_close_reconcile i a dk))"
  using assms
  by (auto simp: mark_trade_pending_close_reconcile_def settled_def find_put_trade Let_def split: option.splits prod.splits)

lemma settled_step [inv_rules]: "settled i t dk \<Longrightarrow> settled i t (desk_step dk e)"
  by (cases e) (auto intro: close_settled mark_settled)

interpretation closed_row: invariant_run desk_step "settled i t" for i t
  by unfold_locales (rule settled_step)

text \<open>C26: A closed trade is final. Once a recorded trade is not open, no run of closes and pending-close marks
  from any path (kernel, manual, reconcile, sweep), in any order, changes its row: the first close's price and
  P&L stand.\<close>

theorem closed_trade_is_final:
  assumes "find_trade i dk = Some t" and "row_status t \<noteq> ''OPEN''"
  shows "find_trade i (foldl desk_step dk es) = Some t"
  using closed_row.run_inv [of i t dk es] assms by (simp add: settled_def)


definition demo_trade :: trade_row where
  "demo_trade = \<lparr>tr_id = ''T1'', tr_source = Some ''bot:b1'', tr_strategy_id = Some ''S1'', tr_strategy = None,
     tr_asset = Some ''BTC'', tr_direction = Some ''short'', tr_status = Some ''OPEN'', tr_execution_type = Some ''paper'',
     tr_size = JFloat (Fin 2), tr_leverage = JFloat (Fin 3), tr_entry_price = JFloat (Fin 100), tr_fill_entry_price = JNull,
     tr_signal_entry_price = JNull, tr_exit_price = JNull, tr_fill_exit_price = JNull, tr_signal_exit_price = JNull,
     tr_pnl = JNull, tr_pnl_pct = JNull, tr_pnl_usd = JNull, tr_net_pnl_pct = JNull, tr_closed_at = None,
     tr_signal_data = SNull\<rparr>"

definition demo_desk :: desk where
  "demo_desk = \<lparr>dk_trades = [demo_trade], dk_bots = [\<lparr>bl_bot = ''b1'', bl_funding = Fin 1, bl_realized = Fin (-1)\<rparr>],
     dk_notes = [], dk_released = []\<rparr>"

definition demo_close :: "rat \<Rightarrow> close_args" where
  "demo_close p = \<lparr>ca_signal_exit = JNull, ca_exit = JFloat (Fin p), ca_reason = Some ''manual_close'', ca_incomplete = False,
     ca_price_source = None, ca_extra = [], ca_closed_at = ''now'', ca_only_if_open = True, ca_override = None\<rparr>"

theorem closed_trade_is_final_witness:
  "find_trade ''T1'' (foldl desk_step (desk_step demo_desk (Close ''T1'' (demo_close 90))) [Close ''T1'' (demo_close 500)]) =
   find_trade ''T1'' (desk_step demo_desk (Close ''T1'' (demo_close 90))) \<and>
   find_trade ''T1'' (desk_step demo_desk (Close ''T1'' (demo_close 90))) \<noteq> None"
proof -
  define dk where "dk = desk_step demo_desk (Close ''T1'' (demo_close 90))"
  have e: "map_option tr_status (find_trade ''T1'' dk) = Some (Some ''CLOSED'')" unfolding dk_def by code_simp
  then obtain t where t: "find_trade ''T1'' dk = Some t" "tr_status t = Some ''CLOSED''" by blast
  have "py_upper (py_strip ''CLOSED'') \<noteq> ''OPEN''" by code_simp
  then have "row_status t \<noteq> ''OPEN''" using t(2) by (simp add: row_status_def opt_word_def)
  from closed_trade_is_final [OF t(1) this, of "[Close ''T1'' (demo_close 500)]"] t(1)
  show ?thesis unfolding dk_def by simp
qed

section \<open>What a close books\<close>

lemma row_values:
  "close_report a t = Some c \<Longrightarrow>
   cl_incomplete c = (ca_incomplete a \<or> resolve_exit a t = None) \<and>
   cl_exit c = (if cl_incomplete c then None else map_option fst (resolve_exit a t)) \<and>
   cl_signal_exit c = (if cl_incomplete c then None else Some (expected_exit a t (fst (the (resolve_exit a t)))))"
  by (auto simp: close_report_def Let_def split: if_splits prod.splits)

lemma report_pnl:
  "close_report a t = Some c \<Longrightarrow> ca_override a = None \<Longrightarrow>
   cl_pnl_pct c = (if cl_incomplete c then None else map_option fst (close_pnl t (fst (the (resolve_exit a t))))) \<and>
   cl_pnl_usd c = (if cl_incomplete c then None else map_option snd (close_pnl t (fst (the (resolve_exit a t))))) \<and>
   cl_net c = None"
  by (auto simp: close_report_def apply_override_def Let_def split: if_splits)

lemma report_incomplete:
  "close_report a t = Some c \<Longrightarrow> cl_incomplete c \<Longrightarrow> cl_pnl_pct c = None \<and> cl_pnl_usd c = None \<and> cl_net c = None"
  by (auto simp: close_report_def apply_override_def Let_def split: if_splits option.splits)

text \<open>What a close books is the price move on the row's units. A successful close of a row with a finite
  positive entry price, size and exit price, without an override, reports and records the exit price, the dollar
  P&L (exit minus entry, times the units, negated for a short; leverage is not applied twice) and the return on
  margin (the relative move times the leverage), so a trade wins exactly when the price moved its way.\<close>

lemma close_books_price_move:
  assumes "close_trade_record i a dk = (CClosed c, dk')" and "find_trade (py_strip i) dk = Some t"
    and "ca_override a = None" and "\<not> ca_incomplete a" and "resolve_exit a t = Some (Fin p, src)"
    and "row_entry t = Some (Fin e)" and "0 < e" and "row_size t = Fin n" and "row_leverage t = Fin l"
  defines "sign \<equiv> direction_sign (normalize_trade_direction (tr_direction t))"
  shows "cl_exit c = Some (Fin p) \<and> cl_pnl_usd c = Some (Fin ((p - e) * n * sign)) \<and>
         cl_pnl_pct c = Some (Fin ((p - e) / e * sign * l)) \<and> 0 < n \<and>
         (0 < (p - e) * n * sign \<longleftrightarrow> (if sign = 1 then e < p else p < e)) \<and>
         find_trade (py_strip i) dk' = Some (close_row_values a c t)"
proof -
  have r: "close_report a t = Some c"
    using assms(1,2) by (auto simp: close_trade_record_def Let_def split: if_splits option.splits)
  have n: "0 < n"
    using r assms by (auto simp: close_report_def Let_def not_le split: if_splits)
  have s: "sign = 1 \<or> sign = - 1" by (simp add: sign_def direction_sign_def split: direction.split)
  have k: "close_pnl t (Fin p) = Some (Fin ((p - e) / e * sign * l), Fin ((p - e) * n * sign))"
    using assms by (simp add: close_pnl_def)
  have f: "find_trade (py_strip i) dk' = Some (close_row_values a c t)"
  proof (cases rule: close_cases [of i a dk])
    case refused
    then show ?thesis using refused(2) [of c] assms(1) by simp
  next
    case (closed t' c')
    then have "dk_trades dk' = dk_trades (put_trade (py_strip i) (close_row_values a c) dk)" "t' = t" "c' = c"
      using assms(1,2) by auto
    then show ?thesis using find_only_trades [of dk'] assms(2) by (simp add: find_put_trade)
  qed
  have w: "0 < (p - e) * n * sign \<longleftrightarrow> (if sign = 1 then e < p else p < e)"
    using s n by (auto simp: zero_less_mult_iff mult_less_0_iff)
  show ?thesis
    using row_values [OF r] report_pnl [OF r assms(3)] k n w f assms by simp
qed

text \<open>A close without a price books nothing. When the caller declares the close incomplete, or neither the
  row nor the caller has an exit price, the row is closed with no exit price and no P&L of any kind, even if an
  override is given, and flagged as incomplete in its signal data; every other close is flagged complete and has
  an exit price.\<close>

lemma unpriced_close_books_nothing:
  assumes "close_report a t = Some c" and "r = close_row_values a c t"
  shows "tr_status r = Some ''CLOSED'' \<and> jget (cl_signal_data c) ''close_incomplete'' = JBool (cl_incomplete c) \<and>
         (cl_incomplete c \<longleftrightarrow> ca_incomplete a \<or> resolve_exit a t = None) \<and>
         (if cl_incomplete c
          then tr_exit_price r = JNull \<and> tr_signal_exit_price r = JNull \<and> tr_pnl r = JNull \<and> tr_pnl_pct r = JNull \<and>
               tr_pnl_usd r = JNull \<and> tr_net_pnl_pct r = tr_net_pnl_pct t
          else tr_exit_price r \<noteq> JNull \<and> tr_signal_exit_price r \<noteq> JNull)"
proof -
  note v = row_values [OF assms(1)]
  have f: "jget (cl_signal_data c) ''close_incomplete'' = JBool (cl_incomplete c)"
    using assms(1)
    by (auto simp: close_report_def Let_def jget_dict_set set_some_def split: if_splits prod.splits option.splits)
  show ?thesis
  proof (cases "cl_incomplete c")
    case True
    then show ?thesis using v f report_incomplete [OF assms(1) True] by (simp add: assms(2) close_row_values_def opt_num_def)
  next
    case False
    then show ?thesis using v f by (auto simp: assms(2) close_row_values_def opt_num_def)
  qed
qed

section \<open>A staged exit survives the close\<close>

lemma py_round_idem [simp]: "py_round (py_round x n) n = py_round x n"
  by (simp add: py_round_def)

lemma pf_round_idem [simp]: "pf_round (pf_round f n) n = pf_round f n"
  by (cases f) simp_all

lemma pops_absent: "k \<in> set ks \<Longrightarrow> jget (foldl (\<lambda>d k. dict_pop k d) d ks) k = JNull"
proof (induction ks arbitrary: d)
  case (Cons a ks)
  have keep: "jget d k = JNull \<Longrightarrow> jget (foldl (\<lambda>d k. dict_pop k d) d ks) k = JNull" for d
    by (induction ks arbitrary: d) (simp_all add: jget_dict_pop)
  show ?case using Cons keep [of "dict_pop a d"] by (cases "k \<in> set ks") (auto simp: jget_dict_pop)
qed simp

lemma report_pops_markers:
  assumes "close_report a t = Some c" and "k \<in> set stale_keys"
  shows "jget (cl_signal_data c) k = JNull"
proof -
  have k: "k \<noteq> ''close_reason''" "k \<noteq> ''close_incomplete''" "k \<noteq> ''close_price_source''" "k \<noteq> ''pnl_is_equity_fraction''"
    using assms(2) by (auto simp: stale_keys_def)
  note p = pops_absent [OF assms(2)]
  show ?thesis
    using assms(1)
    by (auto simp: close_report_def Let_def jget_dict_set set_some_def k p split: if_splits prod.splits option.splits)
qed

lemma marked_row:
  assumes "mark_trade_pending_close_reconcile i m dk = (PMarked (JFloat f), dk')" and "find_trade (py_strip i) dk = Some t"
    and "find_trade (py_strip i) dk' = Some u"
  shows "tr_signal_exit_price u = JFloat f \<and>
         (tr_signal_exit_price t = JFloat f \<or> (\<exists>g. f = pf_round g 8))"
proof -
  have "(let (sd, e) = pending_data m t; persisted = (case e of Some f \<Rightarrow> JFloat (pf_round f 8) | None \<Rightarrow> tr_signal_exit_price t)
         in persisted = JFloat f \<and>
            dk' = put_trade (py_strip i) (\<lambda>r. r\<lparr>tr_signal_exit_price := persisted, tr_signal_data := SText (Some (JObj sd))\<rparr>) dk)"
    using assms(1,2) by (auto simp: mark_trade_pending_close_reconcile_def Let_def split: if_splits prod.splits)
  then show ?thesis using assms(2,3) by (auto simp: Let_def find_put_trade split: prod.splits option.splits)
qed

text \<open>C27: The expected exit staged with a pending close survives the close. After a mark that staged a price, a
  later close that books a price keeps the staged price as the row's expected exit, whatever fill or caller price
  it settles at, and removes every pending marker from the row.\<close>

theorem staged_exit_survives_close:
  assumes "mark_trade_pending_close_reconcile i m dk = (PMarked (JFloat (pf_round f 8)), dk1)"
    and "find_trade (py_strip i) dk = Some t" and "find_trade (py_strip i) dk1 = Some u"
    and "close_report a u = Some c" and "\<not> cl_incomplete c"
  shows "tr_signal_exit_price (close_row_values a c u) = JFloat (pf_round f 8) \<and>
         (\<forall>k\<in>set stale_keys. jget (parse_trade_signal_data (tr_signal_data (close_row_values a c u))) k = JNull)"
proof -
  have "tr_signal_exit_price u = JFloat (pf_round f 8)" using marked_row [OF assms(1-3)] by blast
  then have "expected_exit a u p = pf_round f 8" for p by (simp add: expected_exit_def coerce_optional_float_def)
  then have "cl_signal_exit c = Some (pf_round f 8)" using row_values [OF assms(4)] assms(5) by simp
  moreover have "jget (cl_signal_data c) k = JNull" if "k \<in> set stale_keys" for k
    by (rule report_pops_markers [OF assms(4) that])
  ultimately show ?thesis by (simp add: close_row_values_def opt_num_def parse_trade_signal_data_def)
qed

definition demo_mark :: pending_args where
  "demo_mark = \<lparr>pa_signal_exit = JFloat (Fin 95), pa_reason = None, pa_price_source = None, pa_extra = [],
     pa_requested_at = ''t'', pa_only_if_open = True\<rparr>"

theorem staged_exit_survives_close_witness:
  "tr_signal_exit_price (close_row_values (demo_close 90)
     (the (close_report (demo_close 90) (the (find_trade ''T1'' (desk_step demo_desk (Mark ''T1'' demo_mark))))))
     (the (find_trade ''T1'' (desk_step demo_desk (Mark ''T1'' demo_mark))))) = JFloat (Fin 95)"
proof -
  define dk1 where "dk1 = desk_step demo_desk (Mark ''T1'' demo_mark)"
  have i: "py_strip ''T1'' = ''T1''" by code_simp
  have d: "pa_only_if_open demo_mark" by (simp add: demo_mark_def)
  have "fst (mark_trade_pending_close_reconcile ''T1'' demo_mark demo_desk) = PMarked (JFloat (Fin 95))" by code_simp
  moreover have "pf_round (Fin 95) 8 = Fin 95" by code_simp
  moreover have "demo_mark\<lparr>pa_only_if_open := True\<rparr> = demo_mark" by (simp add: demo_mark_def)
  ultimately have m: "mark_trade_pending_close_reconcile ''T1'' demo_mark demo_desk = (PMarked (JFloat (pf_round (Fin 95) 8)), dk1)"
    by (simp add: dk1_def prod_eq_iff)
  have t: "find_trade (py_strip ''T1'') demo_desk = Some demo_trade" by code_simp
  have "find_trade (py_strip ''T1'') dk1 \<noteq> None" unfolding dk1_def by code_simp
  then obtain u where u: "find_trade (py_strip ''T1'') dk1 = Some u" by blast
  have "map_option (\<lambda>u. map_option cl_incomplete (close_report (demo_close 90) u)) (find_trade (py_strip ''T1'') dk1) = Some (Some False)"
    unfolding dk1_def by code_simp
  then obtain c where c: "close_report (demo_close 90) u = Some c" "\<not> cl_incomplete c" using u by auto
  have "pf_round (Fin 95) 8 = Fin 95" by code_simp
  with staged_exit_survives_close [OF m t u c] show ?thesis using u c i unfolding dk1_def [symmetric] by simp
qed


section \<open>The bots' ledgers\<close>

text \<open>Trade ids are the table's key; a bot's realized P&L is the sum over its closed trades less its funding.\<close>

definition ledger_ok :: "desk \<Rightarrow> bool" where
  "ledger_ok dk \<longleftrightarrow>
     distinct (map tr_id (dk_trades dk)) \<and>
     (\<forall>b\<in>set (dk_bots dk). bl_realized b = pf_sub (closed_pnl_sum (''bot:'' @ bl_bot b) (dk_trades dk)) (bl_funding b))"

lemma closed_sum_map:
  assumes "\<forall>t\<in>set ts. tr_source (g t) = tr_source t \<and>
      (tr_source t = Some src \<longrightarrow> tr_status (g t) = tr_status t \<and> tr_pnl_usd (g t) = tr_pnl_usd t)"
  shows "closed_pnl_sum src (map g ts) = closed_pnl_sum src ts"
  using assms by (induction ts) (auto simp: closed_pnl_sum_def)

lemma put_trade_ids: "\<forall>t. tr_id (f t) = tr_id t \<Longrightarrow> map tr_id (dk_trades (put_trade i f dk)) = map tr_id (dk_trades dk)"
  by (auto simp: put_trade_def)

lemma found_only:
  assumes "distinct (map tr_id (dk_trades dk))" and "find_trade i dk = Some t" and "u \<in> set (dk_trades dk)" and "tr_id u = i"
  shows "u = t"
proof -
  have "t \<in> set (dk_trades dk)" "tr_id t = i"
    using assms(2) by (auto simp: find_trade_def find_Some_iff)
  then show ?thesis using assms by (auto simp: distinct_map inj_on_def)
qed

lemma put_trades_sum:
  assumes "distinct (map tr_id (dk_trades dk))" and "find_trade i dk = Some t" and "tr_source t \<noteq> Some src"
  shows "closed_pnl_sum src (dk_trades (put_trade i (close_row_values a c) dk)) = closed_pnl_sum src (dk_trades dk)"
  unfolding put_trade_def using found_only [OF assms(1,2)] assms(3)
  by (simp, intro closed_sum_map) auto

lemma close_ledger:
  assumes "ledger_ok dk"
  shows "ledger_ok (snd (close_trade_record i a dk))"
proof (cases rule: close_cases [of i a dk])
  case refused
  then show ?thesis using assms by simp
next
  case (closed t c)
  define dk1 where "dk1 = put_trade (py_strip i) (close_row_values a c) dk"
  have d: "distinct (map tr_id (dk_trades dk))" using assms by (simp add: ledger_ok_def)
  have ids: "distinct (map tr_id (dk_trades dk1))"
    using d unfolding dk1_def by (subst put_trade_ids) simp_all
  have b1: "dk_bots dk1 = dk_bots dk" by (simp add: dk1_def put_trade_def)
  have other: "bl_realized b = pf_sub (closed_pnl_sum (''bot:'' @ bl_bot b) (dk_trades dk1)) (bl_funding b)"
    if "b \<in> set (dk_bots dk)" "tr_source t \<noteq> Some (''bot:'' @ bl_bot b)" for b
    using assms that put_trades_sum [OF d closed(1) that(2)] by (simp add: ledger_ok_def dk1_def)
  have "ledger_ok (reconcile_bot_ledger_after_close t dk1)"
  proof (cases "take 4 (opt_word (tr_source t)) = ''bot:''")
    case True
    then obtain src where src: "tr_source t = Some src" by (cases "tr_source t") (auto simp: opt_word_def)
    then have "src = ''bot:'' @ drop 4 src" using True append_take_drop_id [of 4 src] by (simp add: opt_word_def)
    then have "tr_source t \<noteq> Some (''bot:'' @ x)" if "x \<noteq> drop 4 src" for x using that src by auto
    then show ?thesis
      using ids b1 other True src
      by (auto simp: ledger_ok_def reconcile_bot_ledger_after_close_def reconcile_bot_realized_pnl_def opt_word_def Let_def)
  next
    case False
    then have "tr_source t \<noteq> Some (''bot:'' @ x)" for x by (auto simp: opt_word_def)
    then show ?thesis
      using ids b1 other False by (auto simp: ledger_ok_def reconcile_bot_ledger_after_close_def Let_def)
  qed
  then show ?thesis by (simp add: closed(4) dk1_def [symmetric] ledger_ok_def)
qed

lemma mark_ledger:
  assumes "ledger_ok dk"
  shows "ledger_ok (snd (mark_trade_pending_close_reconcile i a dk))"
proof -
  have put: "ledger_ok (put_trade j (\<lambda>r. r\<lparr>tr_signal_exit_price := v, tr_signal_data := w\<rparr>) dk)" for j v w
  proof -
    have "map tr_id (dk_trades (put_trade j (\<lambda>r. r\<lparr>tr_signal_exit_price := v, tr_signal_data := w\<rparr>) dk)) = map tr_id (dk_trades dk)"
      by (rule put_trade_ids) simp
    moreover have "closed_pnl_sum src (map (\<lambda>t. if tr_id t = j then t\<lparr>tr_signal_exit_price := v, tr_signal_data := w\<rparr> else t) ts)
        = closed_pnl_sum src ts" for src ts
      by (rule closed_sum_map) simp
    ultimately show ?thesis using assms by (simp add: ledger_ok_def) (simp add: put_trade_def)
  qed
  show ?thesis
    using assms by (auto simp: mark_trade_pending_close_reconcile_def Let_def put split: option.splits prod.splits)
qed

lemma ledger_step [inv_rules]: "ledger_ok dk \<Longrightarrow> ledger_ok (desk_step dk e)"
  by (cases e) (auto intro: close_ledger mark_ledger)

interpretation ledger_run: invariant_run desk_step ledger_ok
  by unfold_locales (rule ledger_step)

text \<open>A bot's equity never drifts from its trades. In a table whose ids are unique and whose bot ledgers are
  in order, after any run of closes and pending marks through any path every bot's realized P&L is the sum of the
  recorded P&L of its closed trades less its funding.\<close>

lemma bot_ledgers_follow_trades:
  assumes "ledger_ok dk" and "b \<in> set (dk_bots (foldl desk_step dk es))"
  shows "bl_realized b = pf_sub (closed_pnl_sum (''bot:'' @ bl_bot b) (dk_trades (foldl desk_step dk es))) (bl_funding b)"
  using ledger_run.run_inv [OF assms(1)] assms(2) by (simp add: ledger_ok_def)

section \<open>A manual close and the kernel's close\<close>




section \<open>Retiring a strategy\<close>

lemma close_released [simp]: "dk_released (snd (close_trade_record i a dk)) = dk_released dk"
proof (cases rule: close_cases [of i a dk])
  case (closed t c)
  then show ?thesis
    by (simp add: notify_live_trade_closed_def reconcile_bot_ledger_after_close_def reconcile_bot_realized_pnl_def
        put_trade_def Let_def)
qed simp

lemma close_other:
  assumes "j \<noteq> py_strip i"
  shows "find_trade j (snd (close_trade_record i a dk)) = find_trade j dk"
proof (cases rule: close_cases [of i a dk])
  case (closed t c)
  have "find_trade j (snd (close_trade_record i a dk)) = find_trade j (put_trade (py_strip i) (close_row_values a c) dk)"
    by (rule find_only_trades) (simp add: closed)
  then show ?thesis using assms by (simp add: find_put_trade)
qed simp

definition row_ids :: "(quote_env \<times> trade_row) list \<Rightarrow> string list" where
  "row_ids qts = map (\<lambda>qt. py_strip (tr_id (snd qt))) qts"

text \<open>What one swept row does: its id is reported once, and no other row changes.\<close>

definition swept :: "sweep \<Rightarrow> sweep \<Rightarrow> string list \<Rightarrow> bool" where
  "swept s r ids \<longleftrightarrow>
     mset (sw_closed r) + mset (sw_skipped r) = mset (sw_closed s) + mset (sw_skipped s) + mset ids \<and>
     (\<exists>new. sw_closed r = sw_closed s @ new \<and> dk_released (sw_desk r) = dk_released (sw_desk s) @ new) \<and>
     (\<forall>j. j \<notin> set ids \<longrightarrow> find_trade j (sw_desk r) = find_trade j (sw_desk s))"

lemma find_released [simp]: "find_trade j (dk\<lparr>dk_released := x\<rparr>) = find_trade j dk"
  by (simp add: find_trade_def)

lemma swept_step: "swept s (sweep_step settings reason note when s (q, t)) [py_strip (tr_id t)]"
proof -
  obtain m b where m: "fresh_mark_price q (tr_asset t) (sw_breaker s) = (m, b)" by force
  show ?thesis
  proof (cases m)
    case None
    then show ?thesis by (simp add: swept_def sweep_step_def m Let_def)
  next
    case (Some mark)
    define a where "a = terminal_args settings reason note when t mark"
    obtain r dk where r: "close_trade_record (py_strip (tr_id t)) a (sw_desk s) = (r, dk)" by force
    have rel: "dk_released dk = dk_released (sw_desk s)"
      using close_released [of "py_strip (tr_id t)" a "sw_desk s"] r by simp
    have oth: "find_trade j dk = find_trade j (sw_desk s)" if "j \<noteq> py_strip (tr_id t)" for j
      using close_other [of j "py_strip (tr_id t)" a "sw_desk s"] that r by simp
    show ?thesis
      using Some rel oth by (cases r) (simp_all add: swept_def sweep_step_def m r a_def [symmetric] Let_def)
  qed
qed

lemma swept_trans:
  assumes "swept s r ids" and "swept r u ids'"
  shows "swept s u (ids @ ids')"
  using assms by (auto simp: swept_def)

lemma swept_run: "swept s (foldl (sweep_step settings reason note when) s qts) (row_ids qts)"
proof (induction qts arbitrary: s)
  case Nil
  show ?case by (simp add: swept_def row_ids_def)
next
  case (Cons qt qts)
  obtain q t where qt: "qt = (q, t)" by (cases qt)
  have "swept s (sweep_step settings reason note when s qt) [py_strip (tr_id t)]" unfolding qt by (rule swept_step)
  from swept_trans [OF this Cons.IH] show ?case by (simp add: row_ids_def qt)
qed

text \<open>Retiring a strategy flattens its open paper trades and nothing else. Every open paper trade of the strategy is
  reported exactly once, as closed or as skipped; the risk reservations released are exactly those of the closed
  ones; and no row with another id, a live trade of the same strategy included, changes.\<close>

lemma sweep_touches_only_its_trades:
  assumes "py_strip sid \<noteq> []"
    and "r = close_open_paper_trades_for_strategy settings sid reason note closed_at quotes dk b"
    and "ids = map (\<lambda>t. py_strip (tr_id t)) (filter (sweep_row (py_strip sid)) (dk_trades dk))"
  shows "mset (sw_closed r) + mset (sw_skipped r) = mset ids \<and>
         dk_released (sw_desk r) = dk_released dk @ sw_closed r \<and>
         (\<forall>j. j \<notin> set ids \<longrightarrow> find_trade j (sw_desk r) = find_trade j dk)"
proof -
  define trades where "trades = filter (sweep_row (py_strip sid)) (dk_trades dk)"
  define qts where "qts = map (\<lambda>i. (quotes i, trades ! i)) [0..<length trades]"
  define s0 where "s0 = \<lparr>sw_desk = dk, sw_breaker = b, sw_closed = [], sw_skipped = []\<rparr>"
  have "map snd qts = trades" unfolding qts_def by (simp add: comp_def map_nth)
  then have i: "row_ids qts = ids"
    unfolding row_ids_def assms(3) trades_def [symmetric] by (metis (no_types, lifting) list.map_comp map_eq_conv comp_apply)
  have "r = foldl (sweep_step settings reason note closed_at) s0 qts"
    using assms(1,2) by (simp add: close_open_paper_trades_for_strategy_def Let_def qts_def trades_def s0_def)
  then have "swept s0 r ids" using swept_run i by metis
  then show ?thesis by (simp add: swept_def s0_def)
qed

definition demo_quotes :: "nat \<Rightarrow> quote_env" where
  "demo_quotes i = \<lparr>q_binance = True, q_now = 0, q_prices = (\<lambda>b. (Some (\<lambda>_. JFloat (Fin 80)), b))\<rparr>"

end
