(* ===== verification/Risk_Guard.thy ===== *)
theory Risk_Guard
  imports Trade_State
begin

text \<open>
  The account-level risk guard of \<open>src/forven/exchange/risk.py\<close>: the limits, the sanity check of an
  equity sample, the high-water mark, the kill switch and the daily-loss halt with their confirmation
  streaks, the check on the open path and the operator's resets. Each entry point holds the risk-state
  lock, so a concurrent run is a sequence of these steps. Clock readings are microseconds, days are
  numbers. The stored state is the dict this module writes: its numbers are finite and its stamps parse.
\<close>

section \<open>Limits\<close>

record limits =
  lm_portfolio_budget :: rat
  lm_per_strategy_max :: rat
  lm_max_drawdown :: rat
  lm_daily_loss :: rat
  lm_max_risk :: rat

definition TESTNET_LIMITS :: limits where
  "TESTNET_LIMITS = \<lparr>lm_portfolio_budget = 2/100, lm_per_strategy_max = 1/100, lm_max_drawdown = 10/100,
     lm_daily_loss = 5/100, lm_max_risk = 2/100\<rparr>"

definition MAINNET_LIMITS :: limits where
  "MAINNET_LIMITS = \<lparr>lm_portfolio_budget = 1/100, lm_per_strategy_max = 5/1000, lm_max_drawdown = 5/100,
     lm_daily_loss = 3/100, lm_max_risk = 1/100\<rparr>"

definition has_key :: "jobj \<Rightarrow> string \<Rightarrow> bool" where
  "has_key d k \<longleftrightarrow> map_of d k \<noteq> None"

text \<open>A percent override as a fraction in (0, bound], None to keep the default.\<close>

definition bounded_limit :: "pyfloat \<Rightarrow> rat \<Rightarrow> rat option" where
  "bounded_limit f bound =
     (case pf_div f (Fin 100) of
        Fin q \<Rightarrow> if q \<le> 0 then None else if bound < q then Some bound else Some q
      | _ \<Rightarrow> None)"

definition bounded_limit_override :: "jv \<Rightarrow> rat \<Rightarrow> rat option" where
  "bounded_limit_override raw bound = (case py_float raw of Inl _ \<Rightarrow> None | Inr f \<Rightarrow> bounded_limit f bound)"

definition drawdown_override :: "jobj \<Rightarrow> rat option" where
  "drawdown_override settings =
     (if \<not> has_key settings ''max_drawdown_pct'' then None
      else case py_float (jget settings ''max_drawdown_pct'') of
        Inr (Fin q) \<Rightarrow> Some (if 30/100 < q / 100 then 30/100 else if q / 100 < 1/100 then 1/100 else q / 100)
      | _ \<Rightarrow> None)"

definition risk_override :: "jobj \<Rightarrow> rat option" where
  "risk_override settings =
     (let raw = jget settings ''max_risk_per_trade_pct'';
          raw' = (if raw = JNull then jget settings ''max_position_size_pct'' else raw)
      in bounded_limit_override raw' (10/100))"

text \<open>The daily loss in percent, or in dollars of the initial capital (the older setting).\<close>

definition daily_override :: "jobj \<Rightarrow> rat option" where
  "daily_override settings =
     (if has_key settings ''max_daily_loss_pct'' then bounded_limit_override (jget settings ''max_daily_loss_pct'') (50/100)
      else if has_key settings ''max_daily_loss'' \<and> has_key settings ''initial_capital'' then
        (case (py_float (jget settings ''initial_capital''), py_float (jget settings ''max_daily_loss'')) of
           (Inr cap, Inr loss) \<Rightarrow>
             if pf_less (Fin 0) cap then bounded_limit (pf_mul (pf_div loss cap) (Fin 100)) (50/100) else None
         | _ \<Rightarrow> None)
      else None)"

definition or_rat :: "rat option \<Rightarrow> rat \<Rightarrow> rat" where
  "or_rat v d = (case v of None \<Rightarrow> d | Some q \<Rightarrow> q)"

definition clamp_limits :: "limits \<Rightarrow> limits" where
  "clamp_limits l =
     \<lparr>lm_portfolio_budget = min (lm_portfolio_budget l) (lm_portfolio_budget MAINNET_LIMITS),
      lm_per_strategy_max = min (lm_per_strategy_max l) (lm_per_strategy_max MAINNET_LIMITS),
      lm_max_drawdown = min (lm_max_drawdown l) (lm_max_drawdown MAINNET_LIMITS),
      lm_daily_loss = min (lm_daily_loss l) (lm_daily_loss MAINNET_LIMITS),
      lm_max_risk = min (lm_max_risk l) (lm_max_risk MAINNET_LIMITS)\<rparr>"

text \<open>\<open>mainnet\<close> is whether the configured credentials resolve to the mainnet.\<close>

definition get_risk_limits :: "string \<Rightarrow> bool \<Rightarrow> jobj \<Rightarrow> limits" where
  "get_risk_limits mode mainnet settings =
     (let on_mainnet = (py_lower (py_strip mode) = ''mainnet'' \<or> mainnet);
          base = (if on_mainnet then MAINNET_LIMITS else TESTNET_LIMITS);
          l = base\<lparr>lm_max_drawdown := or_rat (drawdown_override settings) (lm_max_drawdown base),
                   lm_max_risk := or_rat (risk_override settings) (lm_max_risk base),
                   lm_daily_loss := or_rat (daily_override settings) (lm_daily_loss base)\<rparr>
      in if settings = [] then base else if on_mainnet then clamp_limits l else l)"

section \<open>The stored state\<close>

record risk_state =
  rs_hwm :: rat
  rs_last_equity :: rat
  rs_source :: "string option"
  rs_updated_at :: "int option"
  rs_drawdown :: rat
  rs_reject_streak :: int
  rs_ks_active :: bool
  rs_ks_at :: "int option"
  rs_halt :: bool
  rs_halt_date :: "int option"
  rs_ks_streak :: int
  rs_ks_last_at :: "int option"
  rs_dh_streak :: int
  rs_dh_last_at :: "int option"
  rs_pending :: "rat option"
  rs_pending_at :: "int option"
  rs_paper_logged :: bool
  rs_open_logged :: "int option"

definition default_risk_state :: risk_state where
  "default_risk_state = \<lparr>rs_hwm = 0, rs_last_equity = 0, rs_source = None, rs_updated_at = None, rs_drawdown = 0,
     rs_reject_streak = 0, rs_ks_active = False, rs_ks_at = None, rs_halt = False, rs_halt_date = None,
     rs_ks_streak = 0, rs_ks_last_at = None, rs_dh_streak = 0, rs_dh_last_at = None, rs_pending = None,
     rs_pending_at = None, rs_paper_logged = False, rs_open_logged = None\<rparr>"

record daily_risk =
  dy_date :: int
  dy_start :: rat
  dy_current :: "rat option"
  dy_pnl :: rat
  dy_loss :: rat

definition fresh_daily :: "int \<Rightarrow> rat \<Rightarrow> daily_risk" where
  "fresh_daily today eq = \<lparr>dy_date = today, dy_start = eq, dy_current = None, dy_pnl = 0, dy_loss = 0\<rparr>"

record risk_store =
  st_state :: risk_state
  st_daily :: "daily_risk option"
  st_enabled :: bool

text \<open>A best-effort write is skipped when the database stays locked.\<close>

definition save_best :: "bool \<Rightarrow> risk_state \<Rightarrow> risk_store \<Rightarrow> risk_store" where
  "save_best ok s st = (if ok then st\<lparr>st_state := s\<rparr> else st)"

definition real_capital_sources :: "string set" where
  "real_capital_sources = {''exchange'', ''books_aggregate'', ''books_only''}"

definition is_real_capital_equity_source :: "string \<Rightarrow> bool" where
  "is_real_capital_equity_source src \<longleftrightarrow> py_lower (py_strip src) \<in> real_capital_sources"

section \<open>An equity sample\<close>

text \<open>
  One call of \<open>update_equity\<close> with what it reads beside the store: clock, day, execution mode, the
  limits, the network, the live notional the trades table explains, and which of its best-effort
  writes get through (0: the state, 1 to 4: the daily record).
\<close>

record tick =
  tk_equity :: jv
  tk_source :: string
  tk_rebaseline :: bool
  tk_degraded :: bool
  tk_now :: int
  tk_today :: int
  tk_mode :: string
  tk_limits :: limits
  tk_mainnet :: bool
  tk_notional :: "rat option"
  tk_writes :: "nat \<Rightarrow> bool"

definition coerce_non_negative :: "jv \<Rightarrow> pyfloat option" where
  "coerce_non_negative v =
     (case py_float v of Inl _ \<Rightarrow> None | Inr f \<Rightarrow> if pf_less f (Fin 0) then None else Some f)"

text \<open>
  The notional of the live trades that are open or closed after the anchor; \<open>after\<close> is the
  database's comparison of a closing time with the anchor's stamp.
\<close>

definition open_live_notional :: "(string \<Rightarrow> bool) \<Rightarrow> trade_row list \<Rightarrow> pyfloat" where
  "open_live_notional after ts =
     foldl (\<lambda>acc t.
        (case (py_or (coerce_non_negative (tr_fill_entry_price t)) (coerce_non_negative (tr_entry_price t)),
               coerce_non_negative (tr_size t)) of
           (Some e, Some n) \<Rightarrow> if e = Fin 0 \<or> n = Fin 0 then acc else pf_add acc (pf_mul e n)
         | _ \<Rightarrow> acc))
       (Fin 0)
       (filter (\<lambda>t. py_lower (case tr_execution_type t of None \<Rightarrow> ''live'' | Some x \<Rightarrow> x) = ''live'' \<and>
          (tr_status t = Some ''OPEN'' \<or>
           (tr_status t = Some ''CLOSED'' \<and> (case tr_closed_at t of None \<Rightarrow> False | Some c \<Rightarrow> after c)))) ts)"

datatype reject = NonNumeric | NaNEquity | NonPositive | AboveCeiling | Jump int | Drop int | PaperInLive

definition MAX_PLAUSIBLE :: rat where "MAX_PLAUSIBLE = 1000000000000"

definition bump_reject :: "risk_state \<Rightarrow> risk_state" where
  "bump_reject s = s\<lparr>rs_reject_streak := rs_reject_streak s + 1\<rparr>"

text \<open>A drop that even a total loss of the live exposure, twice over, does not explain.\<close>

definition drop_unexplained :: "rat \<Rightarrow> tick \<Rightarrow> risk_state \<Rightarrow> bool" where
  "drop_unexplained eq tk s \<longleftrightarrow>
     0 < rs_last_equity s \<and> eq < rs_last_equity s \<and> \<not> tk_rebaseline tk \<and>
     is_real_capital_equity_source (tk_source tk) \<and> Some (tk_source tk) = rs_source s \<and>
     rs_last_equity s * (10/100) \<le> rs_last_equity s - eq \<and>
     (case tk_notional tk of None \<Rightarrow> False | Some n \<Rightarrow> n * 2 + 25 < rs_last_equity s - eq)"

definition validate_equity_sample :: "tick \<Rightarrow> risk_state \<Rightarrow> (reject + rat) \<times> risk_state" where
  "validate_equity_sample tk s =
     (case py_float (tk_equity tk) of
        Inl _ \<Rightarrow> (Inl NonNumeric, s)
      | Inr NaN \<Rightarrow> (Inl NaNEquity, s)
      | Inr NInf \<Rightarrow> (Inl NonPositive, s)
      | Inr PInf \<Rightarrow> (Inl AboveCeiling, s)
      | Inr (Fin eq) \<Rightarrow>
          if eq \<le> 0 then (Inl NonPositive, s)
          else if MAX_PLAUSIBLE < eq then (Inl AboveCeiling, s)
          else if 0 < rs_last_equity s \<and> rs_last_equity s * 100 < eq
          then (Inl (Jump (rs_reject_streak s + 1)), bump_reject s)
          else if drop_unexplained eq tk s then (Inl (Drop (rs_reject_streak s + 1)), bump_reject s)
          else (Inr eq, s\<lparr>rs_reject_streak := 0\<rparr>))"

section \<open>The high-water mark\<close>

definition SPACING :: int where "SPACING = 20000000"

definition CONFIRM_TICKS :: int where "CONFIRM_TICKS = 3"

definition no_pending :: "risk_state \<Rightarrow> risk_state" where
  "no_pending s = s\<lparr>rs_pending := None, rs_pending_at := None\<rparr>"

definition hold_pending :: "rat \<Rightarrow> int \<Rightarrow> risk_state \<Rightarrow> risk_state" where
  "hold_pending eq now s = s\<lparr>rs_pending := Some eq, rs_pending_at := Some now\<rparr>"

text \<open>
  A rise on real capital is held until a clean reading at least the spacing later still shows it,
  and then committed at the lowest reading seen.
\<close>

definition advance_high_water_mark :: "risk_state \<Rightarrow> rat \<Rightarrow> rat \<Rightarrow> tick \<Rightarrow> risk_state \<times> rat" where
  "advance_high_water_mark s hwm eq tk =
     (if eq \<le> hwm then (no_pending s, hwm)
      else if hwm \<le> 0 \<or> \<not> is_real_capital_equity_source (tk_source tk) then ((no_pending s)\<lparr>rs_hwm := eq\<rparr>, eq)
      else if tk_degraded tk then (s, hwm)
      else case (rs_pending s, rs_pending_at s) of
        (Some pending, Some pending_at) \<Rightarrow>
          if pending \<le> hwm then (hold_pending eq (tk_now tk) s, hwm)
          else let supported = min pending eq
               in if tk_now tk - pending_at < SPACING then (s\<lparr>rs_pending := Some supported\<rparr>, hwm)
                  else (let s1 = no_pending (s\<lparr>rs_hwm := supported\<rparr>)
                        in (if supported < eq then hold_pending eq (tk_now tk) s1 else s1, supported))
      | _ \<Rightarrow> (hold_pending eq (tk_now tk) s, hwm))"

section \<open>Updating the equity\<close>

definition roll_day :: "int \<Rightarrow> risk_state \<Rightarrow> risk_state" where
  "roll_day today s = (if rs_halt_date s \<noteq> Some today then s\<lparr>rs_halt := False, rs_halt_date := None\<rparr> else s)"

definition prev_source :: "risk_state \<Rightarrow> string" where
  "prev_source s = (case rs_source s of None \<Rightarrow> ''paper'' | Some x \<Rightarrow> x)"

definition transient_paper :: "tick \<Rightarrow> risk_state \<Rightarrow> bool" where
  "transient_paper tk s \<longleftrightarrow>
     \<not> is_real_capital_equity_source (tk_source tk) \<and> is_real_capital_equity_source (prev_source s) \<and>
     py_lower (py_strip (tk_mode tk)) \<noteq> ''paper''"

definition initial_live_connect :: "tick \<Rightarrow> risk_state \<Rightarrow> bool" where
  "initial_live_connect tk s \<longleftrightarrow>
     \<not> is_real_capital_equity_source (prev_source s) \<and> is_real_capital_equity_source (tk_source tk)"

definition live_basis_changed :: "tick \<Rightarrow> risk_state \<Rightarrow> bool" where
  "live_basis_changed tk s \<longleftrightarrow>
     tk_source tk \<noteq> prev_source s \<and> is_real_capital_equity_source (tk_source tk) \<and>
     is_real_capital_equity_source (prev_source s)"

text \<open>
  The re-anchoring of the mark: a change of basis, an accepted drain, and a corrupted mark. The two
  booleans say whether the daily record is restarted by the first and by the second.
\<close>

definition rebase_anchors :: "tick \<Rightarrow> rat \<Rightarrow> risk_state \<Rightarrow> risk_state \<times> rat \<times> bool \<times> bool" where
  "rebase_anchors tk eq s =
     (let basis = ((initial_live_connect tk s \<or> live_basis_changed tk s) \<and> 0 < rs_hwm s);
          s1 = s\<lparr>rs_source := Some (tk_source tk)\<rparr>;
          s2 = (if basis then
                  (if initial_live_connect tk s then s1\<lparr>rs_hwm := eq, rs_halt := False, rs_halt_date := None\<rparr>
                   else s1\<lparr>rs_hwm := eq\<rparr>)
                else s1);
          hwm2 = (if basis then eq else rs_hwm s);
          drain = (tk_rebaseline tk \<and> is_real_capital_equity_source (tk_source tk) \<and> 0 < hwm2 \<and> eq < hwm2);
          s3 = (if drain then s2\<lparr>rs_hwm := eq\<rparr> else s2);
          hwm3 = (if drain then eq else hwm2);
          corrupt = (MAX_PLAUSIBLE < hwm3)
      in (if corrupt then s3\<lparr>rs_hwm := eq\<rparr> else s3, if corrupt then eq else hwm3, basis, drain))"

text \<open>What an accepted sample amounts to before the halts are judged.\<close>

record assessment =
  as_state :: risk_state
  as_store :: risk_store
  as_equity :: rat
  as_hwm :: rat
  as_drawdown :: rat
  as_daily_pnl :: rat

definition assess :: "tick \<Rightarrow> rat \<Rightarrow> risk_state \<Rightarrow> risk_store \<Rightarrow> assessment" where
  "assess tk eq s st =
     (let today = tk_today tk;
          (s1, hwm1, basis, drain) = rebase_anchors tk eq s;
          d1 = (if basis \<and> tk_writes tk 1 then Some (fresh_daily today eq) else st_daily st);
          d2 = (if drain \<and> tk_writes tk 2 then Some (fresh_daily today eq) else d1);
          (s2, hwm) = advance_high_water_mark s1 hwm1 eq tk;
          drawdown = (if 0 < hwm then max 0 ((hwm - eq) / hwm) else 0);
          s3 = s2\<lparr>rs_drawdown := py_round drawdown 6, rs_last_equity := eq, rs_updated_at := Some (tk_now tk)\<rparr>;
          (daily, d3) = (case d2 of
             Some d \<Rightarrow> if dy_date d = today then (d, d2)
                       else (fresh_daily today eq, if tk_writes tk 3 then Some (fresh_daily today eq) else d2)
           | None \<Rightarrow> (fresh_daily today eq, if tk_writes tk 3 then Some (fresh_daily today eq) else d2));
          pnl = (if 0 < dy_start daily then (eq - dy_start daily) / dy_start daily else 0);
          daily' = daily\<lparr>dy_current := Some eq, dy_pnl := py_round pnl 6, dy_loss := py_round (max 0 (- pnl)) 6\<rparr>;
          d4 = (if tk_writes tk 4 then Some daily' else d3)
      in \<lparr>as_state = s3, as_store = st\<lparr>st_daily := d4\<rparr>, as_equity = eq, as_hwm = hwm, as_drawdown = drawdown,
          as_daily_pnl = pnl\<rparr>)"

text \<open>\<open>_count_breach_tick\<close>: the new streak, None for a tick that must not count.\<close>

definition count_breach_tick :: "int \<Rightarrow> bool \<Rightarrow> int option \<Rightarrow> int \<Rightarrow> int option" where
  "count_breach_tick now degraded last_at streak =
     (if degraded then None
      else case last_at of
        None \<Rightarrow> Some (streak + 1)
      | Some a \<Rightarrow> if now - a < SPACING then None else Some (streak + 1))"

datatype risk_action = KillSwitch | DailyHalt

definition judge_kill_switch :: "tick \<Rightarrow> bool \<Rightarrow> rat \<Rightarrow> risk_state \<Rightarrow> risk_state \<times> bool \<times> bool" where
  "judge_kill_switch tk enabled drawdown s =
     (if lm_max_drawdown (tk_limits tk) \<le> drawdown \<and> enabled then
        (case count_breach_tick (tk_now tk) (tk_degraded tk) (rs_ks_last_at s) (rs_ks_streak s) of
           None \<Rightarrow> (s, False, False)
         | Some k \<Rightarrow>
             if CONFIRM_TICKS \<le> k
             then (s\<lparr>rs_ks_streak := 0, rs_ks_last_at := None, rs_ks_active := True, rs_ks_at := Some (tk_now tk)\<rparr>, True, False)
             else (s\<lparr>rs_ks_streak := k, rs_ks_last_at := Some (tk_now tk)\<rparr>, False, False))
      else if rs_ks_streak s \<noteq> 0 \<and> \<not> tk_degraded tk
      then (s\<lparr>rs_ks_streak := 0, rs_ks_last_at := None\<rparr>, False, True)
      else (s, False, False))"

definition judge_daily_halt :: "tick \<Rightarrow> rat \<Rightarrow> risk_state \<Rightarrow> risk_state \<times> bool \<times> bool" where
  "judge_daily_halt tk pnl s =
     (if pnl \<le> - lm_daily_loss (tk_limits tk) \<and> \<not> rs_halt s then
        (case count_breach_tick (tk_now tk) (tk_degraded tk) (rs_dh_last_at s) (rs_dh_streak s) of
           None \<Rightarrow> (s, False, False)
         | Some k \<Rightarrow>
             if CONFIRM_TICKS \<le> k
             then (s\<lparr>rs_dh_streak := 0, rs_dh_last_at := None, rs_halt := True, rs_halt_date := Some (tk_today tk)\<rparr>, True, False)
             else (s\<lparr>rs_dh_streak := k, rs_dh_last_at := Some (tk_now tk)\<rparr>, False, False))
      else if rs_dh_streak s \<noteq> 0 \<and> \<not> tk_degraded tk
      then (s\<lparr>rs_dh_streak := 0, rs_dh_last_at := None\<rparr>, False, True)
      else (s, False, False))"

text \<open>\<open>kill_switch_auto_enabled\<close>: the operator's toggle counts off the mainnet only.\<close>

definition kill_switch_auto_enabled :: "bool \<Rightarrow> risk_store \<Rightarrow> bool" where
  "kill_switch_auto_enabled mainnet st \<longleftrightarrow> st_enabled st \<or> mainnet"

definition note_paper_breach :: "tick \<Rightarrow> assessment \<Rightarrow> risk_state" where
  "note_paper_breach tk a =
     (let breach = (lm_max_drawdown (tk_limits tk) \<le> as_drawdown a \<or> as_daily_pnl a \<le> - lm_daily_loss (tk_limits tk))
      in (as_state a)\<lparr>rs_paper_logged := breach\<rparr>)"

definition judge :: "tick \<Rightarrow> assessment \<Rightarrow> risk_action option \<times> risk_store" where
  "judge tk a =
     (let s = as_state a; st = as_store a
      in if rs_ks_active s then (None, save_best (tk_writes tk 0) s st)
         else if \<not> is_real_capital_equity_source (tk_source tk)
         then (None, save_best (tk_writes tk 0) (note_paper_breach tk a) st)
         else case judge_kill_switch tk (kill_switch_auto_enabled (tk_mainnet tk) st) (as_drawdown a) s of
           (s1, fired1, reset1) \<Rightarrow>
             if fired1 then (Some KillSwitch, st\<lparr>st_state := s1\<rparr>)
             else (case judge_daily_halt tk (as_daily_pnl a) s1 of
               (s2, fired2, reset2) \<Rightarrow>
                 if fired2 then (Some DailyHalt, st\<lparr>st_state := s2\<rparr>)
                 else (None, save_best (rs_ks_streak s2 \<noteq> 0 \<or> rs_dh_streak s2 \<noteq> 0 \<or> reset1 \<or> reset2 \<or> tk_writes tk 0) s2 st)))"

record risk_check =
  rc_equity :: rat
  rc_hwm :: rat
  rc_drawdown :: rat
  rc_daily_pnl :: rat
  rc_kill_switch :: bool
  rc_daily_halt :: bool
  rc_action :: "risk_action option"
  rc_rejected :: "reject option"

definition rejected_result :: "risk_state \<Rightarrow> reject \<Rightarrow> risk_check" where
  "rejected_result s r = \<lparr>rc_equity = rs_last_equity s, rc_hwm = rs_hwm s, rc_drawdown = rs_drawdown s, rc_daily_pnl = 0,
     rc_kill_switch = rs_ks_active s, rc_daily_halt = rs_halt s, rc_action = None, rc_rejected = Some r\<rparr>"

definition update_equity :: "tick \<Rightarrow> risk_store \<Rightarrow> risk_check \<times> risk_store" where
  "update_equity tk st =
     (case validate_equity_sample tk (st_state st) of
        (Inl r, s) \<Rightarrow> (rejected_result s r, save_best (tk_writes tk 0) s st)
      | (Inr eq, s) \<Rightarrow>
          let s1 = roll_day (tk_today tk) s
          in if transient_paper tk s1 then (rejected_result s1 PaperInLive, save_best (tk_writes tk 0) s1 st)
             else (let a = assess tk eq s1 st; (act, st') = judge tk a
                   in (\<lparr>rc_equity = eq, rc_hwm = as_hwm a, rc_drawdown = py_round (as_drawdown a) 6,
                        rc_daily_pnl = py_round (as_daily_pnl a) 6,
                        rc_kill_switch = (rs_ks_active (as_state a) \<or> act = Some KillSwitch),
                        rc_daily_halt = (rs_halt (as_state a) \<or> act = Some DailyHalt),
                        rc_action = act, rc_rejected = None\<rparr>, st')))"

section \<open>The check on the open path\<close>

text \<open>The equity the margin check has just read; True refuses the open.\<close>

definition recompute_daily_halt_from_equity ::
  "rat \<Rightarrow> limits \<Rightarrow> int \<Rightarrow> (nat \<Rightarrow> bool) \<Rightarrow> risk_store \<Rightarrow> bool \<times> risk_store" where
  "recompute_daily_halt_from_equity acct lims today w st =
     (if acct \<le> 0 then (False, st)
      else let s = st_state st
           in if rs_halt_date s = Some today \<and> rs_halt s then (True, st)
              else (let s1 = (if rs_halt_date s \<noteq> Some today \<and> rs_halt s then s\<lparr>rs_halt := False, rs_halt_date := None\<rparr> else s);
                        st1 = (if rs_halt_date s \<noteq> Some today \<and> rs_halt s then save_best (w 0) s1 st else st);
                        unseeded = (case st_daily st of None \<Rightarrow> True | Some d \<Rightarrow> dy_date d \<noteq> today)
                    in if unseeded
                       then (False, if w 1 then st1\<lparr>st_daily := Some (fresh_daily today acct)\<rparr> else st1)
                       else (let start = dy_start (the (st_daily st))
                             in if start \<le> 0 then (False, st1)
                                else if (acct - start) / start \<le> - lm_daily_loss lims
                                then (True, if rs_open_logged s1 \<noteq> Some today
                                            then save_best (w 2) (s1\<lparr>rs_open_logged := Some today\<rparr>) st1 else st1)
                                else (False, st1))))"

definition BOOKS_MAX_AGE :: int where "BOOKS_MAX_AGE = 300000000"

text \<open>The last accepted sample, if it is of the books' basis and fresh.\<close>

definition validated_books_equity :: "int \<Rightarrow> risk_store \<Rightarrow> rat option" where
  "validated_books_equity now st =
     (let s = st_state st
      in case (rs_source s, rs_updated_at s) of
           (Some src, Some stamp) \<Rightarrow>
             if rs_last_equity s \<le> 0 \<or> py_lower (py_strip src) \<notin> {''books_only'', ''books_aggregate''} then None
             else if BOOKS_MAX_AGE < now - stamp then None else Some (rs_last_equity s)
         | _ \<Rightarrow> None)"

section \<open>The operator's controls\<close>

definition set_kill_switch_enabled :: "bool \<Rightarrow> risk_store \<Rightarrow> risk_store" where
  "set_kill_switch_enabled on st = st\<lparr>st_enabled := on\<rparr>"

definition reset_kill_switch :: "int \<Rightarrow> risk_store \<Rightarrow> risk_store" where
  "reset_kill_switch today st =
     (let s = st_state st;
          eq = (if rs_last_equity s \<le> 0 then rs_hwm s else rs_last_equity s)
      in st\<lparr>st_state := s\<lparr>rs_ks_active := False, rs_ks_at := None, rs_hwm := eq, rs_halt := False, rs_halt_date := None\<rparr>,
            st_daily := Some \<lparr>dy_date = today, dy_start = eq, dy_current = Some eq, dy_pnl = 0, dy_loss = 0\<rparr>\<rparr>)"

definition rebaseline_equity_anchors :: "pyfloat \<Rightarrow> string \<Rightarrow> int \<Rightarrow> int \<Rightarrow> risk_store \<Rightarrow> risk_store result" where
  "rebaseline_equity_anchors equity src now today st =
     (case equity of
        Fin eq \<Rightarrow>
          if eq \<le> 0 \<or> MAX_PLAUSIBLE < eq then Inl ValueError
          else Inr (st\<lparr>st_state := (st_state st)\<lparr>rs_hwm := eq, rs_last_equity := eq, rs_drawdown := 0, rs_reject_streak := 0,
                         rs_source := Some (if src = [] then ''operator'' else src), rs_updated_at := Some now\<rparr>,
                       st_daily := Some \<lparr>dy_date = today, dy_start = eq, dy_current = Some eq, dy_pnl = 0, dy_loss = 0\<rparr>\<rparr>)
      | _ \<Rightarrow> Inl ValueError)"

datatype verdict = Allowed | Paused | Recovering string | Killed | HaltedToday

definition is_trading_allowed :: "bool \<Rightarrow> (bool \<times> string) \<Rightarrow> int \<Rightarrow> risk_store \<Rightarrow> verdict" where
  "is_trading_allowed paused recovery today st =
     (if paused then Paused
      else if fst recovery then Recovering (py_strip (snd recovery))
      else if rs_ks_active (st_state st) then Killed
      else if rs_halt (st_state st) \<and> rs_halt_date (st_state st) = Some today then HaltedToday
      else Allowed)"

section \<open>Runs\<close>

datatype risk_event = Tick tick | OpenCheck rat limits int "nat \<Rightarrow> bool" | Rebaseline pyfloat string int int
  | Toggle bool | ResetKs int

fun risk_step :: "risk_store \<Rightarrow> risk_event \<Rightarrow> risk_store" where
  "risk_step st (Tick tk) = snd (update_equity tk st)"
| "risk_step st (OpenCheck acct lims today w) = snd (recompute_daily_halt_from_equity acct lims today w st)"
| "risk_step st (Rebaseline eq src now today) =
     (case rebaseline_equity_anchors eq src now today st of Inl _ \<Rightarrow> st | Inr st' \<Rightarrow> st')"
| "risk_step st (Toggle on) = set_kill_switch_enabled on st"
| "risk_step st (ResetKs today) = reset_kill_switch today st"

end
