(* ===== verification/Risk_Props.thy ===== *)
theory Risk_Props
  imports Risk_Guard
begin

text \<open>
  The kill switch and the daily halt arm only on confirmed real-capital losses, stay armed until the
  operator or the calendar lifts them, and no implausible sample moves an anchor.
\<close>

section \<open>Limits\<close>

lemma bounded_limit_in: "bounded_limit f b = Some q \<Longrightarrow> 0 < b \<Longrightarrow> 0 < q \<and> q \<le> b"
  by (auto simp: bounded_limit_def split: pyfloat.splits if_splits)

lemma bounded_override_in: "bounded_limit_override raw b = Some q \<Longrightarrow> 0 < b \<Longrightarrow> 0 < q \<and> q \<le> b"
  by (auto simp: bounded_limit_override_def split: sum.splits dest: bounded_limit_in)

lemma daily_override_in: "daily_override settings = Some q \<Longrightarrow> 0 < q \<and> q \<le> 50/100"
  by (auto simp: daily_override_def split: if_splits sum.splits dest: bounded_override_in bounded_limit_in)

lemma risk_override_in: "risk_override settings = Some q \<Longrightarrow> 0 < q \<and> q \<le> 10/100"
  unfolding risk_override_def Let_def by (drule bounded_override_in) simp_all

lemma drawdown_override_in: "drawdown_override settings = Some q \<Longrightarrow> 1/100 \<le> q \<and> q \<le> 30/100"
  by (auto simp: drawdown_override_def split: if_splits sum.splits pyfloat.splits)

lemma or_rat_in: "(\<And>q. v = Some q \<Longrightarrow> lo \<le> q \<and> q \<le> hi) \<Longrightarrow> lo \<le> d \<Longrightarrow> d \<le> hi \<Longrightarrow> lo \<le> or_rat v d \<and> or_rat v d \<le> hi"
  by (cases v) (simp_all add: or_rat_def)

lemma or_rat_pos: "(\<And>q. v = Some q \<Longrightarrow> 0 < q \<and> q \<le> hi) \<Longrightarrow> 0 < d \<Longrightarrow> d \<le> hi \<Longrightarrow> 0 < or_rat v d \<and> or_rat v d \<le> hi"
  by (cases v) (simp_all add: or_rat_def)

text \<open>No setting switches a limit off. Whatever JSON the settings hold, NaN, infinities and text included, the
  per-trade risk is above 0 and at most 10%, the daily loss above 0 and at most 50% and the drawdown between 1% and
  30%; on the mainnet every limit is at most the mainnet profile's.\<close>

lemma limits_always_bind:
  assumes "l = get_risk_limits mode mainnet settings"
  shows "0 < lm_max_risk l \<and> lm_max_risk l \<le> 10/100 \<and> 0 < lm_daily_loss l \<and> lm_daily_loss l \<le> 50/100 \<and>
         1/100 \<le> lm_max_drawdown l \<and> lm_max_drawdown l \<le> 30/100 \<and>
         (mainnet \<longrightarrow> lm_portfolio_budget l \<le> 1/100 \<and> lm_per_strategy_max l \<le> 5/1000 \<and> lm_max_drawdown l \<le> 5/100 \<and>
           lm_daily_loss l \<le> 3/100 \<and> lm_max_risk l \<le> 1/100)"
proof -
  have m: "1/100 \<le> or_rat (drawdown_override settings) d \<and> or_rat (drawdown_override settings) d \<le> 30/100"
    if "1/100 \<le> d" "d \<le> 30/100" for d
    by (rule or_rat_in [OF drawdown_override_in that])
  have r: "0 < or_rat (risk_override settings) d \<and> or_rat (risk_override settings) d \<le> 10/100"
    if "0 < d" "d \<le> 10/100" for d
    by (rule or_rat_pos [OF risk_override_in that])
  have p: "0 < or_rat (daily_override settings) d \<and> or_rat (daily_override settings) d \<le> 50/100"
    if "0 < d" "d \<le> 50/100" for d
    by (rule or_rat_pos [OF daily_override_in that])
  show ?thesis
    using m [of "10/100"] m [of "5/100"] r [of "2/100"] r [of "1/100"] p [of "5/100"] p [of "3/100"]
    by (simp add: assms get_risk_limits_def Let_def TESTNET_LIMITS_def MAINNET_LIMITS_def clamp_limits_def min_def)
qed

section \<open>What a tick leaves alone\<close>

text \<open>The latch and the streaks of a state.\<close>

definition latches :: "risk_state \<Rightarrow> bool \<times> int option \<times> int \<times> int option \<times> int \<times> int option" where
  "latches s = (rs_ks_active s, rs_ks_at s, rs_ks_streak s, rs_ks_last_at s, rs_dh_streak s, rs_dh_last_at s)"

lemma validate_cases:
  obtains (bad) r k where "validate_equity_sample tk s = (Inl r, s\<lparr>rs_reject_streak := k\<rparr>)"
  | (good) eq where "validate_equity_sample tk s = (Inr eq, s\<lparr>rs_reject_streak := 0\<rparr>)"
proof -
  have "(\<exists>r k. validate_equity_sample tk s = (Inl r, s\<lparr>rs_reject_streak := k\<rparr>)) \<or>
        (\<exists>eq. validate_equity_sample tk s = (Inr eq, s\<lparr>rs_reject_streak := 0\<rparr>))"
  proof (cases "py_float (tk_equity tk)")
    case (Inl e)
    then have "validate_equity_sample tk s = (Inl NonNumeric, s\<lparr>rs_reject_streak := rs_reject_streak s\<rparr>)"
      by (simp add: validate_equity_sample_def)
    then show ?thesis by blast
  next
    case (Inr f)
    have same: "\<exists>k. s = s\<lparr>rs_reject_streak := k\<rparr>" by (rule exI [of _ "rs_reject_streak s"]) simp
    show ?thesis
      using Inr by (cases f) (auto simp: validate_equity_sample_def bump_reject_def same)
  qed
  then show ?thesis using bad good by blast
qed

lemma roll_day_latches [simp]: "latches (roll_day d s) = latches s"
  by (simp add: roll_day_def latches_def)

lemma roll_day_halt: "rs_halt (roll_day d s) \<Longrightarrow> rs_halt s \<and> rs_halt_date (roll_day d s) = rs_halt_date s \<and> rs_halt_date s = Some d"
  by (auto simp: roll_day_def split: if_splits)

lemma reject_latches [simp]: "latches (s\<lparr>rs_reject_streak := k\<rparr>) = latches s"
  by (simp add: latches_def)

lemma rebase_latches [simp]: "latches (fst (rebase_anchors tk eq s)) = latches s"
  by (simp add: rebase_anchors_def latches_def Let_def)

lemma rebase_halt: "rs_halt (fst (rebase_anchors tk eq s)) \<Longrightarrow> rs_halt s"
  by (simp add: rebase_anchors_def Let_def split: if_splits)

lemma advance_frame:
  "latches (fst (advance_high_water_mark s hwm eq tk)) = latches s"
  "rs_halt (fst (advance_high_water_mark s hwm eq tk)) = rs_halt s"
  "rs_halt_date (fst (advance_high_water_mark s hwm eq tk)) = rs_halt_date s"
  "rs_source (fst (advance_high_water_mark s hwm eq tk)) = rs_source s"
  by (auto simp: advance_high_water_mark_def latches_def no_pending_def hold_pending_def Let_def split: option.split)

lemma assess_state:
  "\<exists>d u. as_state (assess tk eq s st) =
     (fst (advance_high_water_mark (fst (rebase_anchors tk eq s)) (fst (snd (rebase_anchors tk eq s))) eq tk))
       \<lparr>rs_drawdown := d, rs_last_equity := eq, rs_updated_at := u\<rparr>"
  unfolding assess_def Let_def by (auto simp: split_beta)

lemma assess_frame:
  "latches (as_state (assess tk eq s st)) = latches s"
  "rs_halt (as_state (assess tk eq s st)) \<Longrightarrow> rs_halt s"
  "st_enabled (as_store (assess tk eq s st)) = st_enabled st"
  "st_state (as_store (assess tk eq s st)) = st_state st"
  "rs_last_equity (as_state (assess tk eq s st)) = eq"
proof -
  obtain d u where e: "as_state (assess tk eq s st) =
     (fst (advance_high_water_mark (fst (rebase_anchors tk eq s)) (fst (snd (rebase_anchors tk eq s))) eq tk))
       \<lparr>rs_drawdown := d, rs_last_equity := eq, rs_updated_at := u\<rparr>" using assess_state by blast
  have l: "latches (t\<lparr>rs_drawdown := d, rs_last_equity := eq, rs_updated_at := u\<rparr>) = latches t" for t
    by (simp add: latches_def)
  show "latches (as_state (assess tk eq s st)) = latches s" by (simp add: e l advance_frame)
  show "rs_halt (as_state (assess tk eq s st)) \<Longrightarrow> rs_halt s" by (simp add: e advance_frame rebase_halt)
  show "rs_last_equity (as_state (assess tk eq s st)) = eq" by (simp add: e)
  show "st_enabled (as_store (assess tk eq s st)) = st_enabled st" "st_state (as_store (assess tk eq s st)) = st_state st"
    by (simp_all add: assess_def Let_def split_beta)
qed

text \<open>The two ways an update can end.\<close>

lemma update_cases:
  obtains (kept) s ok where "snd (update_equity tk st) = save_best ok s st" and "latches s = latches (st_state st)"
      and "rs_halt s \<longrightarrow> rs_halt (st_state st)"
      and "(\<exists>k. s = (st_state st)\<lparr>rs_reject_streak := k\<rparr>) \<or> s = roll_day (tk_today tk) ((st_state st)\<lparr>rs_reject_streak := 0\<rparr>)"
  | (judged) eq s where "validate_equity_sample tk (st_state st) = (Inr eq, (st_state st)\<lparr>rs_reject_streak := 0\<rparr>)"
      and "s = roll_day (tk_today tk) ((st_state st)\<lparr>rs_reject_streak := 0\<rparr>)"
      and "\<not> transient_paper tk s" and "latches s = latches (st_state st)" and "rs_halt s \<longrightarrow> rs_halt (st_state st)"
      and "snd (update_equity tk st) = snd (judge tk (assess tk eq s st))"
proof (cases rule: validate_cases [of tk "st_state st"])
  case (bad r k)
  have "snd (update_equity tk st) = save_best (tk_writes tk 0) ((st_state st)\<lparr>rs_reject_streak := k\<rparr>) st"
    by (simp add: update_equity_def bad)
  then show ?thesis by (rule kept) (simp, simp, blast)
next
  case (good eq)
  define s where "s = roll_day (tk_today tk) ((st_state st)\<lparr>rs_reject_streak := 0\<rparr>)"
  have l: "latches s = latches (st_state st)" by (simp add: s_def)
  have h: "rs_halt s \<longrightarrow> rs_halt (st_state st)" by (simp add: s_def roll_day_def)
  show ?thesis
  proof (cases "transient_paper tk s")
    case True
    have "snd (update_equity tk st) = save_best (tk_writes tk 0) s st"
      using True unfolding s_def by (simp add: update_equity_def good Let_def)
    then show ?thesis by (rule kept [OF _ l h]) (simp add: s_def)
  next
    case False
    have "snd (update_equity tk st) = snd (judge tk (assess tk eq s st))"
      using False unfolding s_def by (simp add: update_equity_def good split_beta Let_def)
    then show ?thesis by (rule judged [OF good s_def False l h])
  qed
qed


section \<open>The kill switch stays on\<close>

lemma save_best_state: "st_state (save_best ok s st) = (if ok then s else st_state st)"
  by (simp add: save_best_def)

lemma judge_killed:
  assumes "rs_ks_active (as_state a)" and "rs_ks_active (st_state (as_store a))"
  shows "rs_ks_active (st_state (snd (judge tk a)))"
  using assms by (simp add: judge_def save_best_state Let_def)

lemma update_killed:
  assumes "rs_ks_active (st_state st)"
  shows "rs_ks_active (st_state (snd (update_equity tk st)))"
proof (cases rule: update_cases [of tk st])
  case (kept s ok)
  then show ?thesis using assms by (simp add: save_best_state latches_def)
next
  case (judged eq s)
  have "latches (as_state (assess tk eq s st)) = latches (st_state st)" using judged(4) by (simp add: assess_frame)
  then have "rs_ks_active (as_state (assess tk eq s st))" using assms by (simp add: latches_def)
  then show ?thesis using judge_killed [of "assess tk eq s st" tk] assms by (simp add: judged(6) assess_frame)
qed

lemma open_check_latches: "latches (st_state (snd (recompute_daily_halt_from_equity acct lims today w st))) = latches (st_state st)"
  by (auto simp: recompute_daily_halt_from_equity_def save_best_def latches_def Let_def)

lemma open_check_halt:
  "rs_halt (st_state (snd (recompute_daily_halt_from_equity acct lims today w st))) \<Longrightarrow> rs_halt (st_state st)"
  by (auto simp: recompute_daily_halt_from_equity_def save_best_def Let_def split: if_splits)

lemma rebaseline_flags:
  "rebaseline_equity_anchors eq src now today st = Inr st' \<Longrightarrow>
   latches (st_state st') = latches (st_state st) \<and> rs_halt (st_state st') = rs_halt (st_state st) \<and>
   rs_halt_date (st_state st') = rs_halt_date (st_state st) \<and>
   rs_source (st_state st') = Some (if src = [] then ''operator'' else src)"
  by (auto simp: rebaseline_equity_anchors_def latches_def split: pyfloat.splits if_splits)

fun is_reset :: "risk_event \<Rightarrow> bool" where
  "is_reset (ResetKs _) = True"
| "is_reset _ = False"

lemma killed_step: "rs_ks_active (st_state st) \<Longrightarrow> \<not> is_reset e \<Longrightarrow> rs_ks_active (st_state (risk_step st e))"
proof (cases e)
  case (OpenCheck acct lims today w)
  then show "rs_ks_active (st_state st) \<Longrightarrow> ?thesis"
    using open_check_latches [of acct lims today w st] by (simp add: latches_def)
next
  case (Rebaseline eq src now today)
  then show "rs_ks_active (st_state st) \<Longrightarrow> ?thesis"
    using rebaseline_flags [of eq src now today st] by (auto simp: latches_def split: sum.split)
qed (auto simp: update_killed set_kill_switch_enabled_def)

interpretation killed: guarded_run risk_step "\<lambda>st. rs_ks_active (st_state st)" "\<lambda>e. \<not> is_reset e"
  by unfold_locales (rule killed_step)

text \<open>C17: The kill switch stays on until the operator resets it. Once it is active no run of equity samples (good,
  garbage, paper or drained), open checks, re-baselines and toggles, with any of its best-effort writes lost,
  turns it off, and trading is refused on every day.\<close>

theorem kill_switch_stays_on:
  assumes "rs_ks_active (st_state st)" and "\<forall>e\<in>set es. \<not> is_reset e"
  shows "rs_ks_active (st_state (foldl risk_step st es)) \<and>
         is_trading_allowed paused recovery today (foldl risk_step st es) \<noteq> Allowed"
  using killed.guarded_inv [OF assms] by (simp add: is_trading_allowed_def)

section \<open>What it takes to arm\<close>

definition FORTY_SECONDS :: int where "FORTY_SECONDS = 2 * SPACING"

text \<open>A streak no longer than the clock allows since \<open>T\<close>.\<close>

definition streak_ok :: "int \<Rightarrow> int \<Rightarrow> int option \<Rightarrow> bool" where
  "streak_ok T k last_at \<longleftrightarrow>
     0 \<le> k \<and> k \<le> 2 \<and> (0 < k \<longrightarrow> (\<exists>a. last_at = Some a \<and> T + SPACING * (k - 1) \<le> a))"

definition calm :: "int \<Rightarrow> risk_store \<Rightarrow> bool" where
  "calm T st \<longleftrightarrow>
     \<not> rs_ks_active (st_state st) \<and> \<not> rs_halt (st_state st) \<and>
     streak_ok T (rs_ks_streak (st_state st)) (rs_ks_last_at (st_state st)) \<and>
     streak_ok T (rs_dh_streak (st_state st)) (rs_dh_last_at (st_state st))"

lemma count_ok:
  assumes "streak_ok T k last_at" and "T \<le> now" and "now < T + FORTY_SECONDS"
    and "count_breach_tick now degraded last_at k = Some k'"
  shows "k' < CONFIRM_TICKS \<and> streak_ok T k' (Some now)"
proof (cases "k = 2")
  case True
  then obtain a where "last_at = Some a" "T + SPACING \<le> a" using assms(1) by (auto simp: streak_ok_def)
  then show ?thesis using assms(3,4) by (simp add: count_breach_tick_def FORTY_SECONDS_def split: if_splits)
next
  case False
  show ?thesis
  proof (cases "k = 1")
    case True
    then obtain a where "last_at = Some a" "T \<le> a" using assms(1) by (auto simp: streak_ok_def)
    then show ?thesis using assms(4) True
      by (auto simp: count_breach_tick_def CONFIRM_TICKS_def streak_ok_def split: if_splits)
  next
    case no: False
    then have "k = 0" using False assms(1) by (auto simp: streak_ok_def)
    then show ?thesis using assms(2,4)
      by (auto simp: count_breach_tick_def CONFIRM_TICKS_def streak_ok_def split: if_splits option.splits)
  qed
qed

lemma streak_ok_0: "streak_ok T 0 last_at"
  by (simp add: streak_ok_def)

lemma judge_kill_calm:
  assumes "streak_ok T (rs_ks_streak s) (rs_ks_last_at s)" and "T \<le> tk_now tk" and "tk_now tk < T + FORTY_SECONDS"
    and "judge_kill_switch tk en dd s = (s', fired, reset)"
  shows "\<not> fired \<and> streak_ok T (rs_ks_streak s') (rs_ks_last_at s') \<and> rs_ks_active s' = rs_ks_active s \<and>
         rs_halt s' = rs_halt s \<and> rs_dh_streak s' = rs_dh_streak s \<and> rs_dh_last_at s' = rs_dh_last_at s"
proof (cases "lm_max_drawdown (tk_limits tk) \<le> dd \<and> en")
  case True
  show ?thesis
  proof (cases "count_breach_tick (tk_now tk) (tk_degraded tk) (rs_ks_last_at s) (rs_ks_streak s)")
    case None
    then show ?thesis using assms True by (simp add: judge_kill_switch_def)
  next
    case (Some k)
    have "k < CONFIRM_TICKS \<and> streak_ok T k (Some (tk_now tk))" by (rule count_ok [OF assms(1-3) Some])
    then show ?thesis using assms(4) True Some by (auto simp: judge_kill_switch_def)
  qed
next
  case False
  then have "s' = s \<and> \<not> fired \<or> s' = s\<lparr>rs_ks_streak := 0, rs_ks_last_at := None\<rparr> \<and> \<not> fired"
    using assms(4) by (auto simp: judge_kill_switch_def split: if_splits)
  then show ?thesis using assms(1) by (auto simp: streak_ok_0)
qed

lemma judge_halt_calm:
  assumes "streak_ok T (rs_dh_streak s) (rs_dh_last_at s)" and "T \<le> tk_now tk" and "tk_now tk < T + FORTY_SECONDS"
    and "judge_daily_halt tk pnl s = (s', fired, reset)"
  shows "\<not> fired \<and> streak_ok T (rs_dh_streak s') (rs_dh_last_at s') \<and> rs_ks_active s' = rs_ks_active s \<and>
         rs_halt s' = rs_halt s \<and> rs_ks_streak s' = rs_ks_streak s \<and> rs_ks_last_at s' = rs_ks_last_at s"
proof (cases "pnl \<le> - lm_daily_loss (tk_limits tk) \<and> \<not> rs_halt s")
  case True
  show ?thesis
  proof (cases "count_breach_tick (tk_now tk) (tk_degraded tk) (rs_dh_last_at s) (rs_dh_streak s)")
    case None
    then show ?thesis using assms True by (simp add: judge_daily_halt_def)
  next
    case (Some k)
    have "k < CONFIRM_TICKS \<and> streak_ok T k (Some (tk_now tk))" by (rule count_ok [OF assms(1-3) Some])
    then show ?thesis using assms(4) True Some by (auto simp: judge_daily_halt_def)
  qed
next
  case False
  then have "s' = s \<and> \<not> fired \<or> s' = s\<lparr>rs_dh_streak := 0, rs_dh_last_at := None\<rparr> \<and> \<not> fired"
    using assms(4) by (auto simp: judge_daily_halt_def split: if_splits)
  then show ?thesis using assms(1) by (auto simp: streak_ok_0)
qed


text \<open>The state a judgement leaves: the assessed one with its streaks moved, or the stored one.\<close>

definition quiet :: "int \<Rightarrow> risk_state \<Rightarrow> bool" where
  "quiet T s \<longleftrightarrow> \<not> rs_ks_active s \<and> \<not> rs_halt s \<and> streak_ok T (rs_ks_streak s) (rs_ks_last_at s) \<and>
     streak_ok T (rs_dh_streak s) (rs_dh_last_at s)"

lemma calm_quiet: "calm T st \<longleftrightarrow> quiet T (st_state st)"
  by (simp add: calm_def quiet_def)

lemma quiet_latches: "quiet T s \<Longrightarrow> latches s' = latches s \<Longrightarrow> rs_halt s' \<longrightarrow> rs_halt s \<Longrightarrow> quiet T s'"
  by (auto simp: quiet_def latches_def)

lemma quiet_save: "quiet T s \<Longrightarrow> calm T st \<Longrightarrow> calm T (save_best ok s st)"
  by (simp add: calm_quiet save_best_state)

lemma note_paper_latches: "latches (note_paper_breach tk a) = latches (as_state a)" "rs_halt (note_paper_breach tk a) = rs_halt (as_state a)"
  by (simp_all add: note_paper_breach_def latches_def Let_def)

lemma judge_calm:
  assumes "quiet T (as_state a)" and "calm T (as_store a)" and "T \<le> tk_now tk" and "tk_now tk < T + FORTY_SECONDS"
  shows "calm T (snd (judge tk a))"
proof (cases "is_real_capital_equity_source (tk_source tk)")
  case False
  have "quiet T (note_paper_breach tk a)" by (rule quiet_latches [OF assms(1)]) (simp_all add: note_paper_latches)
  then show ?thesis using False assms(1,2) by (simp add: judge_def quiet_save Let_def)
next
  case True
  obtain s1 f1 r1 where j1: "judge_kill_switch tk (kill_switch_auto_enabled (tk_mainnet tk) (as_store a)) (as_drawdown a) (as_state a) = (s1, f1, r1)"
    by (cases rule: prod_cases3)
  obtain s2 f2 r2 where j2: "judge_daily_halt tk (as_daily_pnl a) s1 = (s2, f2, r2)"
    by (cases rule: prod_cases3)
  have q: "streak_ok T (rs_ks_streak (as_state a)) (rs_ks_last_at (as_state a))"
    "streak_ok T (rs_dh_streak (as_state a)) (rs_dh_last_at (as_state a))" "\<not> rs_ks_active (as_state a)" "\<not> rs_halt (as_state a)"
    using assms(1) by (simp_all add: quiet_def)
  note k = judge_kill_calm [OF q(1) assms(3,4) j1]
  then have d: "streak_ok T (rs_dh_streak s1) (rs_dh_last_at s1)" using q by simp
  note h = judge_halt_calm [OF d assms(3,4) j2]
  have "quiet T s2" using k h q by (simp add: quiet_def)
  then show ?thesis using True q(3) k h assms(2) by (simp add: judge_def Let_def j1 j2 quiet_save)
qed

fun clock_within :: "int \<Rightarrow> int \<Rightarrow> risk_event \<Rightarrow> bool" where
  "clock_within T U (Tick tk) = (T \<le> tk_now tk \<and> tk_now tk < U)"
| "clock_within T U _ = True"

lemma calm_step:
  assumes "calm T st" and "clock_within T (T + FORTY_SECONDS) e"
  shows "calm T (risk_step st e)"
proof (cases e)
  case (Tick tk)
  have t: "T \<le> tk_now tk" "tk_now tk < T + FORTY_SECONDS" using assms(2) Tick by simp_all
  show ?thesis
  proof (cases rule: update_cases [of tk st])
    case (kept s ok)
    have q: "quiet T (st_state st)" using assms(1) by (simp add: calm_quiet)
    have "quiet T s" by (rule quiet_latches [OF q kept(2,3)])
    then show ?thesis using assms(1) by (simp add: Tick kept quiet_save)
  next
    case (judged eq s)
    have q: "quiet T (st_state st)" using assms(1) by (simp add: calm_quiet)
    have h: "rs_halt (as_state (assess tk eq s st)) \<longrightarrow> rs_halt (st_state st)" using judged(5) assess_frame(2) by blast
    have l: "latches (as_state (assess tk eq s st)) = latches (st_state st)" using judged(4) by (simp only: assess_frame(1))
    have "quiet T (as_state (assess tk eq s st))" by (rule quiet_latches [OF q l h])
    moreover have "calm T (as_store (assess tk eq s st))" using assms(1) by (simp add: calm_quiet assess_frame)
    ultimately show ?thesis using judge_calm t by (simp add: Tick judged(6))
  qed
next
  case (OpenCheck acct lims today w)
  have "quiet T (st_state (snd (recompute_daily_halt_from_equity acct lims today w st)))"
    by (rule quiet_latches [of T "st_state st"]) (use assms(1) in \<open>simp_all add: calm_quiet open_check_latches open_check_halt\<close>)
  then show ?thesis by (simp add: OpenCheck calm_quiet)
next
  case (Rebaseline eq src now today)
  show ?thesis
  proof (cases "rebaseline_equity_anchors eq src now today st")
    case (Inl x)
    then show ?thesis using assms(1) Rebaseline by simp
  next
    case (Inr st')
    have "quiet T (st_state st')"
      by (rule quiet_latches [of T "st_state st"]) (use assms(1) rebaseline_flags [OF Inr] in \<open>simp_all add: calm_quiet\<close>)
    then show ?thesis using Inr Rebaseline by (simp add: calm_quiet)
  qed
next
  case (Toggle on)
  then show ?thesis using assms(1) by (simp add: calm_def set_kill_switch_enabled_def)
next
  case (ResetKs today)
  then show ?thesis using assms(1) by (simp add: calm_def reset_kill_switch_def Let_def)
qed

interpretation calm_run: guarded_run risk_step "calm T" "clock_within T (T + FORTY_SECONDS)" for T
  by unfold_locales (rule calm_step)

text \<open>C18: No halt from one bad moment. From a state with no streak, whatever equity samples arrive within forty seconds (a
  storm of identical wrong readings included) and whichever writes are lost, neither the kill switch nor the daily
  halt arms: it takes three breaching samples twenty seconds apart.\<close>

theorem no_halt_within_forty_seconds:
  assumes "\<not> rs_ks_active (st_state st)" and "\<not> rs_halt (st_state st)"
    and "rs_ks_streak (st_state st) = 0" and "rs_dh_streak (st_state st) = 0"
    and "\<forall>e\<in>set es. clock_within T (T + FORTY_SECONDS) e"
  shows "\<not> rs_ks_active (st_state (foldl risk_step st es)) \<and> \<not> rs_halt (st_state (foldl risk_step st es))"
proof -
  have "calm T st" using assms(1-4) by (simp add: calm_def streak_ok_0)
  then have "calm T (foldl risk_step st es)" by (rule calm_run.guarded_inv) (rule assms(5))
  then show ?thesis by (simp add: calm_def)
qed

section \<open>What cannot arm\<close>

text \<open>Only a clean reading of real capital counts. An update from a paper or simulated source, or built on
  substituted or failed reads, neither starts nor stops the kill switch, leaves both confirmation streaks as they
  were and never starts a daily halt.\<close>

lemma only_clean_real_reads_arm:
  assumes "tk_degraded tk \<or> \<not> is_real_capital_equity_source (tk_source tk)"
    and "st' = snd (update_equity tk st)"
  shows "latches (st_state st') = latches (st_state st) \<and> (rs_halt (st_state st') \<longrightarrow> rs_halt (st_state st))"
proof (cases rule: update_cases [of tk st])
  case (kept s ok)
  then show ?thesis by (simp add: assms(2) save_best_state)
next
  case (judged eq s)
  define a where "a = assess tk eq s st"
  have l: "latches (as_state a) = latches (st_state st)" "st_state (as_store a) = st_state st"
    using judged(4) by (simp_all add: a_def assess_frame)
  have h: "rs_halt (as_state a) \<longrightarrow> rs_halt (st_state st)" using judged(5) assess_frame(2) by (auto simp: a_def)
  have "latches (st_state (snd (judge tk a))) = latches (st_state st) \<and>
        (rs_halt (st_state (snd (judge tk a))) \<longrightarrow> rs_halt (st_state st))"
  proof (cases "rs_ks_active (as_state a) \<or> \<not> is_real_capital_equity_source (tk_source tk)")
    case True
    then show ?thesis using l h by (auto simp: judge_def save_best_state note_paper_latches Let_def)
  next
    case False
    then have d: "tk_degraded tk" using assms(1) by simp
    have "judge_kill_switch tk en dd u = (u, False, False)" for en dd u
      using d by (simp add: judge_kill_switch_def count_breach_tick_def)
    moreover have "judge_daily_halt tk pnl u = (u, False, False)" for pnl u
      using d by (simp add: judge_daily_halt_def count_breach_tick_def)
    ultimately show ?thesis using False l h by (simp add: judge_def save_best_state Let_def)
  qed
  then show ?thesis using judged(6) by (simp add: assms(2) a_def)
qed

section \<open>Samples that are not believed\<close>

lemma validated:
  assumes "validate_equity_sample tk s = (Inr eq, s')"
  shows "0 < eq \<and> eq \<le> MAX_PLAUSIBLE \<and> (0 < rs_last_equity s \<longrightarrow> eq \<le> 100 * rs_last_equity s) \<and> \<not> drop_unexplained eq tk s"
proof -
  have "0 < eq \<and> eq \<le> MAX_PLAUSIBLE \<and> \<not> (0 < rs_last_equity s \<and> rs_last_equity s * 100 < eq) \<and> \<not> drop_unexplained eq tk s"
    using assms unfolding validate_equity_sample_def
    by (auto simp: not_le not_less split: sum.splits pyfloat.splits if_splits)
  then show ?thesis by (auto simp: not_less mult.commute)
qed

text \<open>An implausible sample moves nothing. A sample that is no number, NaN, not positive, above a trillion, a
  hundredfold jump or a drop the live exposure does not explain changes at most the reject counter: the mark, the last
  good equity, both halts and the day's record stay; an accepted one is positive, at most a trillion and at most a
  hundred times the last good one.\<close>

lemma implausible_samples_move_nothing:
  assumes "validate_equity_sample tk (st_state st) = (v, s)"
  shows "case v of
           Inl r \<Rightarrow> (\<exists>k. st_state (snd (update_equity tk st)) = (st_state st)\<lparr>rs_reject_streak := k\<rparr>) \<and>
                    st_daily (snd (update_equity tk st)) = st_daily st \<and>
                    rc_action (fst (update_equity tk st)) = None
         | Inr eq \<Rightarrow> 0 < eq \<and> eq \<le> MAX_PLAUSIBLE \<and>
                    (0 < rs_last_equity (st_state st) \<longrightarrow> eq \<le> 100 * rs_last_equity (st_state st)) \<and>
                    \<not> drop_unexplained eq tk (st_state st)"
proof (cases v)
  case (Inl r)
  obtain k where k: "s = (st_state st)\<lparr>rs_reject_streak := k\<rparr>"
    using assms Inl by (cases rule: validate_cases [of tk "st_state st"]) auto
  have same: "\<exists>k. st_state st = (st_state st)\<lparr>rs_reject_streak := k\<rparr>"
    by (rule exI [of _ "rs_reject_streak (st_state st)"]) simp
  have "update_equity tk st = (rejected_result s r, save_best (tk_writes tk 0) s st)"
    by (simp add: update_equity_def assms Inl)
  then show ?thesis using k same by (auto simp: Inl save_best_def rejected_result_def)
next
  case (Inr eq)
  then show ?thesis using validated assms by simp
qed


section \<open>The high-water mark\<close>

lemma judge_kill_frame:
  "judge_kill_switch tk en dd s = (s', f, r) \<Longrightarrow>
   rs_hwm s' = rs_hwm s \<and> rs_halt s' = rs_halt s \<and> rs_halt_date s' = rs_halt_date s \<and> rs_source s' = rs_source s"
  by (auto simp: judge_kill_switch_def split: if_splits option.splits)

lemma judge_halt_frame:
  "judge_daily_halt tk pnl s = (s', f, r) \<Longrightarrow>
   rs_hwm s' = rs_hwm s \<and> rs_source s' = rs_source s \<and> (rs_halt s \<longrightarrow> \<not> f \<and> rs_halt s' \<and> rs_halt_date s' = rs_halt_date s)"
  by (auto simp: judge_daily_halt_def split: if_splits option.splits)

lemma judge_hwm: "rs_hwm (st_state (snd (judge tk a))) \<in> {rs_hwm (as_state a), rs_hwm (st_state (as_store a))}"
proof -
  obtain s1 f1 r1 where j1: "judge_kill_switch tk (kill_switch_auto_enabled (tk_mainnet tk) (as_store a)) (as_drawdown a) (as_state a) = (s1, f1, r1)"
    by (cases rule: prod_cases3)
  obtain s2 f2 r2 where j2: "judge_daily_halt tk (as_daily_pnl a) s1 = (s2, f2, r2)"
    by (cases rule: prod_cases3)
  show ?thesis
    using judge_kill_frame [OF j1] judge_halt_frame [OF j2]
    by (auto simp: judge_def Let_def j1 j2 save_best_state note_paper_breach_def)
qed

lemma rebase_same_basis:
  assumes "rs_source s = Some (tk_source tk)" and "eq \<le> MAX_PLAUSIBLE" and "rebase_anchors tk eq s = (s', hwm, rest)"
  shows "rs_hwm s' = hwm \<and> hwm \<le> rs_hwm s \<and> (hwm < rs_hwm s \<longrightarrow> eq \<le> hwm) \<and> rs_pending s' = rs_pending s \<and>
         rs_pending_at s' = rs_pending_at s"
  using assms
  by (auto simp: rebase_anchors_def initial_live_connect_def live_basis_changed_def prev_source_def Let_def split: if_splits)

text \<open>The peak needs two readings. On real capital and an unchanged basis the high-water mark rises only when a
  higher reading has been pending for at least twenty seconds and a clean reading confirms it, and then to the lower
  of the two: one spurious read can never set the peak the drawdown is measured from.\<close>

lemma peak_needs_two_readings:
  assumes "is_real_capital_equity_source (tk_source tk)" and "0 < rs_hwm (st_state st)"
    and "rs_source (st_state st) = Some (tk_source tk)"
    and "rs_hwm (st_state st) < rs_hwm (st_state (snd (update_equity tk st)))"
  shows "\<exists>p a eq. rs_pending (st_state st) = Some p \<and> rs_pending_at (st_state st) = Some a \<and> SPACING \<le> tk_now tk - a \<and>
           \<not> tk_degraded tk \<and> fst (validate_equity_sample tk (st_state st)) = Inr eq \<and>
           rs_hwm (st_state (snd (update_equity tk st))) = min p eq"
proof (cases rule: update_cases [of tk st])
  case (kept s ok)
  then have "rs_hwm s = rs_hwm (st_state st)" by (auto simp: roll_day_def)
  then show ?thesis using assms(4) by (simp add: kept(1) save_best_state split: if_splits)
next
  case (judged eq s)
  have v: "eq \<le> MAX_PLAUSIBLE" using validated [OF judged(1)] by simp
  have s: "rs_source s = Some (tk_source tk)" "rs_hwm s = rs_hwm (st_state st)" "rs_pending s = rs_pending (st_state st)"
    "rs_pending_at s = rs_pending_at (st_state st)"
    using assms(3) by (simp_all add: judged(2) roll_day_def)
  obtain s1 hwm1 rest where r: "rebase_anchors tk eq s = (s1, hwm1, rest)" by (cases rule: prod_cases3)
  note b = rebase_same_basis [OF s(1) v r]
  define adv where "adv = advance_high_water_mark s1 hwm1 eq tk"
  have h: "rs_hwm (as_state (assess tk eq s st)) = rs_hwm (fst adv)"
    using assess_state [of tk eq s st] by (auto simp: r adv_def)
  have up: "rs_hwm (st_state st) < rs_hwm (fst adv)" "rs_hwm (st_state (snd (update_equity tk st))) = rs_hwm (fst adv)"
    using judge_hwm [of tk "assess tk eq s st"] assms(4) h by (auto simp: judged(6) assess_frame)
  then have rise: "hwm1 < rs_hwm (fst adv)" "hwm1 = rs_hwm (st_state st)" using b s(2)
    by (auto simp: adv_def advance_high_water_mark_def no_pending_def not_le split: if_splits)
  then show ?thesis
    using b s up assms(1,2) judged(1)
    by (auto simp: adv_def advance_high_water_mark_def no_pending_def hold_pending_def Let_def split: if_splits option.splits)
qed


section \<open>A daily halt lasts the day\<close>

definition halted_on :: "int \<Rightarrow> risk_state \<Rightarrow> bool" where
  "halted_on d s \<longleftrightarrow> rs_halt s \<and> rs_halt_date s = Some d \<and> is_real_capital_equity_source (prev_source s)"

text \<open>The events of one day that keep the basis: no operator reset, and no paper sample while the mode is paper.\<close>

fun same_day :: "int \<Rightarrow> risk_event \<Rightarrow> bool" where
  "same_day d (Tick tk) = (tk_today tk = d \<and>
     (is_real_capital_equity_source (tk_source tk) \<or> py_lower (py_strip (tk_mode tk)) \<noteq> ''paper''))"
| "same_day d (OpenCheck acct lims today w) = (today = d)"
| "same_day d (Rebaseline eq src now today) = is_real_capital_equity_source (if src = [] then ''operator'' else src)"
| "same_day d (Toggle on) = True"
| "same_day d (ResetKs today) = False"

lemma rebase_halted:
  assumes "halted_on d s" and "is_real_capital_equity_source (tk_source tk)"
  shows "halted_on d (fst (rebase_anchors tk eq s))"
  using assms by (simp add: halted_on_def rebase_anchors_def initial_live_connect_def prev_source_def Let_def)

lemma halted_frame:
  "rs_halt s' = rs_halt s \<Longrightarrow> rs_halt_date s' = rs_halt_date s \<Longrightarrow> rs_source s' = rs_source s \<Longrightarrow> halted_on d s' = halted_on d s"
  by (simp add: halted_on_def prev_source_def)

lemma judge_halted:
  assumes "halted_on d (as_state a)" and "halted_on d (st_state (as_store a))" and "is_real_capital_equity_source (tk_source tk)"
  shows "halted_on d (st_state (snd (judge tk a)))"
proof -
  obtain s1 f1 r1 where j1: "judge_kill_switch tk (kill_switch_auto_enabled (tk_mainnet tk) (as_store a)) (as_drawdown a) (as_state a) = (s1, f1, r1)"
    by (cases rule: prod_cases3)
  obtain s2 f2 r2 where j2: "judge_daily_halt tk (as_daily_pnl a) s1 = (s2, f2, r2)"
    by (cases rule: prod_cases3)
  have h1: "halted_on d s1" using judge_kill_frame [OF j1] assms(1) halted_frame by blast
  then have "halted_on d s2" "\<not> f2" using judge_halt_frame [OF j2] by (simp_all add: halted_on_def prev_source_def)
  then show ?thesis using h1 assms by (simp add: judge_def Let_def j1 j2 save_best_state)
qed

lemma update_halted:
  assumes h: "halted_on d (st_state st)" and "same_day d (Tick tk)"
  shows "halted_on d (st_state (snd (update_equity tk st)))"
proof (cases rule: update_cases [of tk st])
  case (kept s ok)
  from kept(4) have "halted_on d s"
  proof
    assume "\<exists>k. s = (st_state st)\<lparr>rs_reject_streak := k\<rparr>"
    then show ?thesis using h by (auto simp: halted_on_def prev_source_def)
  next
    assume "s = roll_day (tk_today tk) ((st_state st)\<lparr>rs_reject_streak := 0\<rparr>)"
    then show ?thesis using h assms(2) by (simp add: halted_on_def prev_source_def roll_day_def)
  qed
  then show ?thesis using h by (simp add: kept(1) save_best_state)
next
  case (judged eq s)
  have s: "halted_on d s" using h assms(2) by (simp add: judged(2) halted_on_def prev_source_def roll_day_def)
  then have real: "is_real_capital_equity_source (tk_source tk)"
    using judged(3) assms(2) by (auto simp: transient_paper_def halted_on_def)
  have "halted_on d (as_state (assess tk eq s st))"
    using assess_state [of tk eq s st] rebase_halted [OF s real, of eq]
    by (auto simp: halted_on_def prev_source_def advance_frame)
  then have "halted_on d (st_state (snd (judge tk (assess tk eq s st))))"
    by (rule judge_halted) (simp_all add: assess_frame h real)
  then show ?thesis by (simp add: judged(6))
qed

lemma halted_step: "halted_on d (st_state st) \<Longrightarrow> same_day d e \<Longrightarrow> halted_on d (st_state (risk_step st e))"
proof (cases e)
  case (Tick tk)
  then show "halted_on d (st_state st) \<Longrightarrow> same_day d e \<Longrightarrow> ?thesis" using update_halted [of d st tk] by simp
next
  case (OpenCheck acct lims today w)
  then show "halted_on d (st_state st) \<Longrightarrow> same_day d e \<Longrightarrow> ?thesis"
    by (simp add: recompute_daily_halt_from_equity_def halted_on_def)
next
  case (Rebaseline eq src now today)
  then show "halted_on d (st_state st) \<Longrightarrow> same_day d e \<Longrightarrow> ?thesis"
    using rebaseline_flags [of eq src now today st]
    by (cases "rebaseline_equity_anchors eq src now today st") (auto simp: halted_on_def prev_source_def)
qed (auto simp: set_kill_switch_enabled_def)

interpretation halted: guarded_run risk_step "\<lambda>st. halted_on d (st_state st)" "same_day d" for d
  by unfold_locales (rule halted_step)

text \<open>A daily halt lasts the day. Once armed on real capital it survives every run of that day's real-capital
  samples, rejected samples, open checks, re-baselines on a real basis and lost writes, and refuses new trades,
  until the operator resets it, provided that no paper sample is taken while the execution mode is paper.\<close>

lemma halt_lasts_the_day:
  assumes "rs_halt (st_state st)" and "rs_halt_date (st_state st) = Some d" and "is_real_capital_equity_source (prev_source (st_state st))"
    and "\<forall>e\<in>set es. same_day d e"
  shows "rs_halt (st_state (foldl risk_step st es)) \<and>
         is_trading_allowed paused recovery d (foldl risk_step st es) \<noteq> Allowed"
proof -
  have "halted_on d (st_state st)" using assms(1-3) by (simp add: halted_on_def)
  then have "halted_on d (st_state (foldl risk_step st es))" by (rule halted.guarded_inv) (rule assms(4))
  then show ?thesis by (simp add: halted_on_def is_trading_allowed_def)
qed

section \<open>Confirmed losses\<close>

text \<open>C19: A confirmed loss does stop trading. A clean real-capital sample whose drawdown reaches the limit, twenty
  seconds or more after the last counted one, is counted in the store even if every best-effort write is lost, and
  the third one arms the kill switch.\<close>

theorem confirmed_breach_latches:
  assumes "validate_equity_sample tk (st_state st) = (Inr eq, s0)" and "s = roll_day (tk_today tk) s0"
    and "is_real_capital_equity_source (tk_source tk)" and "\<not> tk_degraded tk" and "\<not> rs_ks_active (st_state st)"
    and "kill_switch_auto_enabled (tk_mainnet tk) st" and "lm_max_drawdown (tk_limits tk) \<le> as_drawdown (assess tk eq s st)"
    and "case rs_ks_last_at (st_state st) of None \<Rightarrow> True | Some a \<Rightarrow> SPACING \<le> tk_now tk - a"
    and "0 \<le> rs_ks_streak (st_state st)" and "s' = st_state (snd (update_equity tk st))"
  shows "if 2 \<le> rs_ks_streak (st_state st) then rs_ks_active s'
         else rs_ks_streak s' = rs_ks_streak (st_state st) + 1 \<and> rs_ks_last_at s' = Some (tk_now tk)"
proof -
  define k where "k = rs_ks_streak (st_state st)"
  define a where "a = assess tk eq s st"
  have s0: "s0 = (st_state st)\<lparr>rs_reject_streak := 0\<rparr>"
    using assms(1) by (cases rule: validate_cases [of tk "st_state st"]) auto
  have "latches (as_state a) = latches (st_state st)" by (simp add: a_def assess_frame assms(2) s0)
  then have l: "rs_ks_active (as_state a) = False" "rs_ks_streak (as_state a) = k"
    "rs_ks_last_at (as_state a) = rs_ks_last_at (st_state st)"
    using assms(5) by (simp_all add: latches_def k_def)
  have c: "count_breach_tick (tk_now tk) False (rs_ks_last_at (st_state st)) k = Some (k + 1)"
    using assms(8) by (auto simp: count_breach_tick_def split: option.splits)
  have en: "kill_switch_auto_enabled (tk_mainnet tk) (as_store a)"
    using assms(6) by (simp add: kill_switch_auto_enabled_def a_def assess_frame)
  have "\<not> transient_paper tk s" using assms(3) by (simp add: transient_paper_def)
  then have u: "s' = st_state (snd (judge tk a))"
    using assms(1,2) by (simp add: assms(10) update_equity_def Let_def split_beta a_def)
  have dd: "lm_max_drawdown (tk_limits tk) \<le> as_drawdown a" using assms(7) by (simp add: a_def)
  show ?thesis
  proof (cases "2 \<le> k")
    case True
    then have "judge_kill_switch tk (kill_switch_auto_enabled (tk_mainnet tk) (as_store a)) (as_drawdown a) (as_state a) =
        ((as_state a)\<lparr>rs_ks_streak := 0, rs_ks_last_at := None, rs_ks_active := True, rs_ks_at := Some (tk_now tk)\<rparr>, True, False)"
      using dd en c assms(4) l by (simp add: judge_kill_switch_def CONFIRM_TICKS_def)
    then show ?thesis using True assms(3) l by (simp add: u judge_def Let_def k_def)
  next
    case False
    define s1 where "s1 = (as_state a)\<lparr>rs_ks_streak := k + 1, rs_ks_last_at := Some (tk_now tk)\<rparr>"
    have j1: "judge_kill_switch tk (kill_switch_auto_enabled (tk_mainnet tk) (as_store a)) (as_drawdown a) (as_state a) = (s1, False, False)"
      using False dd en c assms(4) l by (simp add: judge_kill_switch_def CONFIRM_TICKS_def s1_def)
    obtain s2 f2 r2 where j2: "judge_daily_halt tk (as_daily_pnl a) s1 = (s2, f2, r2)" by (cases rule: prod_cases3)
    have "rs_ks_streak s2 = k + 1 \<and> rs_ks_last_at s2 = Some (tk_now tk)"
      using j2 by (auto simp: judge_daily_halt_def s1_def split: if_splits option.splits)
    then show ?thesis using False assms(3,9) l by (simp add: u judge_def Let_def j1 j2 save_best_state k_def)
  qed
qed

text \<open>The open path refuses from the first breaching read. With a baseline for the day, an open is refused exactly
  when the day is halted already or the equity just read is down by the daily limit, confirmed or not; without
  one the day's baseline is the equity read and nothing is refused.\<close>

lemma open_check_refuses_breach:
  assumes "0 < acct" and "\<not> (rs_halt (st_state st) \<and> rs_halt_date (st_state st) = Some today)"
  shows "fst (recompute_daily_halt_from_equity acct lims today w st) \<longleftrightarrow>
         (\<exists>d. st_daily st = Some d \<and> dy_date d = today \<and> 0 < dy_start d \<and>
              (acct - dy_start d) / dy_start d \<le> - lm_daily_loss lims)"
  using assms by (auto simp: recompute_daily_halt_from_equity_def Let_def not_le split: option.split)


section \<open>Concrete runs\<close>

definition demo_store :: risk_store where
  "demo_store = \<lparr>st_state = default_risk_state\<lparr>rs_hwm := 1000, rs_last_equity := 1000, rs_source := Some ''exchange''\<rparr>,
     st_daily = Some (fresh_daily 1 1000), st_enabled = True\<rparr>"

definition demo_tick :: "rat \<Rightarrow> int \<Rightarrow> tick" where
  "demo_tick eq seconds = \<lparr>tk_equity = JFloat (Fin eq), tk_source = ''exchange'', tk_rebaseline = False, tk_degraded = False,
     tk_now = seconds * 1000000, tk_today = 1, tk_mode = ''live'', tk_limits = TESTNET_LIMITS, tk_mainnet = False,
     tk_notional = None, tk_writes = (\<lambda>i. False)\<rparr>"

theorem kill_switch_stays_on_witness:
  "rs_ks_active (st_state (foldl risk_step (demo_store\<lparr>st_state := (st_state demo_store)\<lparr>rs_ks_active := True\<rparr>\<rparr>)
     [Tick (demo_tick 2000 5), Toggle False]))"
  using kill_switch_stays_on [of "demo_store\<lparr>st_state := (st_state demo_store)\<lparr>rs_ks_active := True\<rparr>\<rparr>"
      "[Tick (demo_tick 2000 5), Toggle False]"] by simp

theorem no_halt_within_forty_seconds_witness:
  "\<not> rs_ks_active (st_state (foldl risk_step demo_store [Tick (demo_tick 500 1), Tick (demo_tick 500 22), Tick (demo_tick 500 39)]))"
proof -
  have "\<not> rs_ks_active (st_state demo_store)" "\<not> rs_halt (st_state demo_store)" "rs_ks_streak (st_state demo_store) = 0"
    "rs_dh_streak (st_state demo_store) = 0"
    by (simp_all add: demo_store_def default_risk_state_def)
  moreover have "\<forall>e\<in>set [Tick (demo_tick 500 1), Tick (demo_tick 500 22), Tick (demo_tick 500 39)]. clock_within 0 (0 + FORTY_SECONDS) e"
    by (simp add: demo_tick_def FORTY_SECONDS_def SPACING_def)
  ultimately show ?thesis by (rule no_halt_within_forty_seconds [THEN conjunct1])
qed

definition halted_store :: risk_store where
  "halted_store = demo_store\<lparr>st_state := (st_state demo_store)\<lparr>rs_halt := True, rs_halt_date := Some 1\<rparr>\<rparr>"

theorem confirmed_breach_latches_witness:
  "rs_ks_streak (st_state (snd (update_equity (demo_tick 500 1) demo_store))) = 1"
proof -
  define s0 where "s0 = (st_state demo_store)\<lparr>rs_reject_streak := 0\<rparr>"
  have "fst (validate_equity_sample (demo_tick 500 1) (st_state demo_store)) = Inr 500" by code_simp
  then have v: "validate_equity_sample (demo_tick 500 1) (st_state demo_store) = (Inr 500, s0)"
    by (cases rule: validate_cases [of "demo_tick 500 1" "st_state demo_store"]) (simp_all add: s0_def)
  have r: "is_real_capital_equity_source (tk_source (demo_tick 500 1))" by code_simp
  have d: "lm_max_drawdown (tk_limits (demo_tick 500 1)) \<le> as_drawdown (assess (demo_tick 500 1) 500 (roll_day (tk_today (demo_tick 500 1)) s0) demo_store)"
    unfolding s0_def by code_simp
  have z: "rs_ks_streak (st_state demo_store) = 0" "rs_ks_last_at (st_state demo_store) = None" "\<not> rs_ks_active (st_state demo_store)"
    by (simp_all add: demo_store_def default_risk_state_def)
  have g: "\<not> tk_degraded (demo_tick 500 1)" "kill_switch_auto_enabled (tk_mainnet (demo_tick 500 1)) demo_store"
    "case rs_ks_last_at (st_state demo_store) of None \<Rightarrow> True | Some a \<Rightarrow> SPACING \<le> tk_now (demo_tick 500 1) - a"
    "0 \<le> rs_ks_streak (st_state demo_store)"
    by (simp_all add: z, simp_all add: demo_tick_def kill_switch_auto_enabled_def demo_store_def)
  from confirmed_breach_latches [OF v refl r g(1) z(3) g(2) d g(3,4) refl] show ?thesis by (simp add: z)
qed

text \<open>A failed account read lifts a halt in paper mode. In execution mode paper, the fallback sample of a failed read
  is taken as a change to a paper basis, and the next real reading as the first connection of a live account: the
  day's halt is cleared and the mark is set to the current equity, with no operator involved.\<close>

lemma paper_fallback_lifts_halt:
  "let paper = (demo_tick 900 10)\<lparr>tk_source := ''paper'', tk_mode := ''paper'', tk_writes := (\<lambda>_. True)\<rparr>;
       real = (demo_tick 900 20)\<lparr>tk_mode := ''paper'', tk_writes := (\<lambda>_. True)\<rparr>;
       st = foldl risk_step halted_store [Tick paper, Tick real]
   in \<not> rs_halt (st_state st) \<and> rs_hwm (st_state st) = 900 \<and> rs_hwm (st_state halted_store) = 1000"
  by code_simp

end
