(* ===== verification/Books.thy ===== *)
theory Books
  imports Prelude "HOL-Library.Char_ord" "HOL-Library.List_Lexorder"
begin

text \<open>
  The live books (\<open>src/forven/exchange/books.py\<close>): which wallet an order is routed to, by the
  direction books and the named wallets of the settings. The stored settings are the argument of
  every function; \<open>None\<close> as an address is the master wallet.
\<close>

section \<open>Settings\<close>

text \<open>
  \<open>str(value or '')\<close>: the text of a number, list or dict is never empty and is no address, label or
  word the code knows; it is written as a question mark.
\<close>

definition str_or :: "jv \<Rightarrow> string" where
  "str_or v = (if \<not> truthy v then [] else case v of JStr s \<Rightarrow> s | _ \<Rightarrow> ''?'')"

definition LONG_BOOK :: string where "LONG_BOOK = ''long''"

definition SHORT_BOOK :: string where "SHORT_BOOK = ''short''"

definition MAIN_BOOK :: string where "MAIN_BOOK = ''main''"

definition ALL_BOOKS :: "string list" where "ALL_BOOKS = [LONG_BOOK, SHORT_BOOK, MAIN_BOOK]"

definition RESERVED_WALLET_LABELS :: "string list" where "RESERVED_WALLET_LABELS = ALL_BOOKS @ [''master'']"

definition clean_address :: "jv \<Rightarrow> string option" where
  "clean_address v = (let a = py_strip (str_or v) in if a = [] then None else Some a)"

definition books_enabled :: "jobj \<Rightarrow> bool" where
  "books_enabled s = truthy (jget s ''live_books_enabled'')"

definition long_book_address :: "jobj \<Rightarrow> string option" where
  "long_book_address s = clean_address (jget s ''hyperliquid_long_book_address'')"

definition short_book_address :: "jobj \<Rightarrow> string option" where
  "short_book_address s = clean_address (jget s ''hyperliquid_short_book_address'')"

definition short_book_available :: "jobj \<Rightarrow> bool" where
  "short_book_available s \<longleftrightarrow> books_enabled s \<and> short_book_address s \<noteq> None"

definition is_long_only :: "jobj \<Rightarrow> bool" where
  "is_long_only s \<longleftrightarrow> books_enabled s \<and> short_book_address s = None"

section \<open>Named wallets\<close>

definition is_lower_alnum :: "char \<Rightarrow> bool" where
  "is_lower_alnum c \<longleftrightarrow> is_digit c \<or> (97 \<le> (of_char c :: nat) \<and> (of_char c :: nat) \<le> 122)"

definition is_hex :: "char \<Rightarrow> bool" where
  "is_hex c \<longleftrightarrow> is_digit c \<or> (97 \<le> (of_char c :: nat) \<and> (of_char c :: nat) \<le> 102) \<or>
     (65 \<le> (of_char c :: nat) \<and> (of_char c :: nat) \<le> 70)"

text \<open>The two regular expressions, on stripped text (a final newline is gone).\<close>

definition label_matches :: "string \<Rightarrow> bool" where
  "label_matches s = (case s of [] \<Rightarrow> False | c # r \<Rightarrow>
     is_lower_alnum c \<and> 1 \<le> length r \<and> length r \<le> 31 \<and>
     list_all (\<lambda>x. is_lower_alnum x \<or> x = CHR ''_'' \<or> x = CHR ''-'') r)"

definition address_matches :: "string \<Rightarrow> bool" where
  "address_matches s \<longleftrightarrow> take 2 s = ''0x'' \<and> length s = 42 \<and> list_all is_hex (drop 2 s)"

definition validate_wallet_label :: "jv \<Rightarrow> string result" where
  "validate_wallet_label v =
     (let l = py_lower (py_strip (str_or v))
      in if \<not> label_matches l then Inl ValueError
         else if l \<in> set RESERVED_WALLET_LABELS then Inl ValueError else Inr l)"

definition validate_wallet_address :: "jv \<Rightarrow> string result" where
  "validate_wallet_address v =
     (let a = py_strip (str_or v) in if \<not> address_matches a then Inl ValueError else Inr a)"

definition add_wallet :: "(string \<times> string) list \<Rightarrow> string \<times> jv \<Rightarrow> (string \<times> string) list" where
  "add_wallet ws p =
     (let l = py_lower (py_strip (fst p)); a = py_strip (str_or (snd p))
      in if \<not> label_matches l \<or> l \<in> set RESERVED_WALLET_LABELS then ws
         else if \<not> address_matches a then ws else dict_set l a ws)"

definition named_wallets :: "jobj \<Rightarrow> (string \<times> string) list" where
  "named_wallets s =
     (case jget s ''hyperliquid_named_wallets'' of JObj d \<Rightarrow> foldl add_wallet [] d | _ \<Rightarrow> [])"

definition is_named_wallet :: "string \<Rightarrow> jobj \<Rightarrow> bool" where
  "is_named_wallet l s \<longleftrightarrow> map_of (named_wallets s) (py_lower (py_strip l)) \<noteq> None"

section \<open>Routing\<close>

definition normalize_book :: "string \<Rightarrow> jobj \<Rightarrow> string" where
  "normalize_book v s =
     (let b = py_lower (py_strip v)
      in if b \<in> set ALL_BOOKS then b
         else if b \<noteq> [] \<and> map_of (named_wallets s) b \<noteq> None then b else MAIN_BOOK)"

definition book_for_direction :: "string \<Rightarrow> string" where
  "book_for_direction d = (if py_lower (py_strip d) = ''short'' then SHORT_BOOK else LONG_BOOK)"

definition opposite_book :: "string \<Rightarrow> jobj \<Rightarrow> string option" where
  "opposite_book b s =
     (let l = normalize_book b s
      in if l = LONG_BOOK then Some SHORT_BOOK else if l = SHORT_BOOK then Some LONG_BOOK else None)"

definition book_address :: "string \<Rightarrow> jobj \<Rightarrow> string option" where
  "book_address b s =
     (let l = normalize_book b s
      in if l = LONG_BOOK then long_book_address s
         else if l = SHORT_BOOK then short_book_address s
         else if l \<noteq> MAIN_BOOK then map_of (named_wallets s) l else None)"

text \<open>The book of a new position; None is the skip of a short in the long-only mode.\<close>

definition resolve_open_book :: "string \<Rightarrow> jobj \<Rightarrow> string option" where
  "resolve_open_book d s =
     (if \<not> books_enabled s then Some MAIN_BOOK
      else if py_lower (py_strip d) = ''short''
      then (if short_book_address s = None then None else Some SHORT_BOOK)
      else Some LONG_BOOK)"

fun dedupe_addresses :: "string option list \<Rightarrow> (string \<times> string option) list \<Rightarrow> (string \<times> string option) list" where
  "dedupe_addresses seen [] = []"
| "dedupe_addresses seen ((l, a) # ps) =
     (if a \<in> set seen then dedupe_addresses seen ps else (l, a) # dedupe_addresses (a # seen) ps)"

definition direction_pairs :: "jobj \<Rightarrow> (string \<times> string option) list" where
  "direction_pairs s =
     (if \<not> books_enabled s then [(MAIN_BOOK, None)]
      else (LONG_BOOK, long_book_address s) #
        (case short_book_address s of None \<Rightarrow> [] | Some a \<Rightarrow> [(SHORT_BOOK, Some a)]))"

text \<open>The wallets the daemon snapshots and reconciles, each address once.\<close>

definition active_book_addresses :: "jobj \<Rightarrow> (string \<times> string option) list" where
  "active_book_addresses s =
     dedupe_addresses [] (direction_pairs s @ map (\<lambda>p. (fst p, Some (snd p))) (sort_key fst (named_wallets s)))"

record books_status =
  bk_enabled :: bool
  bk_long_only :: bool
  bk_long_configured :: bool
  bk_short_configured :: bool
  bk_named :: "string list"

definition live_books_status :: "jobj \<Rightarrow> books_status" where
  "live_books_status s = \<lparr>bk_enabled = books_enabled s, bk_long_only = is_long_only s,
     bk_long_configured = (long_book_address s \<noteq> None), bk_short_configured = (short_book_address s \<noteq> None),
     bk_named = sort (map fst (named_wallets s))\<rparr>"

section \<open>Wallet bookkeeping\<close>

lemma dedupe_sound: "p \<in> set (dedupe_addresses seen ps) \<Longrightarrow> p \<in> set ps \<and> snd p \<notin> set seen"
  by (induction seen ps rule: dedupe_addresses.induct) (auto split: if_splits)

lemma dedupe_subset: "snd ` set (dedupe_addresses seen ps) \<subseteq> snd ` set ps"
  by (induction seen ps rule: dedupe_addresses.induct) auto

lemma dedupe_covers: "snd ` set ps \<subseteq> set seen \<union> snd ` set (dedupe_addresses seen ps)"
  by (induction seen ps rule: dedupe_addresses.induct) (auto split: if_splits)

lemma dedupe_distinct: "distinct (map snd (dedupe_addresses seen ps))"
  by (induction seen ps rule: dedupe_addresses.induct) (auto dest: dedupe_sound)

lemma active_addresses:
  "snd ` set (active_book_addresses s) = snd ` set (direction_pairs s) \<union> Some ` snd ` set (named_wallets s)"
proof -
  let ?ps = "direction_pairs s @ map (\<lambda>p. (fst p, Some (snd p))) (sort_key fst (named_wallets s))"
  have "snd ` set (active_book_addresses s) = snd ` set ?ps"
    unfolding active_book_addresses_def
    using dedupe_subset [of "[]" ?ps] dedupe_covers [of ?ps "[]"] by (intro subset_antisym) simp_all
  also have "\<dots> = snd ` set (direction_pairs s) \<union> Some ` snd ` set (named_wallets s)"
    by (simp only: set_append image_Un set_map set_sort image_image snd_conv)
  finally show ?thesis .
qed

lemma add_wallet_sound:
  assumes "map_of (add_wallet ws p) l = Some a"
  shows "map_of ws l = Some a \<or> (label_matches l \<and> l \<notin> set RESERVED_WALLET_LABELS \<and> address_matches a)"
  using assms by (auto simp: add_wallet_def Let_def map_of_dict_set split: if_splits)

lemma named_wallets_sound:
  assumes "map_of (named_wallets s) l = Some a"
  shows "label_matches l \<and> l \<notin> set RESERVED_WALLET_LABELS \<and> address_matches a"
proof -
  have "map_of (foldl add_wallet ws d) l = Some a \<Longrightarrow>
      map_of ws l = Some a \<or> (label_matches l \<and> l \<notin> set RESERVED_WALLET_LABELS \<and> address_matches a)" for ws d
    by (induction d arbitrary: ws) (auto dest: add_wallet_sound)
  from this [of "[]"] show ?thesis using assms by (auto simp: named_wallets_def split: jv.splits)
qed

lemma book_address_named:
  assumes "map_of (named_wallets s) (py_lower (py_strip b)) = Some a"
  shows "book_address b s = Some a"
proof -
  let ?l = "py_lower (py_strip b)"
  have "?l \<noteq> []" and "?l \<notin> set ALL_BOOKS"
    using named_wallets_sound [OF assms] by (auto simp: label_matches_def RESERVED_WALLET_LABELS_def)
  then show ?thesis using assms by (auto simp: book_address_def normalize_book_def ALL_BOOKS_def Let_def)
qed

lemma resolve_open_book_cases:
  assumes "resolve_open_book d s = Some b"
  obtains (main) "\<not> books_enabled s" and "b = MAIN_BOOK"
    | (short) "books_enabled s" and "b = SHORT_BOOK" and "py_lower (py_strip d) = ''short''" and "short_book_address s \<noteq> None"
    | (long) "books_enabled s" and "b = LONG_BOOK" and "py_lower (py_strip d) \<noteq> ''short''"
  using assms by (auto simp: resolve_open_book_def split: if_splits)

lemma py_strip_books [simp]: "py_lower (py_strip LONG_BOOK) = LONG_BOOK"
  "py_lower (py_strip SHORT_BOOK) = SHORT_BOOK" "py_lower (py_strip MAIN_BOOK) = MAIN_BOOK"
  by code_simp+

lemma books_distinct [simp]: "LONG_BOOK \<noteq> SHORT_BOOK" "SHORT_BOOK \<noteq> LONG_BOOK"
  "LONG_BOOK \<noteq> MAIN_BOOK" "MAIN_BOOK \<noteq> LONG_BOOK" "SHORT_BOOK \<noteq> MAIN_BOOK" "MAIN_BOOK \<noteq> SHORT_BOOK"
  by code_simp+

lemma normalize_builtin [simp]: "b \<in> set ALL_BOOKS \<Longrightarrow> normalize_book b s = b"
  by (auto simp: normalize_book_def ALL_BOOKS_def Let_def)

lemma book_address_builtin [simp]:
  "book_address LONG_BOOK s = long_book_address s"
  "book_address SHORT_BOOK s = short_book_address s"
  "book_address MAIN_BOOK s = None"
  by (simp_all add: book_address_def Let_def ALL_BOOKS_def)

text \<open>Every wallet a new position can be routed to is one the daemon snapshots and reconciles, and
  no wallet is snapshotted twice: the book of the direction and every named wallet.\<close>

lemma every_routed_wallet_is_watched:
  assumes "resolve_open_book d s = Some b \<or> is_named_wallet b s"
  shows "book_address b s \<in> snd ` set (active_book_addresses s) \<and>
    distinct (map snd (active_book_addresses s))"
proof
  show "distinct (map snd (active_book_addresses s))"
    by (simp add: active_book_addresses_def dedupe_distinct)
  from assms show "book_address b s \<in> snd ` set (active_book_addresses s)"
  proof
    assume "resolve_open_book d s = Some b"
    then show ?thesis
      by (cases rule: resolve_open_book_cases) (auto simp: active_addresses direction_pairs_def)
  next
    let ?l = "py_lower (py_strip b)"
    assume "is_named_wallet b s"
    then obtain a where a: "map_of (named_wallets s) ?l = Some a" by (auto simp: is_named_wallet_def)
    then have "Some a \<in> Some ` snd ` set (named_wallets s)" by (force dest: map_of_SomeD)
    with book_address_named [OF a] show ?thesis by (simp add: active_addresses)
  qed
qed

end
