(* ===== verification/Risk_Admission.thy ===== *)
theory Risk_Admission
  imports Books Risk_Guard
begin

text \<open>
  The admission of new positions (\<open>src/forven/exchange/risk.py\<close>): the real-capital locks on the
  settings, the dollar exposure of the live book, the portfolio budget with the correlation check of
  \<open>src/forven/portfolio_correlation.py\<close>, the cooldowns, \<open>can_open\<close> and the table of open positions.
  Each entry point holds the position lock. Numbers that reach the code unchecked (table columns,
  settings, the venue's account) are Python floats with infinities and NaN.
\<close>

section \<open>Settings and their locks\<close>

definition coerce_position_limit :: "jv \<Rightarrow> int option" where
  "coerce_position_limit v = (case py_int v of Inl _ \<Rightarrow> None | Inr i \<Rightarrow> if 0 < i then Some i else None)"

definition get_max_concurrent_positions :: "jobj \<Rightarrow> int option" where
  "get_max_concurrent_positions s = coerce_position_limit (jget s ''max_concurrent_positions'')"

definition get_paper_max_concurrent_positions :: "jobj \<Rightarrow> int option" where
  "get_paper_max_concurrent_positions s = coerce_position_limit (jget s ''paper_max_concurrent_positions'')"

definition PORTFOLIO_BUDGET_DEFAULTS :: "(string \<times> rat) list" where
  "PORTFOLIO_BUDGET_DEFAULTS =
     [(''live_max_total_open_risk_pct'', 5), (''live_max_asset_exposure_pct'', 150),
      (''live_max_group_exposure_pct'', 200), (''live_max_effective_exposure_pct'', 200),
      (''live_hard_max_per_trade_risk_pct'', 2), (''live_hard_max_order_notional_pct'', 100),
      (''live_max_book_margin_pct'', 80)]"

definition budget_default :: "string \<Rightarrow> rat" where
  "budget_default k = (case map_of PORTFOLIO_BUDGET_DEFAULTS k of None \<Rightarrow> 0 | Some d \<Rightarrow> d)"

definition MAINNET_MAX_CONCURRENT_POSITIONS :: int where "MAINNET_MAX_CONCURRENT_POSITIONS = 10"

definition locked_pct :: "jobj \<Rightarrow> string \<times> rat \<Rightarrow> rat" where
  "locked_pct s p =
     (let raw = jget s (fst p)
      in if raw = JNull then snd p
         else case py_float raw of Inr (Fin q) \<Rightarrow> if snd p < q then snd p else q | _ \<Rightarrow> snd p)"

definition lock_pct :: "jobj \<Rightarrow> string \<times> rat \<Rightarrow> jobj" where
  "lock_pct s p = dict_set (fst p) (JFloat (Fin (locked_pct s p))) s"

definition apply_mainnet_setting_locks :: "jobj \<Rightarrow> jobj" where
  "apply_mainnet_setting_locks s =
     (let s1 = dict_set ''live_portfolio_budget_enabled'' (JBool True) s;
          s2 = foldl lock_pct s1 PORTFOLIO_BUDGET_DEFAULTS
      in case coerce_position_limit (jget s2 ''max_concurrent_positions'') of
           None \<Rightarrow> dict_set ''max_concurrent_positions'' (JInt MAINNET_MAX_CONCURRENT_POSITIONS) s2
         | Some n \<Rightarrow> if MAINNET_MAX_CONCURRENT_POSITIONS < n
             then dict_set ''max_concurrent_positions'' (JInt MAINNET_MAX_CONCURRENT_POSITIONS) s2 else s2)"

definition load_risk_settings :: "bool \<Rightarrow> jobj \<Rightarrow> jobj" where
  "load_risk_settings mainnet s = (if mainnet then apply_mainnet_setting_locks s else s)"

definition budget_pct_setting :: "jobj \<Rightarrow> string \<Rightarrow> rat" where
  "budget_pct_setting s k =
     (let raw = jget s k
      in max (if raw = JNull then budget_default k
              else case py_float raw of Inr (Fin q) \<Rightarrow> q | _ \<Rightarrow> budget_default k) 0)"

text \<open>\<open>settings.get(key, default)\<close> and \<open>settings.get(key, default) or 0\<close>.\<close>

definition get_default :: "jobj \<Rightarrow> string \<Rightarrow> jv \<Rightarrow> jv" where
  "get_default s k d = (case map_of s k of None \<Rightarrow> d | Some v \<Rightarrow> v)"

definition get_or_zero :: "jobj \<Rightarrow> string \<Rightarrow> jv \<Rightarrow> jv" where
  "get_or_zero s k d = (let v = get_default s k d in if truthy v then v else JInt 0)"

definition budget_enabled :: "jobj \<Rightarrow> bool" where
  "budget_enabled s = truthy (get_default s ''live_portfolio_budget_enabled'' (JBool True))"

text \<open>\<open>max(0.0, x)\<close> and \<open>max(x, 0.0)\<close>: a NaN is dropped by the first and kept by the second.\<close>

definition zero_max :: "pyfloat \<Rightarrow> pyfloat" where
  "zero_max x = (if pf_less (Fin 0) x then x else Fin 0)"

definition max_zero :: "pyfloat \<Rightarrow> pyfloat" where
  "max_zero x = (if pf_less x (Fin 0) then Fin 0 else x)"

definition get_cooldown_after_loss_hours :: "jobj \<Rightarrow> pyfloat" where
  "get_cooldown_after_loss_hours s =
     (case py_float (get_or_zero s ''cooldown_after_loss_hours'' (JInt 0)) of Inl _ \<Rightarrow> Fin 0 | Inr h \<Rightarrow> zero_max h)"

definition get_failed_open_cooldown_minutes :: "jobj \<Rightarrow> pyfloat" where
  "get_failed_open_cooldown_minutes s =
     (case py_float (get_or_zero s ''live_failed_open_cooldown_minutes'' (JInt 15)) of Inl _ \<Rightarrow> Fin 15 | Inr m \<Rightarrow> zero_max m)"

definition get_failed_open_max_attempts :: "jobj \<Rightarrow> int" where
  "get_failed_open_max_attempts s =
     (case py_int (get_or_zero s ''live_failed_open_max_attempts'' (JInt 3)) of Inl _ \<Rightarrow> 3 | Inr n \<Rightarrow> max 0 n)"

definition get_failed_open_window_hours :: "jobj \<Rightarrow> pyfloat" where
  "get_failed_open_window_hours s =
     (case py_float (get_or_zero s ''live_failed_open_window_hours'' (JInt 6)) of Inl _ \<Rightarrow> Fin 6 | Inr h \<Rightarrow> zero_max h)"

section \<open>Trading costs and position size\<close>

text \<open>\<open>a or 0.0\<close> on an optional float.\<close>

definition or_zero :: "pyfloat option \<Rightarrow> pyfloat" where
  "or_zero v = (case v of None \<Rightarrow> Fin 0 | Some f \<Rightarrow> f)"

definition get_trade_cost_assumptions :: "jobj \<Rightarrow> pyfloat \<times> pyfloat" where
  "get_trade_cost_assumptions s =
     (let first = (\<lambda>k k'. case coerce_non_negative (jget s k) of
                     None \<Rightarrow> coerce_non_negative (jget s k') | Some f \<Rightarrow> Some f)
      in (or_zero (first ''risk_fee_bps'' ''backtest_fee_bps''),
          or_zero (first ''risk_slippage_bps'' ''backtest_slippage_bps'')))"

definition round_trip_cost_per_unit :: "pyfloat \<Rightarrow> pyfloat \<Rightarrow> pyfloat \<Rightarrow> pyfloat \<Rightarrow> pyfloat" where
  "round_trip_cost_per_unit entry exit fee slip =
     (let e = max_zero entry; x = max_zero exit; bps = pf_add (max_zero fee) (max_zero slip)
      in if pf_le e (Fin 0) \<or> pf_le x (Fin 0) \<or> pf_le bps (Fin 0) then Fin 0
         else pf_div (pf_mul (pf_add e x) bps) (Fin 10000))"

record size_request =
  sq_direction :: string
  sq_entry :: pyfloat
  sq_stop :: jv
  sq_equity :: pyfloat
  sq_risk :: pyfloat
  sq_leverage :: pyfloat
  sq_atr :: jv
  sq_fee :: pyfloat
  sq_slippage :: pyfloat

text \<open>The stop distance: the given stop, else one and a half times the ATR, else three percent.\<close>

definition stop_price_of :: "jv \<Rightarrow> pyfloat" where
  "stop_price_of v = (case py_float v of Inl _ \<Rightarrow> Fin 0 | Inr f \<Rightarrow> f)"

definition stop_distance_of :: "size_request \<Rightarrow> pyfloat" where
  "stop_distance_of q =
     (let stop = stop_price_of (sq_stop q);
          d0 = (if pf_less (Fin 0) stop then pf_abs (pf_sub (sq_entry q) stop) else Fin 0);
          d1 = (if pf_le d0 (Fin 0)
                then (case py_float (sq_atr q) of
                        Inr a \<Rightarrow> if pf_less (Fin 0) a then pf_mul a (Fin (3/2)) else pf_mul (sq_entry q) (Fin (3/100))
                      | Inl _ \<Rightarrow> pf_mul (sq_entry q) (Fin (3/100)))
                else d0)
      in if pf_le d1 (Fin 0) then pf_mul (sq_entry q) (Fin (3/100)) else d1)"

definition stop_reference :: "size_request \<Rightarrow> pyfloat" where
  "stop_reference q =
     (let stop = stop_price_of (sq_stop q); d = stop_distance_of q
      in if pf_le stop (Fin 0)
         then (if py_lower (py_strip (sq_direction q)) = ''short'' then pf_add (sq_entry q) d
               else max_zero (pf_sub (sq_entry q) d))
         else stop)"

definition risk_per_unit :: "size_request \<Rightarrow> pyfloat" where
  "risk_per_unit q = pf_add (stop_distance_of q)
     (round_trip_cost_per_unit (sq_entry q) (stop_reference q) (max_zero (sq_fee q)) (max_zero (sq_slippage q)))"

text \<open>The size and whether the leverage cap was applied.\<close>

definition calculate_position_size :: "size_request \<Rightarrow> pyfloat \<times> bool" where
  "calculate_position_size q =
     (if pf_le (sq_entry q) (Fin 0) \<or> pf_le (sq_equity q) (Fin 0) \<or> pf_le (sq_risk q) (Fin 0) then (Fin 0, False)
      else let lev = (if pf_le (sq_leverage q) (Fin 0) then Fin 1 else sq_leverage q);
               rpu = risk_per_unit q;
               raw = (if pf_less (Fin 0) rpu then pf_div (pf_mul (sq_equity q) (sq_risk q)) rpu else Fin 0);
               cap = pf_mul (sq_equity q) lev;
               capped = (pf_less (Fin 0) cap \<and> pf_less cap (pf_mul raw (sq_entry q)));
               size = (if capped then pf_div cap (sq_entry q) else raw)
           in (pf_round (max_zero size) 6, capped))"

section \<open>Correlation groups and positions\<close>

definition CORRELATION_GROUPS :: "(string \<times> string list) list" where
  "CORRELATION_GROUPS = [(''crypto_major'', [''BTC'', ''ETH'', ''SOL'', ''BNB'', ''AVAX'', ''LINK'', ''MATIC''])]"

definition asset_group :: "string \<Rightarrow> string option" where
  "asset_group a = map_option fst (find (\<lambda>g. a \<in> set (snd g)) CORRELATION_GROUPS)"

definition group_of :: "string \<Rightarrow> string" where
  "group_of a = (case asset_group a of None \<Rightarrow> a | Some g \<Rightarrow> g)"

definition paper_execution_types :: "string list" where
  "paper_execution_types = [''paper'', ''paper_challenger'', ''simulation'']"

record open_position =
  po_trade_id :: string
  po_asset :: string
  po_direction :: string
  po_strategy :: "string option"
  po_strategy_id :: "string option"
  po_risk_pct :: jv
  po_entry :: jv
  po_group :: string
  po_opened_at :: string
  po_execution_type :: "string option"
  po_book :: "string option"

definition position_strategy_id :: "open_position \<Rightarrow> string" where
  "position_strategy_id p =
     py_strip (if opt_word (po_strategy_id p) = [] then opt_word (po_strategy p) else opt_word (po_strategy_id p))"

definition position_execution_type :: "open_position \<Rightarrow> string" where
  "position_execution_type p = py_lower (py_strip (opt_word (po_execution_type p)))"

definition is_paper_position :: "open_position \<Rightarrow> bool" where
  "is_paper_position p \<longleftrightarrow> position_execution_type p \<in> set paper_execution_types"

definition live_scope_positions :: "open_position list \<Rightarrow> open_position list" where
  "live_scope_positions ps = filter (\<lambda>p. \<not> is_paper_position p) ps"

definition paper_scope_positions :: "open_position list \<Rightarrow> open_position list" where
  "paper_scope_positions ps = filter is_paper_position ps"

record group_exposure =
  gx_long :: pyfloat
  gx_short :: pyfloat
  gx_net :: pyfloat

definition in_group :: "string \<Rightarrow> open_position \<Rightarrow> bool" where
  "in_group g p \<longleftrightarrow> (let a = py_upper (py_strip (po_asset p)) in asset_group a = Some g \<or> a = py_upper (py_strip g))"

definition position_risk :: "open_position \<Rightarrow> pyfloat" where
  "position_risk p = or_zero (coerce_non_negative (po_risk_pct p))"

definition is_long_position :: "open_position \<Rightarrow> bool" where
  "is_long_position p \<longleftrightarrow> py_lower (py_strip (po_direction p)) = ''long''"

definition sum_risk :: "open_position list \<Rightarrow> pyfloat" where
  "sum_risk ps = foldl (\<lambda>acc p. pf_add acc (position_risk p)) (Fin 0) ps"

definition get_group_exposure :: "string \<Rightarrow> open_position list \<Rightarrow> group_exposure" where
  "get_group_exposure g ps =
     (let ms = filter (in_group g) ps; l = sum_risk (filter is_long_position ms);
          sh = sum_risk (filter (\<lambda>p. \<not> is_long_position p) ms)
      in \<lparr>gx_long = pf_round l 4, gx_short = pf_round sh 4, gx_net = pf_round (pf_sub l sh) 4\<rparr>)"

end
