(* ===== verification/Risk_Budget.thy ===== *)
theory Risk_Budget
  imports Risk_Admission
begin

text \<open>
  The portfolio budget of the live account: the dollar exposure of the open live trades, the
  correlation-weighted exposure of \<open>src/forven/portfolio_correlation.py\<close> (the measured correlation
  of two assets is the argument \<open>corr\<close>), the admission check of an order against every cap, the
  loss-at-stop bound and the per-strategy ceiling.
\<close>

section \<open>The open trades\<close>

text \<open>The columns of \<open>trades\<close> that the admission reads beside those of a closing trade.\<close>

record book_row = trade_row +
  br_book :: "string option"
  br_risk_pct :: jv
  br_opened_at :: "string option"
  br_created_at :: "string option"

definition is_open_live :: "book_row \<Rightarrow> bool" where
  "is_open_live r \<longleftrightarrow> tr_status r = Some ''OPEN'' \<and>
     py_lower (case tr_execution_type r of None \<Rightarrow> ''live'' | Some x \<Rightarrow> x) = ''live''"

definition pf_floor :: "pyfloat \<Rightarrow> pyfloat result" where
  "pf_floor f = (case f of Fin q \<Rightarrow> Inr (Fin (of_int \<lfloor>q\<rfloor>)) | NaN \<Rightarrow> Inl ValueError | _ \<Rightarrow> Inl OverflowError)"

definition pf_max :: "pyfloat \<Rightarrow> pyfloat \<Rightarrow> pyfloat" where
  "pf_max a b = (if pf_less a b then b else a)"

definition exchange_margin_leverage :: "jv \<Rightarrow> jobj \<Rightarrow> pyfloat result" where
  "exchange_margin_leverage lev sd =
     (let recorded = or_zero (coerce_non_negative (jget sd ''exchange_leverage''))
      in if recorded \<noteq> Fin 0 \<and> pf_le (Fin 1) recorded then Inr recorded
         else map_sum id (pf_max (Fin 1)) (pf_floor (or_zero (py_or (coerce_non_negative lev) (Some (Fin 1))))))"

definition NO_STOP_RISK_FRAC :: rat where "NO_STOP_RISK_FRAC = 3/100"

text \<open>What one open trade contributes.\<close>

record xpos =
  xp_id :: string
  xp_asset :: string
  xp_direction :: string
  xp_strategy :: "string option"
  xp_notional :: pyfloat
  xp_margin :: pyfloat
  xp_risk :: pyfloat
  xp_stop :: "pyfloat option"
  xp_group :: string
  xp_book :: string

definition or_word :: "string \<Rightarrow> string \<Rightarrow> string" where
  "or_word s d = (if s = [] then d else s)"

definition side_sign :: "string \<Rightarrow> rat" where
  "side_sign d = (if d = ''short'' then - 1 else 1)"

definition row_asset :: "book_row \<Rightarrow> string" where
  "row_asset r = py_upper (py_strip (opt_word (tr_asset r)))"

definition row_direction :: "book_row \<Rightarrow> string" where
  "row_direction r = py_lower (py_strip (or_word (opt_word (tr_direction r)) ''long''))"

definition live_entry :: "book_row \<Rightarrow> pyfloat" where
  "live_entry r = or_zero (py_or (coerce_non_negative (tr_fill_entry_price r)) (coerce_non_negative (tr_entry_price r)))"

definition live_units :: "book_row \<Rightarrow> pyfloat" where
  "live_units r = or_zero (coerce_non_negative (tr_size r))"

definition row_stop :: "book_row \<Rightarrow> pyfloat option" where
  "row_stop r =
     (let sd = parse_trade_signal_data (tr_signal_data r); a = jget sd ''stop_loss_price''
      in coerce_non_negative (if a \<noteq> JNull then a else jget sd ''stop_loss''))"

definition row_risk :: "book_row \<Rightarrow> pyfloat" where
  "row_risk r =
     (let stop = or_zero (row_stop r)
      in if stop \<noteq> Fin 0
         then zero_max (pf_mul (pf_mul (pf_sub (live_entry r) stop) (live_units r)) (Fin (side_sign (row_direction r))))
         else pf_mul (pf_mul (live_entry r) (live_units r)) (Fin NO_STOP_RISK_FRAC))"

definition row_book :: "book_row \<Rightarrow> string" where
  "row_book r = or_word (py_lower (py_strip (or_word (opt_word (br_book r)) ''main''))) ''main''"

definition row_strategy :: "book_row \<Rightarrow> string option" where
  "row_strategy r = (case tr_strategy_id r of None \<Rightarrow> tr_strategy r | Some s \<Rightarrow> Some s)"

definition expose_row :: "book_row \<Rightarrow> xpos option result" where
  "expose_row r =
     (if row_asset r = [] \<or> live_entry r = Fin 0 \<or> live_units r = Fin 0 then Inr None
      else case exchange_margin_leverage (tr_leverage r) (parse_trade_signal_data (tr_signal_data r)) of
        Inl e \<Rightarrow> Inl e
      | Inr lev \<Rightarrow>
          (let notional = pf_mul (live_entry r) (live_units r)
           in Inr (Some \<lparr>xp_id = tr_id r, xp_asset = row_asset r, xp_direction = row_direction r,
                xp_strategy = row_strategy r, xp_notional = notional, xp_margin = pf_div notional lev,
                xp_risk = row_risk r, xp_stop = row_stop r, xp_group = group_of (row_asset r), xp_book = row_book r\<rparr>)))"

section \<open>The exposure\<close>

record agg =
  ag_net :: pyfloat
  ag_risk :: pyfloat
  ag_count :: nat

record book_agg =
  bg_gross :: pyfloat
  bg_margin :: pyfloat
  bg_risk :: pyfloat
  bg_count :: nat

text \<open>The running totals; the entry of an asset also carries its group, which is \<open>group_of\<close> of it.\<close>

record exposure =
  ex_total :: pyfloat
  ex_asset :: "(string \<times> agg) list"
  ex_group :: "(string \<times> agg) list"
  ex_book :: "(string \<times> book_agg) list"
  ex_missing :: nat
  ex_positions :: "xpos list"

definition no_exposure :: exposure where
  "no_exposure = \<lparr>ex_total = Fin 0, ex_asset = [], ex_group = [], ex_book = [], ex_missing = 0, ex_positions = []\<rparr>"

definition no_agg :: agg where "no_agg = \<lparr>ag_net = Fin 0, ag_risk = Fin 0, ag_count = 0\<rparr>"

definition no_book_agg :: book_agg where
  "no_book_agg = \<lparr>bg_gross = Fin 0, bg_margin = Fin 0, bg_risk = Fin 0, bg_count = 0\<rparr>"

definition dict_get :: "('k \<times> 'v) list \<Rightarrow> 'k \<Rightarrow> 'v \<Rightarrow> 'v" where
  "dict_get d k v = (case map_of d k of None \<Rightarrow> v | Some x \<Rightarrow> x)"

definition signed_notional :: "xpos \<Rightarrow> pyfloat" where
  "signed_notional x = pf_mul (Fin (side_sign (xp_direction x))) (xp_notional x)"

definition bump_agg :: "string \<Rightarrow> xpos \<Rightarrow> (string \<times> agg) list \<Rightarrow> (string \<times> agg) list" where
  "bump_agg k x d =
     (let a = dict_get d k no_agg
      in dict_set k \<lparr>ag_net = pf_add (ag_net a) (signed_notional x), ag_risk = pf_add (ag_risk a) (xp_risk x),
           ag_count = ag_count a + 1\<rparr> d)"

definition bump_book :: "string \<Rightarrow> xpos \<Rightarrow> (string \<times> book_agg) list \<Rightarrow> (string \<times> book_agg) list" where
  "bump_book k x d =
     (let b = dict_get d k no_book_agg
      in dict_set k \<lparr>bg_gross = pf_add (bg_gross b) (xp_notional x), bg_margin = pf_add (bg_margin b) (xp_margin x),
           bg_risk = pf_add (bg_risk b) (xp_risk x), bg_count = bg_count b + 1\<rparr> d)"

definition rounded :: "xpos \<Rightarrow> xpos" where
  "rounded x = x\<lparr>xp_notional := pf_round (xp_notional x) 2, xp_margin := pf_round (xp_margin x) 2,
     xp_risk := pf_round (xp_risk x) 2\<rparr>"

definition add_exposure :: "exposure \<Rightarrow> xpos \<Rightarrow> exposure" where
  "add_exposure e x =
     \<lparr>ex_total = pf_add (ex_total e) (xp_risk x), ex_asset = bump_agg (xp_asset x) x (ex_asset e),
      ex_group = bump_agg (xp_group x) x (ex_group e), ex_book = bump_book (xp_book x) x (ex_book e),
      ex_missing = ex_missing e + (if or_zero (xp_stop x) = Fin 0 then 1 else 0),
      ex_positions = ex_positions e @ [rounded x]\<rparr>"

fun expose_rows :: "exposure \<Rightarrow> book_row list \<Rightarrow> exposure result" where
  "expose_rows e [] = Inr e"
| "expose_rows e (r # rs) =
     (case expose_row r of Inl err \<Rightarrow> Inl err | Inr None \<Rightarrow> expose_rows e rs | Inr (Some x) \<Rightarrow> expose_rows (add_exposure e x) rs)"

text \<open>The trades table, None where reading it fails: the code goes on with no rows.\<close>

definition live_portfolio_exposure :: "string list \<Rightarrow> book_row list option \<Rightarrow> exposure result" where
  "live_portfolio_exposure excluded table =
     map_sum id (\<lambda>e. e\<lparr>ex_total := pf_round (ex_total e) 2\<rparr>)
       (expose_rows no_exposure
         (filter (\<lambda>r. tr_id r \<notin> set (filter (\<lambda>t. py_strip t \<noteq> []) excluded))
           (filter is_open_live (case table of None \<Rightarrow> [] | Some rs \<Rightarrow> rs))))"

section \<open>Equity\<close>

definition drawdown_clamped :: "rat \<Rightarrow> rat" where
  "drawdown_clamped d = min (max d 0) (9999/10000)"

text \<open>\<open>daemon\<close> is the daemon's published state.\<close>

definition live_aggregate_equity :: "jv \<Rightarrow> risk_store \<Rightarrow> pyfloat option" where
  "live_aggregate_equity daemon st =
     (let published = (case daemon of JObj d \<Rightarrow> or_zero (coerce_non_negative (jget d ''account_equity'')) | _ \<Rightarrow> Fin 0);
          s = st_state st
      in if published \<noteq> Fin 0 then Some published
         else if 0 < rs_last_equity s then Some (Fin (rs_last_equity s))
         else if 0 < rs_hwm s then Some (Fin (rs_hwm s * (1 - drawdown_clamped (rs_drawdown s))))
         else case st_daily st of Some d \<Rightarrow> if 0 < dy_start d then Some (Fin (dy_start d)) else None | None \<Rightarrow> None)"

definition book_equity_from_snapshot :: "jv \<Rightarrow> string \<Rightarrow> pyfloat option" where
  "book_equity_from_snapshot daemon b =
     (case daemon of JObj d \<Rightarrow>
        (case jget d ''exchange_account'' of JObj e \<Rightarrow>
           (case jget e ''books'' of JObj m \<Rightarrow> coerce_non_negative (jget m b) | _ \<Rightarrow> None)
         | _ \<Rightarrow> None)
      | _ \<Rightarrow> None)"

section \<open>Correlation\<close>

definition float_setting :: "jobj \<Rightarrow> string \<Rightarrow> rat \<Rightarrow> pyfloat" where
  "float_setting s k d =
     (let raw = jget s k in if raw = JNull then Fin d else case py_float raw of Inl _ \<Rightarrow> Fin d | Inr f \<Rightarrow> f)"

text \<open>\<open>str(enabled).strip().lower() in {0, false, no, off}\<close>.\<close>

definition switched_off :: "jv \<Rightarrow> bool" where
  "switched_off v =
     (case v of JBool b \<Rightarrow> \<not> b | JInt i \<Rightarrow> i = 0
      | JStr s \<Rightarrow> py_lower (py_strip s) \<in> {''0'', ''false'', ''no'', ''off''} | _ \<Rightarrow> False)"

text \<open>\<open>max(-1.0, min(1.0, x))\<close>.\<close>

definition clamp_unit :: "pyfloat \<Rightarrow> pyfloat" where
  "clamp_unit x = (let m = (if pf_less x (Fin 1) then x else Fin 1) in if pf_less (Fin (- 1)) m then m else Fin (- 1))"

type_synonym correlations = "string \<Rightarrow> string \<Rightarrow> int \<Rightarrow> rat option"

definition weighted_exposure :: "correlations \<Rightarrow> string \<Rightarrow> int \<Rightarrow> pyfloat \<Rightarrow> xpos \<Rightarrow> pyfloat" where
  "weighted_exposure corr a window missing x =
     (if py_upper (py_strip (xp_asset x)) = [] \<or> pf_le (xp_notional x) (Fin 0) then Fin 0
      else pf_mul (pf_mul (case corr a (py_upper (py_strip (xp_asset x))) window of None \<Rightarrow> missing | Some c \<Rightarrow> Fin c)
                     (Fin (side_sign (py_lower (py_strip (or_word (xp_direction x) ''long''))))))
             (xp_notional x))"

definition effective_exposure :: "correlations \<Rightarrow> string \<Rightarrow> int \<Rightarrow> pyfloat \<Rightarrow> pyfloat \<Rightarrow> xpos list \<Rightarrow> pyfloat" where
  "effective_exposure corr a window missing candidate xs =
     foldl (\<lambda>acc x. pf_add acc (weighted_exposure corr a window missing x)) candidate xs"

definition check_effective_correlated_exposure ::
  "correlations \<Rightarrow> string \<Rightarrow> string \<Rightarrow> pyfloat \<Rightarrow> xpos list \<Rightarrow> pyfloat \<Rightarrow> jobj \<Rightarrow> bool result" where
  "check_effective_correlated_exposure corr asset dir add xs eq s =
     (if switched_off (get_default s ''live_correlation_budget_enabled'' (JBool True)) then Inr True
      else if eq = Fin 0 \<or> pf_le eq (Fin 0) then Inr False
      else case int_of_float (float_setting s ''live_correlation_window_bars'' 720) of
             Inl e \<Rightarrow> Inl e
           | Inr window \<Rightarrow>
               (let candidate = pf_mul (Fin (side_sign (py_lower (py_strip (or_word dir ''long''))))) (max_zero add);
                    missing = clamp_unit (float_setting s ''live_correlation_missing_default'' 1);
                    cap = pf_mul (pf_div (max_zero (float_setting s ''live_max_effective_exposure_pct'' 200)) (Fin 100)) eq;
                    eff = effective_exposure corr (py_upper (py_strip asset)) window missing candidate xs
                in Inr (pf_le (pf_abs eff) cap)))"

section \<open>The admission of an order\<close>

record order =
  or_asset :: string
  or_direction :: string
  or_risk :: pyfloat
  or_notional :: pyfloat
  or_equity :: jv
  or_book :: string
  or_book_equity :: jv
  or_leverage :: jv

datatype budget_verdict = BudgetDisabled | NoEquity | HardRisk | HardNotional | BookUnknown | BookMargin
  | TotalRisk | AssetNet | GroupNet | Correlated | WithinBudget

definition budget_allows :: "budget_verdict \<Rightarrow> bool" where
  "budget_allows v \<longleftrightarrow> v = BudgetDisabled \<or> v = WithinBudget"

definition pct_of :: "jobj \<Rightarrow> string \<Rightarrow> pyfloat \<Rightarrow> pyfloat" where
  "pct_of s k eq = pf_mul (Fin (budget_pct_setting s k / 100)) eq"

definition order_equity :: "order \<Rightarrow> jv \<Rightarrow> risk_store \<Rightarrow> pyfloat" where
  "order_equity q daemon st = or_zero (py_or (coerce_non_negative (or_equity q)) (live_aggregate_equity daemon st))"

definition order_book :: "order \<Rightarrow> string" where
  "order_book q = py_lower (py_strip (or_book q))"

text \<open>The wallet the order draws on: its margin with the order, against its own equity.\<close>

definition order_book_equity :: "order \<Rightarrow> jv \<Rightarrow> pyfloat" where
  "order_book_equity q daemon =
     or_zero (py_or (coerce_non_negative (or_book_equity q)) (book_equity_from_snapshot daemon (order_book q)))"

definition check_book :: "jobj \<Rightarrow> jv \<Rightarrow> exposure \<Rightarrow> order \<Rightarrow> budget_verdict option result" where
  "check_book s daemon e q =
     (let b = order_book q; eq = order_book_equity q daemon
      in if b = [] \<or> b = MAIN_BOOK then Inr None
         else if eq = Fin 0 then Inr (Some BookUnknown)
         else case exchange_margin_leverage (or_leverage q) [] of
                Inl err \<Rightarrow> Inl err
              | Inr lev \<Rightarrow>
                  if pf_less (pct_of s ''live_max_book_margin_pct'' eq)
                       (pf_add (bg_margin (dict_get (ex_book e) b no_book_agg)) (pf_div (max_zero (or_notional q)) lev))
                  then Inr (Some BookMargin) else Inr None)"

text \<open>The caps on the account: total risk, net exposure of the asset and of its group, correlation.\<close>

definition order_asset :: "order \<Rightarrow> string" where
  "order_asset q = py_upper (py_strip (or_asset q))"

definition order_direction :: "order \<Rightarrow> string" where
  "order_direction q = py_lower (py_strip (or_word (or_direction q) ''long''))"

definition order_signed :: "order \<Rightarrow> pyfloat" where
  "order_signed q = pf_mul (Fin (side_sign (order_direction q))) (max_zero (or_notional q))"

definition check_account :: "correlations \<Rightarrow> jobj \<Rightarrow> pyfloat \<Rightarrow> exposure \<Rightarrow> order \<Rightarrow> budget_verdict" where
  "check_account corr s eq e q =
     (if pf_less (pct_of s ''live_max_total_open_risk_pct'' eq) (pf_add (ex_total e) (max_zero (or_risk q))) then TotalRisk
      else if pf_less (pct_of s ''live_max_asset_exposure_pct'' eq)
                (pf_abs (pf_add (ag_net (dict_get (ex_asset e) (order_asset q) no_agg)) (order_signed q))) then AssetNet
      else if pf_less (pct_of s ''live_max_group_exposure_pct'' eq)
                (pf_abs (pf_add (ag_net (dict_get (ex_group e) (group_of (order_asset q)) no_agg)) (order_signed q))) then GroupNet
      else if check_effective_correlated_exposure corr (order_asset q) (order_direction q) (max_zero (or_notional q))
                (ex_positions e) eq s = Inr True then WithinBudget
      else Correlated)"

definition check_live_portfolio_budget ::
  "correlations \<Rightarrow> jobj \<Rightarrow> jv \<Rightarrow> risk_store \<Rightarrow> string list \<Rightarrow> book_row list option \<Rightarrow> order \<Rightarrow> budget_verdict result" where
  "check_live_portfolio_budget corr s daemon st excluded table q =
     (if \<not> budget_enabled s then Inr BudgetDisabled
      else let eq = order_equity q daemon st
           in if eq = Fin 0 then Inr NoEquity
              else case live_portfolio_exposure excluded table of
                Inl err \<Rightarrow> Inl err
              | Inr e \<Rightarrow>
                  if pf_less (pct_of s ''live_hard_max_per_trade_risk_pct'' eq) (max_zero (or_risk q)) then Inr HardRisk
                  else if pf_less (pct_of s ''live_hard_max_order_notional_pct'' eq) (max_zero (or_notional q)) then Inr HardNotional
                  else case check_book s daemon e q of
                         Inl err \<Rightarrow> Inl err
                       | Inr (Some v) \<Rightarrow> Inr v
                       | Inr None \<Rightarrow> Inr (check_account corr s eq e q))"

section \<open>The bounds on one order\<close>

definition LIVE_PER_TRADE_RISK_CAP_DEFAULT :: rat where "LIVE_PER_TRADE_RISK_CAP_DEFAULT = 2/100"

definition resolve_live_per_trade_risk_cap :: "limits \<Rightarrow> pyfloat" where
  "resolve_live_per_trade_risk_cap l =
     (if 0 < lm_max_risk l then Fin (lm_max_risk l) else Fin LIVE_PER_TRADE_RISK_CAP_DEFAULT)"

definition check_live_loss_at_stop :: "limits \<Rightarrow> pyfloat \<Rightarrow> pyfloat \<Rightarrow> pyfloat option \<Rightarrow> jv \<Rightarrow> jv \<Rightarrow> bool" where
  "check_live_loss_at_stop l units price stop equity cap =
     (let resolved = or_zero (py_or (coerce_non_negative cap) (Some (resolve_live_per_trade_risk_cap l)));
          acct = or_zero (coerce_non_negative equity);
          dist = (case stop of None \<Rightarrow> pf_mul price (Fin (3/100)) | Some p \<Rightarrow> pf_abs (pf_sub price p));
          budget = pf_mul resolved acct
      in if acct = Fin 0 then False
         else \<not> pf_less (pf_add (pf_mul budget (Fin (102/100))) (Fin (1/100))) (pf_mul units dist))"

text \<open>\<open>ceilings\<close> is the stored map of the operator's go-live ceilings.\<close>

definition check_live_strategy_ceiling :: "jv \<Rightarrow> string \<Rightarrow> pyfloat \<Rightarrow> bool" where
  "check_live_strategy_ceiling ceilings sid add =
     (case ceilings of JObj m \<Rightarrow>
        (case jget m (py_strip sid) of JObj e \<Rightarrow>
           (let c = (case py_float (get_or_zero e ''ceiling_usd'' (JInt 0)) of Inl _ \<Rightarrow> Fin 0 | Inr f \<Rightarrow> f)
            in if pf_le c (Fin 0) then True else \<not> pf_less c (max_zero add))
         | _ \<Rightarrow> True)
      | _ \<Rightarrow> True)"

end
