(* ===== verification/Can_Open.thy ===== *)
theory Can_Open
  imports Risk_Budget Pytime
begin

text \<open>
  \<open>can_open\<close> of \<open>src/forven/exchange/risk.py\<close>: every rule a new position passes, in the code's order,
  the cooldowns after losses and failed opens, and the table of open positions. The whole function
  holds the position lock. What it asks of the venue is the account it reads there, by address.
\<close>

section \<open>Time stamps\<close>

definition replace_z :: "string \<Rightarrow> string" where
  "replace_z s = concat (map (\<lambda>c. if c = CHR ''Z'' then ''+00:00'' else [c]) s)"

text \<open>Whether a stamp that parses has no offset: comparing it with the aware clock raises.\<close>

definition is_naive :: "string \<Rightarrow> bool" where
  "is_naive s =
     (case parse_date s of
        Some (_, []) \<Rightarrow> True
      | Some (_, _ # r) \<Rightarrow> (case parse_hms r of Some (_, []) \<Rightarrow> True | _ \<Rightarrow> False)
      | None \<Rightarrow> False)"

text \<open>\<open>COALESCE(NULLIF(closed_at, ''), created_at)\<close>.\<close>

definition closed_or_created :: "book_row \<Rightarrow> string" where
  "closed_or_created r = or_word (opt_word (tr_closed_at r)) (opt_word (br_created_at r))"

definition owned_by :: "string \<Rightarrow> book_row \<Rightarrow> bool" where
  "owned_by s r \<longleftrightarrow>
     (case tr_strategy_id r of Some i \<Rightarrow> if i = [] then tr_strategy r = Some s else i = s | None \<Rightarrow> tr_strategy r = Some s) \<or>
     tr_strategy r = Some s"

section \<open>Cooldown after a loss\<close>

definition negative_number :: "jv \<Rightarrow> bool" where
  "negative_number v = (case py_float v of Inl _ \<Rightarrow> False | Inr f \<Rightarrow> pf_less f (Fin 0))"

text \<open>The latest closed trade, of several with the same stamp the first the table holds.\<close>

definition last_closed :: "string \<Rightarrow> book_row list \<Rightarrow> book_row option" where
  "last_closed s rows =
     foldl (\<lambda>best r. case best of None \<Rightarrow> Some r
        | Some b \<Rightarrow> if closed_or_created b < closed_or_created r then Some r else best) None
       (filter (\<lambda>r. tr_status r = Some ''CLOSED'' \<and> owned_by s r) rows)"

datatype cooldown = Clear | Cooling | Crash pyerr

definition hour_micros :: rat where "hour_micros = 3600000000"

definition is_strategy_in_loss_cooldown :: "string \<Rightarrow> pyfloat \<Rightarrow> int \<Rightarrow> book_row list \<Rightarrow> cooldown" where
  "is_strategy_in_loss_cooldown strategy hours now rows =
     (if py_strip strategy = [] \<or> pf_le hours (Fin 0) then Clear
      else case last_closed (py_strip strategy) rows of
        None \<Rightarrow> Clear
      | Some r \<Rightarrow>
          if \<not> negative_number (tr_pnl_pct r) \<and> \<not> negative_number (tr_pnl r) then Clear
          else let raw = replace_z (py_strip (closed_or_created r))
               in case iso_instant raw of
                    None \<Rightarrow> Clear
                  | Some t \<Rightarrow>
                      (case hours of
                         Fin h \<Rightarrow>
                           (let until = t + round_half_even (h * hour_micros)
                            in if \<not> in_datetime_range until then Crash OverflowError
                               else if is_naive raw then Crash TypeError
                               else if until \<le> now then Clear else Cooling)
                       | NaN \<Rightarrow> Crash ValueError
                       | _ \<Rightarrow> Crash OverflowError))"

section \<open>Cooldown after failed opens\<close>

type_synonym open_key = "string \<times> string \<times> string"

definition failed_open_inmem_key :: "string \<Rightarrow> string \<Rightarrow> string \<Rightarrow> open_key" where
  "failed_open_inmem_key s a d =
     (py_strip s, py_upper (py_strip a), or_word (py_lower (py_strip (or_word d ''long''))) ''long'')"

definition FAILED_OPEN_MAX_ENTRIES :: nat where "FAILED_OPEN_MAX_ENTRIES = 512"

definition seconds_between :: "int \<Rightarrow> int \<Rightarrow> pyfloat" where
  "seconds_between t0 t1 = Fin (of_int (t1 - t0) / 1000000)"

definition prune_failed_open_inmem :: "int \<Rightarrow> pyfloat \<Rightarrow> (open_key \<times> int) list \<Rightarrow> (open_key \<times> int) list" where
  "prune_failed_open_inmem now window m =
     (if pf_le window (Fin 0) then []
      else let live = filter (\<lambda>p. \<not> pf_less window (seconds_between (snd p) now)) m;
               oldest = map fst (take (length live - FAILED_OPEN_MAX_ENTRIES) (sort_key snd live))
           in filter (\<lambda>p. fst p \<notin> set oldest) live)"

definition register_failed_open_inmem_cooldown ::
  "string \<Rightarrow> string \<Rightarrow> string \<Rightarrow> int \<Rightarrow> (open_key \<times> int) list \<Rightarrow> (open_key \<times> int) list" where
  "register_failed_open_inmem_cooldown s a d ts m =
     (case failed_open_inmem_key s a d of (ks, ka, kd) \<Rightarrow>
        if ks = [] \<or> ka = [] then m
        else dict_set (ks, ka, kd) ts (prune_failed_open_inmem ts (Fin 86400) m))"

definition failed_open_inmem_remaining :: "string \<Rightarrow> string \<Rightarrow> string \<Rightarrow> pyfloat \<Rightarrow> int \<Rightarrow>
    (open_key \<times> int) list \<Rightarrow> pyfloat \<times> (open_key \<times> int) list" where
  "failed_open_inmem_remaining s a d minutes now m =
     (if pf_le minutes (Fin 0) then (Fin 0, m)
      else let m' = prune_failed_open_inmem now (pf_mul minutes (Fin 60)) m
           in (case map_of m' (failed_open_inmem_key s a d) of
                 None \<Rightarrow> Fin 0
               | Some ts \<Rightarrow> max_zero (pf_sub minutes (pf_div (seconds_between ts now) (Fin 60))), m'))"

text \<open>The fifty latest failures; the database may return equal stamps in any order.\<close>

definition failed_open_rows :: "string \<Rightarrow> string \<Rightarrow> string \<Rightarrow> book_row list \<Rightarrow> book_row list" where
  "failed_open_rows s a d rows =
     take 50 (rev (sort_key closed_or_created
       (filter (\<lambda>r. tr_status r = Some ''FAILED'' \<and> owned_by s r \<and> py_upper (opt_word (tr_asset r)) = a \<and>
          py_lower (case tr_direction r of None \<Rightarrow> ''long'' | Some x \<Rightarrow> x) = d \<and>
          (case tr_execution_type r of None \<Rightarrow> ''live'' | Some x \<Rightarrow> x) \<notin> set paper_execution_types) rows)))"

text \<open>The instants of the failures that are not older than the look-back.\<close>

definition failed_open_times :: "pyfloat \<Rightarrow> int \<Rightarrow> book_row list \<Rightarrow> int list" where
  "failed_open_times lookback now rows =
     filter (\<lambda>t. \<not> pf_less (pf_mul lookback (Fin 3600)) (seconds_between t now))
       (List.map_filter (\<lambda>r. let raw = py_strip (closed_or_created r)
                             in if raw = [] then None else iso_instant (replace_z raw)) rows)"

text \<open>None for the table where reading it fails: only the in-memory record is consulted then.\<close>

definition is_strategy_in_failed_open_cooldown ::
  "string \<Rightarrow> string \<Rightarrow> string \<Rightarrow> jobj \<Rightarrow> int \<Rightarrow> book_row list option \<Rightarrow> (open_key \<times> int) list \<Rightarrow> bool \<times> (open_key \<times> int) list" where
  "is_strategy_in_failed_open_cooldown strategy asset direction s now table m =
     (case failed_open_inmem_key strategy asset direction of (ks, ka, kd) \<Rightarrow>
      let minutes = get_failed_open_cooldown_minutes s; attempts = get_failed_open_max_attempts s;
          window = get_failed_open_window_hours s
      in if ks = [] \<or> ka = [] then (False, m)
         else if pf_le minutes (Fin 0) \<and> (attempts \<le> 0 \<or> pf_le window (Fin 0)) then (False, m)
         else let times = failed_open_times (pf_max window (pf_div minutes (Fin 60))) now
                            (case table of None \<Rightarrow> [] | Some rows \<Rightarrow> failed_open_rows ks ka kd rows)
              in if times = []
                 then (let (remaining, m') = failed_open_inmem_remaining ks ka kd minutes now m
                       in (pf_less (Fin 0) remaining, m'))
                 else if 0 < attempts \<and> pf_less (Fin 0) window \<and>
                         attempts \<le> int (length (filter (\<lambda>t. pf_le (seconds_between t now) (pf_mul window (Fin 3600))) times))
                 then (True, m)
                 else (pf_less (Fin 0) minutes \<and>
                       pf_less (pf_div (seconds_between (Max (set times)) now) (Fin 60)) minutes, m))"

section \<open>The rules\<close>

datatype refusal = Halted verdict | PerTradeCap | MarginUnreadable | MarginUnverified | MarginLimit
  | BooksEquityUnknown | DailyLoss | MaxConcurrent | NoBudgetEquity | BudgetExhausted | BudgetError
  | LossCooldown | FailedOpens | AssetHeld string | AlreadyOpen | GroupBudget

datatype open_verdict = Admitted pyfloat | Refused refusal | Raised pyerr

record open_request =
  oq_asset :: string
  oq_direction :: string
  oq_strategy :: string
  oq_risk :: "pyfloat option"
  oq_type :: "string option"
  oq_book :: "string option"
  oq_enforce :: bool

text \<open>
  What a call reads: settings, mode, network, pauses, clock, the venue's account by address, the
  daemon's state, the tables (with whether the two guarded queries succeed) and which of its
  best-effort writes get through.
\<close>

record open_env =
  oe_settings :: jobj
  oe_mode :: string
  oe_mainnet :: bool
  oe_paused :: bool
  oe_recovery :: "bool \<times> string"
  oe_now :: int
  oe_today :: int
  oe_account :: "string option \<Rightarrow> jobj result"
  oe_daemon :: jv
  oe_trades :: "book_row list"
  oe_exposure_readable :: bool
  oe_failed_readable :: bool
  oe_writes :: "nat \<Rightarrow> bool"

record open_state =
  os_risk :: risk_store
  os_inmem :: "(open_key \<times> int) list"

definition is_paper_request :: "open_request \<Rightarrow> bool" where
  "is_paper_request q \<longleftrightarrow> py_lower (py_strip (opt_word (oq_type q))) \<in> set paper_execution_types"

text \<open>Rule 0: the halts bind real capital only.\<close>

definition rule_halts :: "open_env \<Rightarrow> open_request \<Rightarrow> risk_store \<Rightarrow> refusal option" where
  "rule_halts env q st =
     (if is_paper_request q then None
      else let v = is_trading_allowed (oe_paused env) (oe_recovery env) (oe_today env) st
           in if v = Allowed then None else Some (Halted v))"

definition account_number :: "jv \<Rightarrow> pyfloat option" where
  "account_number v = (case v of JBool b \<Rightarrow> Some (Fin (if b then 1 else 0)) | JInt i \<Rightarrow> Some (Fin (of_int i))
     | JFloat f \<Rightarrow> Some f | _ \<Rightarrow> None)"

definition daily_gate :: "limits \<Rightarrow> open_env \<Rightarrow> rat \<Rightarrow> risk_store \<Rightarrow> refusal option \<times> risk_store" where
  "daily_gate lims env eq st =
     (case recompute_daily_halt_from_equity eq lims (oe_today env) (oe_writes env) st of
        (b, st') \<Rightarrow> (if b then Some DailyLoss else None, st'))"

definition order_address :: "open_env \<Rightarrow> open_request \<Rightarrow> string option" where
  "order_address env q = (if opt_word (oq_book q) = [] then None else book_address (opt_word (oq_book q)) (oe_settings env))"

text \<open>Rule 0c: the margin of the routed account and the daily loss, re-read from live equity.\<close>

definition rule_venue :: "limits \<Rightarrow> open_env \<Rightarrow> open_request \<Rightarrow> risk_store \<Rightarrow> refusal option \<times> risk_store" where
  "rule_venue lims env q st =
     (case oe_account env (order_address env q) of
        Inl _ \<Rightarrow> (Some MarginUnreadable, st)
      | Inr acc \<Rightarrow>
          (case py_float (get_or_zero acc ''accountValue'' (JInt 0)) of
             Inr (Fin v) \<Rightarrow>
               if v \<le> 0 then (Some MarginUnverified, st)
               else (case account_number (get_default acc ''totalMarginUsed'' (JInt 0)) of
                       None \<Rightarrow> (Some MarginUnreadable, st)
                     | Some used \<Rightarrow>
                         if pf_le (Fin (80/100)) (pf_div used (Fin v)) then (Some MarginLimit, st)
                         else if books_enabled (oe_settings env)
                         then (case validated_books_equity (oe_now env) st of
                                 None \<Rightarrow> (Some BooksEquityUnknown, st)
                               | Some eq \<Rightarrow> daily_gate lims env eq st)
                         else if order_address env q = None then daily_gate lims env v st
                         else (None, st))
           | _ \<Rightarrow> (Some MarginUnverified, st)))"

definition real_capital_mode :: "open_env \<Rightarrow> bool" where
  "real_capital_mode env \<longleftrightarrow> oe_mode env \<in> {''live'', ''mainnet''} \<or> oe_mainnet env"

definition routed_addr :: "jobj \<Rightarrow> string option \<Rightarrow> string option" where
  "routed_addr s label =
     (if opt_word label = [] then None
      else let a = py_lower (py_strip (opt_word (book_address (opt_word label) s))) in if a = [] then None else Some a)"

text \<open>The positions the request competes with: its own sandbox, or its wallet.\<close>

definition competing :: "jobj \<Rightarrow> open_request \<Rightarrow> open_position list \<Rightarrow> open_position list" where
  "competing s q ps =
     (if is_paper_request q then filter (\<lambda>p. is_paper_position p \<and> position_strategy_id p = oq_strategy q) ps
      else filter (\<lambda>p. \<not> is_paper_position p \<and> routed_addr s (po_book p) = routed_addr s (oq_book q)) ps)"

definition max_positions :: "jobj \<Rightarrow> open_request \<Rightarrow> int option" where
  "max_positions s q = (if is_paper_request q then get_paper_max_concurrent_positions s else get_max_concurrent_positions s)"

definition rule_concurrency :: "jobj \<Rightarrow> open_request \<Rightarrow> open_position list \<Rightarrow> refusal option" where
  "rule_concurrency s q ps =
     (case max_positions s q of None \<Rightarrow> None | Some n \<Rightarrow> if n \<le> int (length ps) then Some MaxConcurrent else None)"

text \<open>The coarse portfolio gate: no new risk once the total is at its cap.\<close>

definition rule_portfolio :: "jobj \<Rightarrow> open_env \<Rightarrow> open_request \<Rightarrow> risk_store \<Rightarrow> refusal option" where
  "rule_portfolio s env q st =
     (if is_paper_request q \<or> \<not> budget_enabled s then None
      else case live_portfolio_exposure [] (if oe_exposure_readable env then Some (oe_trades env) else None) of
        Inl _ \<Rightarrow> Some BudgetError
      | Inr e \<Rightarrow>
          if ex_positions e = [] then None
          else let eq = or_zero (live_aggregate_equity (oe_daemon env) st)
               in if eq = Fin 0 then Some NoBudgetEquity
                  else if pf_le (pct_of s ''live_max_total_open_risk_pct'' eq) (ex_total e) then Some BudgetExhausted
                  else None)"

text \<open>Rule 2: one position per asset among the competing ones.\<close>

definition rule_asset :: "open_request \<Rightarrow> open_position list \<Rightarrow> refusal option" where
  "rule_asset q ps =
     (case find (\<lambda>p. po_asset p = py_upper (oq_asset q)) ps of
        None \<Rightarrow> None
      | Some p \<Rightarrow> if position_strategy_id p \<noteq> oq_strategy q then Some (AssetHeld (position_strategy_id p)) else Some AlreadyOpen)"

text \<open>Rules 3 and 4: the budget of the correlation group, with the reduced size.\<close>

definition rule_group :: "limits \<Rightarrow> open_request \<Rightarrow> pyfloat \<Rightarrow> open_position list \<Rightarrow> open_verdict" where
  "rule_group lims q risk ps =
     (let net = gx_net (get_group_exposure (group_of (py_upper (oq_asset q))) ps);
          new_net = (if py_lower (oq_direction q) = ''long'' then pf_add net risk else pf_sub net risk);
          budget = Fin (lm_portfolio_budget lims)
      in if oq_enforce q \<and> pf_less budget (pf_abs new_net)
         then (let remaining = pf_sub budget (pf_abs net)
               in if pf_le remaining (Fin (1/1000)) then Refused GroupBudget
                  else Admitted (pf_round (pf_mul remaining (Fin (95/100))) 4))
         else Admitted risk)"

text \<open>The rules after the venue's, on the state it left.\<close>

definition can_open_rest ::
  "jobj \<Rightarrow> limits \<Rightarrow> open_env \<Rightarrow> open_request \<Rightarrow> pyfloat \<Rightarrow> open_position list \<Rightarrow> open_state \<Rightarrow> open_verdict \<times> open_state" where
  "can_open_rest s lims env q risk positions os =
     (let ps = competing s q positions
      in case rule_concurrency s q ps of Some r \<Rightarrow> (Refused r, os) | None \<Rightarrow>
         (case rule_portfolio s env q (os_risk os) of Some r \<Rightarrow> (Refused r, os) | None \<Rightarrow>
         (case is_strategy_in_loss_cooldown (oq_strategy q) (get_cooldown_after_loss_hours s) (oe_now env) (oe_trades env) of
            Crash e \<Rightarrow> (Raised e, os)
          | Cooling \<Rightarrow> (Refused LossCooldown, os)
          | Clear \<Rightarrow>
              (let (stormy, m) = (if is_paper_request q then (False, os_inmem os)
                     else is_strategy_in_failed_open_cooldown (oq_strategy q) (py_upper (oq_asset q)) (py_lower (oq_direction q)) s
                            (oe_now env) (if oe_failed_readable env then Some (oe_trades env) else None) (os_inmem os));
                   os' = os\<lparr>os_inmem := m\<rparr>
               in if stormy then (Refused FailedOpens, os')
                  else case rule_asset q ps of Some r \<Rightarrow> (Refused r, os')
                       | None \<Rightarrow> (rule_group lims q risk ps, os')))))"

definition can_open :: "open_env \<Rightarrow> open_request \<Rightarrow> open_position list \<Rightarrow> open_state \<Rightarrow> open_verdict \<times> open_state" where
  "can_open env q positions os =
     (let lims = get_risk_limits (oe_mode env) (oe_mainnet env) (oe_settings env);
          s = load_risk_settings (oe_mainnet env) (oe_settings env);
          risk = (case oq_risk q of None \<Rightarrow> Fin (lm_per_strategy_max lims) | Some r \<Rightarrow> r)
      in case rule_halts env q (os_risk os) of Some r \<Rightarrow> (Refused r, os) | None \<Rightarrow>
         if oq_enforce q \<and> pf_less (Fin (lm_max_risk lims)) risk then (Refused PerTradeCap, os)
         else if real_capital_mode env \<and> \<not> is_paper_request q
         then (case rule_venue lims env q (os_risk os) of
                 (Some r, st) \<Rightarrow> (Refused r, os\<lparr>os_risk := st\<rparr>)
               | (None, st) \<Rightarrow> can_open_rest s lims env q risk positions (os\<lparr>os_risk := st\<rparr>))
         else can_open_rest s lims env q risk positions os)"

section \<open>The table of positions\<close>

text \<open>\<open>INSERT OR REPLACE\<close> on the trade id, with the scope and book of the owning trade where not given.\<close>

definition insert_position :: "open_position \<Rightarrow> open_position list \<Rightarrow> open_position list" where
  "insert_position p ps = filter (\<lambda>x. po_trade_id x \<noteq> po_trade_id p) ps @ [p]"

definition none_if_empty :: "string \<Rightarrow> string option" where
  "none_if_empty s = (if s = [] then None else Some s)"

definition fill_from_row :: "string \<Rightarrow> (book_row \<Rightarrow> string option) \<Rightarrow> string \<Rightarrow> book_row list \<Rightarrow> string" where
  "fill_from_row given col tid rows =
     (if given \<noteq> [] then given
      else case find (\<lambda>r. tr_id r = tid) rows of None \<Rightarrow> [] | Some r \<Rightarrow> py_strip (opt_word (col r)))"

definition register ::
  "string \<Rightarrow> open_request \<Rightarrow> jv \<Rightarrow> jv \<Rightarrow> string \<Rightarrow> book_row list \<Rightarrow> open_position list \<Rightarrow> open_position list" where
  "register tid q risk entry stamp rows ps =
     insert_position
       \<lparr>po_trade_id = tid, po_asset = py_upper (oq_asset q), po_direction = py_lower (oq_direction q),
        po_strategy = Some (oq_strategy q), po_strategy_id = Some (oq_strategy q), po_risk_pct = risk, po_entry = entry,
        po_group = (case asset_group (py_upper (oq_asset q)) of None \<Rightarrow> ''unknown'' | Some g \<Rightarrow> g), po_opened_at = stamp,
        po_execution_type = none_if_empty (fill_from_row (py_strip (opt_word (oq_type q))) tr_execution_type tid rows),
        po_book = none_if_empty (fill_from_row (py_strip (opt_word (oq_book q))) br_book tid rows)\<rparr> ps"

definition release :: "string \<Rightarrow> open_position list \<Rightarrow> bool \<times> open_position list" where
  "release tid ps = (\<exists>p\<in>set ps. po_trade_id p = tid, filter (\<lambda>p. po_trade_id p \<noteq> tid) ps)"

definition PENDING_OPEN_SLOT_FREE_SECONDS :: rat where "PENDING_OPEN_SLOT_FREE_SECONDS = 180"

text \<open>
  A failed open waiting for the reconciler, without an exchange id, holds no slot for three minutes.
  A stamp that cannot be compared counts as fresh.
\<close>

definition slot_is_free :: "int \<Rightarrow> book_row \<Rightarrow> bool" where
  "slot_is_free now r =
     (let sd = parse_trade_signal_data (tr_signal_data r); since = jget sd ''pending_open_reconcile_at'';
          raw = replace_z (str_or since)
      in truthy (jget sd ''pending_open_reconcile'') \<and>
         \<not> (truthy (jget sd ''entry_exchange_order_id'') \<or> truthy (jget sd ''entry_exchange_client_order_id'')) \<and>
         (\<not> truthy since \<or>
          (case iso_instant raw of
             None \<Rightarrow> True
           | Some t \<Rightarrow> is_naive raw \<or> pf_less (seconds_between t now) (Fin PENDING_OPEN_SLOT_FREE_SECONDS))))"

definition position_of :: "rat \<Rightarrow> book_row \<Rightarrow> open_position" where
  "position_of default_risk r =
     \<lparr>po_trade_id = tr_id r, po_asset = opt_word (tr_asset r), po_direction = opt_word (tr_direction r),
      po_strategy = tr_strategy r,
      po_strategy_id = (if opt_word (tr_strategy_id r) = [] then tr_strategy r else tr_strategy_id r),
      po_risk_pct = (if truthy (br_risk_pct r) then br_risk_pct r else JFloat (Fin default_risk)),
      po_entry = (if truthy (tr_entry_price r) then tr_entry_price r else JInt 0),
      po_group = (case asset_group (opt_word (tr_asset r)) of None \<Rightarrow> ''unknown'' | Some g \<Rightarrow> g),
      po_opened_at = opt_word (br_opened_at r), po_execution_type = tr_execution_type r, po_book = br_book r\<rparr>"

text \<open>The rebuilt table and the number of open trades.\<close>

definition rebuild_portfolio_positions :: "limits \<Rightarrow> int \<Rightarrow> book_row list \<Rightarrow> open_position list \<times> nat" where
  "rebuild_portfolio_positions lims now rows =
     (let opened = filter (\<lambda>r. tr_status r = Some ''OPEN'') rows
      in (map (position_of (lm_per_strategy_max lims)) (filter (\<lambda>r. \<not> slot_is_free now r) opened), length opened))"

section \<open>Flipping a live position\<close>

text \<open>
  The checks of \<open>flip_position\<close> (\<open>src/forven/api_domains/paper_control.py\<close>) before anything is closed: the size,
  the book of the opposite side and the gate of the position to be opened.
\<close>

definition opposite_direction :: "book_row \<Rightarrow> string" where
  "opposite_direction r = (case normalize_trade_direction (tr_direction r) of Long \<Rightarrow> ''short'' | Short \<Rightarrow> ''long'')"

definition flip_request :: "book_row \<Rightarrow> string \<Rightarrow> open_request" where
  "flip_request r b = \<lparr>oq_asset = opt_word (tr_asset r), oq_direction = opposite_direction r,
     oq_strategy = or_word (opt_word (tr_strategy_id r)) (opt_word (tr_strategy r)), oq_risk = None,
     oq_type = Some ''live'', oq_book = Some b, oq_enforce = True\<rparr>"

definition flip_preflight :: "open_env \<Rightarrow> book_row \<Rightarrow> open_position list \<Rightarrow> open_state \<Rightarrow> (open_verdict \<times> open_state) result" where
  "flip_preflight env r ps os =
     (if pf_le (pf_abs (or_zero (coerce_optional_float (tr_size r)))) (Fin 0) then Inl (HTTPError 400)
      else case resolve_open_book (opposite_direction r) (oe_settings env) of
             None \<Rightarrow> Inl (HTTPError 409)
           | Some b \<Rightarrow> Inr (can_open env (flip_request r b) ps os))"

section \<open>Runs\<close>

text \<open>An open is asked for and, when admitted, registered; a close releases the position.\<close>

datatype book_event = Opening open_env open_request string jv jv string | Closing string

fun book_step :: "open_position list \<times> open_state \<Rightarrow> book_event \<Rightarrow> open_position list \<times> open_state" where
  "book_step (ps, os) (Opening env q tid risk entry stamp) =
     (case can_open env q ps os of
        (Admitted _, os') \<Rightarrow> (register tid q risk entry stamp (oe_trades env) ps, os')
      | (_, os') \<Rightarrow> (ps, os'))"
| "book_step (ps, os) (Closing tid) = (snd (release tid ps), os)"

end
