(* ===== verification/Budget_Props.thy ===== *)
theory Budget_Props
  imports Can_Open
begin

text \<open>
  What the portfolio budget guarantees: the real-capital locks only tighten, an admitted order keeps
  every cap once it is part of the book, and the check repeated at the order agrees with the one
  before it; the size of a position stays within its risk budget and its leverage.
\<close>

section \<open>The locks\<close>

lemma locked_pct_bound: "locked_pct s (k, d) \<le> d"
  by (auto simp: locked_pct_def Let_def split: sum.splits pyfloat.splits)

lemma lock_pct_get:
  "jget (lock_pct s p) k = (if k = fst p then JFloat (Fin (locked_pct s p)) else jget s k)"
  by (simp add: lock_pct_def jget_dict_set)

lemma lock_pcts_get:
  assumes "distinct (map fst ps)"
  shows "jget (foldl lock_pct s ps) k =
    (case map_of ps k of None \<Rightarrow> jget s k | Some d \<Rightarrow> JFloat (Fin (locked_pct s (k, d))))"
  using assms
proof (induction ps arbitrary: s)
  case (Cons p ps)
  have other: "locked_pct (lock_pct s p) (k, d) = locked_pct s (k, d)" if "k \<noteq> fst p" for d
    using that by (simp add: locked_pct_def lock_pct_get)
  from Cons show ?case
    by (cases "k = fst p")
       (auto simp: lock_pct_get other map_of_eq_None_iff [symmetric] split: option.splits)
qed simp

lemma defaults_distinct: "distinct (map fst PORTFOLIO_BUDGET_DEFAULTS)"
  by code_simp

lemma locked_settings_get:
  assumes "k \<noteq> ''max_concurrent_positions''"
  shows "jget (apply_mainnet_setting_locks s) k =
    (case map_of PORTFOLIO_BUDGET_DEFAULTS k of
       None \<Rightarrow> if k = ''live_portfolio_budget_enabled'' then JBool True else jget s k
     | Some d \<Rightarrow> JFloat (Fin (locked_pct s (k, d))))"
proof -
  have e: "map_of PORTFOLIO_BUDGET_DEFAULTS ''live_portfolio_budget_enabled'' = None" by code_simp
  have l: "locked_pct (dict_set ''live_portfolio_budget_enabled'' (JBool True) s) (k, d) = locked_pct s (k, d)"
    if "map_of PORTFOLIO_BUDGET_DEFAULTS k = Some d" for d
    using that e by (auto simp: locked_pct_def jget_dict_set)
  have "jget (apply_mainnet_setting_locks s) k =
      jget (foldl lock_pct (dict_set ''live_portfolio_budget_enabled'' (JBool True) s) PORTFOLIO_BUDGET_DEFAULTS) k"
    using assms by (simp add: apply_mainnet_setting_locks_def Let_def jget_dict_set split: option.splits)
  then show ?thesis
    by (auto simp: lock_pcts_get [OF defaults_distinct] jget_dict_set l e split: option.splits)
qed

lemma budget_pct_le_default:
  assumes "map_of PORTFOLIO_BUDGET_DEFAULTS k = Some d" and "k \<noteq> ''max_concurrent_positions''"
  shows "budget_pct_setting (apply_mainnet_setting_locks s) k = max (locked_pct s (k, d)) 0"
  by (simp add: budget_pct_setting_def locked_settings_get assms)

lemma locked_pct_tightens:
  assumes "map_of PORTFOLIO_BUDGET_DEFAULTS k = Some d"
  shows "max (locked_pct s (k, d)) 0 \<le> max d 0 \<and> max (locked_pct s (k, d)) 0 \<le> budget_pct_setting s k"
  using assms
  by (auto simp: locked_pct_def budget_pct_setting_def budget_default_def Let_def split: sum.splits pyfloat.splits)

lemma locked_concurrency:
  "\<exists>n. get_max_concurrent_positions (apply_mainnet_setting_locks s) = Some n \<and> 1 \<le> n \<and> n \<le> MAINNET_MAX_CONCURRENT_POSITIONS"
proof -
  have one: "1 \<le> MAINNET_MAX_CONCURRENT_POSITIONS" by (simp add: MAINNET_MAX_CONCURRENT_POSITIONS_def)
  have ten: "coerce_position_limit (JInt MAINNET_MAX_CONCURRENT_POSITIONS) = Some MAINNET_MAX_CONCURRENT_POSITIONS"
    and pos: "coerce_position_limit v = Some n \<Longrightarrow> 1 \<le> n" for v n
    by (auto simp: coerce_position_limit_def MAINNET_MAX_CONCURRENT_POSITIONS_def split: sum.splits if_splits)
  show ?thesis
    unfolding get_max_concurrent_positions_def apply_mainnet_setting_locks_def Let_def
    by (auto simp: jget_dict_set ten one split: option.splits dest: pos)
qed

text \<open>C34: On real capital the settings can only tighten the account guards: the budget is on whatever the
  settings say, every cap is at most its default and at most the configured value, and the number of
  positions is bounded by ten.\<close>

theorem mainnet_settings_only_tighten:
  assumes "map_of PORTFOLIO_BUDGET_DEFAULTS k = Some d"
  shows "budget_enabled (load_risk_settings True s) \<and>
    budget_pct_setting (load_risk_settings True s) k \<le> d \<and>
    budget_pct_setting (load_risk_settings True s) k \<le> budget_pct_setting s k \<and>
    (\<exists>n. get_max_concurrent_positions (load_risk_settings True s) = Some n \<and> 1 \<le> n \<and> n \<le> 10)"
proof -
  have k: "k \<noteq> ''max_concurrent_positions''"
  proof
    assume "k = ''max_concurrent_positions''"
    moreover have "map_of PORTFOLIO_BUDGET_DEFAULTS ''max_concurrent_positions'' = None" by code_simp
    ultimately show False using assms by simp
  qed
  have d: "0 \<le> d" using assms
    by (auto simp: PORTFOLIO_BUDGET_DEFAULTS_def split: if_splits)
  have on: "jget (apply_mainnet_setting_locks s) ''live_portfolio_budget_enabled'' = JBool True"
  proof -
    have "map_of PORTFOLIO_BUDGET_DEFAULTS ''live_portfolio_budget_enabled'' = None" by code_simp
    then show ?thesis by (simp add: locked_settings_get)
  qed
  then have b: "budget_enabled (apply_mainnet_setting_locks s)"
    by (auto simp: budget_enabled_def get_default_def jget_def split: option.splits)
  show ?thesis
    using b locked_pct_tightens [OF assms, of s] budget_pct_le_default [OF assms k, of s] locked_concurrency [of s] d
    by (simp add: load_risk_settings_def MAINNET_MAX_CONCURRENT_POSITIONS_def)
qed

theorem mainnet_settings_only_tighten_witness:
  "budget_pct_setting (load_risk_settings True [(''live_max_total_open_risk_pct'', JInt 50)]) ''live_max_total_open_risk_pct'' \<le> 5 \<and>
   budget_pct_setting [(''live_max_total_open_risk_pct'', JInt 50)] ''live_max_total_open_risk_pct'' = 50"
proof -
  have m: "map_of PORTFOLIO_BUDGET_DEFAULTS ''live_max_total_open_risk_pct'' = Some 5" by code_simp
  have "budget_pct_setting [(''live_max_total_open_risk_pct'', JInt 50)] ''live_max_total_open_risk_pct'' = 50" by code_simp
  then show ?thesis
    using mainnet_settings_only_tighten [OF m, of "[(''live_max_total_open_risk_pct'', JInt 50)]"] by simp
qed

section \<open>The exposure of a larger book\<close>

text \<open>What the proofs assume of the stored numbers: those of the open live trades are finite.\<close>

definition finite_xpos :: "xpos \<Rightarrow> bool" where
  "finite_xpos x \<longleftrightarrow> isfinite (xp_notional x) \<and> isfinite (xp_margin x) \<and> isfinite (xp_risk x)"

definition finite_row :: "book_row \<Rightarrow> bool" where
  "finite_row r = (case expose_row r of Inr (Some x) \<Rightarrow> finite_xpos x | _ \<Rightarrow> True)"

definition finite_exposure :: "exposure \<Rightarrow> bool" where
  "finite_exposure e \<longleftrightarrow> isfinite (ex_total e) \<and> (\<forall>k. isfinite (ag_net (dict_get (ex_asset e) k no_agg))) \<and>
     (\<forall>k. isfinite (ag_net (dict_get (ex_group e) k no_agg))) \<and> (\<forall>k. isfinite (bg_margin (dict_get (ex_book e) k no_book_agg)))"

lemma isfinite_add [simp]: "isfinite a \<Longrightarrow> isfinite b \<Longrightarrow> isfinite (pf_add a b)"
  by (cases a; cases b; simp)

lemma isfinite_mul [simp]: "isfinite a \<Longrightarrow> isfinite b \<Longrightarrow> isfinite (pf_mul a b)"
  by (cases a; cases b; simp)

lemma isfinite_round [simp]: "isfinite (pf_round a n) = isfinite a"
  by (cases a) auto

lemma isfiniteE: "isfinite a \<Longrightarrow> (\<And>q. a = Fin q \<Longrightarrow> P) \<Longrightarrow> P"
  by (cases a) auto

lemma dict_get_set: "dict_get (dict_set k v d) j w = (if j = k then v else dict_get d j w)"
  by (simp add: dict_get_def map_of_dict_set)

lemma bump_agg_get: "ag_net (dict_get (bump_agg k x d) j no_agg) =
    (if j = k then pf_add (ag_net (dict_get d k no_agg)) (signed_notional x) else ag_net (dict_get d j no_agg))"
  by (simp add: bump_agg_def Let_def dict_get_set)

lemma bump_book_get: "bg_margin (dict_get (bump_book k x d) j no_book_agg) =
    (if j = k then pf_add (bg_margin (dict_get d k no_book_agg)) (xp_margin x) else bg_margin (dict_get d j no_book_agg))"
  by (simp add: bump_book_def Let_def dict_get_set)

lemma finite_no_exposure: "finite_exposure no_exposure"
  by (simp add: finite_exposure_def no_exposure_def dict_get_def no_agg_def no_book_agg_def)

lemma finite_add_exposure: "finite_exposure e \<Longrightarrow> finite_xpos x \<Longrightarrow> finite_exposure (add_exposure e x)"
  by (simp add: finite_exposure_def finite_xpos_def add_exposure_def bump_agg_get bump_book_get signed_notional_def)

lemma finite_expose_rows:
  "finite_exposure e \<Longrightarrow> \<forall>r\<in>set rs. finite_row r \<Longrightarrow> expose_rows e rs = Inr e' \<Longrightarrow> finite_exposure e'"
  by (induction e rs rule: expose_rows.induct)
     (auto simp: finite_row_def finite_add_exposure split: sum.splits option.splits)

lemma expose_rows_append:
  "expose_rows e (rs @ [r]) = (case expose_rows e rs of Inl err \<Rightarrow> Inl err | Inr e' \<Rightarrow> expose_rows e' [r])"
  by (induction e rs rule: expose_rows.induct) (auto split: sum.splits option.splits)

text \<open>The exposure before the rounding of its total.\<close>

definition raw_exposure :: "book_row list \<Rightarrow> exposure result" where
  "raw_exposure rs = expose_rows no_exposure (filter is_open_live rs)"

lemma exposure_raw:
  "live_portfolio_exposure [] (Some rs) = map_sum id (\<lambda>e. e\<lparr>ex_total := pf_round (ex_total e) 2\<rparr>) (raw_exposure rs)"
  by (simp add: live_portfolio_exposure_def raw_exposure_def)

lemma raw_exposure_append:
  assumes "is_open_live r" and "expose_row r = Inr (Some x)" and "raw_exposure rs = Inr e"
  shows "raw_exposure (rs @ [r]) = Inr (add_exposure e x)"
  using assms by (simp add: raw_exposure_def expose_rows_append)

lemma finite_raw_exposure:
  "\<forall>r\<in>set rs. finite_row r \<Longrightarrow> raw_exposure rs = Inr e \<Longrightarrow> finite_exposure e"
  unfolding raw_exposure_def by (rule finite_expose_rows [OF finite_no_exposure, of "filter is_open_live rs"]) auto

section \<open>An admitted order\<close>

text \<open>The position an order becomes when it is filled as it was checked.\<close>

definition filled_as :: "order \<Rightarrow> xpos \<Rightarrow> bool" where
  "filled_as q x \<longleftrightarrow> xp_asset x = order_asset q \<and> xp_group x = group_of (order_asset q) \<and>
     side_sign (xp_direction x) = side_sign (order_direction q) \<and>
     xp_notional x = max_zero (or_notional q) \<and> xp_risk x = max_zero (or_risk q) \<and> xp_book x = order_book q \<and>
     (case exchange_margin_leverage (or_leverage q) [] of Inl _ \<Rightarrow> False | Inr lev \<Rightarrow> xp_margin x = pf_div (xp_notional x) lev)"

lemma book_refusals: "check_book s daemon e q = Inr (Some w) \<Longrightarrow> \<not> budget_allows w"
  by (auto simp: check_book_def budget_allows_def Let_def split: if_splits sum.splits)

lemma account_allows: "budget_allows (check_account corr s eq e q) \<Longrightarrow> check_account corr s eq e q = WithinBudget"
  by (auto simp: check_account_def budget_allows_def split: if_splits)

lemma check_cases:
  assumes "check_live_portfolio_budget corr s daemon st excluded table q = Inr v" and "budget_allows v" and "budget_enabled s"
  obtains e where "live_portfolio_exposure excluded table = Inr e"
    and "check_book s daemon e q = Inr None" and "check_account corr s (order_equity q daemon st) e q = WithinBudget"
  using assms
  by (auto simp: check_live_portfolio_budget_def Let_def dest: book_refusals account_allows
        split: if_splits sum.splits option.splits)
     (simp_all add: budget_allows_def)


lemma account_caps:
  assumes "check_account corr s eq e q = WithinBudget"
  shows "\<not> pf_less (pct_of s ''live_max_total_open_risk_pct'' eq) (pf_add (ex_total e) (max_zero (or_risk q)))"
    and "\<not> pf_less (pct_of s ''live_max_asset_exposure_pct'' eq)
           (pf_abs (pf_add (ag_net (dict_get (ex_asset e) (order_asset q) no_agg)) (order_signed q)))"
    and "\<not> pf_less (pct_of s ''live_max_group_exposure_pct'' eq)
           (pf_abs (pf_add (ag_net (dict_get (ex_group e) (group_of (order_asset q)) no_agg)) (order_signed q)))"
  using assms by (auto simp: check_account_def split: if_splits)

lemma book_cap:
  assumes "check_book s daemon e q = Inr None" and "order_book q \<notin> {[], MAIN_BOOK}"
    and "exchange_margin_leverage (or_leverage q) [] = Inr lev"
  shows "\<not> pf_less (pct_of s ''live_max_book_margin_pct'' (order_book_equity q daemon))
    (pf_add (bg_margin (dict_get (ex_book e) (order_book q) no_book_agg)) (pf_div (max_zero (or_notional q)) lev))"
  using assms by (auto simp: check_book_def Let_def split: if_splits)

lemma rounded_total_near:
  assumes "py_round t 2 + a \<le> c" shows "py_round (t + a) 2 \<le> c + 1/100"
  using assms abs_le_D1 [OF py_round_near, of "t + a" 2] abs_le_D2 [OF py_round_near, of t 2] by simp

text \<open>C32: An order the portfolio budget admits keeps every cap once it is part of the book: the total risk to
  the stops (to the cent the code rounds to), the net exposure of its asset and of the asset's group, and the
  margin its own wallet ties up.\<close>

theorem admitted_order_keeps_caps:
  assumes "check_live_portfolio_budget corr s daemon st [] (Some rows) q = Inr v" and "budget_allows v" and "budget_enabled s"
    and "order_equity q daemon st = Fin eq"
    and "\<forall>r'\<in>set rows. finite_row r'" and "finite_row r"
    and "is_open_live r" and "expose_row r = Inr (Some x)" and "filled_as q x"
  shows "\<exists>e t n g m. live_portfolio_exposure [] (Some (rows @ [r])) = Inr e \<and>
    ex_total e = Fin t \<and> t \<le> budget_pct_setting s ''live_max_total_open_risk_pct'' / 100 * eq + 1/100 \<and>
    ag_net (dict_get (ex_asset e) (order_asset q) no_agg) = Fin n \<and>
      \<bar>n\<bar> \<le> budget_pct_setting s ''live_max_asset_exposure_pct'' / 100 * eq \<and>
    ag_net (dict_get (ex_group e) (group_of (order_asset q)) no_agg) = Fin g \<and>
      \<bar>g\<bar> \<le> budget_pct_setting s ''live_max_group_exposure_pct'' / 100 * eq \<and>
    bg_margin (dict_get (ex_book e) (order_book q) no_book_agg) = Fin m \<and>
      (\<forall>b. order_book q \<notin> {[], MAIN_BOOK} \<and> order_book_equity q daemon = Fin b \<longrightarrow>
         m \<le> budget_pct_setting s ''live_max_book_margin_pct'' / 100 * b)"
proof -
  obtain e0 where e0: "live_portfolio_exposure [] (Some rows) = Inr e0" "check_book s daemon e0 q = Inr None"
    "check_account corr s (Fin eq) e0 q = WithinBudget"
    using assms(1-4) by (metis check_cases)
  then obtain e1 where e1: "raw_exposure rows = Inr e1" "e0 = e1\<lparr>ex_total := pf_round (ex_total e1) 2\<rparr>"
    by (cases "raw_exposure rows") (auto simp: exposure_raw)
  let ?e = "add_exposure e1 x"
  have after: "live_portfolio_exposure [] (Some (rows @ [r])) = Inr (?e\<lparr>ex_total := pf_round (ex_total ?e) 2\<rparr>)"
    by (simp add: exposure_raw raw_exposure_append [OF assms(7,8) e1(1)])
  have fx: "finite_xpos x" using assms(6,8) by (simp add: finite_row_def)
  have fe: "finite_exposure e1" by (rule finite_raw_exposure [OF assms(5) e1(1)])
  obtain t n g m where vals: "ex_total e1 = Fin t" "ag_net (dict_get (ex_asset e1) (order_asset q) no_agg) = Fin n"
      "ag_net (dict_get (ex_group e1) (group_of (order_asset q)) no_agg) = Fin g"
      "bg_margin (dict_get (ex_book e1) (order_book q) no_book_agg) = Fin m"
    using fe by (auto simp: finite_exposure_def elim!: isfiniteE dest!: spec)
  obtain a b c where x: "xp_risk x = Fin a" "xp_notional x = Fin b" "xp_margin x = Fin c"
    using fx by (auto simp: finite_xpos_def elim!: isfiniteE)
  let ?sg = "side_sign (order_direction q)"
  have mz: "max_zero (or_risk q) = Fin a" "max_zero (or_notional q) = Fin b"
    using assms(9) x by (simp_all add: filled_as_def)
  have fill: "xp_asset x = order_asset q" "xp_group x = group_of (order_asset q)" "xp_book x = order_book q"
    "signed_notional x = Fin (?sg * b)" "order_signed q = Fin (?sg * b)"
    using assms(9) by (simp_all add: filled_as_def signed_notional_def order_signed_def x mz)
  obtain lev where lev: "exchange_margin_leverage (or_leverage q) [] = Inr lev" "pf_div (Fin b) lev = Fin c"
    using assms(9) by (auto simp: filled_as_def x mz split: sum.splits)
  have "py_round t 2 + a \<le> budget_pct_setting s ''live_max_total_open_risk_pct'' / 100 * eq"
    and cn: "\<bar>n + ?sg * b\<bar> \<le> budget_pct_setting s ''live_max_asset_exposure_pct'' / 100 * eq"
    and cg: "\<bar>g + ?sg * b\<bar> \<le> budget_pct_setting s ''live_max_group_exposure_pct'' / 100 * eq"
    using account_caps [OF e0(3)] by (simp_all add: e1(2) vals fill mz pct_of_def)
  then have ct: "py_round (t + a) 2 \<le> budget_pct_setting s ''live_max_total_open_risk_pct'' / 100 * eq + 1/100"
    by (intro rounded_total_near)
  have cb: "m + c \<le> budget_pct_setting s ''live_max_book_margin_pct'' / 100 * w"
    if "order_book q \<notin> {[], MAIN_BOOK}" "order_book_equity q daemon = Fin w" for w
    using book_cap [OF e0(2) that(1) lev(1)] by (simp add: e1(2) vals fill mz lev(2) that(2) pct_of_def)
  show ?thesis
    by (rule exI [of _ "?e\<lparr>ex_total := pf_round (ex_total ?e) 2\<rparr>"], rule exI [of _ "py_round (t + a) 2"],
        rule exI [of _ "n + ?sg * b"], rule exI [of _ "g + ?sg * b"], rule exI [of _ "m + c"])
       (use ct cn cg cb in \<open>simp add: after add_exposure_def bump_agg_get bump_book_get vals fill x\<close>)
qed

text \<open>A live trade of the demonstrations: a long of the given asset, units and stop, at leverage two.\<close>

definition demo_live :: "string \<Rightarrow> string \<Rightarrow> int \<Rightarrow> int \<Rightarrow> int \<Rightarrow> book_row" where
  "demo_live tid asset price units stop =
     \<lparr>tr_id = tid, tr_source = None, tr_strategy_id = Some ''S1'', tr_strategy = Some ''S1'', tr_asset = Some asset,
      tr_direction = Some ''long'', tr_status = Some ''OPEN'', tr_execution_type = Some ''live'', tr_size = JInt units,
      tr_leverage = JInt 2, tr_entry_price = JInt price, tr_fill_entry_price = JNull, tr_signal_entry_price = JNull,
      tr_exit_price = JNull, tr_fill_exit_price = JNull, tr_signal_exit_price = JNull, tr_pnl = JNull, tr_pnl_pct = JNull,
      tr_pnl_usd = JNull, tr_net_pnl_pct = JNull, tr_closed_at = None,
      tr_signal_data = SDict [(''stop_loss_price'', JInt stop)], br_book = Some ''long'', br_risk_pct = JNull,
      br_opened_at = None, br_created_at = None\<rparr>"

definition demo_order :: order where
  "demo_order = \<lparr>or_asset = ''eth'', or_direction = ''long'', or_risk = Fin 40, or_notional = Fin 2000,
     or_equity = JInt 10000, or_book = ''long'', or_book_equity = JInt 5000, or_leverage = JInt 2\<rparr>"

definition demo_btc :: book_row where "demo_btc = demo_live ''T1'' ''BTC'' 100 30 98"

definition demo_eth :: book_row where "demo_eth = demo_live ''T2'' ''ETH'' 100 20 98"

theorem admitted_order_keeps_caps_witness:
  "\<exists>e t. live_portfolio_exposure [] (Some ([demo_btc] @ [demo_eth])) = Inr e \<and> ex_total e = Fin t \<and> t \<le> 500 + 1/100"
proof -
  have c: "check_live_portfolio_budget (\<lambda>_ _ _. None) [] JNull \<lparr>st_state = default_risk_state, st_daily = None, st_enabled = True\<rparr>
      [] (Some [demo_btc]) demo_order = Inr WithinBudget" by code_simp
  have ok: "budget_allows WithinBudget" "budget_enabled []" by code_simp+
  have eq: "order_equity demo_order JNull \<lparr>st_state = default_risk_state, st_daily = None, st_enabled = True\<rparr> = Fin 10000" by code_simp
  have f: "\<forall>r'\<in>set [demo_btc]. finite_row r'" "finite_row demo_eth" "is_open_live demo_eth" by code_simp+
  obtain x where x: "expose_row demo_eth = Inr (Some x)" "filled_as demo_order x"
  proof -
    have "(case expose_row demo_eth of Inr (Some y) \<Rightarrow> filled_as demo_order y | _ \<Rightarrow> False)" by code_simp
    then show ?thesis using that by (auto split: sum.splits option.splits)
  qed
  have b: "budget_pct_setting [] ''live_max_total_open_risk_pct'' = 5" by code_simp
  show ?thesis using admitted_order_keeps_caps [OF c ok eq f(1,2,3) x] by (auto simp: b)
qed



section \<open>The size of a position\<close>

text \<open>C35: The computed size risks at most the risk budget over the stop distance and the round-trip costs, and
  its notional is at most the equity times the leverage, up to the six decimals the code rounds to.\<close>

theorem position_size_bounded:
  assumes "sq_entry q = Fin p" and "sq_equity q = Fin e" and "sq_risk q = Fin f" and "sq_leverage q = Fin l"
    and "0 < p" and "0 < e" and "0 < f" and "risk_per_unit q = Fin r" and "0 < r"
  shows "\<exists>n. fst (calculate_position_size q) = Fin n \<and> 0 \<le> n \<and>
    n * r \<le> e * f + r / 2000000 \<and> n * p \<le> e * (if l \<le> 0 then 1 else l) + p / 2000000"
proof -
  define lev where "lev = (if l \<le> 0 then 1 else l)"
  define raw where "raw = (if e * lev < e * f / r * p then e * lev / p else e * f / r)"
  have lev: "0 < lev" by (simp add: lev_def)
  have n: "\<not> p \<le> 0" "\<not> e \<le> 0" "\<not> f \<le> 0" using assms(5-7) by simp_all
  have cap: "0 < e * lev" using assms(6) lev by simp
  have l: "(if pf_le (sq_leverage q) (Fin 0) then Fin 1 else sq_leverage q) = Fin lev"
    by (simp add: assms(4) lev_def)
  have nonneg: "0 \<le> raw" using assms(5-9) lev by (simp add: raw_def)
  have "fst (calculate_position_size q) = pf_round (max_zero (Fin raw)) 6"
    by (simp add: calculate_position_size_def n cap l assms(1-3,8,9) Let_def raw_def)
  also have "max_zero (Fin raw) = Fin raw" using nonneg by (simp add: max_zero_def)
  finally have size: "fst (calculate_position_size q) = Fin (py_round raw 6)" by simp
  have risk: "raw * r \<le> e * f"
    using assms(5,9) by (auto simp: raw_def field_simps)
  have notional: "raw * p \<le> e * lev"
    using assms(5,9) by (auto simp: raw_def field_simps)
  have near: "py_round raw 6 \<le> raw + 1 / 2000000"
    using abs_le_D1 [OF py_round_near, of raw 6] by simp
  have "py_round raw 6 * r \<le> (raw + 1 / 2000000) * r" and "py_round raw 6 * p \<le> (raw + 1 / 2000000) * p"
    using near assms(5,9) by (simp_all add: mult_right_mono)
  then have "py_round raw 6 * r \<le> e * f + r / 2000000" and "py_round raw 6 * p \<le> e * lev + p / 2000000"
    using risk notional by (simp_all add: distrib_right)
  then show ?thesis
    using size py_round_nonneg [OF nonneg, of 6] by (auto simp: lev_def)
qed

theorem position_size_bounded_witness:
  "\<exists>n. fst (calculate_position_size \<lparr>sq_direction = ''long'', sq_entry = Fin 100, sq_stop = JInt 98, sq_equity = Fin 10000,
      sq_risk = Fin (1/100), sq_leverage = Fin 1, sq_atr = JNull, sq_fee = Fin 5, sq_slippage = Fin 5\<rparr>) = Fin n \<and>
    n * (2 + 198/1000) \<le> 10000 * (1/100) + (2 + 198/1000) / 2000000 \<and> n * 100 \<le> 10000 + 100 / 2000000"
proof -
  let ?q = "\<lparr>sq_direction = ''long'', sq_entry = Fin 100, sq_stop = JInt 98, sq_equity = Fin 10000,
      sq_risk = Fin (1/100), sq_leverage = Fin 1, sq_atr = JNull, sq_fee = Fin 5, sq_slippage = Fin 5\<rparr>"
  have r: "risk_per_unit ?q = Fin (2 + 198/1000)" by code_simp
  have h: "(0::rat) < 100" "(0::rat) < 10000" "(0::rat) < 1/100" "(0::rat) < 2 + 198/1000" by simp_all
  show ?thesis
    using position_size_bounded [of ?q 100 10000 "1/100" 1, OF _ _ _ _ h(1,2,3) r h(4)] by auto
qed

end
