(* ===== verification/Admission_Props.thy ===== *)
theory Admission_Props
  imports Budget_Props
begin

text \<open>
  What \<open>can_open\<close> guarantees: paper trading does not depend on the state of the real account, a live
  position passes every gate, a wallet or sandbox never holds two positions in an asset, the group
  budget bounds what is allocated, and a failed open is not retried at once.
\<close>

section \<open>The rules of an admitted position\<close>

lemma rest_admitted:
  assumes "can_open_rest s lims env q risk positions os = (Admitted a, os')"
  shows "rule_concurrency s q (competing s q positions) = None"
    and "rule_portfolio s env q (os_risk os) = None"
    and "is_strategy_in_loss_cooldown (oq_strategy q) (get_cooldown_after_loss_hours s) (oe_now env) (oe_trades env) = Clear"
    and "rule_asset q (competing s q positions) = None"
    and "rule_group lims q risk (competing s q positions) = Admitted a"
    and "\<not> is_paper_request q \<Longrightarrow> \<not> fst (is_strategy_in_failed_open_cooldown (oq_strategy q) (py_upper (oq_asset q))
           (py_lower (oq_direction q)) s (oe_now env) (if oe_failed_readable env then Some (oe_trades env) else None) (os_inmem os))"
  using assms
  by (auto simp: can_open_rest_def Let_def split: option.splits cooldown.splits prod.splits if_splits)

lemma rest_risk:
  "os_risk (snd (can_open_rest s lims env q risk positions os)) = os_risk os"
  by (auto simp: can_open_rest_def Let_def split: option.splits cooldown.splits prod.splits)

text \<open>The settings, limits and risk a call works with.\<close>

abbreviation env_settings :: "open_env \<Rightarrow> jobj" where
  "env_settings env \<equiv> load_risk_settings (oe_mainnet env) (oe_settings env)"

abbreviation env_limits :: "open_env \<Rightarrow> limits" where
  "env_limits env \<equiv> get_risk_limits (oe_mode env) (oe_mainnet env) (oe_settings env)"

abbreviation asked_risk :: "open_env \<Rightarrow> open_request \<Rightarrow> pyfloat" where
  "asked_risk env q \<equiv> (case oq_risk q of None \<Rightarrow> Fin (lm_per_strategy_max (env_limits env)) | Some r \<Rightarrow> r)"

lemma admitted_cases:
  assumes "can_open env q positions os = (Admitted a, os')"
  obtains st where "rule_halts env q (os_risk os) = None"
    and "\<not> (oq_enforce q \<and> pf_less (Fin (lm_max_risk (env_limits env))) (asked_risk env q))"
    and "if real_capital_mode env \<and> \<not> is_paper_request q
         then rule_venue (env_limits env) env q (os_risk os) = (None, st) else st = os_risk os"
    and "can_open_rest (env_settings env) (env_limits env) env q (asked_risk env q) positions (os\<lparr>os_risk := st\<rparr>) = (Admitted a, os')"
  using assms
  by (auto simp: can_open_def Let_def split: option.splits prod.splits if_splits)

lemma routing_keys:
  "map_of PORTFOLIO_BUDGET_DEFAULTS ''live_books_enabled'' = None"
  "map_of PORTFOLIO_BUDGET_DEFAULTS ''hyperliquid_long_book_address'' = None"
  "map_of PORTFOLIO_BUDGET_DEFAULTS ''hyperliquid_short_book_address'' = None"
  "map_of PORTFOLIO_BUDGET_DEFAULTS ''hyperliquid_named_wallets'' = None"
  by code_simp+

lemma locks_keep_routing [simp]: "routed_addr (load_risk_settings m s) l = routed_addr s l"
proof -
  have parts: "named_wallets (apply_mainnet_setting_locks s) = named_wallets s"
    "long_book_address (apply_mainnet_setting_locks s) = long_book_address s"
    "short_book_address (apply_mainnet_setting_locks s) = short_book_address s"
    by (simp_all add: named_wallets_def long_book_address_def short_book_address_def locked_settings_get routing_keys)
  have "book_address b (apply_mainnet_setting_locks s) = book_address b s" for b
    unfolding book_address_def normalize_book_def parts by (rule refl)
  then show ?thesis by (simp add: routed_addr_def load_risk_settings_def)
qed

lemma competing_locks [simp]: "competing (load_risk_settings m s) q ps = competing s q ps"
  by (simp add: competing_def)

section \<open>Paper trading\<close>

lemma paper_competing:
  assumes "is_paper_request q"
    and "paper_scope_positions ps = paper_scope_positions ps'"
  shows "competing s q ps = competing s q ps'"
proof -
  have f: "competing s q ps = filter (\<lambda>p. position_strategy_id p = oq_strategy q) (paper_scope_positions ps)" for ps
    using assms(1) by (simp add: competing_def paper_scope_positions_def conj_commute)
  show ?thesis by (simp only: f assms(2))
qed

text \<open>C29: A paper position is admitted on paper grounds alone: whatever the real account reads, whether the operator
  paused, the kill switch or the daily halt holds or the exchange cannot be reached, and whatever live positions are
  open, the verdict is the same, and the guard's state is left as it was.\<close>

theorem paper_opens_ignore_real_capital:
  assumes "is_paper_request q" and "paper_scope_positions ps = paper_scope_positions ps'"
  shows "fst (can_open (env\<lparr>oe_paused := paused, oe_recovery := recovery, oe_account := account, oe_daemon := daemon,
      oe_exposure_readable := b, oe_failed_readable := b', oe_writes := w\<rparr>) q ps' os') = fst (can_open env q ps os) \<and>
    snd (can_open env q ps os) = os"
proof -
  have paper: "rule_halts e q st = None" "rule_portfolio s e q st = None" "competing s q ps' = competing s q ps" for e s st
    using assms paper_competing [OF assms, of s] by (simp_all add: rule_halts_def rule_portfolio_def)
  show ?thesis
    using assms(1)
    by (simp add: can_open_def can_open_rest_def Let_def paper split: option.splits cooldown.splits)
qed

section \<open>Live positions\<close>

lemma halts_passed:
  assumes "rule_halts env q st = None" and "\<not> is_paper_request q"
  shows "\<not> oe_paused env \<and> \<not> fst (oe_recovery env) \<and> \<not> rs_ks_active (st_state st) \<and>
    \<not> (rs_halt (st_state st) \<and> rs_halt_date (st_state st) = Some (oe_today env))"
  using assms by (auto simp: rule_halts_def is_trading_allowed_def Let_def split: if_splits)

lemma venue_passed:
  assumes "rule_venue lims env q st = (None, st')"
  obtains acc v used where "oe_account env (order_address env q) = Inr acc"
    and "py_float (get_or_zero acc ''accountValue'' (JInt 0)) = Inr (Fin v)" and "0 < v"
    and "account_number (get_default acc ''totalMarginUsed'' (JInt 0)) = Some used"
    and "\<not> pf_le (Fin (80/100)) (pf_div used (Fin v))"
    and "if books_enabled (oe_settings env)
         then \<exists>eq. validated_books_equity (oe_now env) st = Some eq \<and> daily_gate lims env eq st = (None, st')
         else order_address env q = None \<longrightarrow> daily_gate lims env v st = (None, st')"
  using assms
  by (auto simp: rule_venue_def split: sum.splits pyfloat.splits option.splits if_splits)

lemma daily_gate_passed:
  assumes "daily_gate lims env eq st = (None, st')" and "0 < eq"
    and "st_daily st = Some d" and "dy_date d = oe_today env" and "0 < dy_start d"
  shows "- lm_daily_loss lims < (eq - dy_start d) / dy_start d"
  using assms
  by (auto simp: daily_gate_def recompute_daily_halt_from_equity_def Let_def split: if_splits prod.splits)

lemma rule_asset_none: "rule_asset q ps = None \<longleftrightarrow> (\<forall>p\<in>set ps. po_asset p \<noteq> py_upper (oq_asset q))"
proof -
  have "rule_asset q ps = None \<longleftrightarrow> find (\<lambda>p. po_asset p = py_upper (oq_asset q)) ps = None"
    by (simp add: rule_asset_def split: option.splits)
  then show ?thesis by (auto simp: find_None_iff)
qed

lemma concurrency_passed:
  "rule_concurrency s q ps = None \<Longrightarrow> max_positions s q = Some n \<Longrightarrow> int (length ps) < n"
  by (auto simp: rule_concurrency_def split: if_splits)


section \<open>One position per asset\<close>

text \<open>Where a position counts: in its strategy's sandbox or in the wallet it was routed to.\<close>

datatype pool = Sandbox string | Wallet "string option"

definition pool_of :: "jobj \<Rightarrow> open_position \<Rightarrow> pool" where
  "pool_of s p = (if is_paper_position p then Sandbox (position_strategy_id p) else Wallet (routed_addr s (po_book p)))"

definition request_pool :: "jobj \<Rightarrow> open_request \<Rightarrow> pool" where
  "request_pool s q = (if is_paper_request q then Sandbox (oq_strategy q) else Wallet (routed_addr s (oq_book q)))"

definition one_per_asset :: "jobj \<Rightarrow> open_position list \<Rightarrow> bool" where
  "one_per_asset s ps \<longleftrightarrow> (\<forall>p\<in>set ps. \<forall>p'\<in>set ps. po_asset p = po_asset p' \<and> pool_of s p = pool_of s p' \<longrightarrow> p = p')"

text \<open>A request as the callers make it: scope and, on real capital, book are named, the strategy id is stripped.\<close>

definition named_request :: "open_request \<Rightarrow> bool" where
  "named_request q \<longleftrightarrow> py_strip (opt_word (oq_type q)) \<noteq> [] \<and>
     (is_paper_request q \<or> py_strip (opt_word (oq_book q)) \<noteq> []) \<and> py_strip (oq_strategy q) = oq_strategy q"

definition serial_event :: "jobj \<Rightarrow> book_event \<Rightarrow> bool" where
  "serial_event s ev = (case ev of Opening env q tid risk entry stamp \<Rightarrow> oe_settings env = s \<and> named_request q | Closing _ \<Rightarrow> True)"

lemma competing_pool: "p \<in> set ps \<Longrightarrow> pool_of s p = request_pool s q \<Longrightarrow> p \<in> set (competing s q ps)"
  by (auto simp: competing_def pool_of_def request_pool_def split: if_splits)

lemma opt_word_none_if_empty [simp]: "opt_word (none_if_empty s) = s"
  by (simp add: opt_word_def none_if_empty_def)

lemma blank_strip: "s = [] \<Longrightarrow> py_strip s = []"
  by simp

lemma routed_strip:
  assumes "py_strip (opt_word b) \<noteq> []"
  shows "routed_addr s (none_if_empty (py_strip (opt_word b))) = routed_addr s b"
proof -
  have "opt_word b \<noteq> []" using assms blank_strip by blast
  then show ?thesis
    using assms by (simp add: routed_addr_def book_address_def normalize_book_def)
qed

lemma registered:
  assumes "named_request q"
  obtains p where "register tid q risk entry stamp rows ps = filter (\<lambda>x. po_trade_id x \<noteq> tid) ps @ [p]"
    and "po_asset p = py_upper (oq_asset q)" and "pool_of s p = request_pool s q"
proof -
  let ?t = "opt_word (oq_type q)" let ?b = "opt_word (oq_book q)"
  define book where "book = none_if_empty (fill_from_row (py_strip ?b) br_book tid rows)"
  have b: "routed_addr s book = routed_addr s (oq_book q)" if "\<not> is_paper_request q"
    using assms that by (simp add: book_def named_request_def fill_from_row_def routed_strip)
  define p where "p = \<lparr>po_trade_id = tid, po_asset = py_upper (oq_asset q), po_direction = py_lower (oq_direction q),
        po_strategy = Some (oq_strategy q), po_strategy_id = Some (oq_strategy q), po_risk_pct = risk, po_entry = entry,
        po_group = (case asset_group (py_upper (oq_asset q)) of None \<Rightarrow> ''unknown'' | Some g \<Rightarrow> g), po_opened_at = stamp,
        po_execution_type = none_if_empty (py_strip ?t), po_book = book\<rparr>"
  have r: "register tid q risk entry stamp rows ps = filter (\<lambda>x. po_trade_id x \<noteq> tid) ps @ [p]"
    using assms by (simp add: register_def insert_position_def p_def book_def named_request_def fill_from_row_def)
  have paper: "is_paper_position p = is_paper_request q"
    by (simp add: is_paper_position_def position_execution_type_def p_def is_paper_request_def)
  have "position_strategy_id p = oq_strategy q"
    using assms by (simp add: position_strategy_id_def p_def named_request_def opt_word_def)
  then have "pool_of s p = request_pool s q"
    using paper b by (simp add: pool_of_def request_pool_def) (simp add: p_def)
  with r show ?thesis by (intro that) (simp_all add: p_def)
qed

lemma register_keeps:
  assumes "one_per_asset s ps" and "named_request q" and "rule_asset q (competing s q ps) = None"
  shows "one_per_asset s (register tid q risk entry stamp rows ps)"
proof -
  obtain p where p: "register tid q risk entry stamp rows ps = filter (\<lambda>x. po_trade_id x \<noteq> tid) ps @ [p]"
    "po_asset p = py_upper (oq_asset q)" "pool_of s p = request_pool s q"
    using assms(2) by (rule registered)
  have "po_asset x \<noteq> po_asset p" if "x \<in> set ps" "pool_of s x = pool_of s p" for x
    using assms(3) competing_pool [of x ps s q] that by (simp add: rule_asset_none p)
  then show ?thesis using assms(1) by (auto simp: one_per_asset_def p(1)) metis+
qed

lemma book_step_keeps:
  assumes "one_per_asset s (fst w)" and "serial_event s ev"
  shows "one_per_asset s (fst (book_step w ev))"
proof -
  obtain ps os where w: "w = (ps, os)" by (cases w)
  show ?thesis
  proof (cases ev)
    case (Opening env q tid risk entry stamp)
    obtain v os' where c: "can_open env q ps os = (v, os')" by (cases "can_open env q ps os")
    show ?thesis
    proof (cases v)
      case (Admitted a)
      then have "can_open env q ps os = (Admitted a, os')" using c by simp
      then have "rule_asset q (competing (env_settings env) q ps) = None"
        by (rule admitted_cases) (rule rest_admitted(4))
      then have "rule_asset q (competing s q ps) = None"
        using assms(2) by (simp add: Opening serial_event_def)
      then show ?thesis
        using assms Admitted c by (auto simp: w Opening serial_event_def intro: register_keeps)
    qed (use assms c in \<open>auto simp: w Opening\<close>)
  next
    case (Closing tid)
    then show ?thesis using assms(1) by (auto simp: w release_def one_per_asset_def)
  qed
qed

interpretation serial: guarded_run book_step "\<lambda>w. one_per_asset s (fst w)" "serial_event s" for s
  by unfold_locales (rule book_step_keeps)

text \<open>C31: Whatever positions are opened and closed, one after the other, a wallet never holds two positions in
  one asset, nor does the sandbox of a paper strategy.\<close>

theorem one_position_per_asset:
  assumes "\<forall>ev\<in>set evs. serial_event s ev"
  shows "one_per_asset s (fst (foldl book_step ([], os) evs))"
  by (rule serial.guarded_inv [OF _ assms]) (simp add: one_per_asset_def)

section \<open>The budget of a correlation group\<close>

lemma clamp_fits:
  assumes "1/1000 < r" shows "py_round (r * (95/100)) 4 \<le> (r :: rat)" and "0 \<le> py_round (r * (95/100)) 4"
  using abs_le_D1 [OF py_round_near, of "r * (95/100)" 4] assms by (simp_all add: py_round_nonneg)

text \<open>What is allocated never takes the net risk of the correlation group, as the positions competing with the
  request make it, past the portfolio budget, and is never more than what was asked for.\<close>

lemma group_budget_respected:
  assumes "can_open env q ps os = (Admitted (Fin a), os')" and "oq_enforce q"
    and "gx_net (get_group_exposure (group_of (py_upper (oq_asset q))) (competing (oe_settings env) q ps)) = Fin net"
    and "asked_risk env q = Fin r" and "0 \<le> r"
  shows "\<bar>if py_lower (oq_direction q) = ''long'' then net + a else net - a\<bar> \<le> lm_portfolio_budget (env_limits env) \<and> a \<le> r"
proof -
  let ?b = "lm_portfolio_budget (env_limits env)"
  from assms(1) have "rule_group (env_limits env) q (Fin r) (competing (env_settings env) q ps) = Admitted (Fin a)"
    unfolding assms(4) [symmetric] by (rule admitted_cases) (rule rest_admitted(5))
  then have g: "rule_group (env_limits env) q (Fin r) (competing (oe_settings env) q ps) = Admitted (Fin a)" by simp
  define new where "new = (if py_lower (oq_direction q) = ''long'' then net + r else net - r)"
  show ?thesis
  proof (cases "?b < \<bar>new\<bar>")
    case False
    then have "a = r" using g assms(2,3) by (auto simp: rule_group_def Let_def new_def split: if_splits)
    then show ?thesis using False by (auto simp: new_def)
  next
    case True
    then have big: "pf_less (Fin ?b) (pf_abs (if py_lower (oq_direction q) = ''long'' then pf_add (Fin net) (Fin r) else pf_sub (Fin net) (Fin r)))"
      by (auto simp: new_def)
    have m: "1/1000 < ?b - \<bar>net\<bar>" and a: "a = py_round ((?b - \<bar>net\<bar>) * (95/100)) 4"
      using g assms(2) big by (auto simp: rule_group_def Let_def assms(3) split: if_splits)
    have "0 \<le> a" "a \<le> ?b - \<bar>net\<bar>" using clamp_fits [OF m] by (simp_all add: a)
    moreover have "\<bar>new\<bar> \<le> \<bar>net\<bar> + r" using assms(5) by (auto simp: new_def abs_le_iff abs_if)
    ultimately show ?thesis using True by (auto simp: abs_le_iff abs_if split: if_splits)
  qed
qed

section \<open>Flips\<close>

text \<open>With a single wallet a live position can not be flipped: the gate for the opposite side still sees the
  position that is to be closed and refuses a second one in the asset.\<close>

lemma single_wallet_flip_is_refused:
  assumes "\<not> books_enabled (oe_settings env)" and "p \<in> set ps" and "\<not> is_paper_position p"
    and "po_book p = Some MAIN_BOOK" and "po_asset p = py_upper (opt_word (tr_asset r))"
  shows "flip_preflight env r ps os \<noteq> Inr (Admitted a, os')"
proof
  assume f: "flip_preflight env r ps os = Inr (Admitted a, os')"
  let ?q = "flip_request r MAIN_BOOK"
  have "can_open env ?q ps os = (Admitted a, os')"
    using f assms(1) by (simp add: flip_preflight_def resolve_open_book_def split: if_splits)
  then have "rule_asset ?q (competing (env_settings env) ?q ps) = None"
    by (rule admitted_cases) (rule rest_admitted(4))
  then have "rule_asset ?q (competing (oe_settings env) ?q ps) = None" by simp
  moreover have "p \<in> set (competing (oe_settings env) ?q ps)"
  proof -
    have "\<not> is_paper_request ?q" unfolding is_paper_request_def flip_request_def by simp code_simp
    then show ?thesis using assms(2-4) by (simp add: competing_def) (simp add: flip_request_def)
  qed
  ultimately show False using assms(5) by (auto simp: rule_asset_none flip_request_def)
qed

section \<open>Failed opens\<close>

lemma or_word_idem [simp]: "or_word (or_word s d) d = or_word s d"
  by (simp add: or_word_def)

lemma long_word [simp]: "py_strip ''long'' = ''long''" "py_lower ''long'' = ''long''"
  by code_simp+

lemma key_normal:
  assumes "failed_open_inmem_key s a d = (ks, ka, kd)"
  shows "failed_open_inmem_key ks ka kd = (ks, ka, kd)" and "failed_open_inmem_key s (py_upper a) (py_lower d) = (ks, ka, kd)"
  using assms
  by (auto simp: failed_open_inmem_key_def strip_upper strip_lower or_word_def py_lower_eq_Nil split: if_splits)

lemma prune_small:
  assumes "0 < w" and "length m \<le> FAILED_OPEN_MAX_ENTRIES"
  shows "prune_failed_open_inmem now (Fin w) m = filter (\<lambda>p. \<not> pf_less (Fin w) (seconds_between (snd p) now)) m"
proof -
  have "length (filter (\<lambda>p. \<not> pf_less (Fin w) (seconds_between (snd p) now)) m) \<le> FAILED_OPEN_MAX_ENTRIES"
    using assms(2) by (meson length_filter_le le_trans)
  then show ?thesis using assms(1) by (simp add: prune_failed_open_inmem_def Let_def)
qed

lemma map_of_filter_kept:
  "distinct (map fst m) \<Longrightarrow> map_of m k = Some v \<Longrightarrow> P (k, v) \<Longrightarrow> map_of (filter P m) k = Some v"
  by (induction m) (auto simp: map_of_eq_None_iff [symmetric] split: if_splits)

lemma fresh_failure_cools:
  assumes "distinct (map fst m)" and "length m \<le> FAILED_OPEN_MAX_ENTRIES"
    and "map_of m (failed_open_inmem_key s a d) = Some ts" and "ts \<le> now" and "of_int (now - ts) < minutes * 60000000"
  shows "pf_less (Fin 0) (fst (failed_open_inmem_remaining s a d (Fin minutes) now m))"
proof -
  have pos: "0 < minutes" using assms(4,5) by (smt (verit) of_int_nonneg zero_less_mult_pos2 le_less_trans diff_ge_0_iff_ge zero_less_numeral)
  let ?P = "\<lambda>p. \<not> pf_less (Fin (minutes * 60)) (seconds_between (snd p) now)"
  have "map_of (filter ?P m) (failed_open_inmem_key s a d) = Some ts"
    using assms(5) by (intro map_of_filter_kept assms(1,3)) (simp add: seconds_between_def field_simps)
  then show ?thesis
    using pos assms(2,5) by (simp add: failed_open_inmem_remaining_def prune_small max_zero_def seconds_between_def field_simps)
qed

lemma no_recorded_failure:
  assumes "failed_open_inmem_key s a d = (ks, ka, kd)" and "ks \<noteq> []" and "ka \<noteq> []"
    and "get_failed_open_cooldown_minutes st = Fin minutes" and "0 < minutes"
    and "table = None \<or> failed_open_rows ks ka kd (the table) = []"
  shows "is_strategy_in_failed_open_cooldown s (py_upper a) (py_lower d) st now table m =
    (pf_less (Fin 0) (fst (failed_open_inmem_remaining ks ka kd (Fin minutes) now m)),
     snd (failed_open_inmem_remaining ks ka kd (Fin minutes) now m))"
proof -
  have "failed_open_times w now (case table of None \<Rightarrow> [] | Some rows \<Rightarrow> failed_open_rows ks ka kd rows) = []" for w
    using assms(6) by (auto simp: failed_open_times_def split: option.splits)
  then show ?thesis
    using assms(2-5)
    by (simp add: is_strategy_in_failed_open_cooldown_def key_normal(2) [OF assms(1)] Let_def split: prod.splits)
qed

lemma registered_failure:
  assumes "failed_open_inmem_key s a d = (ks, ka, kd)" and "ks \<noteq> []" and "ka \<noteq> []" and "distinct (map fst m)"
  shows "map_of (register_failed_open_inmem_cooldown s a d ts m) (ks, ka, kd) = Some ts"
    and "distinct (map fst (register_failed_open_inmem_cooldown s a d ts m))"
  using assms
  by (auto simp: register_failed_open_inmem_cooldown_def map_of_dict_set prune_failed_open_inmem_def Let_def
      intro!: distinct_dict_set distinct_map_filter)

text \<open>A live open that failed is not sent again before its cooldown has passed, even if the failure could not be
  written to the database: the process remembers it, whether the database cannot be read or knows of no failure of the
  same strategy, asset and direction.\<close>

lemma failed_open_is_braked:
  assumes "\<not> is_paper_request q"
    and "failed_open_inmem_key (oq_strategy q) (oq_asset q) (oq_direction q) = (ks, ka, kd)" and "ks \<noteq> []" and "ka \<noteq> []"
    and "distinct (map fst m)"
    and "os_inmem os = register_failed_open_inmem_cooldown (oq_strategy q) (oq_asset q) (oq_direction q) ts m"
    and "length (os_inmem os) \<le> FAILED_OPEN_MAX_ENTRIES"
    and "get_failed_open_cooldown_minutes (env_settings env) = Fin minutes"
    and "ts \<le> oe_now env" and "of_int (oe_now env - ts) < minutes * 60000000"
    and "\<not> oe_failed_readable env \<or> failed_open_rows ks ka kd (oe_trades env) = []"
  shows "can_open env q ps os \<noteq> (Admitted a, os')"
proof
  assume "can_open env q ps os = (Admitted a, os')"
  then have clear: "\<not> fst (is_strategy_in_failed_open_cooldown (oq_strategy q) (py_upper (oq_asset q))
      (py_lower (oq_direction q)) (env_settings env) (oe_now env)
      (if oe_failed_readable env then Some (oe_trades env) else None) (os_inmem os))"
    by (rule admitted_cases) (use rest_admitted(6) [OF _ assms(1)] in fastforce)
  have pos: "0 < minutes"
  proof -
    have "0 \<le> (of_int (oe_now env - ts) :: rat)" using assms(9) by simp
    then show ?thesis using assms(10) by simp
  qed
  have m: "map_of (os_inmem os) (failed_open_inmem_key ks ka kd) = Some ts" "distinct (map fst (os_inmem os))"
    unfolding assms(6) key_normal(1) [OF assms(2)] by (rule registered_failure [OF assms(2-5)])+
  have "pf_less (Fin 0) (fst (failed_open_inmem_remaining ks ka kd (Fin minutes) (oe_now env) (os_inmem os)))"
    by (rule fresh_failure_cools [OF m(2) assms(7) m(1) assms(9,10)])
  then show False
    using clear assms(11) by (simp add: no_recorded_failure [OF assms(2-4) assms(8) pos])
qed

section \<open>The properties at concrete inputs\<close>

definition demo_env :: "jobj \<Rightarrow> open_env" where
  "demo_env settings = \<lparr>oe_settings = settings, oe_mode = ''live'', oe_mainnet = False, oe_paused = False, oe_recovery = (False, []),
     oe_now = 63900000000000000, oe_today = 739583,
     oe_account = (\<lambda>_. Inr [(''accountValue'', JInt 10000), (''totalMarginUsed'', JInt 500)]), oe_daemon = JNull,
     oe_trades = [], oe_exposure_readable = True, oe_failed_readable = True, oe_writes = (\<lambda>_. True)\<rparr>"

definition demo_request :: "string \<Rightarrow> string \<Rightarrow> open_request" where
  "demo_request scope asset = \<lparr>oq_asset = asset, oq_direction = ''long'', oq_strategy = ''S1'', oq_risk = None,
     oq_type = Some scope, oq_book = Some ''main'', oq_enforce = True\<rparr>"

definition demo_guard :: "bool \<Rightarrow> open_state" where
  "demo_guard killed = \<lparr>os_risk = \<lparr>st_state = default_risk_state\<lparr>rs_ks_active := killed\<rparr>, st_daily = None, st_enabled = True\<rparr>,
     os_inmem = []\<rparr>"

theorem paper_opens_ignore_real_capital_witness:
  "fst (can_open ((demo_env [])\<lparr>oe_paused := True, oe_recovery := (True, []), oe_account := \<lambda>_. Inl RuntimeError, oe_daemon := JNull,
      oe_exposure_readable := False, oe_failed_readable := False, oe_writes := \<lambda>_. False\<rparr>) (demo_request ''paper'' ''BTC'') []
      (demo_guard True)) = Admitted (Fin (1/100))"
proof -
  have p: "is_paper_request (demo_request ''paper'' ''BTC'')" by code_simp
  have a: "fst (can_open (demo_env []) (demo_request ''paper'' ''BTC'') [] (demo_guard False)) = Admitted (Fin (1/100))" by code_simp
  show ?thesis by (rule trans [OF conjunct1 [OF paper_opens_ignore_real_capital [OF p refl]] a])
qed


theorem one_position_per_asset_witness:
  "one_per_asset [] (fst (foldl book_step ([], demo_guard False)
     [Opening (demo_env []) (demo_request ''live'' ''BTC'') ''T1'' JNull JNull [],
      Opening (demo_env []) (demo_request ''live'' ''BTC'') ''T2'' JNull JNull [], Closing ''T1'']))"
proof -
  have "\<forall>ev\<in>set [Opening (demo_env []) (demo_request ''live'' ''BTC'') ''T1'' JNull JNull [],
      Opening (demo_env []) (demo_request ''live'' ''BTC'') ''T2'' JNull JNull [], Closing ''T1'']. serial_event [] ev"
    by code_simp
  then show ?thesis by (rule one_position_per_asset)
qed

definition demo_position :: open_position where
  "demo_position = \<lparr>po_trade_id = ''T1'', po_asset = ''BTC'', po_direction = ''long'', po_strategy = Some ''S1'',
     po_strategy_id = Some ''S1'', po_risk_pct = JNull, po_entry = JNull, po_group = ''crypto_major'', po_opened_at = [],
     po_execution_type = Some ''live'', po_book = Some ''main''\<rparr>"

end
