(* ===== verification/Probation_Rules.thy ===== *)
theory Probation_Rules
  imports Pyfloat
begin

text \<open>
  The rules of live probation (\<open>src/forven/probation_rules.py\<close>), which read values and decide: the settings with
  their bounds, the size ladder, the drawdown and losing streak of a series of trades, the demotion triggers and
  the exchange's minimum order. The pseudo-random draws of the expected band are the argument \<open>pick\<close>.
\<close>

section \<open>Settings\<close>

text \<open>A setting: its key, its bounds, whether it is a whole number, and its default.\<close>

record knob_spec =
  ks_key :: string
  ks_low :: rat
  ks_high :: rat
  ks_whole :: bool
  ks_default :: rat

definition spec :: "string \<Rightarrow> rat \<Rightarrow> rat \<Rightarrow> bool \<Rightarrow> rat \<Rightarrow> knob_spec" where
  "spec k l h w d = \<lparr>ks_key = k, ks_low = l, ks_high = h, ks_whole = w, ks_default = d\<rparr>"

definition BOUNDS :: "knob_spec list" where
  "BOUNDS =
    [spec ''confirm_trades'' 0 100 True 3,
     spec ''slow_pace_per_month'' 0 1000 False 3,
     spec ''slow_confirm_trades'' 0 100 True 1,
     spec ''slow_confirm_days'' 0 365 True 21,
     spec ''min_cost_coverage'' 0 100 False 2,
     spec ''start_size_pct'' 1 100 False 25,
     spec ''step_trades'' 0 1000 True 5,
     spec ''step_size_pct'' 1 100 False 50,
     spec ''graduate_trades'' 0 1000 True 10,
     spec ''max_strategies'' 0 1000 True 10,
     spec ''demote_drawdown_multiple'' (1/10) 100 False (3/2),
     spec ''demote_streak_extra'' 0 1000 True 2,
     spec ''demote_band_percentile'' 0 50 False 5,
     spec ''demote_band_min_trades'' 1 1000 True 3,
     spec ''demote_cost_multiple'' (1/10) 100 False 2,
     spec ''demote_cost_min_trades'' 1 1000 True 5,
     spec ''demote_mismatch_trades'' 1 1000 True 2,
     spec ''demote_sequential_min_trades'' 2 1000 True 5,
     spec ''reentry_cooldown_days'' 0 3650 True 30,
     spec ''archive_after_demotions'' 0 100 True 2]"

type_synonym knobs = "(string \<times> rat) list"

definition knob :: "knobs \<Rightarrow> string \<Rightarrow> rat" where
  "knob k key = (case map_of k key of None \<Rightarrow> 0 | Some v \<Rightarrow> v)"

text \<open>\<open>max(low, min(high, x))\<close>; a NaN becomes the upper bound, because \<open>min\<close> keeps its first argument.\<close>

definition clamp_knob :: "rat \<Rightarrow> rat \<Rightarrow> pyfloat \<Rightarrow> rat" where
  "clamp_knob low high x =
     (case (if pf_less x (Fin high) then x else Fin high) of
        Fin q \<Rightarrow> max low q | _ \<Rightarrow> low)"

text \<open>The cast raises on other values, and an OverflowError of \<open>int\<close> is not caught.\<close>

definition cast_knob :: "bool \<Rightarrow> jv \<Rightarrow> pyfloat result" where
  "cast_knob whole v = (if whole then map_sum id (\<lambda>i. Fin (of_int i)) (py_int v) else py_float v)"

definition read_knob :: "jobj \<Rightarrow> knob_spec \<Rightarrow> rat result" where
  "read_knob block s =
     (case map_of block (ks_key s) of
        None \<Rightarrow> Inr (max (ks_low s) (min (ks_high s) (ks_default s)))
      | Some v \<Rightarrow>
          (case cast_knob (ks_whole s) v of
             Inl OverflowError \<Rightarrow> Inl OverflowError
           | Inl _ \<Rightarrow> Inr (ks_default s)
           | Inr x \<Rightarrow> Inr (clamp_knob (ks_low s) (ks_high s) x)))"

fun read_knobs :: "jobj \<Rightarrow> knob_spec list \<Rightarrow> knobs result" where
  "read_knobs block [] = Inr []"
| "read_knobs block (s # ss) =
     (case read_knob block s of Inl e \<Rightarrow> Inl e
      | Inr v \<Rightarrow> map_sum id (\<lambda>ks. (ks_key s, v) # ks) (read_knobs block ss))"

definition raise_steps :: "knobs \<Rightarrow> knobs" where
  "raise_steps k =
     (let k1 = dict_set ''step_size_pct'' (max (knob k ''step_size_pct'') (knob k ''start_size_pct'')) k
      in dict_set ''graduate_trades'' (max (knob k1 ''graduate_trades'') (knob k1 ''step_trades'')) k1)"

definition settings :: "jv \<Rightarrow> knobs result" where
  "settings config =
     (let block = (case config of JObj c \<Rightarrow> (case jget c ''probation'' of JObj b \<Rightarrow> b | _ \<Rightarrow> []) | _ \<Rightarrow> [])
      in map_sum id raise_steps (read_knobs block BOUNDS))"

record switches =
  au_entry :: bool
  au_graduate :: bool
  au_demote :: bool

definition AUTOMATION_DEFAULTS :: switches where
  "AUTOMATION_DEFAULTS = \<lparr>au_entry = False, au_graduate = False, au_demote = True\<rparr>"

definition bool_or :: "jv \<Rightarrow> bool \<Rightarrow> bool" where
  "bool_or v d = (case v of JBool b \<Rightarrow> b | _ \<Rightarrow> d)"

definition automation :: "jv \<Rightarrow> switches" where
  "automation raw =
     (let r = (case raw of JObj d \<Rightarrow> d | _ \<Rightarrow> [])
      in \<lparr>au_entry = bool_or (jget r ''auto_entry'') (au_entry AUTOMATION_DEFAULTS),
          au_graduate = bool_or (jget r ''auto_graduate'') (au_graduate AUTOMATION_DEFAULTS),
          au_demote = bool_or (jget r ''auto_demote'') (au_demote AUTOMATION_DEFAULTS)\<rparr>)"

section \<open>The size ladder\<close>

definition ladder_size_pct :: "int \<Rightarrow> knobs \<Rightarrow> rat" where
  "ladder_size_pct n k =
     (if knob k ''graduate_trades'' \<le> of_int n then 100
      else if knob k ''step_trades'' \<le> of_int n then knob k ''step_size_pct''
      else knob k ''start_size_pct'')"

definition next_step :: "int \<Rightarrow> knobs \<Rightarrow> (rat \<times> rat) option" where
  "next_step n k =
     (if of_int n < knob k ''step_trades'' \<and> knob k ''start_size_pct'' < knob k ''step_size_pct''
      then Some (knob k ''step_trades'', knob k ''step_size_pct'')
      else if of_int n < knob k ''graduate_trades'' then Some (knob k ''graduate_trades'', 100)
      else None)"

section \<open>Per-trade returns\<close>

definition median :: "rat list \<Rightarrow> rat" where
  "median xs =
     (let s = sort xs; n = length xs
      in if odd n then s ! (n div 2) else (s ! (n div 2 - 1) + s ! (n div 2)) / 2)"

fun finite_returns :: "pyfloat option list \<Rightarrow> rat list" where
  "finite_returns [] = []"
| "finite_returns (Some (Fin q) # rs) = q # finite_returns rs"
| "finite_returns (_ # rs) = finite_returns rs"

definition normalise_backtest_returns :: "pyfloat option list \<Rightarrow> rat list" where
  "normalise_backtest_returns rs =
     (let fs = finite_returns rs
      in if fs \<noteq> [] \<and> 1/2 < median (map abs fs) then map (\<lambda>r. r / 100) fs else fs)"

text \<open>\<open>float(v or d)\<close>, None where it raises a TypeError or a ValueError.\<close>

definition float_or :: "jv \<Rightarrow> rat \<Rightarrow> pyfloat option" where
  "float_or v d = (if truthy v then (case py_float v of Inl _ \<Rightarrow> None | Inr f \<Rightarrow> Some f) else Some (Fin d))"

definition dollar_return :: "jv \<Rightarrow> pyfloat \<Rightarrow> pyfloat \<Rightarrow> pyfloat \<Rightarrow> rat option" where
  "dollar_return pnl entry units lev =
     (if pf_less (Fin 0) entry \<and> pf_less (Fin 0) units \<and> pnl \<noteq> JNull
      then (case py_float pnl of
              Inl _ \<Rightarrow> None
            | Inr p \<Rightarrow>
                (let d = pf_div (pf_mul entry units) lev
                 in if d = Fin 0 then None else case pf_div p d of Fin q \<Rightarrow> Some q | _ \<Rightarrow> None))
      else None)"

definition margin_return :: "jobj \<Rightarrow> pyfloat option" where
  "margin_return row =
     (case (float_or (jget row ''entry_price'') 0, float_or (jget row ''size'') 0, float_or (jget row ''leverage'') 1) of
        (Some entry, Some s, Some l) \<Rightarrow>
          (let lev = (if l = Fin 0 then Fin 1 else l);
               pnl = (if jget row ''pnl_usd'' = JNull then jget row ''pnl'' else jget row ''pnl_usd'')
           in case dollar_return pnl entry (pf_abs s) lev of
                Some q \<Rightarrow> Some (Fin q)
              | None \<Rightarrow>
                  (case float_or (jget row ''exit_price'') 0 of
                     None \<Rightarrow> None
                   | Some exit \<Rightarrow>
                       if pf_le entry (Fin 0) \<or> pf_le exit (Fin 0) then None
                       else let sign = (if py_lower (py_strip (case jget row ''direction'' of JStr d \<Rightarrow> d | _ \<Rightarrow> [])) = ''short''
                                        then Fin (- 1) else Fin 1)
                            in Some (pf_mul (pf_mul (pf_div (pf_sub exit entry) entry) sign) lev)))
      | _ \<Rightarrow> None)"

text \<open>The running sum, its peak and the deepest fall so far.\<close>

definition drawdown_step :: "rat \<times> rat \<times> rat \<Rightarrow> rat \<Rightarrow> rat \<times> rat \<times> rat" where
  "drawdown_step s r =
     (case s of (acc, high, worst) \<Rightarrow>
        let t = acc + r; p = max high t in (t, p, max worst (p - t)))"

definition max_drawdown :: "rat list \<Rightarrow> rat" where
  "max_drawdown rs = snd (snd (foldl drawdown_step (0, 0, 0) rs))"

definition streak_step :: "nat \<times> nat \<Rightarrow> rat \<Rightarrow> nat \<times> nat" where
  "streak_step s r = (case s of (best, run) \<Rightarrow> let run' = (if r < 0 then run + 1 else 0) in (max best run', run'))"

definition longest_losing_streak :: "rat list \<Rightarrow> nat" where
  "longest_losing_streak rs = fst (foldl streak_step (0, 0) rs)"

section \<open>Demotion\<close>

definition DRAWS :: nat where "DRAWS = 2000"

text \<open>\<open>pick n i j\<close> is the index the generator seeded with \<open>n\<close> chooses for trade \<open>j\<close> of draw \<open>i\<close>.\<close>

definition band_floor :: "(nat \<Rightarrow> nat \<Rightarrow> nat \<Rightarrow> nat) \<Rightarrow> rat list \<Rightarrow> nat \<Rightarrow> rat \<Rightarrow> rat option" where
  "band_floor pick backtest n percentile =
     (if n = 0 \<or> length backtest < 5 then None
      else let outcomes = sort (map (\<lambda>i. sum_list (map (\<lambda>j. backtest ! (pick n i j mod length backtest)) [0..<n])) [0..<DRAWS]);
               index = max 0 (min (int DRAWS - 1) \<lfloor>percentile / 100 * of_nat DRAWS\<rfloor>)
           in Some (outcomes ! nat index))"

datatype trigger = Drawdown | LosingStreak | BelowBand | SequentialFail | Costs | SignalMismatch

record cost_stats =
  cs_trades :: int
  cs_measured :: "rat option"
  cs_modeled :: "rat option"

definition track_triggers :: "(nat \<Rightarrow> nat \<Rightarrow> nat \<Rightarrow> nat) \<Rightarrow> rat list \<Rightarrow> rat list \<Rightarrow> knobs \<Rightarrow> trigger list" where
  "track_triggers pick live backtest k =
     (let n = length live; dd = max_drawdown backtest
      in if n = 0 \<or> length backtest < 5 then []
         else (if 0 < dd \<and> knob k ''demote_drawdown_multiple'' * dd < max_drawdown live then [Drawdown] else [])
            @ (if of_nat (longest_losing_streak backtest) + knob k ''demote_streak_extra'' < of_nat (longest_losing_streak live)
               then [LosingStreak] else [])
            @ (if knob k ''demote_band_min_trades'' \<le> of_nat n
               then (case band_floor pick backtest n (knob k ''demote_band_percentile'') of
                       None \<Rightarrow> [] | Some f \<Rightarrow> if sum_list live < f then [BelowBand] else [])
               else []))"

definition cost_trigger :: "cost_stats option \<Rightarrow> knobs \<Rightarrow> trigger list" where
  "cost_trigger cost k =
     (case cost of None \<Rightarrow> [] | Some c \<Rightarrow>
        (case (cs_measured c, cs_modeled c) of
           (Some m, Some e) \<Rightarrow>
             if knob k ''demote_cost_min_trades'' \<le> of_int (cs_trades c) \<and> 0 < e \<and> knob k ''demote_cost_multiple'' * e < m
             then [Costs] else []
         | _ \<Rightarrow> []))"

definition demotion_reasons ::
  "(nat \<Rightarrow> nat \<Rightarrow> nat \<Rightarrow> nat) \<Rightarrow> rat list \<Rightarrow> rat list \<Rightarrow> knobs \<Rightarrow> string option \<Rightarrow> cost_stats option \<Rightarrow> int \<Rightarrow> trigger list" where
  "demotion_reasons pick live backtest k sequential cost mismatched =
     track_triggers pick live backtest k
     @ (if sequential = Some ''fail'' then [SequentialFail] else [])
     @ cost_trigger cost k
     @ (if knob k ''demote_mismatch_trades'' \<le> of_int mismatched then [SignalMismatch] else [])"

section \<open>The minimum order\<close>

record order_ask =
  oa_units :: rat
  oa_full :: rat
  oa_price :: rat
  oa_minimum :: rat
  oa_stop :: "rat option"
  oa_cap :: "rat option"

datatype order_answer = Send rat | TooSmall | TooRisky

definition min_order_units :: "order_ask \<Rightarrow> order_answer" where
  "min_order_units a =
     (if oa_price a \<le> 0 \<or> oa_units a \<le> 0 then Send (oa_units a)
      else if oa_minimum a \<le> oa_units a * oa_price a then Send (oa_units a)
      else if oa_full a * oa_price a + 1 / 1000000000 < oa_minimum a then TooSmall
      else let floored = min (oa_minimum a * (105/100) / oa_price a) (oa_full a)
           in case (oa_stop a, oa_cap a) of
                (Some p, Some cap) \<Rightarrow>
                  if p \<noteq> 0 \<and> cap + 1 / 1000000000 < \<bar>oa_price a - p\<bar> * floored then TooRisky else Send floored
              | _ \<Rightarrow> Send floored)"

end
