(* ===== verification/Dethrone_Cooldown.thy ===== *)
theory Dethrone_Cooldown
  imports Pytime
begin

text \<open>
  The deny cooldown of dethrone recommendations (\<open>src/forven/dethrone_cooldown.py\<close>): the state kept per strategy
  under one key, how long a denial suppresses new recommendations, and when it is forgotten. A timestamp the program
  wrote itself is the instant it printed; any other is a text. The key-value table is a function of the strategy.
\<close>

section \<open>Timestamps\<close>

datatype stamp = Stamp int | Text string

definition stamp_instant :: "stamp \<Rightarrow> int option" where
  "stamp_instant s = (case s of Stamp t \<Rightarrow> Some t | Text w \<Rightarrow> if w = [] then None else iso_instant (py_strip w))"

definition parse_iso_utc :: "stamp option \<Rightarrow> int option" where
  "parse_iso_utc v = (case v of None \<Rightarrow> None | Some s \<Rightarrow> stamp_instant s)"

section \<open>The state\<close>

text \<open>A stored value: nothing, the bare expiry of older versions, a dict, or anything else.\<close>

datatype cooldown_value = NoValue | BareText string | Entry "stamp option" jv "stamp option" | OtherValue

record cooldown =
  cd_until :: "stamp option"
  cd_count :: int
  cd_denied_at :: "stamp option"

definition empty_cooldown :: cooldown where
  "empty_cooldown = \<lparr>cd_until = None, cd_count = 0, cd_denied_at = None\<rparr>"

definition strip_stamp :: "stamp option \<Rightarrow> stamp option" where
  "strip_stamp v = (case v of Some (Text w) \<Rightarrow> if w = [] then None else Some (Text (py_strip w)) | _ \<Rightarrow> v)"

definition deny_count_of :: "jv \<Rightarrow> int" where
  "deny_count_of v = (if truthy v then (case py_int v of Inl _ \<Rightarrow> 0 | Inr i \<Rightarrow> max 0 i) else 0)"

definition cooldown_of_value :: "cooldown_value \<Rightarrow> cooldown" where
  "cooldown_of_value v =
     (case v of
        BareText w \<Rightarrow> if py_strip w = [] then empty_cooldown
                      else \<lparr>cd_until = Some (Text (py_strip w)), cd_count = 1, cd_denied_at = None\<rparr>
      | Entry u c d \<Rightarrow> \<lparr>cd_until = strip_stamp u, cd_count = deny_count_of c,
                        cd_denied_at = (if d = Some (Text []) then None else d)\<rparr>
      | _ \<Rightarrow> empty_cooldown)"

type_synonym cooldowns = "string \<Rightarrow> cooldown_value"

definition get_dethrone_cooldown_state :: "string \<Rightarrow> cooldowns \<Rightarrow> cooldown" where
  "get_dethrone_cooldown_state strategy_id kv =
     (let sid = py_strip strategy_id in if sid = [] then empty_cooldown else cooldown_of_value (kv sid))"

definition dethrone_cooldown_active_until :: "int \<Rightarrow> string \<Rightarrow> cooldowns \<Rightarrow> int option" where
  "dethrone_cooldown_active_until now strategy_id kv =
     (case parse_iso_utc (cd_until (get_dethrone_cooldown_state strategy_id kv)) of
        None \<Rightarrow> None | Some u \<Rightarrow> if now < u then Some u else None)"

definition DENY_COOLDOWN_ESCALATION_HOURS :: "int list" where
  "DENY_COOLDOWN_ESCALATION_HOURS = [24, 72, 168]"

definition hour_micros :: int where "hour_micros = 3600000000"

definition deny_hours :: "int \<Rightarrow> int" where
  "deny_hours n = DENY_COOLDOWN_ESCALATION_HOURS ! nat (min (n - 1) (int (length DENY_COOLDOWN_ESCALATION_HOURS) - 1))"

definition record_dethrone_deny :: "int \<Rightarrow> string \<Rightarrow> cooldowns \<Rightarrow> cooldowns" where
  "record_dethrone_deny now strategy_id kv =
     (let sid = py_strip strategy_id
      in if sid = [] then kv
         else let n = cd_count (get_dethrone_cooldown_state sid kv) + 1
              in kv(sid := Entry (Some (Stamp (now + deny_hours n * hour_micros))) (JInt n) (Some (Stamp now))))"

definition clear_dethrone_cooldown :: "string \<Rightarrow> cooldowns \<Rightarrow> cooldowns" where
  "clear_dethrone_cooldown strategy_id kv =
     (let sid = py_strip strategy_id in if sid = [] then kv else kv(sid := NoValue))"

section \<open>Denials escalate\<close>

lemma cooldown_of_deny:
  assumes "py_strip sid \<noteq> []"
  shows "get_dethrone_cooldown_state sid (record_dethrone_deny now sid kv) =
    (let n = cd_count (get_dethrone_cooldown_state sid kv) + 1
     in \<lparr>cd_until = Some (Stamp (now + deny_hours n * hour_micros)), cd_count = max 0 n, cd_denied_at = Some (Stamp now)\<rparr>)"
  using assms
  by (simp add: get_dethrone_cooldown_state_def record_dethrone_deny_def cooldown_of_value_def strip_stamp_def
      deny_count_of_def Let_def)

lemma cooldown_count_nonneg: "0 \<le> cd_count (get_dethrone_cooldown_state sid kv)"
  by (simp add: get_dethrone_cooldown_state_def cooldown_of_value_def empty_cooldown_def deny_count_of_def Let_def
      split: cooldown_value.split sum.split)

lemma deny_hours_known:
  assumes "1 \<le> n"
  shows "deny_hours n = (if n = 1 then 24 else if n = 2 then 72 else 168)"
proof -
  consider "n = 1" | "n = 2" | "3 \<le> n" using assms by linarith
  then show ?thesis
    by cases (simp_all add: deny_hours_def DENY_COOLDOWN_ESCALATION_HOURS_def min_def)
qed

text \<open>The denial after \<open>k\<close> earlier ones suppresses recommendations for one, three or seven days.\<close>

lemma denial_suppresses:
  assumes "py_strip sid \<noteq> []" and "k = cd_count (get_dethrone_cooldown_state sid kv)"
    and "until = denied + (if k = 0 then 24 else if k = 1 then 72 else 168) * hour_micros"
  shows "dethrone_cooldown_active_until now sid (record_dethrone_deny denied sid kv) = (if now < until then Some until else None)"
proof -
  have "0 \<le> k" using assms(2) cooldown_count_nonneg by simp
  then have "deny_hours (k + 1) = (if k = 0 then 24 else if k = 1 then 72 else 168)"
    by (simp add: deny_hours_known)
  then show ?thesis
    using assms by (simp add: dethrone_cooldown_active_until_def cooldown_of_deny parse_iso_utc_def stamp_instant_def Let_def)
qed

lemma clear_forgets:
  assumes "py_strip sid \<noteq> []"
  shows "get_dethrone_cooldown_state sid (clear_dethrone_cooldown sid kv) = empty_cooldown"
  using assms by (simp add: get_dethrone_cooldown_state_def clear_dethrone_cooldown_def cooldown_of_value_def Let_def)

lemma other_cooldown:
  assumes "py_strip i \<noteq> py_strip sid"
  shows "get_dethrone_cooldown_state i (record_dethrone_deny now sid kv) = get_dethrone_cooldown_state i kv"
    and "get_dethrone_cooldown_state i (clear_dethrone_cooldown sid kv) = get_dethrone_cooldown_state i kv"
  using assms
  by (simp_all add: get_dethrone_cooldown_state_def record_dethrone_deny_def clear_dethrone_cooldown_def Let_def)

end
