(* ===== verification/Probation_Record.thy ===== *)
theory Probation_Record
  imports Probation_Rules Dethrone_Cooldown
begin

text \<open>
  The record beside a strategy on live probation (\<open>src/forven/probation.py\<close>, table \<open>strategy_probation\<close>) and what the
  scanner reads from it for every live order. A table row that cannot be read is the argument \<open>None\<close> of the readers.
\<close>

datatype pstate = Active | Paused | Demoting | Graduated | Demoted

definition IN_PROBATION :: "pstate list" where "IN_PROBATION = [Active, Paused, Demoting]"

definition NO_NEW_ENTRIES :: "pstate list" where "NO_NEW_ENTRIES = [Paused, Demoting]"

datatype pevent = Started | LadderResumed | SizeSet | GraduatedEvent | PausedEvent | Resumed | DemotionStarted
  | DemotedEvent | ArchivedEvent | WatchingFullLive | EndedOutside | BackToProbation | GraduationReady | SizeStep

record prec =
  pr_state :: pstate
  pr_size :: rat
  pr_locked :: bool
  pr_entered :: "stamp option"
  pr_by :: "string option"
  pr_bypassed :: "string list"
  pr_history :: "(int \<times> pevent) list"
  pr_demotions :: int
  pr_demoted_at :: "stamp option"
  pr_reason :: "string option"

type_synonym precs = "(string \<times> prec) list"

definition new_record :: prec where
  "new_record = \<lparr>pr_state = Active, pr_size = 100, pr_locked = False, pr_entered = None, pr_by = None, pr_bypassed = [],
     pr_history = [], pr_demotions = 0, pr_demoted_at = None, pr_reason = None\<rparr>"

definition in_probation :: "prec \<Rightarrow> bool" where
  "in_probation r \<longleftrightarrow> pr_state r \<in> set IN_PROBATION"

text \<open>The last \<open>n\<close> entries, \<open>xs[-n:]\<close>.\<close>

definition last_n :: "nat \<Rightarrow> 'a list \<Rightarrow> 'a list" where
  "last_n n xs = drop (length xs - n) xs"

definition log_event :: "int \<Rightarrow> pevent option \<Rightarrow> prec \<Rightarrow> prec" where
  "log_event now e r = (case e of None \<Rightarrow> r | Some x \<Rightarrow> r\<lparr>pr_history := last_n 100 (pr_history r @ [(now, x)])\<rparr>)"

definition save_record :: "string \<Rightarrow> int \<Rightarrow> (prec \<Rightarrow> prec) \<Rightarrow> pevent option \<Rightarrow> precs \<Rightarrow> precs" where
  "save_record sid now upd e recs =
     dict_set sid (log_event now e (upd (case map_of recs sid of None \<Rightarrow> new_record | Some r \<Rightarrow> r))) recs"

text \<open>The rows by entry time, those without one first; timestamps compare as the instants they print.\<close>

definition entered_key :: "prec \<Rightarrow> int" where
  "entered_key r = (case parse_iso_utc (pr_entered r) of None \<Rightarrow> - 1 | Some t \<Rightarrow> t)"

definition list_records :: "pstate list option \<Rightarrow> precs \<Rightarrow> precs" where
  "list_records states recs =
     filter (\<lambda>p. case states of None \<Rightarrow> True | Some ss \<Rightarrow> pr_state (snd p) \<in> set ss) (sort_key (\<lambda>p. entered_key (snd p)) recs)"

text \<open>The size multiplier of a live order; \<open>None\<close> for the table where it cannot be read.\<close>

definition order_scale :: "string \<Rightarrow> precs option \<Rightarrow> rat" where
  "order_scale sid table =
     (case table of None \<Rightarrow> 25 / 100
      | Some recs \<Rightarrow>
          (case map_of recs sid of None \<Rightarrow> 1
           | Some r \<Rightarrow> if in_probation r then max 0 (min 100 (pr_size r)) / 100 else 1))"

definition blocks_new_entries :: "string \<Rightarrow> precs option \<Rightarrow> pstate option" where
  "blocks_new_entries sid table =
     (case table of None \<Rightarrow> None
      | Some recs \<Rightarrow>
          (case map_of recs sid of None \<Rightarrow> None
           | Some r \<Rightarrow> if pr_state r \<in> set NO_NEW_ENTRIES then Some (pr_state r) else None))"

definition on_probation :: "string \<Rightarrow> precs option \<Rightarrow> bool" where
  "on_probation sid table =
     (case table of None \<Rightarrow> False
      | Some recs \<Rightarrow> (case map_of recs sid of None \<Rightarrow> False | Some r \<Rightarrow> pr_state r \<in> set IN_PROBATION))"

lemma map_of_save [simp]:
  "map_of (save_record sid now f e recs) i =
    (if i = sid then Some (log_event now e (f (case map_of recs sid of None \<Rightarrow> new_record | Some r \<Rightarrow> r))) else map_of recs i)"
  by (simp add: save_record_def map_of_dict_set)

lemma log_event_fields [simp]:
  "pr_state (log_event now e r) = pr_state r" "pr_size (log_event now e r) = pr_size r"
  "pr_locked (log_event now e r) = pr_locked r" "pr_demotions (log_event now e r) = pr_demotions r"
  "pr_entered (log_event now e r) = pr_entered r" "pr_demoted_at (log_event now e r) = pr_demoted_at r"
  "pr_bypassed (log_event now e r) = pr_bypassed r"
  by (simp_all add: log_event_def split: option.split)

lemma order_scale_bounds: "0 \<le> order_scale sid table \<and> order_scale sid table \<le> 1"
  by (simp add: order_scale_def split: option.split)

end
