(* ===== verification/Lifecycle.thy ===== *)
theory Lifecycle
  imports Trade_State Gauntlet_Engine Probation_Record
begin

text \<open>
  The strategy lifecycle (\<open>src/forven/util.py\<close> and \<open>src/forven/brain.py\<close>): the canonical stages, the transitions
  between them, and the first half of \<open>_transition_stage_impl\<close>, the gates a move passes before its short write
  transaction. The verdicts of the checks that live in other modules are the fields of \<open>gates\<close>. Notes, display ids
  and log lines are left out.
\<close>

section \<open>Stages\<close>

datatype stage = QuickScreen | InGauntlet | Paper | Live | Retired | Rejected | BacktestFailed

definition stage_word :: "stage \<Rightarrow> string" where
  "stage_word s = (case s of QuickScreen \<Rightarrow> ''quick_screen'' | InGauntlet \<Rightarrow> ''gauntlet'' | Paper \<Rightarrow> ''paper''
     | Live \<Rightarrow> ''live_graduated'' | Retired \<Rightarrow> ''archived'' | Rejected \<Rightarrow> ''rejected'' | BacktestFailed \<Rightarrow> ''backtest_failed'')"

definition stage_aliases :: "(string \<times> stage) list" where
  "stage_aliases =
    [(''researching'', QuickScreen), (''developing'', QuickScreen), (''ideation'', QuickScreen), (''candidate'', QuickScreen),
     (''generated'', QuickScreen), (''research_only'', Retired), (''research-only'', Retired), (''researchonly'', Retired),
     (''backtesting'', InGauntlet), (''testing'', InGauntlet), (''validation'', InGauntlet), (''ranked'', InGauntlet),
     (''paper_trading'', Paper), (''papertrading'', Paper), (''paper-trading'', Paper), (''paper_queued'', Paper),
     (''paper_running'', Paper), (''paper_evaluated'', Paper), (''paper_staging'', Paper),
     (''deployed'', Live), (''live'', Live), (''execution'', Live), (''review'', Live), (''ceo_review'', Live),
     (''ceoreview'', Live), (''ceo-review'', Live), (''promoted'', Live),
     (''retired'', Retired), (''trash'', Retired), (''killed'', Retired), (''deprecated'', Retired), (''failed'', Rejected),
     (''backtest_failed'', BacktestFailed), (''backtest-failed'', BacktestFailed), (''backtestfailed'', BacktestFailed)]"

definition canonical_stages :: "(string \<times> stage) list" where
  "canonical_stages = map (\<lambda>s. (stage_word s, s)) [QuickScreen, InGauntlet, Paper, Live, Retired, Rejected, BacktestFailed]"

definition normalize_stage :: "string option \<Rightarrow> stage" where
  "normalize_stage v =
     (let w = py_lower (py_strip (opt_word v))
      in if w = [] then QuickScreen
         else case map_of stage_aliases w of Some s \<Rightarrow> s
         | None \<Rightarrow> (case map_of canonical_stages w of Some s \<Rightarrow> s | None \<Rightarrow> QuickScreen))"

definition VALID_TRANSITIONS :: "stage \<Rightarrow> stage list" where
  "VALID_TRANSITIONS s = (case s of
      QuickScreen \<Rightarrow> [InGauntlet, Retired, Rejected, BacktestFailed]
    | InGauntlet \<Rightarrow> [Paper, Retired, Rejected, QuickScreen, BacktestFailed]
    | Paper \<Rightarrow> [Live, Retired, InGauntlet, BacktestFailed]
    | Live \<Rightarrow> [Retired, Paper, BacktestFailed]
    | Retired \<Rightarrow> [QuickScreen]
    | Rejected \<Rightarrow> [QuickScreen, Retired, Paper]
    | BacktestFailed \<Rightarrow> [QuickScreen, Retired])"

definition terminal_stages :: "stage list" where "terminal_stages = [Retired, Rejected, BacktestFailed]"

definition stage_to_agent :: "stage \<Rightarrow> string option" where
  "stage_to_agent s = (case s of QuickScreen \<Rightarrow> Some ''simulation-agent'' | InGauntlet \<Rightarrow> Some ''simulation-agent''
     | Paper \<Rightarrow> Some ''risk-manager'' | Live \<Rightarrow> Some ''risk-manager'' | _ \<Rightarrow> None)"

definition progress_rank :: "stage \<Rightarrow> nat option" where
  "progress_rank s = (case s of QuickScreen \<Rightarrow> Some 0 | InGauntlet \<Rightarrow> Some 1 | Paper \<Rightarrow> Some 2 | Live \<Rightarrow> Some 3 | _ \<Rightarrow> None)"

definition USER_ACTORS :: "string list" where
  "USER_ACTORS = [''api'', ''manual'', ''user'', ''ui'', ''pipeline_sweep'', ''gauntlet_sweep'', ''triage-cli'']"

definition SYSTEM_FORCE_ACTORS :: "string list" where
  "SYSTEM_FORCE_ACTORS = [''decay_kill_switch'', ''auto_archive'', ''evolution_terminal_archive'', ''paper_retirement'', ''probation'']"

definition requires_operator_dethrone_approval :: "stage \<Rightarrow> stage \<Rightarrow> bool" where
  "requires_operator_dethrone_approval c t \<longleftrightarrow>
     c \<in> set [Paper, Live] \<and> c \<noteq> t \<and>
     (t \<in> set terminal_stages \<or>
      (case (progress_rank c, progress_rank t) of (Some a, Some b) \<Rightarrow> b < a | _ \<Rightarrow> False))"

section \<open>The tables\<close>

record strat_row =
  sg_stage :: "string option"
  sg_status :: "string option"
  sg_changed :: "stamp option"
  sg_owner :: "string option"
  sg_demotions :: int
  sg_why :: "string option"
  sg_metrics :: jv
  sg_verdict :: jv
  sg_params :: jv
  sg_timeframe :: "string option"
  sg_symbol :: "string option"
  sg_type :: "string option"
  sg_runtime :: "string option"
  sg_created :: "stamp option"

datatype move_kind = LifecycleMove | FailureMove | UntestableMove

record stage_event =
  se_strategy :: string
  se_from :: stage
  se_to :: stage
  se_actor :: string
  se_forced :: bool
  se_kind :: move_kind

datatype approval_kind = DethroneApproval | PromotionApproval

record approval =
  ap_kind :: approval_kind
  ap_target :: string
  ap_requested :: stage
  ap_status :: string
  ap_decided :: "int option"

record agent_task =
  tk_strategy :: string
  tk_type :: string
  tk_status :: string

datatype skill_outcome = Positive | Negative

record life =
  lf_rows :: "(string \<times> strat_row) list"
  lf_events :: "stage_event list"
  lf_blocked :: "(string \<times> stage) list"
  lf_approvals :: "approval list"
  lf_tasks :: "agent_task list"
  lf_workflows :: "workflow list"
  lf_wf_events :: "gevent list"
  lf_ceilings :: "(string \<times> pyfloat) list"
  lf_cooldowns :: cooldowns
  lf_probation :: precs
  lf_desk :: desk
  lf_breaker :: breaker
  lf_baselines :: "(string \<times> pyfloat) list"
  lf_outcomes :: "(string \<times> skill_outcome) list"

definition row_stage :: "strat_row \<Rightarrow> stage" where
  "row_stage r = normalize_stage (case sg_stage r of Some s \<Rightarrow> if s \<noteq> [] then Some s else sg_status r | None \<Rightarrow> sg_status r)"

definition exec_identity :: "strat_row \<Rightarrow> jv \<times> string option \<times> string option \<times> string option \<times> string option" where
  "exec_identity r = (sg_params r, sg_symbol r, sg_timeframe r, sg_type r, sg_runtime r)"

text \<open>A trade that reaches the exchange, of the strategy, still open.\<close>

definition trade_owner :: "trade_row \<Rightarrow> string option" where
  "trade_owner t = (case tr_strategy_id t of Some s \<Rightarrow> if s \<noteq> [] then Some s else tr_strategy t | None \<Rightarrow> tr_strategy t)"

definition open_live_row :: "string \<Rightarrow> trade_row \<Rightarrow> bool" where
  "open_live_row sid t \<longleftrightarrow>
     trade_owner t = Some sid \<and> tr_status t = Some ''OPEN'' \<and>
     py_lower (case tr_execution_type t of None \<Rightarrow> ''live'' | Some e \<Rightarrow> e) \<notin> {''paper'', ''paper_challenger'', ''simulation''}"

definition open_live_rows :: "string \<Rightarrow> life \<Rightarrow> trade_row list" where
  "open_live_rows sid db = filter (open_live_row sid) (dk_trades (lf_desk db))"

section \<open>A move and the checks beside it\<close>

record move =
  mv_target :: string
  mv_reason :: string
  mv_actor :: string
  mv_force :: bool
  mv_skip_approval :: bool
  mv_evidence :: "jobj option"
  mv_probation :: bool

text \<open>
  What the other modules answer for this strategy and move: the backtest record, re-entry, loadability, duplicate,
  live admission (for the weight it will trade at), stage cap, overfitting and entry guardrails, promotion policy,
  captured execution, archive and reject evidence, and the settings they and the code here read.
\<close>

record gates =
  gt_backtest_ok :: bool
  gt_reentry_blocked :: bool
  gt_unloadable :: bool
  gt_duplicate :: "string option result"
  gt_admits :: "rat option \<Rightarrow> bool"
  gt_wip_cap :: "int option result"
  gt_overfit_ok :: bool
  gt_backtests :: "jv option list"
  gt_guardrails_ok :: bool
  gt_promotion :: "bool \<times> string"
  gt_captured :: bool
  gt_fitness_ok :: bool
  gt_evidence_ok :: bool
  gt_paper_closed :: int
  gt_config :: jobj
  gt_settings :: jv
  gt_pipeline :: jv
  gt_daemon :: jobj
  gt_costs :: jobj
  gt_quotes :: "nat \<Rightarrow> quote_env"

datatype motion = ProbationRequired | PaperRetirementRulesDecide | ProbationDecides | DethroneCooldownActive
  | DethroneSoakActive | OperatorApprovalRequired | VerificationFailure | UntestableReentryBlocked | RuntimeUnloadable
  | DuplicateGateUnavailable | DuplicateTrading | LiveAdmission | WipCapExceeded | OverfittingGuardrails
  | CanonicalBacktestRequired | GauntletGuardrails | GateContention | GateFailure | PromotionApprovalRequired
  | StaleValidation | TerminalOpenLive | StageChangeOpenLive | GhostProtection

datatype outcome = Unchanged | Moved | Blocked motion | Concurrent | Conflict

record moved =
  md_from :: stage
  md_to :: "stage option"
  md_outcome :: outcome

text \<open>What a call knows after its reads: the row it read, the two stages, and whether it is forced or a probation entry.\<close>

record ctx =
  cx_id :: string
  cx_row :: strat_row
  cx_cur :: stage
  cx_target :: stage
  cx_actor :: string
  cx_reason :: string
  cx_force :: bool
  cx_skip :: bool
  cx_probation :: bool
  cx_evidence :: "jobj option"

definition is_user :: "string \<Rightarrow> bool" where
  "is_user actor \<longleftrightarrow> py_lower actor \<in> set USER_ACTORS"

text \<open>Force counts only for an operator and the automated safety actors.\<close>

definition may_force :: "string \<Rightarrow> bool" where
  "may_force actor \<longleftrightarrow> is_user actor \<or> py_lower actor \<in> set SYSTEM_FORCE_ACTORS"

definition make_ctx :: "string \<Rightarrow> move \<Rightarrow> strat_row \<Rightarrow> ctx" where
  "make_ctx sid mv row =
     (let t = normalize_stage (Some (mv_target mv))
      in \<lparr>cx_id = sid, cx_row = row, cx_cur = row_stage row, cx_target = t, cx_actor = mv_actor mv, cx_reason = mv_reason mv,
          cx_force = (mv_force mv \<and> may_force (mv_actor mv)), cx_skip = mv_skip_approval mv,
          cx_probation = (mv_probation mv \<and> t = Live), cx_evidence = mv_evidence mv\<rparr>)"

section \<open>The gates\<close>

definition config_get :: "jobj \<Rightarrow> string \<Rightarrow> jv \<Rightarrow> jv" where
  "config_get c k d = (case map_of c k of None \<Rightarrow> d | Some v \<Rightarrow> v)"

definition row_age_days :: "int \<Rightarrow> strat_row \<Rightarrow> rat option" where
  "row_age_days now r = map_option (\<lambda>t. of_int (now - t) / of_int day_micros) (parse_iso_utc (sg_changed r))"

definition paper_dethrone_soak_block :: "int \<Rightarrow> gates \<Rightarrow> strat_row \<Rightarrow> stage \<Rightarrow> bool" where
  "paper_dethrone_soak_block now g row cur =
     (if cur \<noteq> Paper then False
      else let block = jget (gt_config g) ''dethrone''; cfg = (if truthy block then block else JObj [])
           in case cfg of JObj c \<Rightarrow>
                (case (py_float (config_get c ''paper_min_soak_days'' (JInt 7)), py_float (config_get c ''paper_max_soak_days'' (JInt 14)),
                       py_int (config_get c ''paper_min_closed_trades'' (JInt 5)), row_age_days now row) of
                   (Inr lo, Inr hi, Inr trades, Some age) \<Rightarrow>
                     if pf_le lo (Fin 0) \<and> pf_le hi (Fin 0) then False
                     else if pf_le (if pf_less lo hi then hi else lo) (Fin age) then False
                     else if pf_less (Fin age) lo then True
                     else gt_paper_closed g < trades
                 | _ \<Rightarrow> False)
              | _ \<Rightarrow> False)"

definition untestable_reason_text :: "string option \<Rightarrow> bool" where
  "untestable_reason_text w \<longleftrightarrow> prefix ''untestable:'' (py_lower (py_strip (opt_word w)))"

definition setting_on :: "jv \<Rightarrow> string \<Rightarrow> bool" where
  "setting_on kv key =
     (case kv of JObj d \<Rightarrow>
        (case jget d key of JBool b \<Rightarrow> b | JStr s \<Rightarrow> py_lower (py_strip s) = ''true'' | _ \<Rightarrow> False)
      | _ \<Rightarrow> False)"

definition auto_approve_promotions_enabled :: "gates \<Rightarrow> bool" where
  "auto_approve_promotions_enabled g \<longleftrightarrow>
     setting_on (gt_settings g) ''auto_approve_promotions'' \<or>
     (case gt_pipeline g of JObj d \<Rightarrow> py_lower (py_strip (word_of (jget d ''promotion_mode''))) = ''auto'' | _ \<Rightarrow> False)"

definition requires_operator_promotion_approval :: "gates \<Rightarrow> stage \<Rightarrow> stage \<Rightarrow> bool" where
  "requires_operator_promotion_approval g c t =
     (if (c, t) \<notin> set [(InGauntlet, Paper), (Paper, Live)] then False
      else if t = Live \<and> \<not> setting_on (gt_settings g) ''allow_auto_live_promotion'' then True
      else \<not> auto_approve_promotions_enabled g)"

text \<open>A successful backtest row with at least one trade among the fifty newest.\<close>

definition traded_backtest :: "jv option \<Rightarrow> bool" where
  "traded_backtest m =
     (case m of Some (JObj d) \<Rightarrow>
        \<not> truthy (jget d ''error'') \<and> py_lower (word_of (jget d ''status'')) \<noteq> ''failed'' \<and>
        (let v = jget d ''total_trades''
         in case (if truthy v then py_float v else Inr (Fin 0)) of Inr f \<Rightarrow> pf_le (Fin 1) f | Inl _ \<Rightarrow> False)
      | _ \<Rightarrow> False)"

text \<open>Live admission weighs a probation entrant at its start size; settings that cannot be read refuse.\<close>

definition live_admitted :: "gates \<Rightarrow> bool \<Rightarrow> bool" where
  "live_admitted g probation =
     (if probation
      then (case settings (JObj (gt_config g)) of Inl _ \<Rightarrow> False | Inr k \<Rightarrow> gt_admits g (Some (knob k ''start_size_pct'' / 100)))
      else gt_admits g None)"

definition active_in_stage :: "stage \<Rightarrow> life \<Rightarrow> int" where
  "active_in_stage t db =
     int (length (filter (\<lambda>p. sg_stage (snd p) \<noteq> None \<and> py_lower (py_strip (opt_word (sg_stage (snd p)))) = stage_word t \<and>
       py_lower (py_strip (opt_word (sg_status (snd p)))) \<notin> {''archived'', ''rejected''}) (lf_rows db)))"

definition wip_room :: "gates \<Rightarrow> stage \<Rightarrow> life \<Rightarrow> bool" where
  "wip_room g t db = (case gt_wip_cap g of Inl _ \<Rightarrow> False | Inr None \<Rightarrow> True | Inr (Some c) \<Rightarrow> active_in_stage t db < c)"

definition slot_contention_reason :: "string \<Rightarrow> bool" where
  "slot_contention_reason r \<longleftrightarrow>
     (\<exists>m\<in>set [''awaiting dethrone'', ''slot occupied'', ''duplicate with active strategy'']. sublist m (py_lower r))"

text \<open>The guards in the order the code has them; the first that holds refuses the move.\<close>

definition authority_guards :: "int \<Rightarrow> gates \<Rightarrow> life \<Rightarrow> ctx \<Rightarrow> (bool \<times> motion) list" where
  "authority_guards now g db c =
     (let dethrone = requires_operator_dethrone_approval (cx_cur c) (cx_target c)
      in [(cx_target c = Live \<and> cx_cur c = Paper \<and> \<not> cx_force c \<and> \<not> cx_probation c, ProbationRequired),
          (cx_cur c = Paper \<and> dethrone \<and> \<not> cx_force c \<and> \<not> is_user (cx_actor c), PaperRetirementRulesDecide),
          (cx_cur c = Live \<and> dethrone \<and> \<not> cx_force c \<and> \<not> is_user (cx_actor c) \<and>
             on_probation (cx_id c) (Some (lf_probation db)), ProbationDecides),
          (dethrone \<and> \<not> cx_force c \<and> dethrone_cooldown_active_until now (cx_id c) (lf_cooldowns db) \<noteq> None, DethroneCooldownActive),
          (dethrone \<and> \<not> cx_force c \<and> paper_dethrone_soak_block now g (cx_row c) (cx_cur c), DethroneSoakActive),
          (dethrone \<and> \<not> cx_force c, OperatorApprovalRequired)])"

definition admission_guards :: "gates \<Rightarrow> life \<Rightarrow> ctx \<Rightarrow> (bool \<times> motion) list" where
  "admission_guards g db c =
     (let free = (\<not> cx_force c); trading = (cx_target c \<in> {Paper, Live})
      in [(free \<and> cx_target c \<notin> set terminal_stages \<and> \<not> gt_backtest_ok g, VerificationFailure),
          (free \<and> cx_cur c \<in> set terminal_stages \<and> cx_target c = QuickScreen \<and> untestable_reason_text (sg_why (cx_row c)) \<and>
             gt_reentry_blocked g, UntestableReentryBlocked),
          (free \<and> trading \<and> gt_unloadable g, RuntimeUnloadable),
          (free \<and> trading \<and> (case gt_duplicate g of Inl _ \<Rightarrow> True | Inr _ \<Rightarrow> False), DuplicateGateUnavailable),
          (free \<and> trading \<and> (case gt_duplicate g of Inr (Some d) \<Rightarrow> d \<noteq> [] | _ \<Rightarrow> False), DuplicateTrading),
          (cx_target c = Live \<and> cx_cur c \<noteq> Live \<and> \<not> live_admitted g (cx_probation c), LiveAdmission),
          (free \<and> cx_target c \<in> {InGauntlet, Live} \<and> \<not> wip_room g (cx_target c) db, WipCapExceeded)])"

definition evidence_guards :: "gates \<Rightarrow> ctx \<Rightarrow> (bool \<times> motion) list" where
  "evidence_guards g c =
     (let free = (\<not> cx_force c); entry = (cx_target c = InGauntlet \<and> free);
          gated = (cx_target c \<in> {Paper, Live} \<and> free \<and> \<not> cx_probation c)
      in [(entry \<and> cx_cur c = QuickScreen \<and> \<not> gt_overfit_ok g, OverfittingGuardrails),
          (entry \<and> cx_cur c = QuickScreen \<and> \<not> (\<exists>m\<in>set (take 50 (gt_backtests g)). traded_backtest m), CanonicalBacktestRequired),
          (entry \<and> cx_cur c \<noteq> QuickScreen \<and> \<not> gt_guardrails_ok g, GauntletGuardrails),
          (gated \<and> \<not> fst (gt_promotion g) \<and> slot_contention_reason (snd (gt_promotion g)), GateContention),
          (gated \<and> \<not> fst (gt_promotion g), GateFailure),
          (requires_operator_promotion_approval g (cx_cur c) (cx_target c) \<and> free \<and> \<not> cx_skip c \<and> \<not> cx_probation c,
             PromotionApprovalRequired)])"

definition first_block :: "(bool \<times> motion) list \<Rightarrow> motion option" where
  "first_block gs = map_option snd (find fst gs)"

definition gate_block :: "int \<Rightarrow> gates \<Rightarrow> life \<Rightarrow> ctx \<Rightarrow> motion option" where
  "gate_block now g db c = first_block (authority_guards now g db c @ admission_guards g db c @ evidence_guards g c)"

text \<open>A refused move is recorded on the strategy's history; two refusals also queue an approval, unless one is active.\<close>

definition active_approval :: "int \<Rightarrow> approval_kind \<Rightarrow> string \<Rightarrow> stage \<Rightarrow> approval \<Rightarrow> bool" where
  "active_approval now k sid t a \<longleftrightarrow>
     ap_kind a = k \<and> py_lower (ap_target a) = py_lower sid \<and>
     (case k of
        DethroneApproval \<Rightarrow> ap_status a \<in> {''pending_approval'', ''approved''}
      | PromotionApproval \<Rightarrow> ap_requested a = t \<and>
          (ap_status a = ''pending_approval'' \<or>
           ap_status a = ''approved'' \<and> (case ap_decided a of None \<Rightarrow> False | Some d \<Rightarrow> now - 600000000 \<le> d)))"

definition queue_approval :: "int \<Rightarrow> approval_kind \<Rightarrow> ctx \<Rightarrow> life \<Rightarrow> life" where
  "queue_approval now k c db =
     (if \<exists>a\<in>set (lf_approvals db). active_approval now k (cx_id c) (cx_target c) a then db
      else db\<lparr>lf_approvals := lf_approvals db @ [\<lparr>ap_kind = k, ap_target = cx_id c, ap_requested = cx_target c,
             ap_status = ''pending_approval'', ap_decided = None\<rparr>]\<rparr>)"

definition record_blocked :: "ctx \<Rightarrow> motion \<Rightarrow> life \<Rightarrow> moved \<times> life" where
  "record_blocked c m db =
     (\<lparr>md_from = cx_cur c, md_to = Some (cx_cur c), md_outcome = Blocked m\<rparr>, db\<lparr>lf_blocked := lf_blocked db @ [(cx_id c, cx_target c)]\<rparr>)"

definition refuse :: "int \<Rightarrow> ctx \<Rightarrow> motion \<Rightarrow> life \<Rightarrow> moved \<times> life" where
  "refuse now c m db =
     record_blocked c m
       (case m of OperatorApprovalRequired \<Rightarrow> queue_approval now DethroneApproval c db
        | PromotionApprovalRequired \<Rightarrow> queue_approval now PromotionApproval c db
        | _ \<Rightarrow> db)"

text \<open>The reading half of a call: it ends there, or it is ready to commit.\<close>

datatype gated = Finished moved life | Ready ctx

definition gate_move :: "int \<Rightarrow> gates \<Rightarrow> string \<Rightarrow> move \<Rightarrow> life \<Rightarrow> gated result" where
  "gate_move now g sid mv db =
     (case map_of (lf_rows db) sid of None \<Rightarrow> Inl ValueError
      | Some row \<Rightarrow>
          (let c = make_ctx sid mv row
           in if cx_target c = cx_cur c
              then Inr (Finished \<lparr>md_from = cx_cur c, md_to = Some (cx_target c), md_outcome = Unchanged\<rparr> db)
              else if cx_target c \<notin> set (VALID_TRANSITIONS (cx_cur c)) then Inl ValueError
              else case gate_block now g db c of
                     Some m \<Rightarrow> (let (r, d) = refuse now c m db in Inr (Finished r d))
                   | None \<Rightarrow> Inr (Ready c)))"

end
