(* ===== verification/Lifecycle_Commit.thy ===== *)
theory Lifecycle_Commit
  imports Lifecycle
begin

text \<open>
  The write half of \<open>_transition_stage_impl\<close> (\<open>src/forven/brain.py\<close>): what the short transaction checks again,
  what it changes, and what follows the commit. The commit function takes the tables as they are when its transaction
  begins, which another call may have changed since the gates were passed.
\<close>

section \<open>Failure and untestable moves\<close>

definition FAILURE_REASON_HINTS :: "string list" where
  "FAILURE_REASON_HINTS = [''fail'', ''rejected'', ''gate'', ''drawdown'', ''dd'', ''robustness'', ''kill'', ''degrad'',
     ''decay'', ''loss'', ''underperform'', ''halt'']"

definition NON_FAILURE_ARCHIVE_HINTS :: "string list" where
  "NON_FAILURE_ARCHIVE_HINTS = [''moved to graveyard'', ''manual pipeline override'', ''manual archive'', ''archive request'']"

definition is_failure_transition :: "stage \<Rightarrow> stage \<Rightarrow> string \<Rightarrow> string \<Rightarrow> bool" where
  "is_failure_transition cur t actor reason =
     (if t = Rejected then True
      else if t \<noteq> Retired then False
      else let text = py_lower (py_strip reason); who = py_lower (py_strip actor)
           in if text \<noteq> [] \<and> (\<exists>h\<in>set FAILURE_REASON_HINTS. sublist h text) then True
              else if text \<noteq> [] \<and> (\<exists>h\<in>set NON_FAILURE_ARCHIVE_HINTS. sublist h text) \<and> who \<in> {''manual'', ''operator'', ''user''}
                   then False
              else who \<in> {''system'', ''risk-manager'', ''simulation-agent'', ''brain''} \<and>
                   cur \<in> {QuickScreen, InGauntlet, Paper, Live})"

definition wants_post_mortem :: "stage \<Rightarrow> stage \<Rightarrow> bool" where
  "wants_post_mortem cur t \<longleftrightarrow> \<not> (cur = QuickScreen \<and> t \<in> set terminal_stages)"

text \<open>The words of a text, and \<open>untestable_status_reason\<close>.\<close>

fun split_ws :: "string \<Rightarrow> string list" where
  "split_ws [] = [[]]"
| "split_ws (c # s) = (case split_ws s of [] \<Rightarrow> [[c]] | w # ws \<Rightarrow> if is_space c then [] # w # ws else (c # w) # ws)"

fun join_words :: "string list \<Rightarrow> string" where
  "join_words [] = []"
| "join_words [w] = w"
| "join_words (w # ws) = w @ '' '' @ join_words ws"

fun nat_text :: "nat \<Rightarrow> string" where
  "nat_text n = (if n < 10 then [char_of (48 + n)] else nat_text (n div 10) @ [char_of (48 + n mod 10)])"

declare nat_text.simps [simp del]

definition untestable_status_reason :: "string \<Rightarrow> string \<Rightarrow> string" where
  "untestable_status_reason code detail =
     (let text = join_words (filter (\<lambda>w. w \<noteq> []) (split_ws detail))
      in take 500 (if text \<noteq> [] then ''untestable:'' @ code @ '': '' @ text else ''untestable:'' @ code))"

definition evidence_word :: "jobj \<Rightarrow> string" where
  "evidence_word e = (case jget e ''status_reason'' of JStr s \<Rightarrow> py_strip s | v \<Rightarrow> if truthy v then ''?'' else [])"

definition untestable_of :: "ctx \<Rightarrow> string option" where
  "untestable_of c =
     (case cx_evidence c of
        None \<Rightarrow> None
      | Some e \<Rightarrow>
          if cx_target c = Retired \<and> jget e ''merit'' = JBool False
          then Some (if evidence_word e \<noteq> [] then evidence_word e else untestable_status_reason ''unspecified'' (cx_reason c))
          else None)"

definition archive_reason_of :: "ctx \<Rightarrow> string option" where
  "archive_reason_of c =
     (case untestable_of c of Some w \<Rightarrow> Some w
      | None \<Rightarrow> (case cx_evidence c of
           None \<Rightarrow> None
         | Some e \<Rightarrow> if cx_target c = Retired \<and> evidence_word e \<noteq> [] then Some (evidence_word e) else None))"

section \<open>Thrash protection\<close>

text \<open>
  The third demotion out of the gauntlet archives the strategy instead. The count is written before the checks that
  follow it; the result is the stage the move now goes to, its untestable reason and the tables.
\<close>

definition update_row :: "string \<Rightarrow> (strat_row \<Rightarrow> strat_row) \<Rightarrow> life \<Rightarrow> life" where
  "update_row sid f db =
     db\<lparr>lf_rows := map (\<lambda>p. if fst p = sid then (fst p, f (snd p)) else p) (lf_rows db)\<rparr>"

definition thrash :: "ctx \<Rightarrow> life \<Rightarrow> stage \<times> string option \<times> life" where
  "thrash c db =
     (if cx_cur c = InGauntlet \<and> cx_target c = QuickScreen
      then let n = sg_demotions (cx_row c) + 1; db' = update_row (cx_id c) (\<lambda>r. r\<lparr>sg_demotions := n\<rparr>) db
           in if 3 \<le> n
              then (Retired, Some (untestable_status_reason ''max_demotions''
                      (''demoted out of the gauntlet '' @ nat_text (nat n) @ '' times without producing evidence'')), db')
              else (QuickScreen, untestable_of c, db')
      else (cx_target c, untestable_of c, db))"

section \<open>The effects of a move\<close>

definition cancel_open_step :: "int \<Rightarrow> step \<Rightarrow> step" where
  "cancel_open_step now s =
     (if st_status s \<in> {StPassed, StFailedGate, StCancelled} then s
      else s\<lparr>st_status := StCancelled, st_completed := Some now, st_updated := now\<rparr>)"

definition cancel_active_workflow :: "int \<Rightarrow> string \<Rightarrow> workflow \<Rightarrow> workflow" where
  "cancel_active_workflow now sid w =
     (if w_strategy w = sid \<and> w_status w \<notin> {WfPassed, WfFailedGate, WfCancelled}
      then (map_steps (cancel_open_step now) w)
             \<lparr>w_status := WfCancelled, w_cancelled := Some now, w_completed := Some now, w_updated := now\<rparr>
      else w)"

definition cancel_tasks :: "string \<Rightarrow> agent_task list \<Rightarrow> agent_task list" where
  "cancel_tasks sid ts =
     map (\<lambda>t. if tk_strategy t = sid \<and> py_lower (py_strip (tk_status t)) = ''pending''
              then t\<lparr>tk_status := ''cancelled''\<rparr> else t) ts"

definition enter_terminal :: "int \<Rightarrow> string \<Rightarrow> life \<Rightarrow> life" where
  "enter_terminal now sid db =
     db\<lparr>lf_tasks := cancel_tasks sid (lf_tasks db),
        lf_workflows := map (cancel_active_workflow now sid) (lf_workflows db),
        lf_ceilings := dict_pop sid (lf_ceilings db)\<rparr>"

definition cancel_unpassed_step :: "int \<Rightarrow> step \<Rightarrow> step" where
  "cancel_unpassed_step now s =
     (if st_status s = StPassed then s else s\<lparr>st_status := StCancelled, st_completed := Some now, st_updated := now\<rparr>)"

text \<open>A leftover terminal workflow: one of the current version starts again, an older failed one is retired.\<close>

definition reset_stale_workflow :: "int \<Rightarrow> string \<Rightarrow> workflow \<Rightarrow> workflow" where
  "reset_stale_workflow now sid w =
     (if w_strategy w \<noteq> sid \<or> w_status w \<notin> {WfFailedGate, WfCancelled, WfPassed} then w
      else if w_version w = WORKFLOW_DEFINITION_VERSION
           then (map_steps (reset_one now) w)
                  \<lparr>w_status := WfPending, w_current := None, w_error := None, w_completed := None, w_cancelled := None,
                   w_updated := now\<rparr>
      else if w_status w = WfFailedGate
           then (map_steps (cancel_unpassed_step now) w)
                  \<lparr>w_status := WfCancelled, w_cancelled := Some now, w_completed := Some now, w_updated := now\<rparr>
      else w)"

definition restarts :: "string \<Rightarrow> workflow \<Rightarrow> bool" where
  "restarts sid w \<longleftrightarrow>
     w_strategy w = sid \<and> w_status w \<in> {WfFailedGate, WfCancelled, WfPassed} \<and> w_version w = WORKFLOW_DEFINITION_VERSION"

definition enter_pre_paper :: "int \<Rightarrow> string \<Rightarrow> life \<Rightarrow> life" where
  "enter_pre_paper now sid db =
     db\<lparr>lf_workflows := map (reset_stale_workflow now sid) (lf_workflows db),
        lf_wf_events := lf_wf_events db @
          map (\<lambda>w. \<lparr>ev_workflow = w_id w, ev_step = None, ev_type = ''workflow_reset''\<rparr>) (filter (restarts sid) (lf_workflows db))\<rparr>"

text \<open>A restored strategy runs again on the timeframe its author declared.\<close>

definition declared_timeframe :: "strat_row \<Rightarrow> string" where
  "declared_timeframe r = (case sg_params r of JObj d \<Rightarrow> py_lower (py_strip (word_of (jget d ''_timeframe''))) | _ \<Rightarrow> [])"

definition restore_timeframe :: "strat_row \<Rightarrow> strat_row" where
  "restore_timeframe r =
     (let d = declared_timeframe r
      in if d \<noteq> [] \<and> d \<noteq> py_lower (py_strip (opt_word (sg_timeframe r))) then r\<lparr>sg_timeframe := Some d\<rparr> else r)"

definition stage_update :: "int \<Rightarrow> ctx \<Rightarrow> stage \<Rightarrow> string option \<Rightarrow> strat_row \<Rightarrow> strat_row" where
  "stage_update now c t why r =
     (let restart = (cx_cur c \<in> set terminal_stages \<and> t = QuickScreen);
          r1 = r\<lparr>sg_stage := Some (stage_word t), sg_status := Some (stage_word t), sg_owner := stage_to_agent t,
                 sg_changed := Some (Stamp now),
                 sg_metrics := (if restart then JNull else sg_metrics r),
                 sg_verdict := (if restart then JNull else sg_verdict r),
                 sg_why := (if restart then None else if why \<noteq> None then why else sg_why r)\<rparr>
      in if restart then restore_timeframe r1 else r1)"

definition move_kind_of :: "ctx \<Rightarrow> string option \<Rightarrow> move_kind" where
  "move_kind_of c untestable =
     (if untestable \<noteq> None then UntestableMove
      else if is_failure_transition (cx_cur c) (cx_target c) (cx_actor c) (py_strip (cx_reason c)) then FailureMove else LifecycleMove)"

definition write_move :: "int \<Rightarrow> ctx \<Rightarrow> stage \<Rightarrow> string option \<Rightarrow> life \<Rightarrow> life" where
  "write_move now c t untestable db =
     (let why = (if untestable \<noteq> None then untestable else archive_reason_of c);
          d1 = update_row (cx_id c) (stage_update now c t why) db;
          d2 = (if cx_cur c \<in> {Paper, Live} then d1\<lparr>lf_cooldowns := clear_dethrone_cooldown (cx_id c) (lf_cooldowns d1)\<rparr> else d1);
          d3 = d2\<lparr>lf_events := lf_events d2 @ [\<lparr>se_strategy = cx_id c, se_from = cx_cur c, se_to = t, se_actor = cx_actor c,
                  se_forced = cx_force c, se_kind = move_kind_of c untestable\<rparr>]\<rparr>;
          d4 = (if t \<in> set terminal_stages then enter_terminal now (cx_id c) d3 else d3)
      in if t \<in> {QuickScreen, InGauntlet} then enter_pre_paper now (cx_id c) d4 else d4)"

section \<open>After the commit\<close>

definition queue_post_mortem :: "ctx \<Rightarrow> stage \<Rightarrow> string option \<Rightarrow> life \<Rightarrow> life" where
  "queue_post_mortem c t untestable db =
     (if untestable_of c = None \<and>
         is_failure_transition (cx_cur c) (cx_target c) (cx_actor c) (py_strip (cx_reason c)) \<and> wants_post_mortem (cx_cur c) t
      then db\<lparr>lf_tasks := lf_tasks db @ [\<lparr>tk_strategy = cx_id c, tk_type = ''post_mortem'', tk_status = ''pending''\<rparr>]\<rparr>
      else db)"

definition flatten_paper :: "gates \<Rightarrow> ctx \<Rightarrow> stage \<Rightarrow> life \<Rightarrow> life" where
  "flatten_paper g c t db =
     (if t \<in> set terminal_stages
      then let s = close_open_paper_trades_for_strategy (gt_costs g) (cx_id c) ''terminal_stage_close'' JNull [] (gt_quotes g)
                     (lf_desk db) (lf_breaker db)
           in db\<lparr>lf_desk := sw_desk s, lf_breaker := sw_breaker s\<rparr>
      else db)"

text \<open>The account equity the daemon last read from the exchange, once per strategy.\<close>

definition daemon_equity :: "jobj \<Rightarrow> pyfloat option" where
  "daemon_equity state =
     (let exch = (case jget state ''exchange_account'' of JObj e \<Rightarrow> e | _ \<Rightarrow> []);
          source = py_lower (py_strip (word_of (jget exch ''source'')));
          raw = (if jget exch ''accountValue'' = JNull then jget state ''account_equity'' else jget exch ''accountValue'')
      in case (if raw = JNull then Inr (Fin 0) else py_float raw) of
           Inr f \<Rightarrow> if pf_less (Fin 0) f \<and> source \<in> {''exchange'', ''books_only'', ''books_aggregate''} then Some f else None
         | Inl _ \<Rightarrow> None)"

definition stamp_baseline :: "gates \<Rightarrow> ctx \<Rightarrow> stage \<Rightarrow> life \<Rightarrow> life" where
  "stamp_baseline g c t db =
     (if t = Live \<and> map_of (lf_baselines db) (cx_id c) = None
      then case daemon_equity (gt_daemon g) of None \<Rightarrow> db | Some e \<Rightarrow> db\<lparr>lf_baselines := dict_set (cx_id c) e (lf_baselines db)\<rparr>
      else db)"

definition close_outcome :: "ctx \<Rightarrow> stage \<Rightarrow> string option \<Rightarrow> life \<Rightarrow> life" where
  "close_outcome c t untestable db =
     (if cx_force c \<and> is_user (cx_actor c) then db
      else if t \<in> {Retired, Rejected} \<and> cx_cur c \<in> {Paper, InGauntlet, Live} \<and> untestable = None
           then db\<lparr>lf_outcomes := lf_outcomes db @ [(cx_id c, Negative)]\<rparr>
      else if t = Live then db\<lparr>lf_outcomes := lf_outcomes db @ [(cx_id c, Positive)]\<rparr> else db)"

definition after_commit :: "gates \<Rightarrow> ctx \<Rightarrow> stage \<Rightarrow> string option \<Rightarrow> life \<Rightarrow> life" where
  "after_commit g c t untestable db =
     close_outcome c t untestable (stamp_baseline g c t (flatten_paper g c t (queue_post_mortem c t untestable db)))"

section \<open>The commit\<close>

definition ghost_protected :: "gates \<Rightarrow> ctx \<Rightarrow> stage \<Rightarrow> string option \<Rightarrow> bool" where
  "ghost_protected g c t untestable \<longleftrightarrow>
     \<not> cx_force c \<and> ((t = Retired \<and> untestable = None \<and> \<not> gt_fitness_ok g) \<or> (t = Rejected \<and> \<not> gt_evidence_ok g))"

definition finish_commit :: "int \<Rightarrow> gates \<Rightarrow> ctx \<Rightarrow> life \<Rightarrow> moved \<times> life" where
  "finish_commit now g c db =
     (case thrash c db of (t, untestable, db') \<Rightarrow>
        if t \<noteq> Live \<and> open_live_rows (cx_id c) db' \<noteq> []
        then record_blocked (c\<lparr>cx_target := t\<rparr>) (if t \<in> set terminal_stages then TerminalOpenLive else StageChangeOpenLive) db'
        else if ghost_protected g c t untestable then record_blocked (c\<lparr>cx_target := t\<rparr>) GhostProtection db'
        else (\<lparr>md_from = cx_cur c, md_to = Some t, md_outcome = Moved\<rparr>,
              after_commit g c t untestable (write_move now c t untestable db')))"

definition stale_commit :: "gates \<Rightarrow> ctx \<Rightarrow> strat_row \<Rightarrow> bool" where
  "stale_commit g c r \<longleftrightarrow>
     \<not> cx_force c \<and>
     ((cx_target c \<in> {Paper, Live} \<and> exec_identity r \<noteq> exec_identity (cx_row c)) \<or> (cx_target c = Paper \<and> \<not> gt_captured g))"

definition changed_text :: "strat_row \<Rightarrow> stamp option" where
  "changed_text r = (if sg_changed r = Some (Text []) then None else sg_changed r)"

definition commit_move :: "int \<Rightarrow> gates \<Rightarrow> ctx \<Rightarrow> life \<Rightarrow> moved \<times> life" where
  "commit_move now g c db =
     (case map_of (lf_rows db) (cx_id c) of
        None \<Rightarrow> (\<lparr>md_from = cx_cur c, md_to = None, md_outcome = Conflict\<rparr>, db)
      | Some r \<Rightarrow>
          if row_stage r \<noteq> cx_cur c \<or> changed_text r \<noteq> changed_text (cx_row c)
          then (\<lparr>md_from = cx_cur c, md_to = Some (row_stage r),
                 md_outcome = (if row_stage r = cx_target c then Concurrent else Conflict)\<rparr>, db)
          else if stale_commit g c r then record_blocked c StaleValidation db
          else finish_commit now g c db)"

text \<open>A whole call; \<open>others\<close> is what other calls did to the tables between its gates and its transaction.\<close>

definition transition_stage :: "int \<Rightarrow> gates \<Rightarrow> string \<Rightarrow> move \<Rightarrow> (life \<Rightarrow> life) \<Rightarrow> life \<Rightarrow> moved result \<times> life" where
  "transition_stage now g sid mv others db =
     (case gate_move now g sid mv db of
        Inl e \<Rightarrow> (Inl e, db)
      | Inr (Finished r d) \<Rightarrow> (Inr r, d)
      | Inr (Ready c) \<Rightarrow> (let (r, d) = commit_move now g c (others db) in (Inr r, d)))"

end
