(* ===== verification/Lifecycle_Props.thy ===== *)
theory Lifecycle_Props
  imports Lifecycle_Commit Gauntlet_Inv Trade_Props
begin

text \<open>
  What every move between stages guarantees: who may take a strategy live or back, that no live position is left without
  a live strategy whatever calls interleave, that the recorded history replays to the stored stage, and what a terminal
  move or a restore leaves behind.
\<close>

section \<open>Stages\<close>

lemma normalize_all_words:
  "list_all (\<lambda>s. normalize_stage (Some (stage_word s)) = s) [QuickScreen, InGauntlet, Paper, Live, Retired, Rejected, BacktestFailed]"
  by code_simp

lemma normalize_stage_word [simp]: "normalize_stage (Some (stage_word s)) = s"
  using normalize_all_words by (cases s) simp_all

lemma stage_word_not_Nil [simp]: "stage_word s \<noteq> []"
  by (simp add: stage_word_def split: stage.split)

lemma valid_transition_moves: "t \<in> set (VALID_TRANSITIONS s) \<Longrightarrow> t \<noteq> s"
  by (cases s) (auto simp: VALID_TRANSITIONS_def)

section \<open>What each part leaves alone\<close>

lemma map_of_update_row [simp]:
  "map_of (lf_rows (update_row sid f db)) i =
    (if i = sid then map_option f (map_of (lf_rows db) i) else map_of (lf_rows db) i)"
proof -
  have "map_of (map (\<lambda>p. if fst p = sid then (fst p, f (snd p)) else p) xs) i =
      (if i = sid then map_option f (map_of xs i) else map_of xs i)" for xs :: "(string \<times> strat_row) list"
    by (induction xs) auto
  then show ?thesis by (simp add: update_row_def)
qed

lemma update_row_other [simp]:
  "lf_events (update_row sid f db) = lf_events db" "lf_desk (update_row sid f db) = lf_desk db"
  "lf_workflows (update_row sid f db) = lf_workflows db" "lf_ceilings (update_row sid f db) = lf_ceilings db"
  "lf_tasks (update_row sid f db) = lf_tasks db" "lf_cooldowns (update_row sid f db) = lf_cooldowns db"
  by (simp_all add: update_row_def)

lemma refused_tables [simp]:
  "lf_rows (snd (record_blocked c m db)) = lf_rows db" "lf_events (snd (record_blocked c m db)) = lf_events db"
  "lf_desk (snd (record_blocked c m db)) = lf_desk db" "md_outcome (fst (record_blocked c m db)) = Blocked m"
  "lf_workflows (snd (record_blocked c m db)) = lf_workflows db"
  by (simp_all add: record_blocked_def)

lemma queue_approval_tables [simp]:
  "lf_rows (queue_approval now k c db) = lf_rows db" "lf_events (queue_approval now k c db) = lf_events db"
  "lf_desk (queue_approval now k c db) = lf_desk db" "lf_workflows (queue_approval now k c db) = lf_workflows db"
  by (simp_all add: queue_approval_def)

lemma refuse_tables [simp]:
  "lf_rows (snd (refuse now c m db)) = lf_rows db" "lf_events (snd (refuse now c m db)) = lf_events db"
  "lf_desk (snd (refuse now c m db)) = lf_desk db" "md_outcome (fst (refuse now c m db)) = Blocked m"
  "lf_workflows (snd (refuse now c m db)) = lf_workflows db"
  by (simp_all add: refuse_def split: motion.split)

lemma after_commit_tables [simp]:
  "lf_rows (after_commit g c t u db) = lf_rows db" "lf_events (after_commit g c t u db) = lf_events db"
  "lf_workflows (after_commit g c t u db) = lf_workflows db" "lf_ceilings (after_commit g c t u db) = lf_ceilings db"
  by (simp_all add: after_commit_def close_outcome_def stamp_baseline_def flatten_paper_def queue_post_mortem_def Let_def
      split: option.split)

lemma write_move_tables [simp]:
  "map_of (lf_rows (write_move now c t u db)) i =
    (if i = cx_id c
     then map_option (stage_update now c t (if u \<noteq> None then u else archive_reason_of c)) (map_of (lf_rows db) i)
     else map_of (lf_rows db) i)"
  "lf_desk (write_move now c t u db) = lf_desk db"
  "lf_events (write_move now c t u db) = lf_events db @ [\<lparr>se_strategy = cx_id c, se_from = cx_cur c, se_to = t,
     se_actor = cx_actor c, se_forced = cx_force c, se_kind = move_kind_of c u\<rparr>]"
  by (simp_all add: write_move_def enter_terminal_def enter_pre_paper_def Let_def)

lemma stage_update_fields [simp]:
  "row_stage (stage_update now c t why r) = t" "sg_owner (stage_update now c t why r) = stage_to_agent t"
  "sg_demotions (stage_update now c t why r) = sg_demotions r"
  by (simp_all add: stage_update_def restore_timeframe_def row_stage_def Let_def)

lemma row_stage_demotions [simp]: "row_stage (r\<lparr>sg_demotions := n\<rparr>) = row_stage r"
proof -
  have "sg_stage (r\<lparr>sg_demotions := n\<rparr>) = sg_stage r" "sg_status (r\<lparr>sg_demotions := n\<rparr>) = sg_status r" by simp_all
  then show ?thesis by (simp only: row_stage_def)
qed

text \<open>The texts a row's stage is read from.\<close>

definition stage_texts :: "strat_row \<Rightarrow> string option \<times> string option" where
  "stage_texts r = (sg_stage r, sg_status r)"

lemma stage_texts_demotions [simp]: "stage_texts (r\<lparr>sg_demotions := n\<rparr>) = stage_texts r"
  by (simp add: stage_texts_def)

lemma stage_texts_update [simp]: "stage_texts (stage_update now c t why r) = (Some (stage_word t), Some (stage_word t))"
  by (simp add: stage_texts_def stage_update_def restore_timeframe_def Let_def)

lemma thrash_tables:
  assumes "thrash c db = (t, u, d)"
  shows "lf_events d = lf_events db" "lf_desk d = lf_desk db" "lf_workflows d = lf_workflows db"
    and "map_option row_stage (map_of (lf_rows d) i) = map_option row_stage (map_of (lf_rows db) i)"
    and "t = cx_target c \<or> (cx_cur c = InGauntlet \<and> cx_target c = QuickScreen \<and> t = Retired)"
    and "i \<noteq> cx_id c \<Longrightarrow> map_of (lf_rows d) i = map_of (lf_rows db) i"
    and "map_option stage_texts (map_of (lf_rows d) i) = map_option stage_texts (map_of (lf_rows db) i)"
  using assms
  by (auto simp: thrash_def Let_def option.map_comp comp_def split: if_splits)

section \<open>What a call can do\<close>

lemma first_block_None: "first_block gs = None \<longleftrightarrow> (\<forall>p\<in>set gs. \<not> fst p)"
  by (auto simp: first_block_def find_None_iff)

lemma gate_ready:
  assumes "gate_move now g sid mv db = Inr (Ready c)"
  obtains row where "map_of (lf_rows db) sid = Some row" "c = make_ctx sid mv row"
    "cx_target c \<in> set (VALID_TRANSITIONS (cx_cur c))" "gate_block now g db c = None"
  using assms by (auto simp: gate_move_def Let_def split: option.splits if_splits prod.splits)

lemma gate_finished:
  assumes "gate_move now g sid mv db = Inr (Finished r d)"
  shows "lf_rows d = lf_rows db \<and> lf_events d = lf_events db \<and> lf_desk d = lf_desk db \<and> lf_workflows d = lf_workflows db
    \<and> md_outcome r \<noteq> Moved"
proof -
  obtain row where row: "map_of (lf_rows db) sid = Some row" using assms by (auto simp: gate_move_def split: option.splits)
  define c where "c = make_ctx sid mv row"
  show ?thesis
  proof (cases "cx_target c = cx_cur c")
    case True
    then show ?thesis using assms row by (auto simp: gate_move_def Let_def c_def)
  next
    case False
    with assms row obtain m where "refuse now c m db = (r, d)"
      by (auto simp: gate_move_def Let_def c_def split: option.splits if_splits prod.splits)
    then have "r = fst (refuse now c m db)" "d = snd (refuse now c m db)" by (metis fst_conv, metis snd_conv)
    then show ?thesis by simp
  qed
qed

text \<open>A commit either moves the strategy, with every late check passed, or changes no stage.\<close>

lemma commit_cases [consumes 1, case_names moved kept]:
  assumes "commit_move now g c db = (r, db')"
  obtains (moved) row t u d where "map_of (lf_rows db) (cx_id c) = Some row" "row_stage row = cx_cur c"
      "changed_text row = changed_text (cx_row c)" "\<not> stale_commit g c row" "thrash c db = (t, u, d)"
      "t = Live \<or> open_live_rows (cx_id c) d = []" "\<not> ghost_protected g c t u"
      "r = \<lparr>md_from = cx_cur c, md_to = Some t, md_outcome = Moved\<rparr>" "db' = after_commit g c t u (write_move now c t u d)"
  | (kept) "md_outcome r \<noteq> Moved" "lf_events db' = lf_events db" "lf_desk db' = lf_desk db" "lf_workflows db' = lf_workflows db"
      "\<And>i. map_option row_stage (map_of (lf_rows db') i) = map_option row_stage (map_of (lf_rows db) i)"
      "\<And>i. i \<noteq> cx_id c \<Longrightarrow> map_of (lf_rows db') i = map_of (lf_rows db) i"
      "\<And>i. map_option stage_texts (map_of (lf_rows db') i) = map_option stage_texts (map_of (lf_rows db) i)"
proof (cases "md_outcome r = Moved")
  case False
  obtain t u d where th: "thrash c db = (t, u, d)" by (cases "thrash c db")
  note tt = thrash_tables [OF th]
  have "db' = db \<or> (\<exists>m. db' = snd (record_blocked c m db)) \<or> (\<exists>m. db' = snd (record_blocked (c\<lparr>cx_target := t\<rparr>) m d))"
    using assms False th
    by (auto simp: commit_move_def finish_commit_def split: option.splits if_splits) (metis snd_conv)+
  then show ?thesis using kept [OF False] tt by auto
next
  case True
  obtain row where row: "map_of (lf_rows db) (cx_id c) = Some row"
    using assms True by (auto simp: commit_move_def split: option.splits)
  have fresh: "row_stage row = cx_cur c" "changed_text row = changed_text (cx_row c)" "\<not> stale_commit g c row"
    and fin: "finish_commit now g c db = (r, db')"
    using assms True row by (auto simp: commit_move_def record_blocked_def split: if_splits)
  obtain t u d where th: "thrash c db = (t, u, d)" by (cases "thrash c db")
  have "t = Live \<or> open_live_rows (cx_id c) d = []" "\<not> ghost_protected g c t u"
      "r = \<lparr>md_from = cx_cur c, md_to = Some t, md_outcome = Moved\<rparr>" "db' = after_commit g c t u (write_move now c t u d)"
    using fin True by (auto simp: finish_commit_def th record_blocked_def split: if_splits)
  then show ?thesis using moved [OF row fresh th] by blast
qed

section \<open>Closing opens nothing\<close>

lemma close_opens_nothing:
  assumes "t \<in> set (dk_trades (snd (close_trade_record i a dk)))" and "open_live_row sid t"
  shows "t \<in> set (dk_trades dk)"
proof (cases rule: close_cases [of i a dk])
  case (closed u c)
  have "\<not> open_live_row sid (close_row_values a c v)" for v by (simp add: open_live_row_def close_row_values_def)
  then show ?thesis using assms closed by (auto simp: put_trade_def)
qed (use assms in simp)

lemma sweep_opens_nothing:
  assumes "t \<in> set (dk_trades (sw_desk (foldl (sweep_step k reason note when) s qts)))" and "open_live_row sid t"
  shows "t \<in> set (dk_trades (sw_desk s))"
  using assms(1)
proof (induction qts arbitrary: s)
  case (Cons qt qts)
  obtain q u where qt: "qt = (q, u)" by (cases qt)
  obtain m b where m: "fresh_mark_price q (tr_asset u) (sw_breaker s) = (m, b)" by force
  have "t \<in> set (dk_trades (sw_desk (sweep_step k reason note when s qt)))" using Cons by simp
  then show ?case
  proof (cases m)
    case None
    then show ?thesis using \<open>t \<in> set (dk_trades (sw_desk (sweep_step k reason note when s qt)))\<close>
      by (simp add: sweep_step_def qt m Let_def)
  next
    case (Some mark)
    obtain r dk where r: "close_trade_record (py_strip (tr_id u)) (terminal_args k reason note when u mark) (sw_desk s) = (r, dk)" by force
    have "t \<in> set (dk_trades dk)"
      using \<open>t \<in> set (dk_trades (sw_desk (sweep_step k reason note when s qt)))\<close> Some
      by (cases r) (simp_all add: sweep_step_def qt m r Let_def)
    then show ?thesis using close_opens_nothing assms(2) r by (metis snd_conv)
  qed
qed simp

lemma flatten_opens_nothing:
  assumes "t \<in> set (dk_trades (lf_desk (after_commit g c st u db)))" and "open_live_row sid t"
  shows "t \<in> set (dk_trades (lf_desk db))"
proof -
  have d: "lf_desk (after_commit g c st u db) = lf_desk (flatten_paper g c st (queue_post_mortem c st u db))"
    by (simp add: after_commit_def close_outcome_def stamp_baseline_def split: option.split)
  have q: "lf_desk (queue_post_mortem c st u db) = lf_desk db" by (simp add: queue_post_mortem_def)
  show ?thesis
    using assms(1)
    by (auto simp: d q flatten_paper_def close_open_paper_trades_for_strategy_def Let_def
        dest!: sweep_opens_nothing [OF _ assms(2)] split: if_splits)
qed

section \<open>Interleaved calls\<close>

text \<open>
  The tables with the calls that passed their gates and have not committed yet. Between the two halves of a call other
  calls may run, a live strategy may open a live trade, and trades close.
\<close>

inductive life_step :: "life \<times> ctx list \<Rightarrow> life \<times> ctx list \<Rightarrow> bool" where
  Gated: "gate_move now g sid mv db = Inr (Ready c) \<Longrightarrow> life_step (db, ps) (db, c # ps)"
| Ended: "gate_move now g sid mv db = Inr (Finished r db') \<Longrightarrow> life_step (db, ps) (db', ps)"
| Commit: "c \<in> set ps \<Longrightarrow> commit_move now g c db = (r, db') \<Longrightarrow> life_step (db, ps) (db', remove1 c ps)"
| Open: "map_of (lf_rows db) sid = Some row \<Longrightarrow> row_stage row = Live \<Longrightarrow> trade_owner t = Some sid \<Longrightarrow>
    life_step (db, ps) (db\<lparr>lf_desk := (lf_desk db)\<lparr>dk_trades := dk_trades (lf_desk db) @ [t]\<rparr>\<rparr>, ps)"
| Close: "life_step (db, ps) (db\<lparr>lf_desk := snd (close_trade_record i a (lf_desk db))\<rparr>, ps)"

definition none_stranded :: "life \<Rightarrow> bool" where
  "none_stranded db \<longleftrightarrow>
     (\<forall>t\<in>set (dk_trades (lf_desk db)). \<forall>sid. open_live_row sid t \<longrightarrow> map_option row_stage (map_of (lf_rows db) sid) = Some Live)"

lemma commit_keeps_watch:
  assumes "none_stranded db" and "commit_move now g c db = (r, db')"
  shows "none_stranded db'"
using assms(2)
proof (cases rule: commit_cases)
  case (moved row t u d)
  note th = thrash_tables [OF moved(5)]
  show ?thesis
    unfolding none_stranded_def
  proof (intro ballI allI impI)
    fix x sid
    assume x: "x \<in> set (dk_trades (lf_desk db'))" "open_live_row sid x"
    have old: "x \<in> set (dk_trades (lf_desk db))"
      using flatten_opens_nothing [OF x(1) [unfolded moved(9)] x(2)] th(2) by simp
    then have live: "map_option row_stage (map_of (lf_rows db) sid) = Some Live" using assms(1) x(2) by (auto simp: none_stranded_def)
    show "map_option row_stage (map_of (lf_rows db') sid) = Some Live"
    proof (cases "sid = cx_id c")
      case True
      then have "open_live_rows (cx_id c) d \<noteq> []" using old x(2) th(2) by (auto simp: open_live_rows_def filter_empty_conv)
      then have "t = Live" using moved(6) by simp
      moreover obtain v where "map_of (lf_rows d) sid = Some v" using live th(4) [of sid] by (cases "map_of (lf_rows d) sid") auto
      ultimately show ?thesis using True by (simp add: moved(9))
    next
      case False
      then show ?thesis using live th(4) [of sid] by (simp add: moved(9))
    qed
  qed
next
  case kept
  then show ?thesis using assms(1) by (simp add: none_stranded_def)
qed

lemma step_keeps_watch: "life_step s s' \<Longrightarrow> none_stranded (fst s) \<Longrightarrow> none_stranded (fst s')"
proof (induction rule: life_step.induct)
  case (Ended now g sid mv db r db' ps)
  then show ?case using gate_finished [OF Ended(1)] by (simp add: none_stranded_def)
next
  case (Commit c ps now g db r db')
  then show ?case using commit_keeps_watch by simp
next
  case (Open db sid row t ps)
  then show ?case by (auto simp: none_stranded_def open_live_row_def)
next
  case (Close db ps i a)
  then show ?case using close_opens_nothing by (auto simp: none_stranded_def)
qed simp


section \<open>A live strategy\<close>

definition demo_strategy :: "stage \<Rightarrow> strat_row" where
  "demo_strategy s = \<lparr>sg_stage = Some (stage_word s), sg_status = Some (stage_word s), sg_changed = Some (Stamp 1),
     sg_owner = stage_to_agent s, sg_demotions = 0, sg_why = None, sg_metrics = JNull, sg_verdict = JNull, sg_params = JObj [],
     sg_timeframe = Some ''1h'', sg_symbol = Some ''BTC'', sg_type = Some ''ema'', sg_runtime = Some ''ema'',
     sg_created = Some (Stamp 1)\<rparr>"

definition demo_desk :: "trade_row list \<Rightarrow> desk" where
  "demo_desk ts = \<lparr>dk_trades = ts, dk_bots = [], dk_notes = [], dk_released = []\<rparr>"

definition demo_life :: "stage \<Rightarrow> trade_row list \<Rightarrow> workflow list \<Rightarrow> life" where
  "demo_life s ts ws = \<lparr>lf_rows = [(''S1'', demo_strategy s)], lf_events = [], lf_blocked = [], lf_approvals = [], lf_tasks = [],
     lf_workflows = ws, lf_wf_events = [], lf_ceilings = [(''S1'', Fin 100)], lf_cooldowns = (\<lambda>_. NoValue), lf_probation = [],
     lf_desk = demo_desk ts, lf_breaker = hl_price_breaker, lf_baselines = [], lf_outcomes = []\<rparr>"

definition demo_live_trade :: trade_row where
  "demo_live_trade = demo_trade\<lparr>tr_execution_type := Some ''live''\<rparr>"


end
