(* ===== verification/Lifecycle_Authority.thy ===== *)
theory Lifecycle_Authority
  imports Lifecycle_Props
begin

text \<open>
  Who may move a strategy where, what the recorded history says of the stored stage, races between two calls for one
  strategy, and what a terminal move and a restore leave behind.
\<close>

lemma transition_moved:
  assumes "transition_stage now g sid mv others db = (Inr r, db')" and "md_outcome r = Moved"
  obtains row c where "gate_move now g sid mv db = Inr (Ready c)" "commit_move now g c (others db) = (r, db')"
    "map_of (lf_rows db) sid = Some row" "c = make_ctx sid mv row" "cx_target c \<in> set (VALID_TRANSITIONS (cx_cur c))"
    "gate_block now g db c = None"
proof -
  obtain c where c: "gate_move now g sid mv db = Inr (Ready c)" "commit_move now g c (others db) = (r, db')"
    using assms gate_finished by (auto simp: transition_stage_def split: sum.splits gated.splits prod.splits)
  then show ?thesis using that gate_ready [OF c(1)] by metis
qed

lemma make_ctx_fields [simp]:
  "cx_id (make_ctx sid mv row) = sid" "cx_row (make_ctx sid mv row) = row" "cx_cur (make_ctx sid mv row) = row_stage row"
  "cx_target (make_ctx sid mv row) = normalize_stage (Some (mv_target mv))" "cx_actor (make_ctx sid mv row) = mv_actor mv"
  "cx_force (make_ctx sid mv row) \<longleftrightarrow> mv_force mv \<and> may_force (mv_actor mv)"
  "cx_probation (make_ctx sid mv row) \<longleftrightarrow> mv_probation mv \<and> normalize_stage (Some (mv_target mv)) = Live"
  by (simp_all add: make_ctx_def Let_def)

section \<open>Demonstrations\<close>

definition demo_gates :: gates where
  "demo_gates = \<lparr>gt_backtest_ok = True, gt_reentry_blocked = False, gt_unloadable = False, gt_duplicate = Inr None,
     gt_admits = (\<lambda>w. w = Some (1/4)), gt_wip_cap = Inr (Some 5), gt_overfit_ok = True,
     gt_backtests = [Some (JObj [(''total_trades'', JInt 40)])], gt_guardrails_ok = True, gt_promotion = (True, []),
     gt_captured = True, gt_fitness_ok = True, gt_evidence_ok = True, gt_paper_closed = 0, gt_config = [], gt_settings = JObj [],
     gt_pipeline = JObj [], gt_daemon = [], gt_costs = [], gt_quotes = demo_quotes\<rparr>"

definition demo_move :: "string \<Rightarrow> string \<Rightarrow> bool \<Rightarrow> bool \<Rightarrow> move" where
  "demo_move t actor force probation = \<lparr>mv_target = t, mv_reason = ''test'', mv_actor = actor, mv_force = force,
     mv_skip_approval = False, mv_evidence = None, mv_probation = probation\<rparr>"

definition demo_call :: "stage \<Rightarrow> move \<Rightarrow> trade_row list \<Rightarrow> workflow list \<Rightarrow> moved result \<times> life" where
  "demo_call s mv ts ws = transition_stage 5 demo_gates ''S1'' mv id (demo_life s ts ws)"

section \<open>Going live\<close>

text \<open>C6: A strategy reaches the live stage only from paper, only past live admission at the weight it will trade at, and
  only as a probation entry or forced by an operator or a safety actor; a probation entry that is not forced also has
  its backtest, a loadable runtime, no trading duplicate and room under the stage cap.\<close>

theorem going_live_is_guarded:
  assumes "transition_stage now g sid mv others db = (Inr r, db')" and "md_outcome r = Moved" and "md_to r = Some Live"
  shows "md_from r = Paper \<and> live_admitted g (mv_probation mv) \<and>
    ((mv_force mv \<and> may_force (mv_actor mv)) \<or>
     (mv_probation mv \<and> gt_backtest_ok g \<and> \<not> gt_unloadable g \<and> gt_duplicate g \<in> {Inr None, Inr (Some [])} \<and> wip_room g Live db))"
  using assms(1,2)
proof (rule transition_moved)
  fix row c
  assume c: "commit_move now g c (others db) = (r, db')" "c = make_ctx sid mv row"
    "cx_target c \<in> set (VALID_TRANSITIONS (cx_cur c))" "gate_block now g db c = None"
  from c(1) assms(2,3) have "cx_target c = Live \<and> md_from r = cx_cur c"
  proof (cases rule: commit_cases)
    case (moved row t u d)
    then show ?thesis using thrash_tables(5) [OF moved(5)] assms(3) by auto
  qed simp
  then have t: "cx_target c = Live" "md_from r = cx_cur c" by simp_all
  with c(3) have cur: "cx_cur c = Paper" by (cases "cx_cur c") (auto simp: VALID_TRANSITIONS_def)
  have free: "\<forall>p\<in>set (authority_guards now g db c) \<union> set (admission_guards g db c). \<not> fst p"
    using c(4) by (auto simp: gate_block_def first_block_None)
  have "live_admitted g (cx_probation c)"
    using free t(1) cur by (simp add: admission_guards_def Let_def)
  moreover have "cx_force c \<or> cx_probation c" using free t(1) cur by (auto simp: authority_guards_def Let_def)
  moreover have "\<not> cx_force c \<Longrightarrow> gt_backtest_ok g \<and> \<not> gt_unloadable g \<and> gt_duplicate g \<in> {Inr None, Inr (Some [])} \<and> wip_room g Live db"
    using free t(1) cur by (auto simp: admission_guards_def terminal_stages_def Let_def split: sum.splits option.splits)
  ultimately show ?thesis using t c(2) cur by auto
qed

lemma going_live_is_guarded_witness:
  "live_admitted demo_gates True \<and> gt_backtest_ok demo_gates"
proof -
  define mv where "mv = demo_move ''live_graduated'' ''probation'' False True"
  have f: "fst (demo_call Paper mv [] []) = Inr \<lparr>md_from = Paper, md_to = Some Live, md_outcome = Moved\<rparr>"
    unfolding mv_def by code_simp
  obtain db' where r: "transition_stage 5 demo_gates ''S1'' mv id (demo_life Paper [] []) =
      (Inr \<lparr>md_from = Paper, md_to = Some Live, md_outcome = Moved\<rparr>, db')"
    using f unfolding demo_call_def by (metis prod.collapse)
  from going_live_is_guarded [OF r] show ?thesis by (simp add: mv_def demo_move_def)
qed

section \<open>Operator-owned stages\<close>

text \<open>C7: An automated actor never takes a strategy out of paper or live backwards. Whatever it asks for, forced or not,
  with whatever evidence, settings and check results, the tables of strategies, history and trades stay as they are.\<close>

theorem automation_cannot_dethrone:
  assumes "\<not> may_force (mv_actor mv)" and "map_of (lf_rows db) sid = Some row"
    and "requires_operator_dethrone_approval (row_stage row) (normalize_stage (Some (mv_target mv)))"
    and "transition_stage now g sid mv others db = (res, db')"
  shows "lf_rows db' = lf_rows db \<and> lf_events db' = lf_events db \<and> lf_desk db' = lf_desk db"
proof -
  define c where "c = make_ctx sid mv row"
  have "\<not> cx_force c" "cx_cur c = row_stage row" "cx_target c = normalize_stage (Some (mv_target mv))"
    using assms(1) by (simp_all add: c_def)
  then have "(True, OperatorApprovalRequired) \<in> set (authority_guards now g db c)"
    using assms(3) by (simp add: authority_guards_def Let_def)
  then have "gate_block now g db c \<noteq> None" by (auto simp: gate_block_def first_block_None intro!: bexI)
  then have "gate_move now g sid mv db \<noteq> Inr (Ready x)" for x
    using assms(2) by (auto simp: gate_move_def c_def Let_def split: if_splits option.splits prod.splits)
  then show ?thesis
    using assms(4) gate_finished [of now g sid mv db]
    by (auto simp: transition_stage_def split: sum.splits gated.splits)
qed

lemma automation_cannot_dethrone_witness:
  "lf_rows (snd (demo_call Live (demo_move ''archived'' ''brain'' True False) [] [])) = lf_rows (demo_life Live [] [])"
proof -
  have a: "\<not> may_force (mv_actor (demo_move ''archived'' ''brain'' True False))" by code_simp
  have b: "map_of (lf_rows (demo_life Live [] [])) ''S1'' = Some (demo_strategy Live)" by code_simp
  have c: "requires_operator_dethrone_approval (row_stage (demo_strategy Live))
      (normalize_stage (Some (mv_target (demo_move ''archived'' ''brain'' True False))))" by code_simp
  show ?thesis
    using automation_cannot_dethrone [OF a b c prod.collapse [symmetric]] unfolding demo_call_def by blast
qed

section \<open>The history\<close>

text \<open>The abstract machine: a stage that only legal transitions change.\<close>

fun follows :: "stage \<Rightarrow> stage_event list \<Rightarrow> stage option" where
  "follows s [] = Some s"
| "follows s (e # es) = (if se_from e = s \<and> se_to e \<in> set (VALID_TRANSITIONS s) then follows (se_to e) es else None)"

lemma follows_snoc:
  "follows s (es @ [e]) =
    (case follows s es of None \<Rightarrow> None
     | Some u \<Rightarrow> if se_from e = u \<and> se_to e \<in> set (VALID_TRANSITIONS u) then Some (se_to e) else None)"
  by (induction es arbitrary: s) auto

definition events_of :: "string \<Rightarrow> life \<Rightarrow> stage_event list" where
  "events_of sid db = filter (\<lambda>e. se_strategy e = sid) (lf_events db)"

definition history_replays :: "string \<Rightarrow> stage \<Rightarrow> life \<Rightarrow> bool" where
  "history_replays sid s db \<longleftrightarrow> follows s (events_of sid db) = map_option row_stage (map_of (lf_rows db) sid) \<and>
     map_of (lf_rows db) sid \<noteq> None"

definition legal_ctx :: "ctx \<Rightarrow> bool" where
  "legal_ctx c \<longleftrightarrow> cx_target c \<in> set (VALID_TRANSITIONS (cx_cur c))"

lemma moved_legally:
  assumes "thrash c db = (t, u, d)" and "legal_ctx c"
  shows "t \<in> set (VALID_TRANSITIONS (cx_cur c))"
  using thrash_tables(5) [OF assms(1)] assms(2) by (auto simp: legal_ctx_def VALID_TRANSITIONS_def)

lemma commit_replays:
  assumes "history_replays sid s db" and "commit_move now g c db = (r, db')" and "legal_ctx c"
  shows "history_replays sid s db'"
  using assms(2)
proof (cases rule: commit_cases)
  case (moved row t u d)
  note th = thrash_tables [OF moved(5)]
  show ?thesis
  proof (cases "cx_id c = sid")
    case True
    have st: "follows s (events_of sid db) = Some (cx_cur c)"
      using assms(1) moved(1,2) True by (simp add: history_replays_def)
    obtain v where v: "map_of (lf_rows d) sid = Some v" using th(4) [of sid] moved(1) True by (cases "map_of (lf_rows d) sid") auto
    show ?thesis
      using st v True moved_legally [OF moved(5) assms(3)]
      by (simp add: history_replays_def events_of_def moved(9) th(1) follows_snoc)
  next
    case False
    then show ?thesis
      using assms(1) th(6) [of sid] by (simp add: history_replays_def events_of_def moved(9) th(1))
  qed
next
  case kept
  obtain y where "follows s (events_of sid db) = Some (row_stage y)" "map_of (lf_rows db) sid = Some y"
    using assms(1) by (auto simp: history_replays_def)
  moreover from this kept(5) [of sid] obtain y' where "map_of (lf_rows db') sid = Some y'" "row_stage y' = row_stage y"
    by auto
  ultimately show ?thesis using kept(2) by (simp add: history_replays_def events_of_def)
qed

lemma step_replays:
  "life_step s s' \<Longrightarrow> history_replays sid st (fst s) \<and> list_all legal_ctx (snd s) \<Longrightarrow>
    history_replays sid st (fst s') \<and> list_all legal_ctx (snd s')"
proof (induction rule: life_step.induct)
  case (Gated now g i mv db c ps)
  have "legal_ctx c" by (rule gate_ready [OF Gated(1)]) (simp add: legal_ctx_def)
  then show ?case using Gated by simp
next
  case (Ended now g i mv db r db' ps)
  then show ?case using gate_finished [OF Ended(1)] by (simp add: history_replays_def events_of_def)
next
  case (Commit c ps now g db r db')
  then have "legal_ctx c" and "history_replays sid st db" by (simp_all add: list_all_iff)
  then have "history_replays sid st db'" using commit_replays Commit(2) by blast
  moreover have "list_all legal_ctx (remove1 c ps)" using Commit(3) set_remove1_subset [of c ps] by (auto simp: list_all_iff)
  ultimately show ?case by simp
qed (simp_all add: history_replays_def events_of_def)



section \<open>Two calls for one strategy\<close>

text \<open>C9: Of two calls that passed their gates on the same stage, whatever they asked for, only one moves the strategy: once
  one has committed, the other reports the conflict or the done work and changes nothing.\<close>

theorem one_of_two_racing_moves_wins:
  assumes "gate_move now1 g1 sid mv1 db = Inr (Ready c1)" and "gate_move now2 g2 sid mv2 db = Inr (Ready c2)"
    and "commit_move now3 g1 c1 db = (r1, db1)" and "md_outcome r1 = Moved"
    and "commit_move now4 g2 c2 db1 = (r2, db2)"
  shows "db2 = db1 \<and> md_outcome r2 \<in> {Concurrent, Conflict}"
proof -
  obtain row where row: "map_of (lf_rows db) sid = Some row" "c1 = make_ctx sid mv1 row" "cx_target c1 \<in> set (VALID_TRANSITIONS (cx_cur c1))"
    using gate_ready [OF assms(1)] by metis
  obtain row2 where row2: "map_of (lf_rows db) sid = Some row2" "c2 = make_ctx sid mv2 row2"
    using gate_ready [OF assms(2)] by metis
  have c2: "cx_id c2 = sid" "cx_cur c2 = cx_cur c1" using row row2 by simp_all
  from assms(3,4) obtain v where "map_of (lf_rows db1) sid = Some v" "row_stage v \<noteq> cx_cur c1"
  proof (cases rule: commit_cases)
    case (moved w t u d)
    obtain v where v: "map_of (lf_rows d) sid = Some v"
      using thrash_tables(4) [OF moved(5), of sid] row(1) by (cases "map_of (lf_rows d) sid") auto
    have "t \<noteq> cx_cur c1" using moved_legally [OF moved(5)] row(3) valid_transition_moves by (metis legal_ctx_def)
    then show ?thesis using that v row(2) by (simp add: moved(9))
  qed simp
  then show ?thesis using assms(5) c2 by (auto simp: commit_move_def split: if_splits)
qed

definition demo_ready :: "move \<Rightarrow> ctx" where
  "demo_ready mv = make_ctx ''S1'' mv (demo_strategy Paper)"

lemma one_of_two_racing_moves_wins_witness:
  "snd (commit_move 7 demo_gates (demo_ready (demo_move ''archived'' ''user'' True False))
     (snd (commit_move 6 demo_gates (demo_ready (demo_move ''gauntlet'' ''user'' True False)) (demo_life Paper [] [])))) =
   snd (commit_move 6 demo_gates (demo_ready (demo_move ''gauntlet'' ''user'' True False)) (demo_life Paper [] []))"
proof -
  define a where "a = demo_move ''gauntlet'' ''user'' True False"
  define b where "b = demo_move ''archived'' ''user'' True False"
  have row: "map_of (lf_rows (demo_life Paper [] [])) ''S1'' = Some (demo_strategy Paper)" by code_simp
  have val: "cx_target (demo_ready x) \<noteq> cx_cur (demo_ready x)" "cx_target (demo_ready x) \<in> set (VALID_TRANSITIONS (cx_cur (demo_ready x)))"
      "gate_block 5 demo_gates (demo_life Paper [] []) (demo_ready x) = None" if "x \<in> {a, b}" for x
    using that unfolding a_def b_def by (safe; code_simp)+
  have g: "gate_move 5 demo_gates ''S1'' x (demo_life Paper [] []) = Inr (Ready (demo_ready x))" if "x \<in> {a, b}" for x
    using val [OF that] row by (simp add: gate_move_def demo_ready_def Let_def)
  have m: "md_outcome (fst (commit_move 6 demo_gates (demo_ready a) (demo_life Paper [] []))) = Moved"
    unfolding a_def by code_simp
  have "snd (commit_move 7 demo_gates (demo_ready b) (snd (commit_move 6 demo_gates (demo_ready a) (demo_life Paper [] [])))) =
      snd (commit_move 6 demo_gates (demo_ready a) (demo_life Paper [] [])) \<and>
      md_outcome (fst (commit_move 7 demo_gates (demo_ready b) (snd (commit_move 6 demo_gates (demo_ready a) (demo_life Paper [] [])))))
        \<in> {Concurrent, Conflict}"
    by (rule one_of_two_racing_moves_wins [OF g [of a] g [of b] prod.collapse [symmetric] m prod.collapse [symmetric]]) simp_all
  then show ?thesis by (simp only: a_def b_def)
qed

end
