(* ===== verification/Lifecycle_Effects.thy ===== *)
theory Lifecycle_Effects
  imports Lifecycle_Authority
begin

text \<open>
  What a move leaves behind: a terminal strategy holds nothing, a restored one starts afresh, the gauntlet's tables keep
  their invariant, and the demotions out of the gauntlet are counted.
\<close>

section \<open>The tables after a move\<close>

lemma moved_tables:
  assumes "transition_stage now g sid mv others db = (Inr r, db')" and "md_outcome r = Moved"
  obtains c t u d where "cx_id c = sid" "md_from r = cx_cur c" "md_to r = Some t" "thrash c (others db) = (t, u, d)"
    "t = Live \<or> open_live_rows sid d = []" "db' = after_commit g c t u (write_move now c t u d)"
    "map_of (lf_rows d) sid \<noteq> None"
proof (rule transition_moved [OF assms])
  fix row c
  assume c: "commit_move now g c (others db) = (r, db')" "c = make_ctx sid mv row"
  from c(1) assms(2) show thesis
  proof (cases rule: commit_cases)
    case (moved w t u d)
    have "map_of (lf_rows d) sid \<noteq> None" using thrash_tables(4) [OF moved(5), of sid] moved(1) c(2) by auto
    then show thesis using that [of c t u d] moved c(2) by simp
  qed simp
qed

lemma write_move_workflows:
  "lf_workflows (write_move now c t u db) =
    (if t \<in> set terminal_stages then map (cancel_active_workflow now (cx_id c)) (lf_workflows db)
     else if t \<in> {QuickScreen, InGauntlet} then map (reset_stale_workflow now (cx_id c)) (lf_workflows db)
     else lf_workflows db)"
  by (cases t) (simp_all add: write_move_def enter_terminal_def enter_pre_paper_def Let_def terminal_stages_def update_row_def)

lemma write_move_ceilings:
  "lf_ceilings (write_move now c t u db) = (if t \<in> set terminal_stages then dict_pop (cx_id c) (lf_ceilings db) else lf_ceilings db)"
  by (simp add: write_move_def enter_terminal_def enter_pre_paper_def Let_def)

lemma write_move_tasks:
  "lf_tasks (write_move now c t u db) = (if t \<in> set terminal_stages then cancel_tasks (cx_id c) (lf_tasks db) else lf_tasks db)"
  by (simp add: write_move_def enter_terminal_def enter_pre_paper_def Let_def)

lemma after_commit_tasks:
  "k \<in> set (lf_tasks (after_commit g c t u db)) \<Longrightarrow> k \<in> set (lf_tasks db) \<or> tk_type k = ''post_mortem''"
  by (auto simp: after_commit_def close_outcome_def stamp_baseline_def flatten_paper_def queue_post_mortem_def Let_def
      split: option.splits if_splits)

lemma cancelled_not_pending: "py_lower (py_strip ''cancelled'') \<noteq> ''pending''"
  by code_simp

lemma cancel_tasks_pending:
  assumes "k \<in> set (cancel_tasks sid ts)" and "tk_strategy k = sid"
  shows "py_lower (py_strip (tk_status k)) \<noteq> ''pending''"
proof -
  obtain t where k: "k = (if tk_strategy t = sid \<and> py_lower (py_strip (tk_status t)) = ''pending'' then t\<lparr>tk_status := ''cancelled''\<rparr> else t)"
    using assms(1) unfolding cancel_tasks_def set_map by blast
  show ?thesis
  proof (cases "tk_strategy t = sid \<and> py_lower (py_strip (tk_status t)) = ''pending''")
    case True
    then have "tk_status k = ''cancelled''" by (simp add: k)
    then show ?thesis using cancelled_not_pending by (simp only: not_False_eq_True)
  next
    case False
    then have "k = t" using k by (simp only: if_False)
    then show ?thesis using False assms(2) by metis
  qed
qed

lemma workflow_fields [simp]:
  "w_strategy (map_steps f w) = w_strategy w" "w_version (map_steps f w) = w_version w" "w_status (map_steps f w) = w_status w"
  by (simp_all add: map_steps_def)

section \<open>Terminal stages\<close>

text \<open>C11: A strategy in a terminal stage holds nothing. After a move to archived, rejected or backtest-failed it has no
  owner, no live ceiling, no workflow that can still run, no pending task but the post-mortem of its failure, and no open
  live trade.\<close>

theorem terminal_strategy_holds_nothing:
  assumes "transition_stage now g sid mv others db = (Inr r, db')" and "md_outcome r = Moved" and "md_to r = Some t"
    and "t \<in> set terminal_stages"
  shows "(\<exists>row. map_of (lf_rows db') sid = Some row \<and> row_stage row = t \<and> sg_owner row = None) \<and>
    map_of (lf_ceilings db') sid = None \<and>
    (\<forall>w\<in>set (lf_workflows db'). w_strategy w = sid \<longrightarrow> w_status w \<in> set WORKFLOW_TERMINAL_STATUSES) \<and>
    (\<forall>k\<in>set (lf_tasks db'). tk_strategy k = sid \<and> py_lower (py_strip (tk_status k)) = ''pending'' \<longrightarrow> tk_type k = ''post_mortem'') \<and>
    open_live_rows sid db' = []"
proof (rule moved_tables [OF assms(1,2)])
  fix c t' u d
  assume c: "cx_id c = sid" "md_to r = Some t'" "t' = Live \<or> open_live_rows sid d = []"
    "db' = after_commit g c t' u (write_move now c t' u d)" "map_of (lf_rows d) sid \<noteq> None"
  have t: "t' = t" using c(2) assms(3) by simp
  have own: "stage_to_agent t = None" using assms(4) by (auto simp: terminal_stages_def stage_to_agent_def)
  have "\<exists>row. map_of (lf_rows db') sid = Some row \<and> row_stage row = t \<and> sg_owner row = None"
    using c t own by auto
  moreover have "map_of (lf_ceilings db') sid = None"
    using c t assms(4) by (simp add: write_move_ceilings map_of_dict_pop)
  moreover have "\<forall>w\<in>set (lf_workflows db'). w_strategy w = sid \<longrightarrow> w_status w \<in> set WORKFLOW_TERMINAL_STATUSES"
    using c t assms(4)
    by (auto simp: write_move_workflows cancel_active_workflow_def WORKFLOW_TERMINAL_STATUSES_def)
  moreover have "tk_type k = ''post_mortem''"
    if "k \<in> set (lf_tasks db')" "tk_strategy k = sid" "py_lower (py_strip (tk_status k)) = ''pending''" for k
  proof (rule ccontr)
    assume k: "tk_type k \<noteq> ''post_mortem''"
    have "lf_tasks (write_move now c t' u d) = cancel_tasks sid (lf_tasks d)" using c(1) t assms(4) by (simp add: write_move_tasks)
    then have "k \<in> set (cancel_tasks sid (lf_tasks d))" using after_commit_tasks [OF that(1) [unfolded c(4)]] k by simp
    then show False using that(2,3) by (rule cancel_tasks_pending [THEN notE])
  qed
  moreover have "open_live_rows sid db' = []"
  proof -
    have "t' \<noteq> Live" using t assms(4) by (auto simp: terminal_stages_def)
    then have "open_live_rows sid d = []" using c(3) by simp
    then have "\<not> open_live_row sid x" if "x \<in> set (dk_trades (lf_desk db'))" for x
      using flatten_opens_nothing [OF that [unfolded c(4)], of sid] by (auto simp: open_live_rows_def filter_empty_conv)
    then show ?thesis by (simp add: open_live_rows_def)
  qed
  ultimately show ?thesis by blast
qed

definition demo_workflow :: "wf_status \<Rightarrow> workflow" where
  "demo_workflow st = \<lparr>w_id = ''W1'', w_strategy = ''S1'', w_version = 3, w_status = st, w_current = None, w_error = None,
     w_updated = 0, w_completed = None, w_cancelled = None, w_steps = []\<rparr>"

lemma terminal_strategy_holds_nothing_witness:
  "map_of (lf_ceilings (snd (demo_call Live (demo_move ''archived'' ''ui'' True False) [] [demo_workflow WfRunning]))) ''S1'' = None"
proof -
  define mv where "mv = demo_move ''archived'' ''ui'' True False"
  have f: "fst (demo_call Live mv [] [demo_workflow WfRunning]) = Inr \<lparr>md_from = Live, md_to = Some Retired, md_outcome = Moved\<rparr>"
    unfolding mv_def by code_simp
  obtain db' where r: "transition_stage 5 demo_gates ''S1'' mv id (demo_life Live [] [demo_workflow WfRunning]) =
      (Inr \<lparr>md_from = Live, md_to = Some Retired, md_outcome = Moved\<rparr>, db')"
    using f unfolding demo_call_def by (metis prod.collapse)
  have "map_of (lf_ceilings db') ''S1'' = None"
    using terminal_strategy_holds_nothing [OF r, of Retired] by (simp add: terminal_stages_def)
  then show ?thesis using r by (simp add: demo_call_def mv_def)
qed

section \<open>Restores\<close>

lemma reset_stale_status:
  assumes "w_strategy w = sid"
  shows "w_status (reset_stale_workflow now sid w) \<noteq> WfFailedGate"
    and "w_version w = WORKFLOW_DEFINITION_VERSION \<Longrightarrow> w_status (reset_stale_workflow now sid w) \<notin> set WORKFLOW_TERMINAL_STATUSES"
  using assms by (auto simp: reset_stale_workflow_def WORKFLOW_TERMINAL_STATUSES_def)

lemma reset_stale_fields [simp]:
  "w_strategy (reset_stale_workflow now sid w) = w_strategy w" "w_version (reset_stale_workflow now sid w) = w_version w"
  by (simp_all add: reset_stale_workflow_def)

lemma restored_fields:
  assumes "cx_cur c \<in> set terminal_stages"
  shows "sg_metrics (stage_update now c QuickScreen why r) = JNull" "sg_verdict (stage_update now c QuickScreen why r) = JNull"
    "sg_why (stage_update now c QuickScreen why r) = None"
  using assms by (simp_all add: stage_update_def restore_timeframe_def Let_def)

text \<open>C12: A restore starts afresh. A strategy taken from a terminal stage back to the quick screen has no metrics, verdict or
  status reason left, no workflow that failed its gate (the sweep would archive it again), and every workflow of the
  current version can run.\<close>

theorem restore_starts_afresh:
  assumes "transition_stage now g sid mv others db = (Inr r, db')" and "md_outcome r = Moved"
    and "md_from r \<in> set terminal_stages" and "md_to r = Some QuickScreen"
  shows "(\<exists>row. map_of (lf_rows db') sid = Some row \<and> sg_metrics row = JNull \<and> sg_verdict row = JNull \<and> sg_why row = None) \<and>
    (\<forall>w\<in>set (lf_workflows db'). w_strategy w = sid \<longrightarrow> w_status w \<noteq> WfFailedGate \<and>
       (w_version w = WORKFLOW_DEFINITION_VERSION \<longrightarrow> w_status w \<notin> set WORKFLOW_TERMINAL_STATUSES))"
proof (rule moved_tables [OF assms(1,2)])
  fix c t u d
  assume c: "cx_id c = sid" "md_from r = cx_cur c" "md_to r = Some t"
    "db' = after_commit g c t u (write_move now c t u d)" "map_of (lf_rows d) sid \<noteq> None"
  have t: "t = QuickScreen" "cx_cur c \<in> set terminal_stages" using c(2,3) assms(3,4) by simp_all
  then have "\<exists>row. map_of (lf_rows db') sid = Some row \<and> sg_metrics row = JNull \<and> sg_verdict row = JNull \<and> sg_why row = None"
    using c by (auto simp: restored_fields)
  moreover have "lf_workflows db' = map (reset_stale_workflow now sid) (lf_workflows d)"
    using c t by (simp add: write_move_workflows terminal_stages_def)
  ultimately show ?thesis using reset_stale_status by auto
qed

lemma restore_starts_afresh_witness:
  "w_status (hd (lf_workflows (snd (demo_call Retired (demo_move ''quick_screen'' ''ui'' True False) [] [demo_workflow WfFailedGate]))))
     \<noteq> WfFailedGate"
proof -
  define mv where "mv = demo_move ''quick_screen'' ''ui'' True False"
  have f: "fst (demo_call Retired mv [] [demo_workflow WfFailedGate]) =
      Inr \<lparr>md_from = Retired, md_to = Some QuickScreen, md_outcome = Moved\<rparr>"
    and one: "map w_strategy (lf_workflows (snd (demo_call Retired mv [] [demo_workflow WfFailedGate]))) = [''S1'']"
    unfolding mv_def by code_simp+
  obtain db' where r: "transition_stage 5 demo_gates ''S1'' mv id (demo_life Retired [] [demo_workflow WfFailedGate]) =
      (Inr \<lparr>md_from = Retired, md_to = Some QuickScreen, md_outcome = Moved\<rparr>, db')"
    using f unfolding demo_call_def by (metis prod.collapse)
  have "map w_strategy (lf_workflows db') = [''S1'']" using one r by (simp add: demo_call_def)
  moreover from this have "hd (lf_workflows db') \<in> set (lf_workflows db')" by (cases "lf_workflows db'") auto
  ultimately have "w_status (hd (lf_workflows db')) \<noteq> WfFailedGate"
    using restore_starts_afresh [OF r] by (cases "lf_workflows db'") (auto simp: terminal_stages_def)
  then show ?thesis using r by (simp add: demo_call_def mv_def)
qed

section \<open>The gauntlet's tables\<close>

lemma cancel_active_ok: "w_ok w \<Longrightarrow> w_ok (cancel_active_workflow now sid w)"
  unfolding cancel_active_workflow_def
  by (simp, intro impI, rule map_steps_ok) (auto simp: legal_def cancel_open_step_def active_status_def)

lemma cancel_unpassed_ok: "w_ok w \<Longrightarrow> w_ok (map_steps (cancel_unpassed_step now) w)"
  by (rule map_steps_ok) (auto simp: legal_def cancel_unpassed_step_def active_status_def)

lemma reset_stale_ok: "w_ok w \<Longrightarrow> w_ok (reset_stale_workflow now sid w)"
  by (simp add: reset_stale_workflow_def reset_w_ok cancel_unpassed_ok)

lemma step_keeps_workflows:
  "life_step s s' \<Longrightarrow> \<forall>w\<in>set (lf_workflows (fst s)). w_ok w \<Longrightarrow> \<forall>w\<in>set (lf_workflows (fst s')). w_ok w"
proof (induction rule: life_step.induct)
  case (Ended now g sid mv db r db' ps)
  then show ?case using gate_finished [OF Ended(1)] by simp
next
  case (Commit c ps now g db r db')
  from Commit(2) show ?case
  proof (cases rule: commit_cases)
    case (moved row t u d)
    then show ?thesis
      using Commit(3) thrash_tables(3) [OF moved(5)]
      by (auto simp: write_move_workflows intro: cancel_active_ok reset_stale_ok)
  qed (use Commit(3) in simp)
qed simp_all

section \<open>Demotions out of the gauntlet\<close>

definition gauntlet_demotions :: "string \<Rightarrow> life \<Rightarrow> nat" where
  "gauntlet_demotions sid db = length (filter (\<lambda>e. se_from e = InGauntlet \<and> se_to e = QuickScreen) (events_of sid db))"

text \<open>One call after the other, each with its own clock and answers.\<close>

definition serial_call :: "life \<Rightarrow> int \<times> gates \<times> string \<times> move \<Rightarrow> life" where
  "serial_call db e = (case e of (now, g, sid, mv) \<Rightarrow> snd (transition_stage now g sid mv id db))"

definition demotions_counted :: "string \<Rightarrow> life \<Rightarrow> bool" where
  "demotions_counted sid db \<longleftrightarrow>
     gauntlet_demotions sid db \<le> 2 \<and>
     (\<forall>row. map_of (lf_rows db) sid = Some row \<longrightarrow> int (gauntlet_demotions sid db) \<le> sg_demotions row)"

lemma demotions_after_move:
  "lf_events db' = lf_events db \<Longrightarrow> gauntlet_demotions sid (after_commit g c t u (write_move now c t u db')) =
    gauntlet_demotions sid db + (if cx_id c = sid \<and> cx_cur c = InGauntlet \<and> t = QuickScreen then 1 else 0)"
  by (simp add: gauntlet_demotions_def events_of_def)

text \<open>What the thrash protection does to the count of one strategy.\<close>

lemma thrash_counts:
  assumes "thrash c db = (t, u, d)" and "map_of (lf_rows db) (cx_id c) = Some (cx_row c)"
    and "map_of (lf_rows d) (cx_id c) = Some v"
  shows "sg_demotions v = sg_demotions (cx_row c) + (if cx_cur c = InGauntlet \<and> cx_target c = QuickScreen then 1 else 0)"
    and "cx_cur c = InGauntlet \<and> t = QuickScreen \<Longrightarrow> sg_demotions v \<le> 2 \<and> cx_target c = QuickScreen"
  using assms by (auto simp: thrash_def Let_def split: if_splits)

lemma demotion_kept:
  assumes "demotions_counted sid db" and "commit_move now g c db = (r, db')"
    and "map_of (lf_rows db) (cx_id c) = Some (cx_row c)"
  shows "demotions_counted sid db'"
proof -
  obtain t u d where th: "thrash c db = (t, u, d)" by (cases "thrash c db")
  note tt = thrash_tables [OF th]
  obtain v where v: "map_of (lf_rows d) (cx_id c) = Some v"
    using tt(4) [of "cx_id c"] assms(3) by (cases "map_of (lf_rows d) (cx_id c)") auto
  note n = thrash_counts [OF th assms(3) v]
  have d: "demotions_counted sid d"
    using assms(1,3) tt(1) tt(6) [of sid] n(1) v
    by (cases "sid = cx_id c") (auto simp: demotions_counted_def gauntlet_demotions_def events_of_def)
  have "db' = db \<or> db' = snd (record_blocked c StaleValidation db) \<or> (\<exists>m. db' = snd (record_blocked (c\<lparr>cx_target := t\<rparr>) m d)) \<or>
      db' = after_commit g c t u (write_move now c t u d)"
    using assms(2,3) by (auto simp: commit_move_def finish_commit_def th split: if_splits) (metis snd_conv)+
  moreover have "demotions_counted sid (after_commit g c t u (write_move now c t u d))"
  proof -
    have "int (gauntlet_demotions sid d) \<le> sg_demotions (cx_row c)" if "cx_id c = sid"
      using that assms(1,3) by (simp add: demotions_counted_def gauntlet_demotions_def events_of_def tt(1))
    then have le: "cx_id c = sid \<Longrightarrow> cx_cur c = InGauntlet \<Longrightarrow> t = QuickScreen \<Longrightarrow>
        gauntlet_demotions sid d \<le> 1 \<and> int (gauntlet_demotions sid d) + 1 \<le> sg_demotions v"
      using n by fastforce
    define f where "f = after_commit g c t u (write_move now c t u d)"
    have count: "gauntlet_demotions sid f =
        gauntlet_demotions sid d + (if cx_id c = sid \<and> cx_cur c = InGauntlet \<and> t = QuickScreen then 1 else 0)"
      unfolding f_def by (rule demotions_after_move) (rule refl)
    have row: "sg_demotions w = sg_demotions w'" if "map_of (lf_rows f) sid = Some w" "map_of (lf_rows d) sid = Some w'" for w w'
      using that stage_update_fields(3) by (auto simp: f_def split: if_splits)
    have "demotions_counted sid f"
    proof (cases "cx_id c = sid \<and> cx_cur c = InGauntlet \<and> t = QuickScreen")
      case True
      then show ?thesis using le v row count by (simp add: demotions_counted_def)
    next
      case False
      then have "gauntlet_demotions sid f = gauntlet_demotions sid d" using count by simp
      moreover have "\<exists>w'. map_of (lf_rows d) sid = Some w'" if "map_of (lf_rows f) sid = Some w" for w
        using that by (auto simp: f_def split: if_splits)
      ultimately show ?thesis using d row unfolding demotions_counted_def by metis
    qed
    then show ?thesis by (simp only: f_def)
  qed
  ultimately show ?thesis using assms(1) d by (auto simp: demotions_counted_def gauntlet_demotions_def events_of_def)
qed

lemma serial_call_counts [inv_rules]: "demotions_counted sid db \<Longrightarrow> demotions_counted sid (serial_call db e)"
proof -
  assume inv: "demotions_counted sid db"
  obtain now g i mv where e: "e = (now, g, i, mv)" by (cases e)
  show ?thesis
  proof (cases "gate_move now g i mv db")
    case (Inr x)
    show ?thesis
    proof (cases x)
      case (Finished r d)
      have "lf_rows d = lf_rows db \<and> lf_events d = lf_events db"
        using gate_finished [OF Inr [unfolded Finished]] by simp
      then have "demotions_counted sid d" using inv by (simp add: demotions_counted_def gauntlet_demotions_def events_of_def)
      moreover have "serial_call db e = d" by (simp only: serial_call_def e transition_stage_def Inr Finished prod.case sum.case gated.case snd_conv)
      ultimately show ?thesis by simp
    next
      case (Ready c)
      obtain r d where rd: "commit_move now g c db = (r, d)" by force
      have "map_of (lf_rows db) (cx_id c) = Some (cx_row c)"
        by (rule gate_ready [OF Inr [unfolded Ready]]) simp
      from demotion_kept [OF inv rd this] show ?thesis by (simp add: serial_call_def e transition_stage_def Inr Ready rd)
    qed
  qed (simp add: serial_call_def e transition_stage_def inv)
qed

interpretation demotion_count: invariant_run serial_call "demotions_counted sid" for sid
  by unfold_locales (rule serial_call_counts)



text \<open>A refused demotion is counted all the same: the count is written before the open live position refuses the move.\<close>

lemma refused_demotion_is_counted:
  "fst (demo_call InGauntlet (demo_move ''quick_screen'' ''ui'' True False) [demo_live_trade] []) =
     Inr \<lparr>md_from = InGauntlet, md_to = Some InGauntlet, md_outcome = Blocked StageChangeOpenLive\<rparr> \<and>
   map_option sg_demotions (map_of (lf_rows (snd (demo_call InGauntlet (demo_move ''quick_screen'' ''ui'' True False)
     [demo_live_trade] []))) ''S1'') = Some 1"
  by code_simp

text \<open>A stage nobody knows reads as the quick screen, so a misspelt target demotes instead of being refused.\<close>

lemma misspelt_stage_demotes:
  "fst (demo_call InGauntlet (demo_move ''papper'' ''ui'' False False) [] []) =
     Inr \<lparr>md_from = InGauntlet, md_to = Some QuickScreen, md_outcome = Moved\<rparr>"
  by code_simp

end
