(* ===== verification/Probation.thy ===== *)
theory Probation
  imports Lifecycle_Commit
begin

text \<open>
  Live probation over the tables (\<open>src/forven/probation.py\<close>): the entry checks, every operator action and the hourly
  watchdog, which move strategies with \<open>transition_stage\<close>. What other modules answer is \<open>entry_input\<close>, \<open>evidence\<close>
  and the gates of a move; the knobs are those \<open>settings\<close> returns. Notifications, activity lines and the screens'
  payloads are left out.
\<close>

datatype perr = NeedsConfirm | NotFound | NeedsBypass | CouldNotMove | HardChecks "string list" | NotReady "string list"
  | StageRefused | NotInProbation | BadSize | NotLive | LifecycleError

section \<open>Automation\<close>

definition CONFIRM_PHRASE :: string where "CONFIRM_PHRASE = ''PROBATION''"
definition GO_LIVE_CONFIRM_PHRASE :: string where "GO_LIVE_CONFIRM_PHRASE = ''GO LIVE''"
definition ACTOR :: string where "ACTOR = ''probation''"

definition confirmed :: "string \<Rightarrow> string \<Rightarrow> bool" where
  "confirmed phrase typed \<longleftrightarrow> py_upper (py_strip typed) = phrase"

definition is_operator :: "string \<Rightarrow> bool" where
  "is_operator actor \<longleftrightarrow> py_lower actor \<noteq> ACTOR"

record automation_changes =
  ac_entry :: "bool option"
  ac_graduate :: "bool option"
  ac_demote :: "bool option"

definition wanted_automation :: "automation_changes \<Rightarrow> switches \<Rightarrow> switches" where
  "wanted_automation ch a =
     \<lparr>au_entry = (case ac_entry ch of None \<Rightarrow> au_entry a | Some b \<Rightarrow> b),
      au_graduate = (case ac_graduate ch of None \<Rightarrow> au_graduate a | Some b \<Rightarrow> b),
      au_demote = (case ac_demote ch of None \<Rightarrow> au_demote a | Some b \<Rightarrow> b)\<rparr>"

definition riskier :: "switches \<Rightarrow> switches \<Rightarrow> bool" where
  "riskier w a \<longleftrightarrow> (au_entry w \<and> \<not> au_entry a) \<or> (au_graduate w \<and> \<not> au_graduate a) \<or> (\<not> au_demote w \<and> au_demote a)"

definition automation_json :: "switches \<Rightarrow> jv" where
  "automation_json a =
     JObj [(''auto_entry'', JBool (au_entry a)), (''auto_graduate'', JBool (au_graduate a)), (''auto_demote'', JBool (au_demote a))]"

definition set_automation :: "automation_changes \<Rightarrow> string \<Rightarrow> jv \<Rightarrow> (perr + switches) \<times> jv" where
  "set_automation ch confirm stored =
     (let a = automation stored; w = wanted_automation ch a
      in if riskier w a \<and> \<not> confirmed CONFIRM_PHRASE confirm then (Inl NeedsConfirm, stored)
         else (Inr (automation (automation_json w)), automation_json w))"

section \<open>The live record\<close>

text \<open>The stage text as this module reads it, without the lifecycle's aliases.\<close>

definition raw_stage :: "strat_row \<Rightarrow> string" where
  "raw_stage r =
     py_lower (py_strip (case sg_stage r of Some s \<Rightarrow> if s \<noteq> [] then s else opt_word (sg_status r) | None \<Rightarrow> opt_word (sg_status r)))"

text \<open>
  The closed live trades since the record's entry as their rows, the backtest's trades, the cost statistics and the
  sequential test's state. Rows whose return is infinite or NaN are left out.
\<close>

record evidence =
  ev_rows :: "jobj list"
  ev_backtest :: "rat list"
  ev_costs :: "cost_stats option"
  ev_sequential :: "string option"
  ev_breadth_ok :: "bool option"

definition live_returns :: "jobj list \<Rightarrow> rat list" where
  "live_returns rows = finite_returns (map margin_return rows)"

definition mismatched_live :: "jobj list \<Rightarrow> int" where
  "mismatched_live rows =
     int (length (filter (\<lambda>r. \<not> truthy (case jget r ''signal_data'' of JObj sd \<Rightarrow> jget sd ''kernel_managed'' | _ \<Rightarrow> JNull)) rows))"

record live_report =
  lv_trades :: int
  lv_return :: rat
  lv_triggers :: "trigger list"

definition live_record :: "(nat \<Rightarrow> nat \<Rightarrow> nat \<Rightarrow> nat) \<Rightarrow> knobs \<Rightarrow> evidence \<Rightarrow> live_report" where
  "live_record pick k ev =
     (let live = live_returns (ev_rows ev)
      in \<lparr>lv_trades = int (length (ev_rows ev)),
          lv_return = (if live = [] then 0 else py_round (sum_list live * 100) 3),
          lv_triggers = demotion_reasons pick live (ev_backtest ev) k (if live = [] then None else ev_sequential ev)
            (ev_costs ev) (mismatched_live (ev_rows ev))\<rparr>)"

section \<open>Entry\<close>

record entry_input =
  ei_pace :: "rat option"
  ei_coverage :: "rat option"
  ei_paper :: "jobj list"
  ei_return :: "rat option"
  ei_executable :: bool
  ei_fresh :: bool
  ei_holdout_needed :: bool
  ei_holdout :: "bool option"
  ei_admits :: "rat \<Rightarrow> bool"

record check =
  ck_key :: string
  ck_ok :: "bool option"
  ck_bypassable :: bool

definition chk :: "string \<Rightarrow> bool \<Rightarrow> check" where
  "chk key ok = \<lparr>ck_key = key, ck_ok = Some ok, ck_bypassable = True\<rparr>"

definition hard_chk :: "string \<Rightarrow> bool \<Rightarrow> check" where
  "hard_chk key ok = \<lparr>ck_key = key, ck_ok = Some ok, ck_bypassable = False\<rparr>"

text \<open>A paper trade matches when the kernel opened and closed it on the backtest's basis.\<close>

definition replay_trade :: "jobj \<Rightarrow> bool" where
  "replay_trade sd \<longleftrightarrow>
     truthy (jget sd ''kernel_managed'') \<and> truthy (jget sd ''pnl_is_equity_fraction'') \<and> \<not> truthy (jget sd ''close_incomplete'')"

definition paper_confirmation :: "jobj list \<Rightarrow> int \<times> int" where
  "paper_confirmation rows =
     (let m = length (filter replay_trade rows) in (int m, int (length rows) - int m))"

definition days_since :: "int \<Rightarrow> int \<Rightarrow> int" where
  "days_since now t = (now - t) div day_micros"

definition entry_check :: "int \<Rightarrow> knobs \<Rightarrow> string \<Rightarrow> entry_input \<Rightarrow> life \<Rightarrow> check list option" where
  "entry_check now k sid inp db =
     (case map_of (lf_rows db) sid of
        None \<Rightarrow> None
      | Some row \<Rightarrow>
          (let days = (case parse_iso_utc (sg_changed row) of None \<Rightarrow> 0 | Some t \<Rightarrow> days_since now t);
               slow = (case ei_pace inp of None \<Rightarrow> False | Some p \<Rightarrow> p < knob k ''slow_pace_per_month'');
               matched = of_int (fst (paper_confirmation (ei_paper inp)));
               confirm = (if slow then knob k ''slow_confirm_trades'' \<le> matched \<and> knob k ''slow_confirm_days'' \<le> of_int days
                          else knob k ''confirm_trades'' \<le> matched)
           in Some (
             [chk ''stage'' (raw_stage row \<in> {''paper'', ''paper_trading''}),
              chk ''paper_confirmation'' confirm,
              chk ''paper_breakeven'' (case ei_return inp of None \<Rightarrow> False | Some x \<Rightarrow> 0 \<le> x),
              chk ''edge_covers_costs'' (case ei_coverage inp of None \<Rightarrow> False | Some x \<Rightarrow> knob k ''min_cost_coverage'' \<le> x),
              hard_chk ''execution_verified'' (ei_executable inp),
              chk ''engine_fresh'' (ei_fresh inp)]
             @ (if ei_holdout_needed inp then [\<lparr>ck_key = ''held_back'', ck_ok = ei_holdout inp, ck_bypassable = True\<rparr>] else [])
             @ [hard_chk ''live_admission'' (ei_admits inp (knob k ''start_size_pct'' / 100))]
             @ (case map_of (lf_probation db) sid of None \<Rightarrow> []
                | Some r \<Rightarrow>
                    (case parse_iso_utc (pr_demoted_at r) of None \<Rightarrow> []
                     | Some t \<Rightarrow> [chk ''cooldown'' (knob k ''reentry_cooldown_days'' \<le> of_int (days_since now t))]))
             @ (if knob k ''max_strategies'' = 0 then []
                else [chk ''capacity'' (of_nat (length (list_records (Some IN_PROBATION) (lf_probation db))) < knob k ''max_strategies'')]))))"

definition failing :: "check list \<Rightarrow> check list" where
  "failing cs = filter (\<lambda>c. ck_ok c \<noteq> Some True) cs"

definition hard_failing :: "check list \<Rightarrow> check list" where
  "hard_failing cs = filter (\<lambda>c. \<not> ck_bypassable c \<or> ck_key c = ''stage'') (failing cs)"

section \<open>Moving a strategy\<close>

definition ask_stage :: "int \<Rightarrow> gates \<Rightarrow> string \<Rightarrow> string \<Rightarrow> string \<Rightarrow> bool \<Rightarrow> bool \<Rightarrow> life \<Rightarrow> stage option result \<times> life" where
  "ask_stage now g sid target actor force entry db =
     (case transition_stage now g sid \<lparr>mv_target = target, mv_reason = ''probation'', mv_actor = actor, mv_force = force,
             mv_skip_approval = False, mv_evidence = None, mv_probation = entry\<rparr> id db of
        (Inl e, d) \<Rightarrow> (Inl e, d) | (Inr r, d) \<Rightarrow> (Inr (md_to r), d))"

definition save_probation :: "string \<Rightarrow> int \<Rightarrow> (prec \<Rightarrow> prec) \<Rightarrow> pevent option \<Rightarrow> life \<Rightarrow> life" where
  "save_probation sid now upd e db = db\<lparr>lf_probation := save_record sid now upd e (lf_probation db)\<rparr>"

record penv =
  pe_gates :: "string \<Rightarrow> gates"
  pe_entry :: "string \<Rightarrow> life \<Rightarrow> entry_input"
  pe_evidence :: "string \<Rightarrow> evidence"
  pe_pick :: "nat \<Rightarrow> nat \<Rightarrow> nat \<Rightarrow> nat"

text \<open>A gauntlet strategy is moved to paper first, by an operator who bypasses.\<close>

definition skip_paper :: "penv \<Rightarrow> int \<Rightarrow> string \<Rightarrow> string \<Rightarrow> bool \<Rightarrow> strat_row \<Rightarrow> life \<Rightarrow> (perr + unit) \<times> life" where
  "skip_paper env now sid actor bypass row db =
     (if raw_stage row \<noteq> ''gauntlet'' then (Inr (), db)
      else if \<not> (is_operator actor \<and> bypass) then (Inl NeedsBypass, db)
      else case ask_stage now (pe_gates env sid) sid ''paper'' actor True False db of
             (Inl e, d) \<Rightarrow> (Inl LifecycleError, d)
           | (Inr t, d) \<Rightarrow> if t = Some Paper then (Inr (), d) else (Inl CouldNotMove, d))"

definition start_record :: "int \<Rightarrow> rat \<Rightarrow> string \<Rightarrow> string list \<Rightarrow> prec option \<Rightarrow> prec \<Rightarrow> prec" where
  "start_record now pct actor bypassed before r =
     r\<lparr>pr_state := Active, pr_size := pct, pr_locked := False, pr_entered := Some (Stamp now), pr_by := Some actor,
       pr_bypassed := bypassed, pr_demotions := (case before of None \<Rightarrow> 0 | Some b \<Rightarrow> pr_demotions b),
       pr_demoted_at := (case before of None \<Rightarrow> None | Some b \<Rightarrow> pr_demoted_at b), pr_reason := None\<rparr>"

definition start_checked :: "penv \<Rightarrow> int \<Rightarrow> knobs \<Rightarrow> string \<Rightarrow> string \<Rightarrow> bool \<Rightarrow> life \<Rightarrow> (perr + unit) \<times> life" where
  "start_checked env now k sid actor bypass db =
     (case entry_check now k sid (pe_entry env sid db) db of
        None \<Rightarrow> (Inl NotFound, db)
      | Some cs \<Rightarrow>
          if hard_failing cs \<noteq> [] then (Inl (HardChecks (map ck_key (hard_failing cs))), db)
          else if failing cs \<noteq> [] \<and> \<not> (is_operator actor \<and> bypass) then (Inl (NotReady (map ck_key (failing cs))), db)
          else case ask_stage now (pe_gates env sid) sid ''live_graduated'' actor False True db of
                 (Inl e, d) \<Rightarrow> (Inl LifecycleError, d)
               | (Inr t, d) \<Rightarrow>
                   if t \<noteq> Some Live then (Inl StageRefused, d)
                   else (Inr (), save_probation sid now
                          (start_record now (knob k ''start_size_pct'') actor (map ck_key (failing cs)) (map_of (lf_probation db) sid))
                          (Some Started) d))"

definition start_probation :: "penv \<Rightarrow> int \<Rightarrow> knobs \<Rightarrow> string \<Rightarrow> string \<Rightarrow> string \<Rightarrow> bool \<Rightarrow> life \<Rightarrow> (perr + unit) \<times> life" where
  "start_probation env now k sid actor confirm bypass db =
     (if is_operator actor \<and> \<not> confirmed CONFIRM_PHRASE confirm then (Inl NeedsConfirm, db)
      else case map_of (lf_rows db) sid of
        None \<Rightarrow> (Inl NotFound, db)
      | Some row \<Rightarrow>
          (case skip_paper env now sid actor bypass row db of
             (Inl e, d) \<Rightarrow> (Inl e, d) | (Inr _, d) \<Rightarrow> start_checked env now k sid actor bypass d))"

section \<open>Size and graduation\<close>

definition graduation_failing :: "knobs \<Rightarrow> evidence \<Rightarrow> live_report \<Rightarrow> string list" where
  "graduation_failing k ev r =
     (if knob k ''graduate_trades'' \<le> of_int (lv_trades r) then [] else [''live_trades''])
     @ (if 0 \<le> lv_return r then [] else [''live_result''])
     @ (if lv_triggers r = [] then [] else [''no_triggers''])
     @ (if ev_breadth_ok ev = Some False then [''breadth''] else [])"

definition graduate :: "penv \<Rightarrow> int \<Rightarrow> knobs \<Rightarrow> string \<Rightarrow> string \<Rightarrow> string \<Rightarrow> bool \<Rightarrow> life \<Rightarrow> (perr + unit) \<times> life" where
  "graduate env now k sid actor confirm bypass db =
     (case map_of (lf_probation db) sid of
        None \<Rightarrow> (Inl NotInProbation, db)
      | Some r \<Rightarrow>
          if \<not> in_probation r then (Inl NotInProbation, db)
          else if is_operator actor \<and> \<not> confirmed GO_LIVE_CONFIRM_PHRASE confirm then (Inl NeedsConfirm, db)
          else (let ev = pe_evidence env sid; bad = graduation_failing k ev (live_record (pe_pick env) k ev)
                in if bad \<noteq> [] \<and> \<not> (is_operator actor \<and> bypass) then (Inl (NotReady bad), db)
                   else (Inr (), save_probation sid now
                          (\<lambda>r. r\<lparr>pr_state := Graduated, pr_size := 100, pr_locked := False, pr_reason := None\<rparr>) (Some GraduatedEvent) db)))"

text \<open>A size by hand, or None to follow the ladder again.\<close>

definition set_size :: "penv \<Rightarrow> int \<Rightarrow> knobs \<Rightarrow> string \<Rightarrow> pyfloat option \<Rightarrow> string \<Rightarrow> string \<Rightarrow> life \<Rightarrow> (perr + unit) \<times> life" where
  "set_size env now k sid pct actor confirm db =
     (case map_of (lf_probation db) sid of
        None \<Rightarrow> (Inl NotInProbation, db)
      | Some r \<Rightarrow>
          if \<not> in_probation r then (Inl NotInProbation, db)
          else case pct of
            None \<Rightarrow>
              (let s = min (ladder_size_pct (int (length (ev_rows (pe_evidence env sid)))) k) (knob k ''step_size_pct'')
               in (Inr (), save_probation sid now (\<lambda>r. r\<lparr>pr_size := s, pr_locked := False\<rparr>) (Some LadderResumed) db))
          | Some (Fin s) \<Rightarrow>
              if s \<le> 0 \<or> 100 < s then (Inl BadSize, db)
              else if 100 \<le> s then graduate env now k sid actor confirm True db
              else (Inr (), save_probation sid now (\<lambda>r. r\<lparr>pr_size := s, pr_locked := True\<rparr>) (Some SizeSet) db)
          | Some _ \<Rightarrow> (Inl BadSize, db))"

definition pause :: "int \<Rightarrow> string \<Rightarrow> bool \<Rightarrow> life \<Rightarrow> (perr + unit) \<times> life" where
  "pause now sid paused db =
     (case map_of (lf_probation db) sid of
        None \<Rightarrow> (Inl NotInProbation, db)
      | Some r \<Rightarrow>
          if pr_state r \<notin> {Active, Paused} then (Inl NotInProbation, db)
          else (Inr (), save_probation sid now (\<lambda>r. r\<lparr>pr_state := (if paused then Paused else Active)\<rparr>)
                 (Some (if paused then PausedEvent else Resumed)) db))"

section \<open>Demotion\<close>

definition record_demoted :: "int \<Rightarrow> int \<Rightarrow> prec \<Rightarrow> prec" where
  "record_demoted now n r = r\<lparr>pr_state := Demoted, pr_demotions := n, pr_demoted_at := Some (Stamp now)\<rparr>"

definition archive_demoted :: "penv \<Rightarrow> int \<Rightarrow> knobs \<Rightarrow> string \<Rightarrow> int \<Rightarrow> life \<Rightarrow> life" where
  "archive_demoted env now k sid n db =
     (let limit = knob k ''archive_after_demotions''
      in if limit \<noteq> 0 \<and> limit \<le> of_int n
         then (case transition_stage now (pe_gates env sid) sid
                 \<lparr>mv_target = ''archived'', mv_reason = ''Demoted from probation'', mv_actor = ACTOR, mv_force = True, mv_skip_approval = False,
                  mv_evidence = Some [(''status_reason'', JStr (''probation_demoted:'' @ nat_text (nat n)))], mv_probation = False\<rparr> id db of
                 (Inl e, d) \<Rightarrow> d | (Inr r, d) \<Rightarrow> save_probation sid now id (Some ArchivedEvent) d)
         else db)"

definition complete_demotion :: "penv \<Rightarrow> int \<Rightarrow> knobs \<Rightarrow> string \<Rightarrow> prec \<Rightarrow> life \<Rightarrow> bool result \<times> life" where
  "complete_demotion env now k sid r db =
     (let n = pr_demotions r + 1
      in (Inr True, archive_demoted env now k sid n (save_probation sid now (record_demoted now n) (Some DemotedEvent) db)))"

definition finish_demotion :: "penv \<Rightarrow> int \<Rightarrow> knobs \<Rightarrow> string \<Rightarrow> life \<Rightarrow> bool result \<times> life" where
  "finish_demotion env now k sid db =
     (case map_of (lf_probation db) sid of
        None \<Rightarrow> (Inr False, db)
      | Some r \<Rightarrow>
          if pr_state r \<noteq> Demoting then (Inr False, db)
          else if (case map_of (lf_rows db) sid of None \<Rightarrow> True | Some row \<Rightarrow> raw_stage row \<noteq> ''live_graduated'')
          then complete_demotion env now k sid r db
          else if open_live_rows sid db \<noteq> [] then (Inr False, db)
          else case ask_stage now (pe_gates env sid) sid ''paper'' ACTOR True False db of
                 (Inl e, d) \<Rightarrow> (Inl e, d)
               | (Inr t, d) \<Rightarrow> if t \<noteq> Some Paper then (Inr False, d) else complete_demotion env now k sid r d)"

definition begin_demotion :: "int \<Rightarrow> string \<Rightarrow> string \<Rightarrow> life \<Rightarrow> life" where
  "begin_demotion now sid reason db =
     save_probation sid now (\<lambda>r. r\<lparr>pr_state := Demoting, pr_reason := Some reason\<rparr>) (Some DemotionStarted)
       (if map_of (lf_probation db) sid = None
        then save_probation sid now (\<lambda>r. r\<lparr>pr_state := Demoting, pr_size := 100, pr_entered := None, pr_by := None\<rparr>) None db
        else db)"

definition demote :: "penv \<Rightarrow> int \<Rightarrow> knobs \<Rightarrow> string \<Rightarrow> string \<Rightarrow> life \<Rightarrow> (perr + unit) \<times> life" where
  "demote env now k sid reason db =
     (case map_of (lf_rows db) sid of
        None \<Rightarrow> (Inl NotFound, db)
      | Some row \<Rightarrow>
          if raw_stage row \<noteq> ''live_graduated'' then (Inl NotLive, db)
          else case finish_demotion env now k sid (begin_demotion now sid reason db) of
                 (Inl e, d) \<Rightarrow> (Inl LifecycleError, d) | (Inr _, d) \<Rightarrow> (Inr (), d))"

section \<open>The watchdog\<close>

definition watched :: "strat_row \<Rightarrow> bool" where
  "watched row \<longleftrightarrow> py_lower (py_strip (opt_word (sg_stage row))) \<in> {''live_graduated'', ''deployed''}"

definition adopt :: "int \<Rightarrow> precs \<Rightarrow> string \<times> strat_row \<Rightarrow> precs" where
  "adopt now recs p =
     (if watched (snd p) \<and> (case map_of recs (fst p) of None \<Rightarrow> True | Some r \<Rightarrow> pr_state r = Demoted)
      then save_record (fst p) now
             (\<lambda>r. r\<lparr>pr_state := Graduated, pr_size := 100, pr_locked := False,
                    pr_entered := (case sg_changed (snd p) of None \<Rightarrow> Some (Stamp now) | Some s \<Rightarrow> if s = Text [] then Some (Stamp now) else Some s),
                    pr_by := Some ''full_live'', pr_reason := None\<rparr>) (Some WatchingFullLive) recs
      else recs)"

definition watch_full_live :: "int \<Rightarrow> life \<Rightarrow> life" where
  "watch_full_live now db = db\<lparr>lf_probation := foldl (adopt now) (lf_probation db) (lf_rows db)\<rparr>"

text \<open>The ladder's part of a tick for an active record without triggers.\<close>

definition tick_graduation :: "penv \<Rightarrow> int \<Rightarrow> knobs \<Rightarrow> switches \<Rightarrow> string \<Rightarrow> prec \<Rightarrow> live_report \<Rightarrow> life \<Rightarrow> life" where
  "tick_graduation env now k auto sid r lv db =
     (let eligible = (graduation_failing k (pe_evidence env sid) lv = [])
      in if eligible \<and> au_graduate auto then snd (graduate env now k sid ACTOR [] False db)
         else if eligible \<and> GraduationReady \<notin> snd ` set (last_n 5 (pr_history r))
         then save_probation sid now id (Some GraduationReady) db
         else db)"

definition tick_size :: "int \<Rightarrow> switches \<Rightarrow> string \<Rightarrow> prec \<Rightarrow> rat \<Rightarrow> life \<Rightarrow> life" where
  "tick_size now auto sid r ladder db =
     (if au_entry auto \<and> \<not> pr_locked r \<and> pr_size r < ladder
      then save_probation sid now (\<lambda>r. r\<lparr>pr_size := ladder\<rparr>) (Some SizeStep) db else db)"

definition tick_triggers :: "penv \<Rightarrow> int \<Rightarrow> knobs \<Rightarrow> switches \<Rightarrow> string \<Rightarrow> prec \<Rightarrow> life \<Rightarrow> life" where
  "tick_triggers env now k auto sid r db =
     (if \<not> au_demote auto then db
      else if pr_state r = Graduated
      then save_probation sid now (\<lambda>r. r\<lparr>pr_state := Active, pr_size := knob k ''start_size_pct'', pr_locked := False,
             pr_entered := Some (Stamp now), pr_reason := Some ''triggers''\<rparr>) (Some BackToProbation) db
      else snd (demote env now k sid ''triggers'' db))"

definition tick_one :: "penv \<Rightarrow> int \<Rightarrow> knobs \<Rightarrow> switches \<Rightarrow> life \<Rightarrow> string \<times> prec \<Rightarrow> life" where
  "tick_one env now k auto db p =
     (case p of (sid, r) \<Rightarrow>
        if pr_state r = Demoting then snd (finish_demotion env now k sid db)
        else if pr_state r = Demoted then db
        else if (case map_of (lf_rows db) sid of None \<Rightarrow> True | Some row \<Rightarrow> raw_stage row \<noteq> ''live_graduated'')
        then save_probation sid now (\<lambda>r. r\<lparr>pr_state := Demoted, pr_reason := Some ''left live''\<rparr>) (Some EndedOutside) db
        else (let lv = live_record (pe_pick env) k (pe_evidence env sid); ladder = ladder_size_pct (lv_trades lv) k
              in if lv_triggers lv \<noteq> [] then tick_triggers env now k auto sid r db
                 else if pr_state r \<noteq> Active then db
                 else if 100 \<le> ladder
                 then tick_size now auto sid r (knob k ''step_size_pct'') (tick_graduation env now k auto sid r lv db)
                 else tick_size now auto sid r ladder db))"

text \<open>Admission: the paper strategies, longest in their stage first, eligible when the pass begins are started one after
  the other; an error that is not a refusal ends the pass.\<close>

definition stage_since :: "strat_row \<Rightarrow> int" where
  "stage_since r =
     (case parse_iso_utc (if sg_changed r = None then sg_created r else sg_changed r) of None \<Rightarrow> - 1 | Some t \<Rightarrow> t)"

definition ready_ids :: "penv \<Rightarrow> int \<Rightarrow> knobs \<Rightarrow> life \<Rightarrow> string list" where
  "ready_ids env now k db =
     map fst (filter (\<lambda>p. py_lower (py_strip (opt_word (sg_stage (snd p)))) \<in> {''paper'', ''paper_trading''} \<and>
       (case entry_check now k (fst p) (pe_entry env (fst p) db) db of None \<Rightarrow> False | Some cs \<Rightarrow> failing cs = []))
       (sort_key (\<lambda>p. stage_since (snd p)) (lf_rows db)))"

definition admit_step :: "penv \<Rightarrow> int \<Rightarrow> knobs \<Rightarrow> bool \<times> life \<Rightarrow> string \<Rightarrow> bool \<times> life" where
  "admit_step env now k s sid =
     (if fst s then s
      else case start_probation env now k sid ACTOR [] False (snd s) of
             (Inl LifecycleError, d) \<Rightarrow> (True, d) | (_, d) \<Rightarrow> (False, d))"

definition refresh_ready :: "penv \<Rightarrow> int \<Rightarrow> knobs \<Rightarrow> switches \<Rightarrow> life \<Rightarrow> life" where
  "refresh_ready env now k auto db =
     (if au_entry auto then snd (foldl (admit_step env now k) (False, db) (ready_ids env now k db)) else db)"

definition tick :: "penv \<Rightarrow> int \<Rightarrow> knobs \<Rightarrow> switches \<Rightarrow> life \<Rightarrow> life" where
  "tick env now k auto db =
     (let d = watch_full_live now db
      in refresh_ready env now k auto (foldl (tick_one env now k auto) d (list_records None (lf_probation d))))"

end
