(* ===== verification/Probation_Knobs.thy ===== *)
theory Probation_Knobs
  imports Probation_Rules
begin

text \<open>
  The rules of live probation are sound: the settings always fall inside their bounds with a consistent ladder, the
  drawdown is the deepest fall of the running sum, and an order raised to the exchange's minimum keeps its caps.
\<close>

section \<open>Settings\<close>

lemma knob_dict_set [simp]: "knob (dict_set key v k) key' = (if key' = key then v else knob k key')"
  by (simp add: knob_def map_of_dict_set)

lemma clamp_in: "low \<le> high \<Longrightarrow> low \<le> clamp_knob low high x \<and> clamp_knob low high x \<le> high"
  by (cases x) (auto simp: clamp_knob_def)

definition in_knob :: "knob_spec \<Rightarrow> rat \<Rightarrow> bool" where
  "in_knob s v \<longleftrightarrow> ks_low s \<le> v \<and> v \<le> ks_high s \<and> (ks_whole s \<longrightarrow> v \<in> \<int>)"

definition sound_spec :: "knob_spec \<Rightarrow> bool" where
  "sound_spec s \<longleftrightarrow> ks_low s \<le> ks_default s \<and> ks_default s \<le> ks_high s \<and>
     (ks_whole s \<longrightarrow> ks_low s = of_int \<lfloor>ks_low s\<rfloor> \<and> ks_high s = of_int \<lfloor>ks_high s\<rfloor> \<and> ks_default s = of_int \<lfloor>ks_default s\<rfloor>)"

lemma bounds_sound: "list_all sound_spec BOUNDS"
  by code_simp

lemma bounds_distinct: "distinct (map ks_key BOUNDS)"
  by code_simp

lemma read_knob_in:
  assumes "read_knob block s = Inr v" and "sound_spec s"
  shows "in_knob s v"
proof -
  have w: "ks_whole s \<Longrightarrow> ks_low s \<in> \<int> \<and> ks_high s \<in> \<int> \<and> ks_default s \<in> \<int>"
    using assms(2) by (metis Ints_of_int sound_spec_def)
  have le: "ks_low s \<le> ks_default s" "ks_default s \<le> ks_high s" "ks_low s \<le> ks_high s" using assms(2) by (auto simp: sound_spec_def)
  have d: "in_knob s (ks_default s)" using w le by (simp add: in_knob_def)
  show ?thesis
  proof (cases "map_of block (ks_key s)")
    case None
    then show ?thesis using assms(1) d le by (simp add: read_knob_def min_def max_def split: if_splits)
  next
    case (Some j)
    show ?thesis
    proof (cases "cast_knob (ks_whole s) j")
      case (Inl e)
      then show ?thesis using assms(1) Some d by (cases e) (simp_all add: read_knob_def)
    next
      case (Inr x)
      then have v: "v = clamp_knob (ks_low s) (ks_high s) x" using assms(1) Some by (simp add: read_knob_def)
      have "v \<in> \<int>" if whole: "ks_whole s"
      proof -
        obtain i where "x = Fin (of_int i)" using Inr whole by (cases "py_int j") (auto simp: cast_knob_def)
        then show ?thesis using w [OF whole] by (simp add: v clamp_knob_def max_def)
      qed
      then show ?thesis using clamp_in [OF le(3)] by (simp add: in_knob_def v)
    qed
  qed
qed

lemma read_knobs_in:
  assumes "read_knobs block ss = Inr k" and "distinct (map ks_key ss)" and "list_all sound_spec ss"
  shows "\<forall>s\<in>set ss. in_knob s (knob k (ks_key s))"
  using assms
proof (induction ss arbitrary: k)
  case (Cons s ss)
  then obtain v k' where k: "read_knob block s = Inr v" "read_knobs block ss = Inr k'" "k = (ks_key s, v) # k'"
    by (auto split: sum.splits simp: map_sum_def)
  have "in_knob s v" using read_knob_in [OF k(1)] Cons.prems(3) by simp
  moreover have "\<forall>u\<in>set ss. in_knob u (knob k' (ks_key u))" using Cons.IH [OF k(2)] Cons.prems by simp
  moreover have "\<forall>u\<in>set ss. ks_key u \<noteq> ks_key s" using Cons.prems(2) by (auto simp: image_iff dest: sym)
  ultimately show ?case by (simp add: k(3) knob_def)
qed simp

lemma rung_specs:
  "list_all (\<lambda>s. (ks_key s = ''step_size_pct'' \<longrightarrow> ks_low s = 1 \<and> ks_high s = 100 \<and> \<not> ks_whole s) \<and>
     (ks_key s = ''graduate_trades'' \<longrightarrow> ks_low s = 0 \<and> ks_high s = 1000 \<and> ks_whole s)) BOUNDS"
  by code_simp

lemma settings_sound:
  assumes "settings config = Inr k"
  shows "(\<forall>s\<in>set BOUNDS. in_knob s (knob k (ks_key s))) \<and>
    knob k ''start_size_pct'' \<le> knob k ''step_size_pct'' \<and> knob k ''step_trades'' \<le> knob k ''graduate_trades''"
proof -
  obtain block k0 where k0: "read_knobs block BOUNDS = Inr k0" "k = raise_steps k0"
    using assms by (auto simp: settings_def Let_def map_sum_def split: sum.splits)
  have b: "\<forall>s\<in>set BOUNDS. in_knob s (knob k0 (ks_key s))"
    using read_knobs_in [OF k0(1) bounds_distinct bounds_sound] .
  have "in_knob (spec ''start_size_pct'' 1 100 False 25) (knob k0 ''start_size_pct'')"
    and "in_knob (spec ''step_trades'' 0 1000 True 5) (knob k0 ''step_trades'')"
    using b by (simp_all add: BOUNDS_def spec_def)
  then have st: "1 \<le> knob k0 ''start_size_pct''" "knob k0 ''start_size_pct'' \<le> 100"
    "0 \<le> knob k0 ''step_trades''" "knob k0 ''step_trades'' \<le> 1000" "knob k0 ''step_trades'' \<in> \<int>"
    by (simp_all add: in_knob_def spec_def)
  have k: "knob k key = (if key = ''graduate_trades'' then max (knob k0 ''graduate_trades'') (knob k0 ''step_trades'')
      else if key = ''step_size_pct'' then max (knob k0 ''step_size_pct'') (knob k0 ''start_size_pct'') else knob k0 key)" for key
    by (simp add: k0(2) raise_steps_def Let_def)
  have "in_knob s (knob k (ks_key s))" if s: "s \<in> set BOUNDS" for s
  proof -
    have i: "in_knob s (knob k0 (ks_key s))" using b s by blast
    consider "ks_key s = ''graduate_trades''" | "ks_key s = ''step_size_pct''"
      | "ks_key s \<noteq> ''graduate_trades''" "ks_key s \<noteq> ''step_size_pct''" by blast
    then show ?thesis
    proof cases
      case 1
      then have "ks_low s = 0 \<and> ks_high s = 1000 \<and> ks_whole s" using rung_specs s unfolding list_all_iff by blast
      then show ?thesis using i st 1 by (simp add: k in_knob_def max_def)
    next
      case 2
      then have "ks_low s = 1 \<and> ks_high s = 100 \<and> \<not> ks_whole s" using rung_specs s unfolding list_all_iff by blast
      then show ?thesis using i st 2 by (simp add: k in_knob_def max_def)
    qed (use i in \<open>simp add: k\<close>)
  qed
  then show ?thesis by (simp add: k)
qed

lemma settings_start_size:
  assumes "settings config = Inr k"
  shows "1 \<le> knob k ''start_size_pct''" "knob k ''start_size_pct'' \<le> 100" "knob k ''step_size_pct'' \<le> 100"
    "knob k ''start_size_pct'' \<le> knob k ''step_size_pct''"
proof -
  have b: "\<forall>s\<in>set BOUNDS. in_knob s (knob k (ks_key s))" using settings_sound [OF assms] by blast
  have "in_knob (spec ''start_size_pct'' 1 100 False 25) (knob k ''start_size_pct'')"
    and "in_knob (spec ''step_size_pct'' 1 100 False 50) (knob k ''step_size_pct'')"
    using b by (simp_all add: BOUNDS_def spec_def)
  then show "1 \<le> knob k ''start_size_pct''" "knob k ''start_size_pct'' \<le> 100" "knob k ''step_size_pct'' \<le> 100"
    by (simp_all add: in_knob_def spec_def)
  show "knob k ''start_size_pct'' \<le> knob k ''step_size_pct''" using settings_sound [OF assms] by blast
qed

text \<open>The ladder only climbs.\<close>

lemma ladder_mono:
  assumes "settings config = Inr k" and "n \<le> m"
  shows "ladder_size_pct n k \<le> ladder_size_pct m k"
proof -
  have "(of_int n :: rat) \<le> of_int m" using assms(2) by simp
  then show ?thesis using settings_start_size [OF assms(1)] by (auto simp: ladder_size_pct_def)
qed

text \<open>C36: The probation settings are well typed. Whatever the configuration holds, settings that are returned have every
  knob inside its bounds and whole where it counts something, the second rung is not below the first, graduation does not
  come before the step, and the ladder's size never falls as trades close.\<close>

theorem settings_are_well_typed:
  assumes "settings config = Inr k"
  shows "(\<forall>s\<in>set BOUNDS. in_knob s (knob k (ks_key s))) \<and>
    knob k ''start_size_pct'' \<le> knob k ''step_size_pct'' \<and> knob k ''step_trades'' \<le> knob k ''graduate_trades'' \<and>
    (\<forall>n m. n \<le> m \<longrightarrow> ladder_size_pct n k \<le> ladder_size_pct m k)"
  using settings_sound [OF assms] ladder_mono [OF assms] by blast

lemma settings_are_well_typed_witness:
  "\<exists>k. settings (JObj [(''probation'', JObj [(''start_size_pct'', JInt 70), (''step_trades'', JFloat (Fin 12)), (''max_strategies'', JStr ''x'')])]) = Inr k \<and>
    knob k ''start_size_pct'' \<le> knob k ''step_size_pct''"
proof -
  define cfg where "cfg = JObj [(''probation'', JObj [(''start_size_pct'', JInt 70), (''step_trades'', JFloat (Fin 12)), (''max_strategies'', JStr ''x'')])]"
  have "(case settings cfg of Inr k \<Rightarrow> True | Inl _ \<Rightarrow> False) = True" unfolding cfg_def by code_simp
  then obtain k where k: "settings cfg = Inr k" by (cases "settings cfg") auto
  then show ?thesis using settings_are_well_typed [OF k] unfolding cfg_def by blast
qed

section \<open>Drawdown\<close>

text \<open>The reference: the largest difference between an earlier prefix sum and a later one.\<close>

definition falls :: "rat list \<Rightarrow> rat set" where
  "falls rs = {sum_list (take i rs) - sum_list (take j rs) | i j. i \<le> j \<and> j \<le> length rs}"

lemma falls_finite: "finite (falls rs)"
proof -
  have "falls rs \<subseteq> (\<lambda>(i, j). sum_list (take i rs) - sum_list (take j rs)) ` ({..length rs} \<times> {..length rs})"
    by (force simp: falls_def)
  then show ?thesis by (rule finite_subset) simp
qed

lemma falls_zero: "0 \<in> falls rs"
  by (force simp: falls_def)

lemma falls_snoc:
  "falls (rs @ [r]) = falls rs \<union> {sum_list (take i (rs @ [r])) - sum_list (rs @ [r]) | i. i \<le> Suc (length rs)}"
proof (intro set_eqI iffI)
  fix x assume "x \<in> falls (rs @ [r])"
  then obtain i j where ij: "i \<le> j" "j \<le> Suc (length rs)" "x = sum_list (take i (rs @ [r])) - sum_list (take j (rs @ [r]))"
    by (auto simp: falls_def)
  show "x \<in> falls rs \<union> {sum_list (take i (rs @ [r])) - sum_list (rs @ [r]) | i. i \<le> Suc (length rs)}"
  proof (cases "j = Suc (length rs)")
    case True
    then show ?thesis using ij by auto
  next
    case False
    then have "j \<le> length rs" using ij by simp
    then show ?thesis using ij by (force simp: falls_def)
  qed
next
  fix x assume x: "x \<in> falls rs \<union> {sum_list (take i (rs @ [r])) - sum_list (rs @ [r]) | i. i \<le> Suc (length rs)}"
  show "x \<in> falls (rs @ [r])"
  proof (cases "x \<in> falls rs")
    case True
    then obtain i j where "i \<le> j" "j \<le> length rs" "x = sum_list (take i rs) - sum_list (take j rs)" by (auto simp: falls_def)
    then have "x = sum_list (take i (rs @ [r])) - sum_list (take j (rs @ [r]))" "i \<le> j" "j \<le> length (rs @ [r])" by simp_all
    then show ?thesis unfolding falls_def by blast
  next
    case False
    then obtain i where "i \<le> Suc (length rs)" "x = sum_list (take i (rs @ [r])) - sum_list (rs @ [r])" using x by blast
    then have "x = sum_list (take i (rs @ [r])) - sum_list (take (Suc (length rs)) (rs @ [r]))"
        "i \<le> Suc (length rs)" "Suc (length rs) \<le> length (rs @ [r])" by simp_all
    then show ?thesis unfolding falls_def by blast
  qed
qed

definition peaks :: "rat list \<Rightarrow> rat set" where
  "peaks rs = (\<lambda>i. sum_list (take i rs)) ` {..length rs}"

lemma peaks_snoc: "peaks (rs @ [r]) = insert (sum_list rs + r) (peaks rs)"
proof -
  have "{..length (rs @ [r])} = insert (Suc (length rs)) {..length rs}" by auto
  then show ?thesis by (auto simp: peaks_def)
qed

lemma Max_shift: "finite A \<Longrightarrow> A \<noteq> {} \<Longrightarrow> Max ((\<lambda>x. x - c) ` A) = Max A - (c :: rat)"
  using mono_Max_commute [of "\<lambda>x. x - c" A] by (simp add: mono_def)

lemma drawdown_fold:
  "foldl drawdown_step (0, 0, 0) rs = (sum_list rs, Max (peaks rs), Max (falls rs))"
proof (induction rs rule: rev_induct)
  case Nil
  have "falls [] = {0}" "peaks [] = {0}" by (auto simp: falls_def peaks_def)
  then show ?case by simp
next
  case (snoc r rs)
  have p: "finite (peaks rs)" "peaks rs \<noteq> {}" by (simp_all add: peaks_def)
  have hi: "Max (peaks (rs @ [r])) = max (Max (peaks rs)) (sum_list rs + r)"
    using p by (simp add: peaks_snoc max.commute)
  have img: "{sum_list (take i (rs @ [r])) - sum_list (rs @ [r]) | i. i \<le> Suc (length rs)} =
      (\<lambda>x. x - (sum_list rs + r)) ` peaks (rs @ [r])"
    by (auto simp: peaks_def image_iff)
  have "Max (falls (rs @ [r])) = max (Max (falls rs)) (Max ((\<lambda>x. x - (sum_list rs + r)) ` peaks (rs @ [r])))"
    unfolding falls_snoc img using falls_finite falls_zero [of rs] by (intro Max_Un) (auto simp: peaks_def)
  also have "Max ((\<lambda>x. x - (sum_list rs + r)) ` peaks (rs @ [r])) = Max (peaks (rs @ [r])) - (sum_list rs + r)"
    by (rule Max_shift) (simp_all add: peaks_def)
  finally show ?case using snoc by (simp add: drawdown_step_def hi Let_def)
qed

text \<open>C37: The one-pass drawdown is the deepest fall: the largest difference between the running sum at one moment and at
  the same or a later one.\<close>

theorem max_drawdown_is_deepest_fall:
  "max_drawdown rs = Max {sum_list (take i rs) - sum_list (take j rs) | i j. i \<le> j \<and> j \<le> length rs}"
  using drawdown_fold [of rs] by (simp add: max_drawdown_def falls_def)

section \<open>The minimum order\<close>

text \<open>An order raised to the exchange's minimum keeps its caps. What is sent at probation size is the order asked for, or
  one that clears the minimum, is not above the full-size order and risks no more than the cap up to the nano-dollar
  tolerance of the code.\<close>

lemma raised_order_keeps_caps:
  assumes "min_order_units a = Send u" and "0 < oa_price a" and "0 < oa_units a" and "oa_units a \<le> oa_full a"
  shows "u = oa_units a \<and> oa_minimum a \<le> u * oa_price a \<or>
    (u \<le> oa_full a \<and> oa_units a \<le> u \<and> oa_minimum a \<le> u * oa_price a + 1 / 1000000000 \<and>
     (case (oa_stop a, oa_cap a) of
        (Some p, Some cap) \<Rightarrow> p = 0 \<or> \<bar>oa_price a - p\<bar> * u \<le> cap + 1 / 1000000000
      | _ \<Rightarrow> True))"
proof (cases "oa_minimum a \<le> oa_units a * oa_price a")
  case True
  then show ?thesis using assms by (simp add: min_order_units_def)
next
  case False
  define f where "f = min (oa_minimum a * (105/100) / oa_price a) (oa_full a)"
  have full: "oa_minimum a \<le> oa_full a * oa_price a + 1 / 1000000000" and u: "u = f"
    and risk: "case (oa_stop a, oa_cap a) of (Some p, Some cap) \<Rightarrow> p = 0 \<or> \<bar>oa_price a - p\<bar> * f \<le> cap + 1 / 1000000000 | _ \<Rightarrow> True"
    using assms(1-3) False
    by (auto simp: min_order_units_def f_def Let_def not_less split: if_splits option.splits)
  have "0 < oa_units a * oa_price a" using assms(2,3) by simp
  then have pos: "0 < oa_minimum a" using False by linarith
  have "oa_units a \<le> oa_minimum a * (105/100) / oa_price a"
    using False assms(2) pos by (simp add: pos_le_divide_eq)
  then have lo: "oa_units a \<le> f" using assms(4) by (simp add: f_def)
  have "oa_minimum a \<le> f * oa_price a + 1 / 1000000000"
  proof (cases "oa_minimum a * (105/100) / oa_price a \<le> oa_full a")
    case True
    then have "f * oa_price a = oa_minimum a * (105/100)" using assms(2) by (simp add: f_def)
    then show ?thesis using pos by simp
  next
    case False
    then show ?thesis using full by (simp add: f_def)
  qed
  moreover have "f \<le> oa_full a" by (simp add: f_def)
  ultimately show ?thesis using risk lo unfolding u by blast
qed

end
