(* ===== verification/Probation_Props.thy ===== *)
theory Probation_Props
  imports Probation Probation_Knobs Lifecycle_Effects
begin

text \<open>
  What live probation promises: only an operator's typed phrase or the switched-on watchdog puts real money to work, the
  checks that protect the account are never bypassed, a demotion stops entries at once, and with automation off the
  watchdog only ever reduces risk.
\<close>

section \<open>Stages as the module reads them\<close>

lemma raw_live: "raw_stage row = ''live_graduated'' \<Longrightarrow> row_stage row = Live"
proof -
  assume "raw_stage row = ''live_graduated''"
  moreover have "normalize_stage v = normalize_stage (Some (py_lower (py_strip (opt_word v))))" for v
    by (simp add: normalize_stage_def opt_word_def strip_lower Let_def)
  moreover have "py_lower (py_strip (opt_word (case sg_stage row of Some s \<Rightarrow> if s \<noteq> [] then Some s else sg_status row | None \<Rightarrow> sg_status row)))
      = raw_stage row"
    by (simp add: raw_stage_def opt_word_def split: option.split)
  ultimately have "row_stage row = normalize_stage (Some ''live_graduated'')" unfolding row_stage_def by metis
  also have "\<dots> = Live" by code_simp
  finally show ?thesis .
qed

section \<open>A move and the tables\<close>

definition raw_in :: "life \<Rightarrow> string \<Rightarrow> string option" where
  "raw_in db sid = map_option raw_stage (map_of (lf_rows db) sid)"

lemma raw_stage_texts: "stage_texts r = stage_texts r' \<Longrightarrow> raw_stage r = raw_stage r'"
  unfolding raw_stage_def stage_texts_def by (simp only: prod.inject)

lemma raw_in_texts:
  "map_option stage_texts (map_of (lf_rows d) i) = map_option stage_texts (map_of (lf_rows db) i) \<Longrightarrow> raw_in d i = raw_in db i"
  by (cases "map_of (lf_rows d) i"; cases "map_of (lf_rows db) i") (auto simp: raw_in_def intro: raw_stage_texts)

definition stage_in :: "life \<Rightarrow> string \<Rightarrow> stage option" where
  "stage_in db sid = map_option row_stage (map_of (lf_rows db) sid)"

lemma after_commit_probation [simp]: "lf_probation (after_commit g c t u db) = lf_probation db"
  by (simp add: after_commit_def close_outcome_def stamp_baseline_def flatten_paper_def queue_post_mortem_def Let_def
      split: option.split)

lemma write_move_probation [simp]: "lf_probation (write_move now c t u db) = lf_probation db"
  by (simp add: write_move_def enter_terminal_def enter_pre_paper_def update_row_def Let_def)

lemma refuse_probation [simp]: "lf_probation (snd (refuse now c m db)) = lf_probation db"
  "lf_probation (snd (record_blocked c m db)) = lf_probation db"
  by (simp_all add: refuse_def record_blocked_def queue_approval_def split: motion.split)

lemma thrash_probation: "thrash c db = (t, u, d) \<Longrightarrow> lf_probation d = lf_probation db"
  by (auto simp: thrash_def update_row_def Let_def split: if_splits)

lemma commit_probation: "lf_probation (snd (commit_move now g c db)) = lf_probation db"
proof -
  obtain t u d where th: "thrash c db = (t, u, d)" by (cases "thrash c db")
  then show ?thesis
    using thrash_probation [OF th]
    by (simp add: commit_move_def finish_commit_def th split: option.split)
qed

lemma transition_probation: "lf_probation (snd (transition_stage now g sid mv id db)) = lf_probation db"
proof (cases "gate_move now g sid mv db")
  case (Inr x)
  show ?thesis
  proof (cases x)
    case (Finished r d)
    then obtain row where row: "map_of (lf_rows db) sid = Some row" using Inr by (auto simp: gate_move_def split: option.splits)
    have "d = db \<or> (\<exists>m. d = snd (refuse now (make_ctx sid mv row) m db))"
      using Inr Finished row by (auto simp: gate_move_def Let_def split: if_splits option.splits prod.splits) (metis snd_conv)
    then show ?thesis using Inr Finished by (auto simp: transition_stage_def)
  next
    case (Ready c)
    obtain r d where "commit_move now g c db = (r, d)" by force
    then show ?thesis using Inr Ready commit_probation [of now g c db] by (simp add: transition_stage_def)
  qed
qed (simp add: transition_stage_def)

text \<open>Where a call leaves its own strategy, and that it leaves the others.\<close>

lemma transition_stages:
  assumes "transition_stage now g sid mv id db = (res, db')"
  shows "\<And>i. i \<noteq> sid \<Longrightarrow> map_of (lf_rows db') i = map_of (lf_rows db) i"
    and "\<And>r. res = Inr r \<Longrightarrow> stage_in db' sid = md_to r"
    and "raw_in db' sid = raw_in db sid \<or> stage_in db' sid = Some (normalize_stage (Some (mv_target mv))) \<or> stage_in db' sid = Some Retired"
proof -
  have "(\<forall>i. i \<noteq> sid \<longrightarrow> map_of (lf_rows db') i = map_of (lf_rows db) i) \<and> (\<forall>r. res = Inr r \<longrightarrow> stage_in db' sid = md_to r) \<and>
    (raw_in db' sid = raw_in db sid \<or> stage_in db' sid = Some (normalize_stage (Some (mv_target mv))) \<or> stage_in db' sid = Some Retired)"
  proof (cases "gate_move now g sid mv db")
    case (Inr x)
    show ?thesis
    proof (cases x)
      case (Finished r d)
      then obtain row where row: "map_of (lf_rows db) sid = Some row" using Inr by (auto simp: gate_move_def split: option.splits)
      have "md_to r = Some (row_stage row)"
        using Inr Finished row
        by (auto simp: gate_move_def Let_def refuse_def record_blocked_def split: if_splits option.splits prod.splits)
      then show ?thesis
        using Inr Finished row assms gate_finished [of now g sid mv db r d] by (auto simp: transition_stage_def stage_in_def raw_in_def)
    next
      case (Ready c)
      obtain row where row: "map_of (lf_rows db) sid = Some row" "c = make_ctx sid mv row"
        using gate_ready [OF Inr [unfolded Ready]] by metis
      obtain r d where rd: "commit_move now g c db = (r, d)" by force
      then have res: "res = Inr r" "db' = d" using assms Inr Ready by (simp_all add: transition_stage_def)
      from rd show ?thesis
      proof (cases rule: commit_cases)
        case (moved w t u e)
        note th = thrash_tables [OF moved(5)]
        have "map_of (lf_rows e) sid \<noteq> None" using th(4) [of sid] row by auto
        then have "stage_in d sid = Some t" using row(2) by (auto simp: stage_in_def moved(9))
        moreover have "map_of (lf_rows d) i = map_of (lf_rows db) i" if "i \<noteq> sid" for i
          using that th(6) [of i] row(2) by (simp add: moved(9))
        ultimately show ?thesis using th(5) row(2) res by (auto simp: moved(8))
      next
        case kept
        have "md_to r = Some (row_stage row)"
          using rd row kept(1)
          by (auto simp: commit_move_def finish_commit_def record_blocked_def split: if_splits prod.splits)
        then show ?thesis using raw_in_texts [OF kept(7)] kept(5) [of sid] kept(6) res row by (auto simp: stage_in_def)
      qed
    qed
  qed (use assms in \<open>auto simp: transition_stage_def\<close>)
  then show "\<And>i. i \<noteq> sid \<Longrightarrow> map_of (lf_rows db') i = map_of (lf_rows db) i"
    "\<And>r. res = Inr r \<Longrightarrow> stage_in db' sid = md_to r"
    "raw_in db' sid = raw_in db sid \<or> stage_in db' sid = Some (normalize_stage (Some (mv_target mv))) \<or> stage_in db' sid = Some Retired"
    by blast+
qed

lemma ask_stages:
  assumes "ask_stage now g sid target actor force entry db = (res, db')"
  shows "\<And>i. i \<noteq> sid \<Longrightarrow> map_of (lf_rows db') i = map_of (lf_rows db) i"
    and "\<And>t. res = Inr t \<Longrightarrow> stage_in db' sid = t"
    and "raw_in db' sid = raw_in db sid \<or> stage_in db' sid = Some (normalize_stage (Some target)) \<or> stage_in db' sid = Some Retired"
    and "lf_probation db' = lf_probation db"
proof -
  define mv where "mv = \<lparr>mv_target = target, mv_reason = ''probation'', mv_actor = actor, mv_force = force,
    mv_skip_approval = False, mv_evidence = None, mv_probation = entry\<rparr>"
  obtain r d where t: "transition_stage now g sid mv id db = (r, d)" by force
  have "d = db'" and r: "res = (case r of Inl e \<Rightarrow> Inl e | Inr m \<Rightarrow> Inr (md_to m))"
    using assms t by (auto simp: ask_stage_def mv_def split: sum.splits)
  note t = t [unfolded \<open>d = db'\<close>]
  show "\<And>i. i \<noteq> sid \<Longrightarrow> map_of (lf_rows db') i = map_of (lf_rows db) i" by (rule transition_stages(1) [OF t])
  show "\<And>t. res = Inr t \<Longrightarrow> stage_in db' sid = t" using transition_stages(2) [OF t] by (auto simp: r split: sum.splits)
  show "raw_in db' sid = raw_in db sid \<or> stage_in db' sid = Some (normalize_stage (Some target)) \<or> stage_in db' sid = Some Retired"
    using transition_stages(3) [OF t] by (simp add: mv_def)
  show "lf_probation db' = lf_probation db" using transition_probation [of now g sid mv db] t by simp
qed

lemma save_probation_tables [simp]:
  "lf_rows (save_probation sid now f e db) = lf_rows db" "lf_desk (save_probation sid now f e db) = lf_desk db"
  "stage_in (save_probation sid now f e db) i = stage_in db i" "raw_in (save_probation sid now f e db) i = raw_in db i"
  "map_of (lf_probation (save_probation sid now f e db)) i =
    (if i = sid then Some (log_event now e (f (case map_of (lf_probation db) i of None \<Rightarrow> new_record | Some r \<Rightarrow> r)))
     else map_of (lf_probation db) i)"
  by (simp_all add: save_probation_def stage_in_def raw_in_def)

section \<open>Starting\<close>

text \<open>A desk that starts probation, and the checks it passes.\<close>

definition demo_entry :: entry_input where
  "demo_entry = \<lparr>ei_pace = Some 4, ei_coverage = Some 3, ei_paper = replicate 3 [(''kernel_managed'', JBool True),
     (''pnl_is_equity_fraction'', JBool True)], ei_return = Some (1/20), ei_executable = True, ei_fresh = True,
     ei_holdout_needed = False, ei_holdout = None, ei_admits = (\<lambda>w. True)\<rparr>"

definition demo_evidence :: evidence where
  "demo_evidence = \<lparr>ev_rows = [], ev_backtest = [], ev_costs = None, ev_sequential = None, ev_breadth_ok = None\<rparr>"

definition demo_env :: penv where
  "demo_env = \<lparr>pe_gates = (\<lambda>_. demo_gates), pe_entry = (\<lambda>_ _. demo_entry), pe_evidence = (\<lambda>_. demo_evidence),
     pe_pick = (\<lambda>_ _ _. 0)\<rparr>"

definition demo_knobs :: knobs where
  "demo_knobs = (case settings JNull of Inr k \<Rightarrow> k | Inl _ \<Rightarrow> [])"

lemma demo_knobs_read: "settings JNull = Inr demo_knobs"
proof -
  have "(case settings JNull of Inr k \<Rightarrow> True | Inl _ \<Rightarrow> False) = True" by code_simp
  then show ?thesis by (cases "settings JNull") (simp_all add: demo_knobs_def)
qed

text \<open>C13: A start always passes the account's own checks. When a strategy has started probation, an operator typed the
  phrase (the watchdog types none and bypasses nothing), the entry checks that protect the account all held, any other
  failing check was bypassed by an operator and is kept on the record, and the strategy is live and trades the start
  size.\<close>

theorem start_never_bypasses_the_account:
  assumes "start_probation env now k sid actor confirm bypass db = (Inr (), db')" and "settings config = Inr k"
  shows "(is_operator actor \<longrightarrow> confirmed CONFIRM_PHRASE confirm) \<and>
    (\<exists>cs d r. entry_check now k sid (pe_entry env sid d) d = Some cs \<and> hard_failing cs = [] \<and>
       (failing cs = [] \<or> is_operator actor \<and> bypass) \<and>
       map_of (lf_probation db') sid = Some r \<and> pr_state r = Active \<and> pr_bypassed r = map ck_key (failing cs) \<and>
       stage_in db' sid = Some Live \<and> order_scale sid (Some (lf_probation db')) = knob k ''start_size_pct'' / 100)"
proof -
  obtain row where row: "map_of (lf_rows db) sid = Some row" and op: "is_operator actor \<longrightarrow> confirmed CONFIRM_PHRASE confirm"
    using assms(1) by (auto simp: start_probation_def split: if_splits option.splits)
  obtain d where d: "start_checked env now k sid actor bypass d = (Inr (), db')"
    using assms(1) row by (auto simp: start_probation_def split: if_splits sum.splits prod.splits)
  obtain cs where cs: "entry_check now k sid (pe_entry env sid d) d = Some cs" "hard_failing cs = []"
      "failing cs = [] \<or> is_operator actor \<and> bypass"
    using d by (auto simp: start_checked_def split: option.splits if_splits)
  obtain e where ask: "ask_stage now (pe_gates env sid) sid ''live_graduated'' actor False True d = (Inr (Some Live), e)"
    and fin: "db' = save_probation sid now
      (start_record now (knob k ''start_size_pct'') actor (map ck_key (failing cs)) (map_of (lf_probation d) sid)) (Some Started) e"
    using d cs by (auto simp: start_checked_def split: if_splits sum.splits prod.splits)
  have "stage_in db' sid = Some Live" using ask_stages(2) [OF ask] fin by simp
  moreover have "1 \<le> knob k ''start_size_pct''" "knob k ''start_size_pct'' \<le> 100"
    using settings_start_size [OF assms(2)] by simp_all
  moreover obtain r where "map_of (lf_probation db') sid = Some r" "pr_state r = Active" "pr_bypassed r = map ck_key (failing cs)"
      "pr_size r = knob k ''start_size_pct''"
    using fin by (simp add: start_record_def)
  ultimately show ?thesis using op cs by (auto simp: order_scale_def in_probation_def IN_PROBATION_def)
qed

lemma start_never_bypasses_the_account_witness:
  "order_scale ''S1'' (Some (lf_probation (snd (start_probation demo_env 5 demo_knobs ''S1'' ''ui'' '' probation '' False
     (demo_life Paper [] []))))) = knob demo_knobs ''start_size_pct'' / 100"
proof -
  have f: "fst (start_probation demo_env 5 demo_knobs ''S1'' ''ui'' '' probation '' False (demo_life Paper [] [])) = Inr ()"
    by code_simp
  obtain db' where r: "start_probation demo_env 5 demo_knobs ''S1'' ''ui'' '' probation '' False (demo_life Paper [] []) = (Inr (), db')"
    using f by (metis prod.collapse)
  from start_never_bypasses_the_account [OF r demo_knobs_read] show ?thesis by (auto simp: r)
qed

section \<open>Demotion\<close>

text \<open>Completing a demotion leaves the strategy out of the live stage.\<close>

abbreviation raw_live_in :: "life \<Rightarrow> string \<Rightarrow> bool" where
  "raw_live_in db sid \<equiv> raw_in db sid = Some ''live_graduated''"

lemma raw_live_stage: "raw_live_in db sid \<Longrightarrow> stage_in db sid = Some Live"
  using raw_live by (auto simp: raw_in_def stage_in_def)

lemma normalize_targets:
  "normalize_stage (Some ''archived'') = Retired" "normalize_stage (Some ''paper'') = Paper"
  "normalize_stage (Some ''live_graduated'') = Live"
  by code_simp+

lemma archive_stage:
  assumes "raw_live_in (archive_demoted env now k sid n db) sid"
  shows "raw_live_in db sid"
proof -
  define mv where "mv = \<lparr>mv_target = ''archived'', mv_reason = ''Demoted from probation'', mv_actor = ACTOR, mv_force = True, mv_skip_approval = False,
    mv_evidence = Some [(''status_reason'', JStr (''probation_demoted:'' @ nat_text (nat n)))], mv_probation = False\<rparr>"
  obtain x d where t: "transition_stage now (pe_gates env sid) sid mv id db = (x, d)" by force
  have "raw_live_in d sid \<Longrightarrow> raw_live_in db sid"
    using transition_stages(3) [OF t] raw_live_stage [of d sid] by (auto simp: mv_def normalize_targets)
  then show ?thesis using assms t by (auto simp: archive_demoted_def mv_def Let_def split: sum.splits if_splits)
qed

lemma complete_stage:
  assumes "complete_demotion env now k sid r db = (res, db')" and "\<not> raw_live_in db sid"
  shows "\<not> raw_live_in db' sid"
  using assms archive_stage [of env now k sid "pr_demotions r + 1"
      "save_probation sid now (record_demoted now (pr_demotions r + 1)) (Some DemotedEvent) db"]
  by (auto simp: complete_demotion_def Let_def)

lemma finish_demotion_cases:
  assumes "finish_demotion env now k sid db = (res, db')"
  shows "(lf_probation db' = lf_probation db \<or> \<not> raw_live_in db' sid) \<and> (raw_live_in db' sid \<longrightarrow> raw_live_in db sid)"
proof (cases "map_of (lf_probation db) sid")
  case None
  then show ?thesis using assms by (simp add: finish_demotion_def)
next
  case (Some r)
  define off where "off \<longleftrightarrow> (case map_of (lf_rows db) sid of None \<Rightarrow> True | Some row \<Rightarrow> raw_stage row \<noteq> ''live_graduated'')"
  obtain x d where ask: "ask_stage now (pe_gates env sid) sid ''paper'' ACTOR True False db = (x, d)" by force
  note a = ask_stages [OF ask]
  have live: "raw_live_in d sid \<Longrightarrow> raw_live_in db sid" using a(3) raw_live_stage [of d sid] by (auto simp: normalize_targets)
  consider "db' = db" | "db' = d" | "off" "complete_demotion env now k sid r db = (res, db')"
    | "x = Inr (Some Paper)" "complete_demotion env now k sid r d = (res, db')"
    using assms Some ask by (auto simp: finish_demotion_def off_def split: if_splits sum.splits prod.splits)
  then show ?thesis
  proof cases
    case 3
    have "\<not> raw_live_in db sid" using 3(1) by (auto simp: off_def raw_in_def)
    then show ?thesis using complete_stage [OF 3(2)] by simp
  next
    case 4
    have "\<not> raw_live_in d sid" using a(2) 4(1) raw_live_stage [of d sid] by auto
    then show ?thesis using complete_stage [OF 4(2)] by simp
  qed (use a(4) live in auto)
qed

lemma begin_demotion_state: "\<exists>r. map_of (lf_probation (begin_demotion now sid reason db)) sid = Some r \<and> pr_state r = Demoting"
  by (simp add: begin_demotion_def)

text \<open>C20: A demotion stops entries at once. Whatever becomes of it, refused or delayed by an open position included, a
  strategy that was live takes no new entries after the demotion was asked for, unless it has left the live stage.\<close>

theorem demotion_stops_entries:
  assumes "map_of (lf_rows db) sid = Some row" and "raw_stage row = ''live_graduated''"
    and "demote env now k sid reason db = (res, db')"
  shows "blocks_new_entries sid (Some (lf_probation db')) = Some Demoting \<or>
    \<not> (\<exists>row'. map_of (lf_rows db') sid = Some row' \<and> raw_stage row' = ''live_graduated'')"
proof -
  obtain d2 x where d2: "finish_demotion env now k sid d2 = (x, db')"
      "\<exists>r. map_of (lf_probation d2) sid = Some r \<and> pr_state r = Demoting"
    using assms begin_demotion_state by (auto simp: demote_def split: sum.splits prod.splits)
  then show ?thesis
    using finish_demotion_cases [OF d2(1)] by (auto simp: blocks_new_entries_def NO_NEW_ENTRIES_def raw_in_def)
qed

lemma demotion_stops_entries_witness:
  "blocks_new_entries ''S1'' (Some (lf_probation (snd (demote demo_env 5 demo_knobs ''S1'' ''drawdown''
     (demo_life Live [demo_live_trade] []))))) = Some Demoting"
proof -
  define db where "db = demo_life Live [demo_live_trade] []"
  have row: "map_of (lf_rows db) ''S1'' = Some (demo_strategy Live)" "raw_stage (demo_strategy Live) = ''live_graduated''"
    unfolding db_def by code_simp+
  have still: "map_option raw_stage (map_of (lf_rows (snd (demote demo_env 5 demo_knobs ''S1'' ''drawdown'' db))) ''S1'') =
      Some ''live_graduated''"
    unfolding db_def by code_simp
  show ?thesis
    using demotion_stops_entries [OF row, where env = demo_env and now = 5 and k = demo_knobs and reason = "''drawdown''",
        OF prod.collapse [symmetric]] still unfolding db_def by auto
qed

end
