(* ===== verification/Probation_Watchdog.thy ===== *)
theory Probation_Watchdog
  imports Probation_Props "HOL-Library.Multiset"
begin

text \<open>
  The hourly watchdog with automatic entry and graduation switched off only ever reduces risk, and the automation
  switches themselves turn riskier only with the typed phrase.
\<close>

section \<open>What a tick leaves alone\<close>

lemma archive_frame:
  assumes "i \<noteq> sid"
  shows "map_of (lf_rows (archive_demoted env now k sid n db)) i = map_of (lf_rows db) i"
    and "map_of (lf_probation (archive_demoted env now k sid n db)) i = map_of (lf_probation db) i"
proof -
  define mv where "mv = \<lparr>mv_target = ''archived'', mv_reason = ''Demoted from probation'', mv_actor = ACTOR, mv_force = True, mv_skip_approval = False,
    mv_evidence = Some [(''status_reason'', JStr (''probation_demoted:'' @ nat_text (nat n)))], mv_probation = False\<rparr>"
  obtain x d where t: "transition_stage now (pe_gates env sid) sid mv id db = (x, d)" by force
  have "map_of (lf_rows d) i = map_of (lf_rows db) i" by (rule transition_stages(1) [OF t assms])
  moreover have "lf_probation d = lf_probation db" using transition_probation [of now "pe_gates env sid" sid mv db] t by simp
  ultimately show "map_of (lf_rows (archive_demoted env now k sid n db)) i = map_of (lf_rows db) i"
    and "map_of (lf_probation (archive_demoted env now k sid n db)) i = map_of (lf_probation db) i"
    using t assms by (auto simp: archive_demoted_def mv_def Let_def split: sum.split)
qed

definition same_for :: "string \<Rightarrow> life \<Rightarrow> life \<Rightarrow> bool" where
  "same_for i db db' \<longleftrightarrow>
     map_of (lf_rows db') i = map_of (lf_rows db) i \<and> map_of (lf_probation db') i = map_of (lf_probation db) i"

lemma same_for_refl [simp]: "same_for i db db"
  by (simp add: same_for_def)

lemma same_for_trans: "same_for i a b \<Longrightarrow> same_for i b c \<Longrightarrow> same_for i a c"
  by (simp add: same_for_def)

lemma same_for_save [simp]: "i \<noteq> sid \<Longrightarrow> same_for i db (save_probation sid now f e db)"
  by (simp add: same_for_def)

lemma complete_frame: "i \<noteq> sid \<Longrightarrow> complete_demotion env now k sid r db = (res, db') \<Longrightarrow> same_for i db db'"
  by (auto simp: complete_demotion_def Let_def same_for_def archive_frame)

lemma finish_frame:
  assumes "i \<noteq> sid" and "finish_demotion env now k sid db = (res, db')"
  shows "same_for i db db'"
proof (cases "map_of (lf_probation db) sid")
  case None
  then show ?thesis using assms(2) by (simp add: finish_demotion_def)
next
  case (Some r)
  obtain x d where ask: "ask_stage now (pe_gates env sid) sid ''paper'' ACTOR True False db = (x, d)" by force
  have d: "same_for i db d" using ask_stages(1) [OF ask assms(1)] ask_stages(4) [OF ask] by (simp add: same_for_def)
  consider "db' = db" | "db' = d" | "complete_demotion env now k sid r db = (res, db')"
    | "complete_demotion env now k sid r d = (res, db')"
    using assms(2) Some ask by (auto simp: finish_demotion_def split: if_splits sum.splits prod.splits option.splits)
  then show ?thesis using d complete_frame [OF assms(1)] same_for_trans by cases auto
qed

lemma demote_frame:
  assumes "i \<noteq> sid"
  shows "same_for i db (snd (demote env now k sid reason db))"
proof -
  obtain x d where f: "finish_demotion env now k sid (begin_demotion now sid reason db) = (x, d)" by force
  have "same_for i db (begin_demotion now sid reason db)" using assms by (simp add: begin_demotion_def same_for_def)
  then have "same_for i db d" using finish_frame [OF assms f] same_for_trans by blast
  then show ?thesis by (auto simp: demote_def f split: option.split sum.split)
qed

section \<open>One strategy\<close>

definition scale_of :: "string \<Rightarrow> life \<Rightarrow> rat" where
  "scale_of sid db = order_scale sid (Some (lf_probation db))"

text \<open>A step that takes no strategy live and raises no live strategy's size.\<close>

definition calm :: "string \<Rightarrow> life \<Rightarrow> life \<Rightarrow> bool" where
  "calm sid db db' \<longleftrightarrow> (raw_live_in db' sid \<longrightarrow> raw_live_in db sid \<and> scale_of sid db' \<le> scale_of sid db)"

lemma calm_refl [simp]: "calm sid db db"
  by (simp add: calm_def)

lemma calm_trans: "calm sid a b \<Longrightarrow> calm sid b c \<Longrightarrow> calm sid a c"
  by (auto simp: calm_def)

lemma same_calm: "same_for sid db db' \<Longrightarrow> calm sid db db'"
  by (simp add: same_for_def calm_def raw_in_def scale_of_def order_scale_def)

lemma scale_le_1: "scale_of sid db \<le> 1"
  by (simp add: scale_of_def order_scale_bounds)

lemma finish_calm:
  assumes "finish_demotion env now k sid db = (res, db')"
  shows "calm sid db db'"
  using finish_demotion_cases [OF assms] by (auto simp: calm_def scale_of_def)

lemma demote_calm:
  assumes "map_of (lf_probation db) sid = Some r" and "pr_state r \<in> {Active, Paused}"
  shows "calm sid db (snd (demote env now k sid reason db))"
proof -
  obtain x d where f: "finish_demotion env now k sid (begin_demotion now sid reason db) = (x, d)" by force
  have "scale_of sid (begin_demotion now sid reason db) = scale_of sid db"
    using assms by (auto simp: begin_demotion_def scale_of_def order_scale_def in_probation_def IN_PROBATION_def)
  then have "calm sid db (begin_demotion now sid reason db)" by (simp add: calm_def begin_demotion_def)
  then have "calm sid db d" using finish_calm [OF f] calm_trans by blast
  then show ?thesis by (auto simp: demote_def f split: option.split sum.split)
qed

lemma keep_calm:
  assumes "map_of (lf_probation db) sid = Some r" and "pr_state (f r) = pr_state r" and "pr_size (f r) = pr_size r"
  shows "calm sid db (save_probation sid now f e db)"
  using assms by (simp add: calm_def scale_of_def order_scale_def in_probation_def)

lemma tick_one_frame:
  assumes "i \<noteq> fst p"
  shows "same_for i db (tick_one env now k auto db p)"
proof -
  obtain sid r where p: "p = (sid, r)" by (cases p)
  have i: "i \<noteq> sid" using assms p by simp
  have f: "same_for i db (snd (finish_demotion env now k sid db))" using finish_frame [OF i] by (metis prod.collapse)
  have tr: "same_for i db (tick_triggers env now k auto sid r db)"
    using demote_frame [OF i] i by (simp add: tick_triggers_def)
  have gr: "same_for i db (snd (graduate env now k sid ACTOR [] False db))" 
    using i by (auto simp: graduate_def Let_def split: option.split)
  have tg: "same_for i db (tick_graduation env now k auto sid r lv db)" for lv
    using gr i by (simp add: tick_graduation_def Let_def)
  have ts: "same_for i d (tick_size now auto sid r l d)" for l d
    using i by (simp add: tick_size_def)
  have "same_for i db (tick_size now auto sid r l (tick_graduation env now k auto sid r lv db))" for l lv
    by (rule same_for_trans [OF tg ts])
  then show ?thesis using f tr ts i by (simp add: tick_one_def p Let_def)
qed

lemma tick_one_calm:
  assumes "map_of (lf_probation db) (fst p) = Some (snd p)" and "\<not> au_entry auto" and "\<not> au_graduate auto"
  shows "calm (fst p) db (tick_one env now k auto db p)"
proof -
  obtain sid r where p: "p = (sid, r)" by (cases p)
  have r: "map_of (lf_probation db) sid = Some r" using assms(1) p by simp
  have f: "calm sid db (snd (finish_demotion env now k sid db))" using finish_calm by (metis prod.collapse)
  have off: "calm sid db (save_probation sid now f e db)"
    if "case map_of (lf_rows db) sid of None \<Rightarrow> True | Some row \<Rightarrow> raw_stage row \<noteq> ''live_graduated''" for f e
    using that by (auto simp: calm_def raw_in_def split: option.splits)
  have again: "calm sid db (save_probation sid now (\<lambda>r. r\<lparr>pr_state := Active, pr_size := knob k ''start_size_pct'', pr_locked := False,
      pr_entered := Some (Stamp now), pr_reason := Some ''triggers''\<rparr>) (Some BackToProbation) db)" if "pr_state r = Graduated"
  proof -
    have "scale_of sid db = 1" using r that by (simp add: scale_of_def order_scale_def in_probation_def IN_PROBATION_def)
    then show ?thesis using scale_le_1 by (simp add: calm_def)
  qed
  have tr: "calm sid db (tick_triggers env now k auto sid r db)" if "pr_state r \<notin> {Demoting, Demoted}"
    using demote_calm [OF r] again that by (cases "pr_state r") (simp_all add: tick_triggers_def)
  have tg: "calm sid db (tick_graduation env now k auto sid r lv db)" for lv
    using assms(3) keep_calm [OF r, of id] by (simp add: tick_graduation_def Let_def)
  have ts: "tick_size now auto sid r l d = d" for l d using assms(2) by (simp add: tick_size_def)
  show ?thesis
    using f tr tg off by (auto simp: tick_one_def p ts Let_def split: option.splits)
qed

lemma tick_fold_calm:
  assumes "distinct (map fst ps)" and "\<forall>p\<in>set ps. map_of (lf_probation db) (fst p) = Some (snd p)"
    and "\<not> au_entry auto" and "\<not> au_graduate auto"
  shows "calm sid db (foldl (tick_one env now k auto) db ps)"
  using assms(1,2)
proof (induction ps arbitrary: db)
  case (Cons p ps)
  define d where "d = tick_one env now k auto db p"
  have "calm sid db d"
  proof (cases "sid = fst p")
    case True
    then show ?thesis using tick_one_calm [of db p auto] Cons.prems(2) assms(3,4) by (simp add: d_def)
  next
    case False
    then show ?thesis using same_calm [OF tick_one_frame [OF False]] by (simp add: d_def)
  qed
  moreover have "\<forall>q\<in>set ps. map_of (lf_probation d) (fst q) = Some (snd q)"
  proof
    fix q assume q: "q \<in> set ps"
    then have "fst q \<noteq> fst p" using Cons.prems(1) by (auto simp: image_iff)
    from tick_one_frame [OF this, of db env now k auto] show "map_of (lf_probation d) (fst q) = Some (snd q)"
      using Cons.prems(2) q by (simp add: d_def same_for_def)
  qed
  ultimately show ?case using Cons.IH [of d] Cons.prems(1) calm_trans [of sid db d] by (simp add: d_def)
qed simp

section \<open>Adopting full-size strategies\<close>

lemma adopt_scale: "order_scale sid (Some (adopt now recs p)) = order_scale sid (Some recs)"
  by (auto simp: adopt_def order_scale_def in_probation_def IN_PROBATION_def split: option.split)

lemma adopt_fold:
  "order_scale sid (Some (foldl (adopt now) recs ps)) = order_scale sid (Some recs) \<and>
   (distinct (map fst recs) \<longrightarrow> distinct (map fst (foldl (adopt now) recs ps)))"
proof (induction ps arbitrary: recs)
  case (Cons p ps)
  have "distinct (map fst recs) \<Longrightarrow> distinct (map fst (adopt now recs p))"
    by (simp add: adopt_def save_record_def distinct_dict_set)
  then show ?case using Cons.IH [of "adopt now recs p"] adopt_scale by simp
qed simp

lemma list_records_all:
  assumes "distinct (map fst recs)"
  shows "distinct (map fst (list_records None recs))" and "\<forall>p\<in>set (list_records None recs). map_of recs (fst p) = Some (snd p)"
proof -
  have l: "list_records None recs = sort_key (\<lambda>p. entered_key (snd p)) recs" by (simp add: list_records_def)
  have "mset (map fst (list_records None recs)) = mset (map fst recs)" by (simp add: l)
  then show "distinct (map fst (list_records None recs))" using assms mset_eq_imp_distinct_iff by blast
  show "\<forall>p\<in>set (list_records None recs). map_of recs (fst p) = Some (snd p)" using assms by (auto simp: l)
qed

text \<open>C21: With automatic entry and graduation off the watchdog only reduces risk. After a tick a strategy is live only if it
  was, and trades at most the share of normal size it traded before, whatever the trades, the triggers and the pending
  demotions are.\<close>

theorem watchdog_only_reduces_risk:
  assumes "\<not> au_entry auto" and "\<not> au_graduate auto" and "distinct (map fst (lf_probation db))"
    and "map_of (lf_rows (tick env now k auto db)) sid = Some row" and "raw_stage row = ''live_graduated''"
  shows "(\<exists>row0. map_of (lf_rows db) sid = Some row0 \<and> raw_stage row0 = ''live_graduated'') \<and>
    order_scale sid (Some (lf_probation (tick env now k auto db))) \<le> order_scale sid (Some (lf_probation db))"
proof -
  define d where "d = watch_full_live now db"
  define e where "e = foldl (tick_one env now k auto) d (list_records None (lf_probation d))"
  have t: "tick env now k auto db = e" using assms(1) by (simp add: tick_def refresh_ready_def Let_def d_def e_def)
  have dist: "distinct (map fst (lf_probation d))" using assms(3) adopt_fold by (simp add: d_def watch_full_live_def)
  have "calm sid d e" unfolding e_def by (rule tick_fold_calm [OF list_records_all [OF dist] assms(1,2)])
  moreover have "scale_of sid d = scale_of sid db" "raw_in d sid = raw_in db sid"
    using adopt_fold by (simp_all add: d_def watch_full_live_def scale_of_def raw_in_def)
  moreover have "raw_live_in e sid" using assms(4,5) by (simp add: t raw_in_def)
  ultimately have "raw_live_in db sid" "scale_of sid e \<le> scale_of sid db" by (simp_all add: calm_def)
  then show ?thesis by (auto simp: t raw_in_def scale_of_def)
qed

definition demo_watched :: life where
  "demo_watched = (demo_life Live [] [])\<lparr>lf_probation := [(''S1'', new_record\<lparr>pr_size := 25\<rparr>)]\<rparr>"

lemma watchdog_only_reduces_risk_witness:
  "order_scale ''S1'' (Some (lf_probation (tick demo_env 5 demo_knobs AUTOMATION_DEFAULTS demo_watched))) \<le> 1/4"
proof -
  have row: "map_of (lf_rows (tick demo_env 5 demo_knobs AUTOMATION_DEFAULTS demo_watched)) ''S1'' = Some (demo_strategy Live)"
    and live: "raw_stage (demo_strategy Live) = ''live_graduated''"
    and before: "order_scale ''S1'' (Some (lf_probation demo_watched)) = 1/4"
    by code_simp+
  have off: "\<not> au_entry AUTOMATION_DEFAULTS" "\<not> au_graduate AUTOMATION_DEFAULTS" "distinct (map fst (lf_probation demo_watched))"
    by (simp_all add: AUTOMATION_DEFAULTS_def demo_watched_def)
  show ?thesis using watchdog_only_reduces_risk [OF off row live] before by simp
qed

section \<open>The automation switches\<close>

lemma automation_json_round_trip [simp]: "automation (automation_json a) = a"
  by (simp add: automation_def automation_json_def bool_or_def jget_def)

lemma automation_turns_riskier_only_typed:
  assumes "riskier (automation (snd (set_automation ch confirm stored))) (automation stored)"
  shows "confirmed CONFIRM_PHRASE confirm"
  using assms by (auto simp: set_automation_def riskier_def Let_def split: if_splits)

end
