(* ===== verification/Paper_Door.thy ===== *)
theory Paper_Door
  imports Pyfloat
begin

text \<open>
  The paper door (\<open>src/forven/paper_door.py\<close>): which gauntlet checks block entry to paper and which are only recorded.
  A stored block is JSON; the door that is in force has every word out of its vocabulary and every number in bounds.
\<close>

definition OBSERVE :: string where "OBSERVE = ''observe''"
definition ENFORCE :: string where "ENFORCE = ''enforce''"
definition MODE_STRICT :: string where "MODE_STRICT = ''strict''"

definition RECORDABLE_TESTS :: "string list" where
  "RECORDABLE_TESTS = [''walk_forward'', ''param_jitter'', ''regime_split'', ''monte_carlo'', ''cost_stress'']"

definition RECORDABLE_CHECKS :: "string list" where
  "RECORDABLE_CHECKS = RECORDABLE_TESTS @ [''robustness_score'', ''deflated_sharpe'']"

text \<open>The worded settings with what they may say, the default first; then the numbers.\<close>

definition DOOR_WORDS :: "(string \<times> string list) list" where
  "DOOR_WORDS =
     [(''mode'', [''research'', MODE_STRICT])] @ map (\<lambda>c. (c, [OBSERVE, ENFORCE])) RECORDABLE_CHECKS @
     [(''holdout_stage'', [''live'', ''paper'']), (''source_reconciliation_missing'', [''allow'', ''block''])]"

record door =
  dr_words :: "(string \<times> string) list"
  dr_min_trades :: int
  dr_min_profit_factor :: pyfloat
  dr_min_sharpe :: pyfloat

definition choice :: "jv \<Rightarrow> string list \<Rightarrow> string" where
  "choice v allowed = (let t = py_lower (py_strip (word_of v)) in if t \<in> set allowed then t else hd allowed)"

definition door_number :: "jv \<Rightarrow> pyfloat \<Rightarrow> pyfloat" where
  "door_number v d = (case py_float v of Inl _ \<Rightarrow> d | Inr f \<Rightarrow> if f = NaN then d else f)"

definition normalize_door :: "jv \<Rightarrow> door result" where
  "normalize_door block =
     (let b = (case block of JObj d \<Rightarrow> d | _ \<Rightarrow> [])
      in map_sum id
           (\<lambda>n. \<lparr>dr_words = map (\<lambda>(k, ws). (k, choice (jget b k) ws)) DOOR_WORDS,
                 dr_min_trades = max 1 n,
                 dr_min_profit_factor = (let f = door_number (jget b ''min_oos_profit_factor'') (Fin 1) in if pf_less (Fin 0) f then f else Fin 0),
                 dr_min_sharpe = door_number (jget b ''min_oos_sharpe'') (Fin 0)\<rparr>)
           (int_of_float (door_number (jget b ''min_trades'') (Fin 20))))"

definition STRICT_RESOLVED :: "(string \<times> string) list" where
  "STRICT_RESOLVED = map (\<lambda>c. (c, ENFORCE)) RECORDABLE_CHECKS @
     [(''holdout_stage'', ''paper''), (''source_reconciliation_missing'', ''block'')]"

definition door_word :: "door \<Rightarrow> string \<Rightarrow> string option" where
  "door_word d k = map_of (dr_words d) k"

definition resolve_door :: "jv \<Rightarrow> door result" where
  "resolve_door config =
     map_sum id (\<lambda>d. if door_word d ''mode'' = Some MODE_STRICT then d\<lparr>dr_words := dict_update (dr_words d) STRICT_RESOLVED\<rparr> else d)
       (normalize_door (case config of JObj c \<Rightarrow> jget c ''paper_door'' | _ \<Rightarrow> JNull))"

text \<open>What the gates ask of the door. An unknown check is enforced; the numbers are no such word.\<close>

definition DOOR_NUMBERS :: "string list" where
  "DOOR_NUMBERS = [''min_trades'', ''min_oos_profit_factor'', ''min_oos_sharpe'']"

definition strict_door :: "jv \<Rightarrow> bool result" where
  "strict_door config = map_sum id (\<lambda>d. door_word d ''mode'' = Some MODE_STRICT) (resolve_door config)"

definition enforced_at_paper :: "jv \<Rightarrow> string \<Rightarrow> bool result" where
  "enforced_at_paper config check =
     map_sum id (\<lambda>d. case door_word d check of Some w \<Rightarrow> w = ENFORCE | None \<Rightarrow> check \<notin> set DOOR_NUMBERS) (resolve_door config)"

definition recorded_tests :: "jv \<Rightarrow> string list result" where
  "recorded_tests config = map_sum id (\<lambda>d. filter (\<lambda>t. door_word d t = Some OBSERVE) RECORDABLE_TESTS) (resolve_door config)"

definition STEP_TO_TEST :: "(string \<times> string) list" where
  "STEP_TO_TEST =
    [(''walk_forward'', ''walk_forward''), (''parameter_jitter'', ''param_jitter''), (''param_jitter'', ''param_jitter''),
     (''parameter_stability'', ''param_jitter''), (''regime_split'', ''regime_split''), (''regime_performance'', ''regime_split''),
     (''monte_carlo'', ''monte_carlo''), (''cost_stress'', ''cost_stress'')]"

definition test_for_step :: "string \<Rightarrow> string" where
  "test_for_step step =
     (let k = map (\<lambda>c. if c = CHR ''-'' then CHR ''_'' else c) (py_lower (py_strip step))
      in case map_of STEP_TO_TEST k of Some t \<Rightarrow> t | None \<Rightarrow> k)"

definition step_recorded :: "jv \<Rightarrow> string \<Rightarrow> bool result" where
  "step_recorded config step = map_sum id (\<lambda>ts. test_for_step step \<in> set ts) (recorded_tests config)"

definition holdout_at_paper :: "jv \<Rightarrow> bool result" where
  "holdout_at_paper config = map_sum id (\<lambda>d. door_word d ''holdout_stage'' = Some ''paper'') (resolve_door config)"

definition block_missing_reconciliation :: "jv \<Rightarrow> bool result" where
  "block_missing_reconciliation config =
     map_sum id (\<lambda>d. door_word d ''source_reconciliation_missing'' = Some ''block'') (resolve_door config)"

section \<open>What a door is\<close>

definition door_ok :: "door \<Rightarrow> bool" where
  "door_ok d \<longleftrightarrow> map fst (dr_words d) = map fst DOOR_WORDS \<and>
     (\<forall>p\<in>set DOOR_WORDS. \<exists>w\<in>set (snd p). door_word d (fst p) = Some w) \<and> 1 \<le> dr_min_trades d \<and>
     \<not> pf_less (dr_min_profit_factor d) (Fin 0) \<and> dr_min_sharpe d \<noteq> NaN \<and> dr_min_profit_factor d \<noteq> NaN"

lemma choice_allowed: "ws \<noteq> [] \<Longrightarrow> choice v ws \<in> set ws"
  by (simp add: choice_def Let_def)

lemma DOOR_WORDS_ok: "distinct (map fst DOOR_WORDS)" "\<forall>p\<in>set DOOR_WORDS. snd p \<noteq> []"
    "\<forall>p\<in>set DOOR_WORDS. \<forall>w\<in>set (snd p). py_lower (py_strip w) = w"
  by code_simp+

lemma map_of_words: "distinct (map fst ps) \<Longrightarrow> (k, ws) \<in> set ps \<Longrightarrow> map_of (map (\<lambda>(k, ws). (k, f k ws)) ps) k = Some (f k ws)"
  by (induction ps) (auto simp: image_iff)

lemma door_number_not_NaN: "d \<noteq> NaN \<Longrightarrow> door_number v d \<noteq> NaN"
  by (simp add: door_number_def split: sum.split)

lemma normalize_door_ok:
  assumes "normalize_door b = Inr d"
  shows "door_ok d"
proof -
  define o' where "o' = (case b of JObj d \<Rightarrow> d | _ \<Rightarrow> [])"
  obtain n where d: "d = \<lparr>dr_words = map (\<lambda>(k, ws). (k, choice (jget o' k) ws)) DOOR_WORDS, dr_min_trades = max 1 n,
      dr_min_profit_factor = (let f = door_number (jget o' ''min_oos_profit_factor'') (Fin 1) in if pf_less (Fin 0) f then f else Fin 0),
      dr_min_sharpe = door_number (jget o' ''min_oos_sharpe'') (Fin 0)\<rparr>"
    using assms unfolding normalize_door_def Let_def o'_def
    by (cases "int_of_float (door_number (jget (case b of JObj d \<Rightarrow> d | _ \<Rightarrow> []) ''min_trades'') (Fin 20))") auto
  have "\<exists>w\<in>set (snd p). door_word d (fst p) = Some w" if "p \<in> set DOOR_WORDS" for p
  proof -
    obtain k ws where p: "p = (k, ws)" by (cases p)
    have "door_word d k = Some (choice (jget o' k) ws)"
      using map_of_words [OF DOOR_WORDS_ok(1), of k ws "\<lambda>k ws. choice (jget o' k) ws"] that p by (simp add: door_word_def d)
    then show ?thesis using choice_allowed [of ws "jget o' k"] DOOR_WORDS_ok(2) that p by auto
  qed
  moreover have "\<not> pf_less (dr_min_profit_factor d) (Fin 0)" "dr_min_profit_factor d \<noteq> NaN"
    by (cases "door_number (jget o' ''min_oos_profit_factor'') (Fin 1)"; auto simp: d Let_def)+
  moreover have "dr_min_sharpe d \<noteq> NaN" by (simp add: d door_number_not_NaN)
  moreover have "map fst (dr_words d) = map fst DOOR_WORDS" by (simp add: d comp_def case_prod_unfold)
  ultimately show ?thesis by (simp add: door_ok_def d)
qed

text \<open>The door as the JSON block it is stored as, and back.\<close>

definition door_json :: "door \<Rightarrow> jv" where
  "door_json d = JObj (map (\<lambda>(k, w). (k, JStr w)) (dr_words d) @
     [(''min_trades'', JInt (dr_min_trades d)), (''min_oos_profit_factor'', JFloat (dr_min_profit_factor d)),
      (''min_oos_sharpe'', JFloat (dr_min_sharpe d))])"

lemma door_json_get:
  assumes "door_ok d"
  shows "(k, ws) \<in> set DOOR_WORDS \<Longrightarrow> \<exists>w\<in>set ws. door_word d k = Some w \<and> (\<exists>b. door_json d = JObj b \<and> jget b k = JStr w)"
    and "\<exists>b. door_json d = JObj b \<and> jget b ''min_trades'' = JInt (dr_min_trades d) \<and>
      jget b ''min_oos_profit_factor'' = JFloat (dr_min_profit_factor d) \<and> jget b ''min_oos_sharpe'' = JFloat (dr_min_sharpe d)"
proof -
  have look: "map_of (map (\<lambda>(k, w). (k, JStr w)) ps) k = map_option JStr (map_of ps k)" for ps and k :: string
    by (induction ps) auto
  show "\<exists>w\<in>set ws. door_word d k = Some w \<and> (\<exists>b. door_json d = JObj b \<and> jget b k = JStr w)" if m: "(k, ws) \<in> set DOOR_WORDS"
  proof -
    obtain w where "w \<in> set ws" "door_word d k = Some w" using assms m by (fastforce simp: door_ok_def)
    then show ?thesis by (auto simp: door_json_def jget_def look door_word_def map_add_def)
  qed
  have "k \<notin> fst ` set (dr_words d)" if "k \<in> set DOOR_NUMBERS" for k
  proof -
    have "\<forall>k\<in>set DOOR_NUMBERS. k \<notin> set (map fst DOOR_WORDS)" by code_simp
    then show ?thesis using that assms by (metis door_ok_def set_map)
  qed
  then have "map_of (dr_words d) k = None" if "k \<in> set DOOR_NUMBERS" for k using that by (simp add: map_of_eq_None_iff)
  then show "\<exists>b. door_json d = JObj b \<and> jget b ''min_trades'' = JInt (dr_min_trades d) \<and>
      jget b ''min_oos_profit_factor'' = JFloat (dr_min_profit_factor d) \<and> jget b ''min_oos_sharpe'' = JFloat (dr_min_sharpe d)"
    by (simp add: door_json_def jget_def look DOOR_NUMBERS_def map_add_def)
qed

text \<open>A door that is stored and read again is the same door.\<close>

lemma stored_door_reads_back:
  assumes "normalize_door b = Inr d"
  shows "normalize_door (door_json d) = Inr d"
proof -
  have ok: "door_ok d" by (rule normalize_door_ok [OF assms])
  obtain j where j: "door_json d = JObj j" by (simp add: door_json_def)
  have num: "jget j ''min_trades'' = JInt (dr_min_trades d)" "jget j ''min_oos_profit_factor'' = JFloat (dr_min_profit_factor d)"
      "jget j ''min_oos_sharpe'' = JFloat (dr_min_sharpe d)"
    using door_json_get(2) [OF ok] j by auto
  have w: "(k, ws) \<in> set DOOR_WORDS \<Longrightarrow> Some (choice (jget j k) ws) = door_word d k" for k ws
    using door_json_get(1) [OF ok, of k ws] DOOR_WORDS_ok(3) j by (fastforce simp: choice_def Let_def)
  have keys: "map fst (dr_words d) = map fst DOOR_WORDS" using ok by (simp add: door_ok_def)
  then have dist: "distinct (map fst (dr_words d))" using DOOR_WORDS_ok(1) by simp
  have "map (\<lambda>(k, ws). (k, choice (jget j k) ws)) DOOR_WORDS = dr_words d"
  proof (rule nth_equalityI)
    show l: "length (map (\<lambda>(k, ws). (k, choice (jget j k) ws)) DOOR_WORDS) = length (dr_words d)"
      using keys by (metis length_map)
    fix i assume i: "i < length (map (\<lambda>(k, ws). (k, choice (jget j k) ws)) DOOR_WORDS)"
    obtain k ws where p: "DOOR_WORDS ! i = (k, ws)" by (cases "DOOR_WORDS ! i")
    have k: "fst (dr_words d ! i) = k" using keys i l p by (metis fst_conv length_map nth_map)
    have "door_word d k = Some (snd (dr_words d ! i))"
      using dist k i l by (auto simp: door_word_def intro!: map_of_is_SomeI)
    moreover have "(k, ws) \<in> set DOOR_WORDS" using p i by (metis length_map nth_mem)
    ultimately have "choice (jget j k) ws = snd (dr_words d ! i)" using w by (metis option.inject)
    then show "map (\<lambda>(k, ws). (k, choice (jget j k) ws)) DOOR_WORDS ! i = dr_words d ! i"
      using i p k by (simp add: prod_eq_iff [of _ "dr_words d ! i"])
  qed
  moreover have "rat_trunc (of_int i) = i" for i by (simp add: rat_trunc_def)
  moreover have "max 1 (dr_min_trades d) = dr_min_trades d" "\<not> pf_less (dr_min_profit_factor d) (Fin 0)"
      "dr_min_sharpe d \<noteq> NaN" "dr_min_profit_factor d \<noteq> NaN" using ok by (simp_all add: door_ok_def)
  moreover have "(if pf_less (Fin 0) f then f else Fin 0) = f" if "\<not> pf_less f (Fin 0)" "f \<noteq> NaN" for f
    using that by (cases f) auto
  ultimately show ?thesis by (simp add: normalize_door_def j num door_number_def)
qed

end
