(* ===== verification/Quick_Screen.thy ===== *)
theory Quick_Screen
  imports Pytime Pyfloat
begin

text \<open>
  The quick-screen rule (\<open>src/forven/quick_screen_rule.py\<close>): the ladder of wider windows, the view of a whole window
  composed from its in-sample and out-of-sample slices, and the fair-sample verdict. Metrics are JSON objects. Of the
  composed view the annualized return, which nothing judges, is left out.
\<close>

definition the_default :: "'a \<Rightarrow> 'a option \<Rightarrow> 'a" where
  "the_default d v = (case v of None \<Rightarrow> d | Some x \<Rightarrow> x)"

definition screen_float :: "jv \<Rightarrow> rat option" where
  "screen_float v =
     (case v of JNull \<Rightarrow> None | JBool b \<Rightarrow> None
      | _ \<Rightarrow> (case py_float v of Inr (Fin q) \<Rightarrow> Some q | _ \<Rightarrow> None))"

definition RULES :: "string list" where "RULES = [''fair_sample'', ''strict'']"

definition quick_rule :: "jv \<Rightarrow> string" where
  "quick_rule cfg =
     (let raw = (case cfg of JObj c \<Rightarrow> py_lower (py_strip (word_of (jget c ''rule''))) | _ \<Rightarrow> [])
      in if raw \<in> set RULES then raw else ''fair_sample'')"

definition is_strict :: "jv \<Rightarrow> bool" where
  "is_strict cfg \<longleftrightarrow> quick_rule cfg = ''strict''"

section \<open>The window ladder\<close>

definition max_window_days :: "jv \<Rightarrow> int" where
  "max_window_days cfg =
     (case cfg of
        JObj c \<Rightarrow> (case map_of c ''max_window_days'' of
                    None \<Rightarrow> 1460
                  | Some v \<Rightarrow> (case screen_float v of Some q \<Rightarrow> rat_trunc q | None \<Rightarrow> 1460))
      | _ \<Rightarrow> 1460)"

text \<open>The loop as it is written: from a window of zero days it would not end.\<close>

partial_function (option) rungs :: "int \<Rightarrow> int \<Rightarrow> int list option" where
  "rungs limit days =
     (if days < limit
      then (let d = min (days * 2) limit in Option.bind (rungs limit d) (\<lambda>rs. Some (d # rs)))
      else Some [])"

definition window_ladder :: "int \<Rightarrow> jv \<Rightarrow> int list option" where
  "window_ladder base cfg = (if is_strict cfg then Some [] else rungs (max_window_days cfg) (max 1 base))"

lemma rungs_end:
  assumes "1 \<le> days"
  shows "\<exists>rs. rungs limit days = Some rs \<and> sorted_wrt (<) (days # rs) \<and> (\<forall>r\<in>set rs. r \<le> limit) \<and>
    (days < limit \<longrightarrow> rs \<noteq> [] \<and> last rs = limit \<and> 2 ^ length rs * days < 2 * limit) \<and> (limit \<le> days \<longrightarrow> rs = [])"
  using assms
proof (induction "nat (limit - days)" arbitrary: days rule: less_induct)
  case less
  show ?case
  proof (cases "days < limit")
    case False
    then show ?thesis by (simp add: rungs.simps [of limit days])
  next
    case True
    define d where "d = min (days * 2) limit"
    have d: "days < d" "d \<le> limit" "1 \<le> d" "d \<le> 2 * days" using True less.prems by (simp_all add: d_def)
    then obtain rs where rs: "rungs limit d = Some rs" "sorted_wrt (<) (d # rs)" "\<forall>r\<in>set rs. r \<le> limit"
        "d < limit \<Longrightarrow> rs \<noteq> [] \<and> last rs = limit \<and> 2 ^ length rs * d < 2 * limit" "limit \<le> d \<Longrightarrow> rs = []"
      using less.hyps [of d] True by auto
    have "rungs limit days = Some (d # rs)" using True rs(1) by (simp add: rungs.simps [of limit days] d_def [symmetric] Let_def)
    moreover have "2 ^ length (d # rs) * days < 2 * limit \<and> last (d # rs) = limit"
    proof (cases "d < limit")
      case True
      then have "d = days * 2" by (simp add: d_def min_def split: if_splits)
      then show ?thesis using rs(4) [OF True] by (simp add: mult.assoc mult.commute)
    next
      case False
      then show ?thesis using rs(5) d True by simp
    qed
    moreover have "sorted_wrt (<) (days # d # rs)" using rs(2) d(1) by auto
    ultimately show ?thesis using True d(2) rs(3) by auto
  qed
qed

text \<open>C38: The window ladder always ends. However the configuration reads and whatever the base window is, the doubling loop
  returns: the windows grow, none exceeds the limit, the last one is the limit, and there are at most as many as doublings
  fit between the base and the limit.\<close>

theorem window_ladder_ends:
  "\<exists>rs. window_ladder base cfg = Some rs \<and> sorted_wrt (<) (max 1 base # rs) \<and> (\<forall>r\<in>set rs. r \<le> max_window_days cfg) \<and>
     (\<not> is_strict cfg \<longrightarrow> max 1 base < max_window_days cfg \<longrightarrow>
        last (0 # rs) = max_window_days cfg \<and> 2 ^ length rs * max 1 base < 2 * max_window_days cfg)"
proof (cases "is_strict cfg")
  case False
  then show ?thesis using rungs_end [of "max 1 base" "max_window_days cfg"] by (auto simp: window_ladder_def)
qed (simp add: window_ladder_def)

lemma window_ladder_ends_witness:
  "window_ladder 365 (JObj []) = Some [730, 1460] \<and> last [730, 1460 :: int] = max_window_days (JObj [])"
proof -
  have s: "\<not> is_strict (JObj [])" "max 1 365 < max_window_days (JObj [])" "max_window_days (JObj []) = 1460" by code_simp+
  have r: "window_ladder 365 (JObj []) = Some [730, 1460]" using s by (simp add: window_ladder_def rungs.simps)
  show ?thesis using window_ladder_ends [of 365 "JObj []"] r s by simp
qed

section \<open>The whole window\<close>

definition section_of :: "jobj \<Rightarrow> string list \<Rightarrow> jobj" where
  "section_of m ks = (case find (\<lambda>k. case jget m k of JObj d \<Rightarrow> True | _ \<Rightarrow> False) ks of
     None \<Rightarrow> [] | Some k \<Rightarrow> (case jget m k of JObj d \<Rightarrow> d | _ \<Rightarrow> []))"

definition num :: "jobj \<Rightarrow> string \<Rightarrow> rat" where
  "num d k = (case screen_float (jget d k) of None \<Rightarrow> 0 | Some q \<Rightarrow> q)"

definition whole :: "jobj \<Rightarrow> string \<Rightarrow> int" where
  "whole d k = rat_trunc (num d k)"

definition trade_count :: "jobj \<Rightarrow> rat option" where
  "trade_count d =
     (case screen_float (jget d ''total_trades'') of Some q \<Rightarrow> Some q
      | None \<Rightarrow> (case screen_float (jget d ''trades'') of Some q \<Rightarrow> Some q
                | None \<Rightarrow> screen_float (jget d ''num_trades'')))"

text \<open>A blob whose out-of-sample slice lies flat on its top level is read from there.\<close>

definition slices :: "jobj \<Rightarrow> jobj \<times> jobj" where
  "slices m =
     (let i = section_of m [''in_sample'', ''is'']; oos = section_of m [''out_of_sample'', ''oos''];
          flat = filter (\<lambda>p. case snd p of JObj _ \<Rightarrow> False | _ \<Rightarrow> True) m
      in if i \<noteq> [] \<and> oos = [] \<and> trade_count flat \<noteq> None
         then (i, if jget flat ''sharpe'' = JNull \<and> jget flat ''sharpe_ratio'' \<noteq> JNull
                  then dict_set ''sharpe'' (jget flat ''sharpe_ratio'') flat else flat)
         else (i, oos))"

definition weighted :: "rat \<Rightarrow> rat \<Rightarrow> rat \<Rightarrow> rat \<Rightarrow> rat" where
  "weighted a m b n = (a * m + b * n) / (m + n)"

definition slice_sharpe :: "jobj \<Rightarrow> jobj \<Rightarrow> rat" where
  "slice_sharpe i oos =
     (let m = num i ''backtest_months'' + num oos ''backtest_months''
      in case (screen_float (jget i ''sharpe''), screen_float (jget oos ''sharpe'')) of
           (Some a, Some b) \<Rightarrow>
             if 0 < m then weighted a (num i ''backtest_months'') b (num oos ''backtest_months'') else a
         | (Some a, None) \<Rightarrow> a | (None, Some b) \<Rightarrow> b | (None, None) \<Rightarrow> 0)"

definition first_truthy :: "jv \<Rightarrow> jv \<Rightarrow> jv" where
  "first_truthy a b = (if truthy a then a else b)"

definition combine_is_oos_metrics :: "jobj \<Rightarrow> jobj \<Rightarrow> jobj" where
  "combine_is_oos_metrics i oos =
     (if i = [] \<and> oos = [] then []
      else let add = (\<lambda>k. num i k + num oos k); n = whole i ''total_trades'' + whole oos ''total_trades'';
               avg = (\<lambda>k. if 0 < n then (num i k * of_int (whole i ''total_trades'') + num oos k * of_int (whole oos ''total_trades'')) / of_int n
                          else 0);
               ret = (if i \<noteq> [] \<and> oos \<noteq> [] then (1 + num i ''total_return_pct'') * (1 + num oos ''total_return_pct'') - 1
                      else if num i ''total_return_pct'' \<noteq> 0 then num i ''total_return_pct'' else num oos ''total_return_pct'');
               m = add ''backtest_months''; f = (\<lambda>q. JFloat (Fin q))
      in [(''total_trades'', JInt n), (''wins'', JInt (whole i ''wins'' + whole oos ''wins'')),
          (''losses'', JInt (whole i ''losses'' + whole oos ''losses'')),
          (''breakeven_trades'', JInt (whole i ''breakeven_trades'' + whole oos ''breakeven_trades'')),
          (''gross_profit'', f (add ''gross_profit'')), (''gross_loss'', f (add ''gross_loss'')),
          (''win_rate'', f (if 0 < n then of_int (whole i ''wins'' + whole oos ''wins'') / of_int n else 0)),
          (''profit_factor'', f (if 0 < add ''gross_loss'' then add ''gross_profit'' / add ''gross_loss'' else 0)),
          (''total_return_pct'', f ret), (''backtest_months'', f m),
          (''monthly_return_pct'', if 0 < m then f (ret / m) else JNull),
          (''avg_trade_pct'', f (avg ''avg_trade_pct'')), (''avg_bars_held'', f (avg ''avg_bars_held'')),
          (''sharpe'', f (slice_sharpe i oos)), (''sharpe_is_approximation'', JBool True),
          (''sharpe_is_reliable'', JBool (20 \<le> n)),
          (''max_drawdown_pct'', f (max (num i ''max_drawdown_pct'') (num oos ''max_drawdown_pct''))),
          (''max_drawdown_is_approximation'', JBool True),
          (''start_date'', first_truthy (jget i ''start_date'') (jget oos ''start_date'')),
          (''end_date'', first_truthy (jget oos ''end_date'') (jget i ''end_date''))])"

text \<open>Without slice lengths the Sharpes, and without totals the profit factors and win rates, are weighted by trades.\<close>

definition profit_factor_of :: "jobj \<Rightarrow> pyfloat option" where
  "profit_factor_of d =
     (if (case trade_count d of Some t \<Rightarrow> t \<le> 0 | None \<Rightarrow> False) then None
      else case (screen_float (jget d ''gross_profit''), screen_float (jget d ''gross_loss'')) of
        (Some p, Some l) \<Rightarrow> if 0 < \<bar>l\<bar> then Some (Fin (p / \<bar>l\<bar>)) else if 0 < p then Some PInf else None
      | _ \<Rightarrow> if jget d ''profit_factor_is_infinite'' = JBool True then Some PInf
             else map_option Fin (screen_float (jget d ''profit_factor'')))"

definition mean_by :: "(rat \<times> rat) list \<Rightarrow> rat" where
  "mean_by vs = sum_list (map (\<lambda>(v, t). v * t) vs) / sum_list (map snd vs)"

definition reweigh_sharpe :: "jobj \<Rightarrow> jobj \<Rightarrow> jobj \<Rightarrow> jobj" where
  "reweigh_sharpe i oos c =
     (case (screen_float (jget i ''sharpe''), screen_float (jget oos ''sharpe'')) of
        (Some a, Some b) \<Rightarrow>
          (let m = the_default 0 (trade_count i); n = the_default 0 (trade_count oos)
           in if \<not> truthy (jget c ''backtest_months'') \<and> 0 < m + n then dict_set ''sharpe'' (JFloat (Fin (weighted a m b n))) c else c)
      | _ \<Rightarrow> c)"

definition reweigh_factor :: "(jobj \<times> rat) list \<Rightarrow> jobj \<Rightarrow> jobj" where
  "reweigh_factor ss c =
     (if truthy (jget c ''gross_profit'') \<or> truthy (jget c ''gross_loss'') then c
      else let ratios = map (\<lambda>(s, t). (profit_factor_of s, t)) (filter (\<lambda>p. 0 < snd p) ss);
               c1 = (if Some PInf \<in> fst ` set ratios then dict_set ''profit_factor_is_infinite'' (JBool True) c else c);
               known = concat (map (\<lambda>(v, t). case v of Some (Fin q) \<Rightarrow> [(q, t)] | _ \<Rightarrow> []) ratios)
           in if known = [] then c1
              else dict_pop ''gross_loss'' (dict_pop ''gross_profit'' (dict_set ''profit_factor'' (JFloat (Fin (mean_by known))) c1)))"

definition reweigh_wins :: "(jobj \<times> rat) list \<Rightarrow> jobj \<Rightarrow> jobj" where
  "reweigh_wins ss c =
     (if truthy (jget c ''wins'') \<or> truthy (jget c ''losses'') then c
      else let known = concat (map (\<lambda>(s, t). case screen_float (jget s ''win_rate'') of Some q \<Rightarrow> [(q, t)] | None \<Rightarrow> []) ss)
           in if known \<noteq> [] \<and> 0 < sum_list (map snd known) then dict_set ''win_rate'' (JFloat (Fin (mean_by known))) c else c)"

definition whole_window :: "jobj \<Rightarrow> jobj" where
  "whole_window m =
     (case slices m of (i, oos) \<Rightarrow>
        if i = [] \<and> oos = [] then m
        else let c = reweigh_sharpe i oos (combine_is_oos_metrics i oos);
                 ss = map (\<lambda>s. (s, the_default 0 (trade_count s))) (filter (\<lambda>s. s \<noteq> []) [i, oos])
             in if 0 < sum_list (map snd ss) then reweigh_wins ss (reweigh_factor ss c) else c)"

definition whole_window_trades :: "jobj \<Rightarrow> rat option" where
  "whole_window_trades m =
     (case slices m of (i, oos) \<Rightarrow>
        if i = [] \<and> oos = [] then trade_count m
        else case (trade_count i, trade_count oos) of
               (None, None) \<Rightarrow> None | (a, b) \<Rightarrow> Some (the_default 0 a + the_default 0 b))"

definition utc_text :: "string \<Rightarrow> string" where
  "utc_text s = concat (map (\<lambda>c. if c = CHR ''Z'' then ''+00:00'' else [c]) s)"

definition date_of :: "jv \<Rightarrow> int option" where
  "date_of v = (case v of JStr s \<Rightarrow> iso_instant (utc_text s) | _ \<Rightarrow> None)"

definition window_span_days :: "jobj \<Rightarrow> rat option" where
  "window_span_days m =
     (let i = section_of m [''in_sample'', ''is'']; oos = section_of m [''out_of_sample'', ''oos''];
          s = first_truthy (first_truthy (jget i ''start_date'') (jget m ''start_date'')) (jget oos ''start_date'');
          e = first_truthy (first_truthy (jget oos ''end_date'') (jget m ''end_date'')) (jget i ''end_date'')
      in case (date_of s, date_of e) of
           (Some a, Some b) \<Rightarrow> Some (max 0 (of_int (b - a) / of_int day_micros)) | _ \<Rightarrow> None)"

section \<open>The fair-sample rule\<close>

datatype screen_failure = LowReturn | LowSharpe | LowProfitFactor | DeepDrawdown | LosesOutOfSample

definition ratio_of :: "jv \<Rightarrow> rat \<Rightarrow> rat" where
  "ratio_of v d = (case screen_float v of None \<Rightarrow> d | Some q \<Rightarrow> if 1 < \<bar>q\<bar> then q / 100 else q)"

definition screen_floor :: "jobj \<Rightarrow> string \<Rightarrow> rat \<Rightarrow> rat" where
  "screen_floor c k d = (case screen_float (jget c k) of None \<Rightarrow> d | Some q \<Rightarrow> q)"

definition sharpe_of :: "jobj \<Rightarrow> rat option" where
  "sharpe_of d = (case screen_float (jget d ''sharpe'') of Some q \<Rightarrow> Some q
                  | None \<Rightarrow> screen_float (jget d ''sharpe_ratio''))"

definition fair_sample_failures :: "jv \<Rightarrow> jv \<Rightarrow> screen_failure list" where
  "fair_sample_failures metrics cfg =
     (case metrics of
        JObj (x # xs) \<Rightarrow>
          (let m = x # xs; c = (case cfg of JObj d \<Rightarrow> d | _ \<Rightarrow> []); w = whole_window m; oos = snd (slices m);
               factor_floor = screen_floor c ''min_profit_factor'' 0
           in (if num w ''total_return_pct'' * 100 < screen_floor c ''min_total_return_pct'' 0 then [LowReturn] else [])
            @ (if the_default 0 (sharpe_of w) \<le> screen_floor c ''min_sharpe'' 0 then [LowSharpe] else [])
            @ (if 0 < factor_floor \<and> (case profit_factor_of w of None \<Rightarrow> False | Some f \<Rightarrow> pf_less f (Fin factor_floor))
               then [LowProfitFactor] else [])
            @ (if ratio_of (jget c ''max_drawdown_pct'') (3/10) <
                  ratio_of (case map_of w ''max_drawdown_pct'' of Some v \<Rightarrow> v | None \<Rightarrow> jget w ''max_drawdown'') 0
               then [DeepDrawdown] else [])
            @ (if oos \<noteq> [] \<and> (case trade_count oos of None \<Rightarrow> True | Some t \<Rightarrow> 0 < t) \<and>
                  (case sharpe_of oos of None \<Rightarrow> False | Some q \<Rightarrow> q \<le> screen_floor c ''min_oos_sharpe'' (- 1 / 2))
               then [LosesOutOfSample] else []))
      | _ \<Rightarrow> [])"

end
