(* ===== verification/Live_Evidence.thy ===== *)
theory Live_Evidence
  imports Complex_Main Probation_Rules
begin

text \<open>
  The sequential evidence test before live capital (\<open>src/forven/live_evidence.py\<close>). The statistics take square roots and
  powers, so the series are real numbers. The quantile function of the normal distribution is the argument \<open>ppf\<close>.
\<close>

section \<open>Settings\<close>

record live_gate =
  lg_mode :: string
  lg_sidak :: bool
  lg_breadth :: bool
  lg_knobs :: knobs

definition LIVE_BOUNDS :: "knob_spec list" where
  "LIVE_BOUNDS =
    [spec ''live_min_forward_trades'' 2 10000 True 20,
     spec ''live_min_paper_days'' 0 3650 True 30,
     spec ''live_sequential_alpha'' (1/1000000) (1/2) False (1/20),
     spec ''live_backtest_weight'' 0 1 False (1/2),
     spec ''live_pool_lookback_days'' 1 3650 True 90]"

definition lower_word :: "jv \<Rightarrow> string" where
  "lower_word v = py_lower (py_strip (word_of v))"

definition says_no :: "jv \<Rightarrow> bool" where
  "says_no v = (case v of
      JBool b \<Rightarrow> \<not> b | JInt i \<Rightarrow> i = 0 | JStr s \<Rightarrow> py_lower (py_strip s) \<in> {''0'', ''false'', ''off'', ''no''} | _ \<Rightarrow> False)"

definition live_settings :: "jv \<Rightarrow> live_gate result" where
  "live_settings config =
     (let b = (case config of JObj c \<Rightarrow> (case jget c ''paper_trading'' of JObj d \<Rightarrow> d | _ \<Rightarrow> []) | _ \<Rightarrow> [])
      in map_sum id
           (\<lambda>k. \<lparr>lg_mode = (if lower_word (jget b ''live_gate_mode'') = ''fixed'' then ''fixed'' else ''sequential''),
                 lg_sidak = (lower_word (jget b ''live_pool_correction'') \<noteq> ''none''),
                 lg_breadth = (case map_of b ''live_require_breadth'' of None \<Rightarrow> True | Some v \<Rightarrow> \<not> says_no v),
                 lg_knobs = k\<rparr>)
           (read_knobs b LIVE_BOUNDS))"

section \<open>The breadth test\<close>

datatype breadth_block = BreadthRunning | BreadthNotRun | BreadthStale | BreadthHomeOnly | BreadthNoVerdict

definition breadth_reason :: "jv \<Rightarrow> breadth_block option" where
  "breadth_reason state =
     (let s = (case state of JObj d \<Rightarrow> d | _ \<Rightarrow> []); status = word_of (jget s ''status'');
          verdict = word_of (case jget s ''summary'' of JObj d \<Rightarrow> jget d ''verdict'' | _ \<Rightarrow> JNull)
      in if status = ''running'' then Some BreadthRunning
         else if status \<noteq> ''done'' then Some BreadthNotRun
         else if truthy (jget s ''stale'') then Some BreadthStale
         else if verdict \<in> {''general'', ''mixed'', ''too_few''} then None
         else if verdict = ''home_only'' then Some BreadthHomeOnly
         else Some BreadthNoVerdict)"

section \<open>Statistics\<close>

definition clean_series :: "jv list \<Rightarrow> real list" where
  "clean_series vs = concat (map (\<lambda>v. case py_float v of Inr (Fin q) \<Rightarrow> [of_rat q] | _ \<Rightarrow> []) vs)"

definition mean :: "real list \<Rightarrow> real" where
  "mean xs = sum_list xs / real (length xs)"

definition pstdev :: "real list \<Rightarrow> real" where
  "pstdev xs = sqrt (sum_list (map (\<lambda>x. (x - mean xs)\<^sup>2) xs) / real (length xs))"

definition MAX_ABS_TRADE_SHARPE :: real where "MAX_ABS_TRADE_SHARPE = 3"

definition TINY :: real where "TINY = 1 / 10 ^ 12"

definition per_trade_sharpe :: "real list \<Rightarrow> real option" where
  "per_trade_sharpe xs =
     (if length xs < 2 then None
      else if pstdev xs \<le> TINY
      then (if \<bar>mean xs\<bar> \<le> TINY then Some 0 else Some (sgn (mean xs) * MAX_ABS_TRADE_SHARPE))
      else Some (max (- MAX_ABS_TRADE_SHARPE) (min MAX_ABS_TRADE_SHARPE (mean xs / pstdev xs))))"

definition pool_alpha :: "real \<Rightarrow> int \<Rightarrow> bool \<Rightarrow> real" where
  "pool_alpha alpha pool sidak =
     (let k = real_of_int (max pool 1); p = (if sidak then 1 - (1 - alpha) powr (1 / k) else alpha)
      in min (max p TINY) (1/2))"

definition pool_bar :: "(real \<Rightarrow> real) \<Rightarrow> real \<Rightarrow> int \<Rightarrow> bool \<Rightarrow> real \<times> real" where
  "pool_bar ppf alpha pool sidak = (let p = pool_alpha alpha pool sidak in (p, ppf (1 - p)))"

section \<open>The test\<close>

datatype seq_state = Collecting | Continue | Go | Failing

record live_test =
  lt_alpha :: real
  lt_weight :: real
  lt_pool :: int
  lt_min_trades :: int
  lt_sidak :: bool

definition combined_z :: "live_test \<Rightarrow> real list \<Rightarrow> real list \<Rightarrow> real \<Rightarrow> real" where
  "combined_z lt fwd bt df =
     (let n = real (length fwd);
          (w, db) = (case per_trade_sharpe bt of None \<Rightarrow> (0, 0) | Some d \<Rightarrow> (lt_weight lt * real (length bt), d))
      in (w * db + n * df) / (w + n) * sqrt (w + n))"

definition evidence_state :: "(real \<Rightarrow> real) \<Rightarrow> live_test \<Rightarrow> real list \<Rightarrow> real list \<Rightarrow> seq_state" where
  "evidence_state ppf lt fwd bt =
     (let n = real (length fwd); z = ppf (1 - lt_alpha lt); bar = snd (pool_bar ppf (lt_alpha lt) (lt_pool lt) (lt_sidak lt))
      in case per_trade_sharpe fwd of None \<Rightarrow> Collecting
         | Some df \<Rightarrow>
             if int (length fwd) < max (lt_min_trades lt) 2 then Collecting
             else if df * sqrt n < - z then Failing
             else if (case per_trade_sharpe bt of None \<Rightarrow> False | Some db \<Rightarrow> (df - db) * sqrt n < - z) then Failing
             else if bar \<le> combined_z lt fwd bt df then (if df \<le> 0 then Continue else Go)
             else Continue)"

definition sequential_evidence :: "(real \<Rightarrow> real) \<Rightarrow> live_test \<Rightarrow> jv list \<Rightarrow> jv list \<Rightarrow> seq_state" where
  "sequential_evidence ppf lt forward backtest = evidence_state ppf lt (clean_series forward) (clean_series backtest)"

section \<open>The verdict does not depend on a scale\<close>

lemma mean_scale: "mean (map ((*) c) xs) = c * mean xs"
proof -
  have "sum_list (map ((*) c) xs) = c * sum_list xs" by (induction xs) (simp_all add: distrib_left)
  then show ?thesis by (simp add: mean_def)
qed

lemma pstdev_scale: "0 < c \<Longrightarrow> pstdev (map ((*) c) xs) = c * pstdev xs"
proof -
  assume c: "0 < c"
  define m where "m = mean xs"
  have "sum_list (map (\<lambda>x. (x - c * m)\<^sup>2) (map ((*) c) xs)) = c\<^sup>2 * sum_list (map (\<lambda>x. (x - m)\<^sup>2) xs)"
  proof (induction xs)
    case (Cons x xs)
    have "(c * x - c * m)\<^sup>2 = c\<^sup>2 * (x - m)\<^sup>2" by (simp add: power_mult_distrib [symmetric] right_diff_distrib)
    then show ?case using Cons by (simp add: distrib_left)
  qed simp
  then show ?thesis using c by (simp add: pstdev_def mean_scale m_def [symmetric] real_sqrt_mult real_sqrt_divide)
qed

lemma sharpe_scale:
  assumes "0 < c" and "TINY < pstdev xs" and "TINY < c * pstdev xs"
  shows "per_trade_sharpe (map ((*) c) xs) = per_trade_sharpe xs"
  using assms by (simp add: per_trade_sharpe_def pstdev_scale mean_scale)

text \<open>The live verdict is free of scale. Forward returns in percent and backtest returns as ratios, or either series
  times any positive factor, get the same verdict, as long as the series do not shrink to a numerically constant one.\<close>

lemma verdict_is_scale_free:
  assumes "0 < a" and "TINY < pstdev fwd" and "TINY < a * pstdev fwd"
    and "0 < b" and "TINY < pstdev bt" and "TINY < b * pstdev bt"
  shows "evidence_state ppf lt (map ((*) a) fwd) (map ((*) b) bt) = evidence_state ppf lt fwd bt"
  unfolding evidence_state_def combined_z_def sharpe_scale [OF assms(1-3)] sharpe_scale [OF assms(4-6)] length_map by (rule refl)

text \<open>Two trades, and a monotone stand-in for the quantiles.\<close>

definition demo_test :: live_test where
  "demo_test = \<lparr>lt_alpha = 1/20, lt_weight = 1/2, lt_pool = 1, lt_min_trades = 2, lt_sidak = True\<rparr>"

lemma demo_series: "mean [1, 3] = 2" "pstdev [1, 3] = 1"
  by (simp_all add: mean_def pstdev_def)

lemma TINY_small: "TINY < 1 / 1000"
  by (simp add: TINY_def)

section \<open>The pool correction\<close>

lemma sidak_power:
  assumes "0 < k" and "alpha < 1"
  shows "((1 - alpha) powr (1 / real k)) ^ k = 1 - alpha"
  using assms by (simp add: powr_realpow [symmetric] powr_powr)

lemma sidak_at_least_share:
  assumes "0 < k" and "0 \<le> alpha" and "alpha < 1"
  shows "alpha / real k \<le> 1 - (1 - alpha) powr (1 / real k)"
proof -
  have "1 + real k * (- (alpha / real k)) \<le> (1 + - (alpha / real k)) ^ k"
    using assms by (intro Bernoulli_inequality) (simp add: divide_le_eq)
  then have "((1 - alpha) powr (1 / real k)) ^ k \<le> (1 - alpha / real k) ^ k" using assms by (simp add: sidak_power)
  moreover have "0 \<le> 1 - alpha / real k" using assms by (simp add: divide_le_eq)
  ultimately have "(1 - alpha) powr (1 / real k) \<le> 1 - alpha / real k" using assms(1) power_mono_iff by fastforce
  then show ?thesis by simp
qed

lemma sidak_at_most: "0 < k \<Longrightarrow> 0 \<le> alpha \<Longrightarrow> alpha < 1 \<Longrightarrow> 1 - (1 - alpha) powr (1 / real k) \<le> alpha"
  using powr_mono' [of "1 / real k" 1 "1 - alpha"] by simp

lemma pool_alpha_value:
  assumes "0 < k" and "0 < alpha" and "alpha \<le> 1/2" and "TINY \<le> alpha / real k"
  shows "pool_alpha alpha (int k) True = 1 - (1 - alpha) powr (1 / real k)"
  using sidak_at_least_share [of k alpha] sidak_at_most [of k alpha] assms by (simp add: pool_alpha_def Let_def)


lemma demo_go: "evidence_state (\<lambda>p. 2 * p - 1) (demo_test\<lparr>lt_pool := 2\<rparr>) [1, 3] [] = Go"
proof -
  have d: "per_trade_sharpe [1, 3] = Some 2" "per_trade_sharpe [] = None"
    using TINY_small by (simp_all add: per_trade_sharpe_def demo_series MAX_ABS_TRADE_SHARPE_def)
  have two: "(1::real) \<le> sqrt 2" by simp
  have "0 < pool_alpha (1/20) 2 True" by (simp add: pool_alpha_def Let_def TINY_def min_def max_def)
  then have "1 - 2 * pool_alpha (1/20) 2 True \<le> 2 * sqrt 2" using two by linarith
  then have "snd (pool_bar (\<lambda>p. 2 * p - 1) (1/20) 2 True) \<le> 2 * sqrt 2" by (simp add: pool_bar_def Let_def)
  moreover have "\<not> 2 * sqrt 2 < - (9/10 :: real)" using two by linarith
  ultimately show ?thesis by (simp add: evidence_state_def combined_z_def d demo_test_def Let_def)
qed


end
