(* ===== verification/Paper_Pool.thy ===== *)
theory Paper_Pool
  imports Lifecycle_Commit Live_Evidence
begin

text \<open>
  The paper pool (\<open>src/forven/paper_pool.py\<close>, with its scheduled pass in \<open>evolution.py\<close> and its place in the promotion
  policy): the settings, the rank of a waiting strategy, the queue, admission, and forward retirement. Admission is
  asked inside \<open>transition_stage\<close> when the rest of the policy lets a strategy into paper. Ranks and trade statistics are
  real numbers; the family and the rank of a strategy, which the policy reads from its evidence, are arguments.
\<close>

section \<open>Settings\<close>

record pool_knobs =
  pk_max :: int
  pk_market :: int
  pk_family :: int
  pk_retire :: bool
  pk_min_trades :: int
  pk_t_stat :: rat
  pk_drawdown :: rat
  pk_idle :: int
  pk_sequential :: bool
  pk_ports :: int

definition pool_int :: "jv \<Rightarrow> int \<Rightarrow> int result" where
  "pool_int v d =
     (case py_float v of
        Inl _ \<Rightarrow> Inr d
      | Inr f \<Rightarrow> (case int_of_float f of Inl OverflowError \<Rightarrow> Inl OverflowError | Inl _ \<Rightarrow> Inr d | Inr i \<Rightarrow> Inr i))"

definition pool_float :: "jv \<Rightarrow> rat \<Rightarrow> rat" where
  "pool_float v d = (case py_float v of Inr (Fin q) \<Rightarrow> q | _ \<Rightarrow> d)"

fun pool_ints :: "jobj \<Rightarrow> (string \<times> int) list \<Rightarrow> (string \<times> int) list result" where
  "pool_ints b [] = Inr []"
| "pool_ints b ((k, d) # ks) =
     (case pool_int (jget b k) d of Inl e \<Rightarrow> Inl e | Inr i \<Rightarrow> map_sum id (\<lambda>is. (k, i) # is) (pool_ints b ks))"

definition pool_flag :: "jobj \<Rightarrow> string \<Rightarrow> bool" where
  "pool_flag b k = (case map_of b k of None \<Rightarrow> True | Some v \<Rightarrow> truthy v)"

definition pool_settings :: "jv \<Rightarrow> pool_knobs result" where
  "pool_settings config =
     (let b = (case config of JObj c \<Rightarrow> (case jget c ''paper_pool'' of JObj d \<Rightarrow> d | _ \<Rightarrow> []) | _ \<Rightarrow> [])
      in map_sum id
           (\<lambda>is. let i = (\<lambda>k. case map_of is k of None \<Rightarrow> 0 | Some n \<Rightarrow> n)
                 in \<lparr>pk_max = max 0 (i ''max_strategies''), pk_market = max 0 (i ''max_per_market''), pk_family = max 0 (i ''max_per_family''),
                     pk_retire = pool_flag b ''retire_enabled'', pk_min_trades = max 2 (i ''retire_min_trades''),
                     pk_t_stat = pool_float (jget b ''retire_max_t_stat'') (- 1),
                     pk_drawdown = max 0 (pool_float (jget b ''retire_max_drawdown_pct'') (15/100)),
                     pk_idle = max 0 (i ''retire_idle_days''), pk_sequential = pool_flag b ''retire_on_sequential_fail'',
                     pk_ports = max 0 (min 15 (i ''auto_port_max''))\<rparr>)
           (pool_ints b [(''max_strategies'', 0), (''max_per_market'', 0), (''max_per_family'', 0), (''retire_min_trades'', 15),
              (''retire_idle_days'', 60), (''auto_port_max'', 5)]))"

section \<open>The rank of a waiting strategy\<close>

definition market_of :: "string option \<Rightarrow> string" where
  "market_of symbol = takeWhile (\<lambda>c. c \<noteq> CHR '':'') (py_upper (py_strip (opt_word symbol)))"

definition TIMEFRAME_UNITS :: "(char \<times> rat) list" where
  "TIMEFRAME_UNITS = [(CHR ''m'', 1), (CHR ''h'', 60), (CHR ''d'', 1440), (CHR ''w'', 10080)]"

definition timeframe_minutes :: "string option \<Rightarrow> pyfloat option" where
  "timeframe_minutes tf =
     (let t = py_lower (py_strip (opt_word tf))
      in if length t < 2 then None
         else case map_of TIMEFRAME_UNITS (last t) of
                None \<Rightarrow> None
              | Some u \<Rightarrow> (case float_of_string (butlast t) of
                    None \<Rightarrow> None
                  | Some n \<Rightarrow> if pf_less (Fin 0) n then Some (pf_mul n (Fin u)) else None))"

definition pace_score :: "jv \<Rightarrow> rat" where
  "pace_score pace = (let p = pool_float pace (- 1) in if p < 0 then 0 else 1 / (1 + p / 6))"

definition timeframe_score :: "string option \<Rightarrow> rat" where
  "timeframe_score tf =
     (case timeframe_minutes tf of
        None \<Rightarrow> 0
      | Some m \<Rightarrow> if pf_le m (Fin 15) then 0 else if pf_less m (Fin 60) then 4/10 else if pf_less m (Fin 120) then 7/10 else 1)"

definition DEFAULT_ROUND_TRIP_COST :: rat where "DEFAULT_ROUND_TRIP_COST = 2 * (45/10 + 2) / 10000"

definition cost_coverage :: "jv \<Rightarrow> jv \<Rightarrow> rat option" where
  "cost_coverage avg cost =
     (let c = pool_float cost 0
      in if avg = JNull \<or> c \<le> 0 then None
         else case py_float avg of Inr (Fin net) \<Rightarrow> Some ((net + c) / c) | _ \<Rightarrow> None)"

definition breadth_bonus :: "string option \<Rightarrow> rat" where
  "breadth_bonus verdict =
     (case map_of [(''general'', 2/10), (''mixed'', 5/100), (''too_few'', 0), (''home_only'', - 2/10)] (opt_word verdict) of
        None \<Rightarrow> 0 | Some b \<Rightarrow> b)"

definition unit_part :: "rat \<Rightarrow> rat" where
  "unit_part x = min (max x 0) 1"

text \<open>\<open>round(x, 6)\<close> on reals, a tie to the even neighbour.\<close>

definition round6 :: "real \<Rightarrow> real" where
  "round6 x =
     (let y = x * 10 ^ 6; f = \<lfloor>y\<rfloor>; d = y - of_int f
      in of_int (if d < 1/2 then f else if 1/2 < d then f + 1 else if even f then f else f + 1) / 10 ^ 6)"

record rank_input =
  ri_deflated :: jv
  ri_robustness :: jv
  ri_oos_sharpe :: jv
  ri_breadth :: "string option"
  ri_pace :: jv
  ri_timeframe :: "string option"
  ri_avg_trade :: jv

definition evidence_score :: "rank_input \<Rightarrow> real" where
  "evidence_score r =
     (let evidence = of_rat (4/10 * unit_part (pool_float (ri_deflated r) 0) + 3/10 * unit_part (pool_float (ri_robustness r) 0 / 100))
            + 3/10 * max (tanh (of_rat (pool_float (ri_oos_sharpe r) 0))) 0;
          thin = (case cost_coverage (ri_avg_trade r) (JFloat (Fin DEFAULT_ROUND_TRIP_COST)) of
                    None \<Rightarrow> 0 | Some c \<Rightarrow> if c < 2 then 15/100 else 0)
      in round6 (of_rat (45/100 * pace_score (ri_pace r) + 35/100 * timeframe_score (ri_timeframe r) + breadth_bonus (ri_breadth r) - thin)
           + 2/10 * evidence))"

section \<open>The queue\<close>

record waiting =
  wt_capacity :: bool
  wt_score :: real
  wt_market :: string
  wt_family :: string
  wt_queued :: int
  wt_updated :: int

type_synonym paper_queue = "(string \<times> waiting) list"

definition stage_text :: "strat_row \<Rightarrow> string" where
  "stage_text r = py_lower (py_strip (opt_word (sg_stage r)))"

definition paper_row :: "strat_row \<Rightarrow> bool" where
  "paper_row r \<longleftrightarrow> stage_text r \<in> {''paper'', ''paper_trading''}"

definition paper_rows :: "life \<Rightarrow> (string \<times> strat_row) list" where
  "paper_rows db = filter (\<lambda>p. paper_row (snd p)) (lf_rows db)"

text \<open>An entry counts while its strategy is in the gauntlet.\<close>

definition still_waiting :: "life \<Rightarrow> string \<Rightarrow> bool" where
  "still_waiting db sid \<longleftrightarrow> (case map_of (lf_rows db) sid of None \<Rightarrow> False | Some r \<Rightarrow> stage_text r = ''gauntlet'')"

definition rivals :: "life \<Rightarrow> paper_queue \<Rightarrow> string \<Rightarrow> real list" where
  "rivals db q sid = map (\<lambda>p. wt_score (snd p)) (filter (\<lambda>p. fst p \<noteq> sid \<and> still_waiting db (fst p) \<and> wt_capacity (snd p)) q)"

definition queue_position :: "life \<Rightarrow> paper_queue \<Rightarrow> string \<Rightarrow> real \<Rightarrow> int" where
  "queue_position db q sid score = int (length (filter (\<lambda>v. score < v) (rivals db q sid))) + 1"

definition record_waiting :: "int \<Rightarrow> string \<Rightarrow> bool \<Rightarrow> real \<Rightarrow> string \<Rightarrow> string \<Rightarrow> paper_queue \<Rightarrow> paper_queue" where
  "record_waiting now sid capacity score market family q =
     dict_set sid \<lparr>wt_capacity = capacity, wt_score = score, wt_market = market, wt_family = family,
       wt_queued = (case map_of q sid of None \<Rightarrow> now | Some w \<Rightarrow> wt_queued w), wt_updated = now\<rparr> q"

datatype wait_reason = MarketFull | FamilyFull | PoolFull | SlotsReserved

record ranking =
  rk_family :: "string \<Rightarrow> strat_row \<Rightarrow> string"
  rk_score :: "string \<Rightarrow> strat_row \<Rightarrow> real"

text \<open>The diversity caps, then the cap on the pool.\<close>

definition diversity_reason :: "pool_knobs \<Rightarrow> ranking \<Rightarrow> (string \<times> strat_row) list \<Rightarrow> string \<Rightarrow> string \<Rightarrow> wait_reason option" where
  "diversity_reason kn rk others market family =
     (if pk_market kn \<noteq> 0 \<and> market \<noteq> [] \<and>
         pk_market kn \<le> int (length (filter (\<lambda>p. market_of (sg_symbol (snd p)) = market) others)) then Some MarketFull
      else if pk_family kn \<noteq> 0 \<and> family \<noteq> [] \<and>
         pk_family kn \<le> int (length (filter (\<lambda>p. rk_family rk (fst p) (snd p) = family) others)) then Some FamilyFull
      else None)"

definition capacity_reason :: "pool_knobs \<Rightarrow> int \<Rightarrow> int \<Rightarrow> wait_reason option" where
  "capacity_reason kn in_paper position =
     (let free = pk_max kn - in_paper
      in if free \<le> 0 then Some PoolFull else if free < position then Some SlotsReserved else None)"

definition admission_reason :: "int \<Rightarrow> pool_knobs \<Rightarrow> ranking \<Rightarrow> bool \<Rightarrow> string \<Rightarrow> life \<Rightarrow> paper_queue \<Rightarrow> wait_reason option \<times> paper_queue" where
  "admission_reason now kn rk keep sid db q =
     (case map_of (lf_rows db) sid of
        None \<Rightarrow> (None, q)
      | Some row \<Rightarrow>
          if paper_row row then (None, q)
          else let others = filter (\<lambda>p. fst p \<noteq> sid) (paper_rows db); market = market_of (sg_symbol row);
                   family = rk_family rk sid row; score = rk_score rk sid row;
                   note = (\<lambda>capacity q. if keep then record_waiting now sid capacity score market family q else q);
                   leave = (\<lambda>q. if keep then dict_pop sid q else q)
               in case diversity_reason kn rk others market family of
                    Some w \<Rightarrow> (Some w, note False q)
                  | None \<Rightarrow>
                      if pk_max kn = 0 then (None, leave q)
                      else let q1 = note True q
                           in case capacity_reason kn (int (length others)) (queue_position db q1 sid score) of
                                Some w \<Rightarrow> (Some w, note True q1) | None \<Rightarrow> (None, leave q1))"

definition QUEUE_TTL_DAYS :: int where "QUEUE_TTL_DAYS = 14"

definition prune_queue :: "int \<Rightarrow> life \<Rightarrow> paper_queue \<Rightarrow> paper_queue" where
  "prune_queue now db q =
     filter (\<lambda>p. still_waiting db (fst p) \<and> \<not> wt_updated (snd p) < now - QUEUE_TTL_DAYS * day_micros) q"

text \<open>Best evidence first, and of equals the one that waits longest.\<close>

definition queue_snapshot :: "life \<Rightarrow> paper_queue \<Rightarrow> string list" where
  "queue_snapshot db q =
     map fst (sort_key (\<lambda>p. - wt_score (snd p)) (sort_key (\<lambda>p. wt_queued (snd p)) (filter (\<lambda>p. still_waiting db (fst p)) q)))"

section \<open>Entering paper\<close>

record pooled =
  pp_life :: life
  pp_queue :: paper_queue

text \<open>The policy asks the pool last, when a move into paper has passed everything else.\<close>

definition pool_asked :: "int \<Rightarrow> gates \<Rightarrow> life \<Rightarrow> ctx \<Rightarrow> bool" where
  "pool_asked now g db c \<longleftrightarrow>
     cx_target c = Paper \<and> cx_target c \<in> set (VALID_TRANSITIONS (cx_cur c)) \<and> \<not> cx_force c \<and>
     first_block (authority_guards now g db c @ admission_guards g db c) = None \<and> fst (gt_promotion g)"

definition pool_verdict :: "wait_reason option \<Rightarrow> gates \<Rightarrow> gates" where
  "pool_verdict w g = (case w of None \<Rightarrow> g | Some _ \<Rightarrow> g\<lparr>gt_promotion := (False, ''Paper pool: waiting for a paper slot'')\<rparr>)"

definition pooled_transition :: "int \<Rightarrow> pool_knobs \<Rightarrow> ranking \<Rightarrow> gates \<Rightarrow> string \<Rightarrow> move \<Rightarrow> pooled \<Rightarrow> moved result \<times> pooled" where
  "pooled_transition now kn rk g sid mv s =
     (let db = pp_life s;
          asked = (case map_of (lf_rows db) sid of None \<Rightarrow> False | Some row \<Rightarrow> pool_asked now g db (make_ctx sid mv row));
          (w, q) = (if asked then admission_reason now kn rk True sid db (pp_queue s) else (None, pp_queue s));
          (r, d) = transition_stage now (pool_verdict w g) sid mv id db
      in (r, \<lparr>pp_life = d, pp_queue = q\<rparr>))"

definition admission_move :: move where
  "admission_move = \<lparr>mv_target = ''paper'', mv_reason = ''Paper slot free: admitted from the evidence-ranked queue'',
     mv_actor = ''paper_pool'', mv_force = False, mv_skip_approval = False, mv_evidence = None, mv_probation = False\<rparr>"

definition admit_one :: "int \<Rightarrow> pool_knobs \<Rightarrow> ranking \<Rightarrow> (string \<Rightarrow> gates) \<Rightarrow> int \<times> pooled \<Rightarrow> string \<Rightarrow> int \<times> pooled" where
  "admit_one now kn rk g st sid =
     (case st of (free, s) \<Rightarrow>
        if free \<le> 0 then st
        else case pooled_transition now kn rk (g sid) sid admission_move s of
               (Inl e, s') \<Rightarrow> (free, s')
             | (Inr r, s') \<Rightarrow> (if md_to r = Some Paper then free - 1 else free, s'))"

definition paper_admit_from_queue :: "int \<Rightarrow> pool_knobs \<Rightarrow> ranking \<Rightarrow> (string \<Rightarrow> gates) \<Rightarrow> pooled \<Rightarrow> pooled" where
  "paper_admit_from_queue now kn rk g s =
     (let q = prune_queue now (pp_life s) (pp_queue s); ids = queue_snapshot (pp_life s) q;
          free = (if pk_max kn = 0 then int (length ids) else pk_max kn - int (length (paper_rows (pp_life s))))
      in snd (foldl (admit_one now kn rk g) (free, s\<lparr>pp_queue := q\<rparr>) ids))"

section \<open>Forward retirement\<close>

datatype retire_code = LosingMoney | DrawdownReached | SequentialFailed | IdleTooLong

definition retire_word :: "retire_code \<Rightarrow> string" where
  "retire_word c = (case c of LosingMoney \<Rightarrow> ''losing'' | DrawdownReached \<Rightarrow> ''drawdown'' | SequentialFailed \<Rightarrow> ''sequential_fail''
     | IdleTooLong \<Rightarrow> ''idle'')"

definition growth_step :: "real \<times> real \<times> real \<Rightarrow> real \<Rightarrow> real \<times> real \<times> real" where
  "growth_step st pnl =
     (case st of (equity, peak, worst) \<Rightarrow>
        (let e = equity * (1 + pnl); p = max peak e in (e, p, if 0 < p then max worst (1 - e / p) else worst)))"

definition forward_drawdown :: "real list \<Rightarrow> real" where
  "forward_drawdown pnls = snd (snd (foldl growth_step (1, 1, 0) pnls))"

definition stdev :: "real list \<Rightarrow> real" where
  "stdev xs = sqrt (sum_list (map (\<lambda>x. (x - mean xs)\<^sup>2) xs) / (real (length xs) - 1))"

text \<open>The t statistic; a constant losing series is minus infinity, below every limit.\<close>

definition clearly_losing :: "pool_knobs \<Rightarrow> real list \<Rightarrow> bool" where
  "clearly_losing kn xs \<longleftrightarrow>
     pk_min_trades kn \<le> int (length xs) \<and> 2 \<le> length xs \<and> mean xs < 0 \<and>
     (if 0 < stdev xs then mean xs / (stdev xs / sqrt (real (length xs))) < of_rat (pk_t_stat kn) else True)"

definition idle_limit_days :: "int \<Rightarrow> rat option \<Rightarrow> int" where
  "idle_limit_days base gap =
     (if base = 0 then 0 else max base \<lceil>max 0 (case gap of None \<Rightarrow> 0 | Some g \<Rightarrow> g) * 3\<rceil>)"

definition expected_trade_gap_days :: "rat option \<Rightarrow> rat option \<Rightarrow> rat option" where
  "expected_trade_gap_days trades days =
     (case (trades, days) of (Some n, Some d) \<Rightarrow> if n \<le> 0 \<or> d \<le> 0 then None else Some (d / n) | _ \<Rightarrow> None)"

record forward_record =
  fr_pnls :: "real list"
  fr_idle :: "rat option"
  fr_open :: bool
  fr_sequential :: "string option"
  fr_gap :: "rat option"

definition retirement_reason :: "pool_knobs \<Rightarrow> forward_record \<Rightarrow> retire_code option" where
  "retirement_reason kn fr =
     (let lim = idle_limit_days (pk_idle kn) (fr_gap fr)
      in if clearly_losing kn (fr_pnls fr) then Some LosingMoney
         else if 0 < pk_drawdown kn \<and> fr_pnls fr \<noteq> [] \<and> of_rat (pk_drawdown kn) \<le> forward_drawdown (fr_pnls fr) then Some DrawdownReached
         else if pk_sequential kn \<and> fr_sequential fr = Some ''fail'' then Some SequentialFailed
         else if lim \<noteq> 0 \<and> \<not> fr_open fr \<and> (case fr_idle fr of None \<Rightarrow> False | Some d \<Rightarrow> of_int lim \<le> d) then Some IdleTooLong
         else None)"

definition retire_move :: "retire_code \<Rightarrow> move" where
  "retire_move c = \<lparr>mv_target = ''archived'', mv_reason = ''Retired from paper ('' @ retire_word c @ '')'', mv_actor = ''paper_retirement'',
     mv_force = True, mv_skip_approval = False,
     mv_evidence = Some [(''merit'', JBool True), (''reason_code'', JStr (''paper_retired:'' @ retire_word c)),
       (''status_reason'', JStr (''paper_retired:'' @ retire_word c))], mv_probation = False\<rparr>"

text \<open>The verdicts are read strategy by strategy; one that cannot be read is left alone.\<close>

definition retire_one :: "int \<Rightarrow> pool_knobs \<Rightarrow> (string \<Rightarrow> gates) \<Rightarrow> (string \<Rightarrow> life \<Rightarrow> forward_record option) \<Rightarrow> life \<Rightarrow> string \<Rightarrow> life" where
  "retire_one now kn g evidence db sid =
     (case Option.bind (evidence sid db) (retirement_reason kn) of
        None \<Rightarrow> db
      | Some code \<Rightarrow> snd (transition_stage now (g sid) sid (retire_move code) id db))"

definition paper_retire_sweep :: "int \<Rightarrow> pool_knobs \<Rightarrow> (string \<Rightarrow> gates) \<Rightarrow> (string \<Rightarrow> life \<Rightarrow> forward_record option) \<Rightarrow> life \<Rightarrow> life" where
  "paper_retire_sweep now kn g evidence db =
     (if pk_retire kn then foldl (retire_one now kn g evidence) db (map fst (paper_rows db)) else db)"

definition paper_pool_tick :: "int \<Rightarrow> pool_knobs \<Rightarrow> ranking \<Rightarrow> (string \<Rightarrow> gates) \<Rightarrow> (string \<Rightarrow> life \<Rightarrow> forward_record option) \<Rightarrow> pooled \<Rightarrow> pooled" where
  "paper_pool_tick now kn rk g evidence s =
     paper_admit_from_queue now kn rk g (s\<lparr>pp_life := paper_retire_sweep now kn g evidence (pp_life s)\<rparr>)"

end
