(* ===== verification/Paper_Pool_Props.thy ===== *)
theory Paper_Pool_Props
  imports Paper_Pool Lifecycle_Authority
begin

text \<open>
  What the paper pool promises: over any serial run of unforced moves and scheduled passes the pool never grows past its
  cap, a free place goes to the best-ranked waiting strategies, and the retirement sweep archives paper strategies only.
\<close>

section \<open>What a move leaves of the stages\<close>

lemma update_row_keys [simp]: "map fst (lf_rows (update_row sid f db)) = map fst (lf_rows db)"
  by (simp add: update_row_def comp_def if_distrib cong: if_cong)

lemma write_move_keys [simp]: "map fst (lf_rows (write_move now c t u db)) = map fst (lf_rows db)"
  by (simp add: write_move_def enter_terminal_def enter_pre_paper_def Let_def)

lemma thrash_keys: "thrash c db = (t, u, d) \<Longrightarrow> map fst (lf_rows d) = map fst (lf_rows db)"
  by (auto simp: thrash_def Let_def split: if_splits)

lemma commit_keys: "map fst (lf_rows (snd (commit_move now g c db))) = map fst (lf_rows db)"
proof -
  obtain t u d where th: "thrash c db = (t, u, d)" by (cases "thrash c db")
  then show ?thesis
    using thrash_keys [OF th] by (simp add: commit_move_def finish_commit_def th split: option.split)
qed

lemma transition_keys: "map fst (lf_rows (snd (transition_stage now g sid mv id db))) = map fst (lf_rows db)"
proof (cases "gate_move now g sid mv db")
  case (Inr x)
  show ?thesis
  proof (cases x)
    case (Finished r d)
    then show ?thesis using Inr gate_finished [of now g sid mv db r d] by (simp add: transition_stage_def)
  next
    case (Ready c)
    obtain r d where "commit_move now g c db = (r, d)" by force
    then show ?thesis using Inr Ready commit_keys [of now g c db] by (simp add: transition_stage_def)
  qed
qed (simp add: transition_stage_def)

definition texts_in :: "life \<Rightarrow> string \<Rightarrow> (string option \<times> string option) option" where
  "texts_in db i = map_option stage_texts (map_of (lf_rows db) i)"

text \<open>A call changes the stage texts of its own strategy only, and to those of the stage it reports.\<close>

lemma transition_texts:
  assumes "transition_stage now g sid mv id db = (res, db')"
  shows "(\<forall>i. i \<noteq> sid \<longrightarrow> texts_in db' i = texts_in db i) \<and>
    (texts_in db' sid = texts_in db sid \<or>
     (\<exists>r t. res = Inr r \<and> md_outcome r = Moved \<and> md_to r = Some t \<and> texts_in db' sid = Some (Some (stage_word t), Some (stage_word t))))"
proof (cases "gate_move now g sid mv db")
  case (Inr x)
  show ?thesis
  proof (cases x)
    case (Finished r d)
    then show ?thesis using Inr assms gate_finished [of now g sid mv db r d] by (auto simp: transition_stage_def texts_in_def)
  next
    case (Ready c)
    obtain row where row: "map_of (lf_rows db) sid = Some row" "c = make_ctx sid mv row"
      using gate_ready [OF Inr [unfolded Ready]] by metis
    obtain r d where rd: "commit_move now g c db = (r, d)" by force
    then have res: "res = Inr r" "db' = d" using assms Inr Ready by (simp_all add: transition_stage_def)
    from rd show ?thesis
    proof (cases rule: commit_cases)
      case (moved w t u e)
      note th = thrash_tables [OF moved(5)]
      have e: "map_of (lf_rows e) sid \<noteq> None" using th(4) [of sid] row by auto
      have "texts_in d sid = Some (Some (stage_word t), Some (stage_word t))"
        using e row(2) by (auto simp: texts_in_def moved(9))
      moreover have "texts_in d i = texts_in db i" if "i \<noteq> sid" for i
        using that th(6) [of i] row(2) by (simp add: texts_in_def moved(9))
      ultimately show ?thesis using res moved(8) by auto
    next
      case kept
      then show ?thesis using res by (simp add: texts_in_def)
    qed
  qed
qed (use assms in \<open>auto simp: transition_stage_def\<close>)

section \<open>Counting the pool\<close>

definition papered :: "life \<Rightarrow> string \<Rightarrow> bool" where
  "papered db i \<longleftrightarrow> (case map_of (lf_rows db) i of None \<Rightarrow> False | Some r \<Rightarrow> paper_row r)"

lemma papered_texts: "texts_in d i = texts_in d' i \<Longrightarrow> papered d i = papered d' i"
  by (auto simp: texts_in_def papered_def paper_row_def stage_text_def stage_texts_def split: option.splits)

lemma paper_words: "py_lower (py_strip (stage_word t)) \<in> {''paper'', ''paper_trading''} \<longleftrightarrow> t = Paper"
proof -
  have "\<forall>t\<in>set [QuickScreen, InGauntlet, Paper, Live, Retired, Rejected, BacktestFailed].
      py_lower (py_strip (stage_word t)) \<in> {''paper'', ''paper_trading''} \<longleftrightarrow> t = Paper"
    by code_simp
  moreover have "t \<in> set [QuickScreen, InGauntlet, Paper, Live, Retired, Rejected, BacktestFailed]" by (cases t) simp_all
  ultimately show ?thesis by (rule bspec)
qed

lemma papered_stage: "texts_in d i = Some (Some (stage_word t), s) \<Longrightarrow> papered d i \<longleftrightarrow> t = Paper"
  using paper_words [of t] by (auto simp: texts_in_def papered_def paper_row_def stage_text_def stage_texts_def opt_word_def)

lemma filter_keys:
  "distinct (map fst xs) \<Longrightarrow>
   map fst (filter (\<lambda>p. Q (snd p)) xs) = filter (\<lambda>i. case map_of xs i of None \<Rightarrow> False | Some r \<Rightarrow> Q r) (map fst xs)"
proof (induction xs)
  case (Cons x xs)
  have "map_of (x # xs) i = map_of xs i" if "i \<in> set (map fst xs)" for i using that Cons.prems by (cases x) auto
  then have "filter (\<lambda>i. case map_of (x # xs) i of None \<Rightarrow> False | Some r \<Rightarrow> Q r) (map fst xs) =
      filter (\<lambda>i. case map_of xs i of None \<Rightarrow> False | Some r \<Rightarrow> Q r) (map fst xs)"
    by (intro filter_cong) auto
  then show ?case using Cons by (cases x) simp
qed simp

abbreviation row_ids :: "life \<Rightarrow> string list" where
  "row_ids db \<equiv> map fst (lf_rows db)"

abbreviation in_paper :: "life \<Rightarrow> nat" where
  "in_paper db \<equiv> length (paper_rows db)"

lemma paper_ids: "distinct (row_ids db) \<Longrightarrow> map fst (paper_rows db) = filter (papered db) (row_ids db)"
  by (simp add: paper_rows_def filter_keys papered_def [abs_def])

lemma in_paper_ids: "distinct (row_ids db) \<Longrightarrow> in_paper db = length (filter (papered db) (row_ids db))"
  using paper_ids by (metis length_map)

lemma others_ids:
  assumes "distinct (row_ids db)"
  shows "length (filter (\<lambda>p. fst p \<noteq> sid) (paper_rows db)) = length (filter (\<lambda>i. i \<noteq> sid \<and> papered db i) (row_ids db))"
proof -
  have "length (filter (\<lambda>p. fst p \<noteq> sid) (paper_rows db)) = length (filter (\<lambda>i. i \<noteq> sid) (map fst (paper_rows db)))"
    by (simp add: filter_map comp_def)
  then show ?thesis by (simp add: paper_ids [OF assms] conj_commute)
qed

lemma length_filter_one:
  "distinct xs \<Longrightarrow> length (filter P xs) = length (filter (\<lambda>i. i \<noteq> s \<and> P i) xs) + (if s \<in> set xs \<and> P s then 1 else 0)"
proof (induction xs)
  case (Cons x xs)
  show ?case
  proof (cases "x = s")
    case True
    have "filter (\<lambda>i. i \<noteq> s \<and> P i) xs = filter P xs"
    proof (rule filter_cong [OF refl])
      fix i assume "i \<in> set xs"
      then show "(i \<noteq> s \<and> P i) = P i" using Cons.prems True by auto
    qed
    then show ?thesis using True by simp
  next
    case False
    then show ?thesis using Cons.IH Cons.prems by simp
  qed
qed simp

text \<open>A call changes the pool by at most its own strategy.\<close>

lemma count_after_move:
  assumes "transition_stage now g sid mv id db = (res, db')" and "distinct (row_ids db)"
  shows "in_paper db' \<le> in_paper db \<or>
    (\<not> papered db sid \<and> in_paper db' = length (filter (\<lambda>p. fst p \<noteq> sid) (paper_rows db)) + 1 \<and>
     (\<exists>r. res = Inr r \<and> md_outcome r = Moved \<and> md_to r = Some Paper))"
proof -
  have keys: "row_ids db' = row_ids db" using transition_keys [of now g sid mv db] assms(1) by simp
  note tx = transition_texts [OF assms(1)]
  have same: "filter (\<lambda>i. i \<noteq> sid \<and> papered db' i) (row_ids db) = filter (\<lambda>i. i \<noteq> sid \<and> papered db i) (row_ids db)"
  proof (rule filter_cong [OF refl])
    fix i
    have "papered db' i = papered db i" if "i \<noteq> sid" using tx that by (intro papered_texts) blast
    then show "(i \<noteq> sid \<and> papered db' i) = (i \<noteq> sid \<and> papered db i)" by blast
  qed
  have d': "in_paper db' = length (filter (\<lambda>i. i \<noteq> sid \<and> papered db i) (row_ids db)) + (if sid \<in> set (row_ids db) \<and> papered db' sid then 1 else 0)"
    using in_paper_ids [of db'] length_filter_one [of "row_ids db" "papered db'" sid] keys assms(2) same by simp
  have d: "in_paper db = length (filter (\<lambda>i. i \<noteq> sid \<and> papered db i) (row_ids db)) + (if sid \<in> set (row_ids db) \<and> papered db sid then 1 else 0)"
    using in_paper_ids [OF assms(2)] length_filter_one [OF assms(2), of "papered db" sid] by simp
  show ?thesis
  proof (cases "papered db' sid \<longrightarrow> papered db sid")
    case True
    then show ?thesis using d d' by auto
  next
    case False
    then have p: "papered db' sid" "\<not> papered db sid" by auto
    then obtain r t where "res = Inr r" "md_outcome r = Moved" "md_to r = Some t" "texts_in db' sid = Some (Some (stage_word t), Some (stage_word t))"
      using tx papered_texts [of db' sid db] by blast
    moreover from this have "t = Paper" using papered_stage p(1) by metis
    moreover have "sid \<in> set (row_ids db)"
      using p(1) keys by (metis map_of_eq_None_iff option.simps(4) papered_def set_map)
    ultimately show ?thesis using p d' others_ids [OF assms(2)] by auto
  qed
qed

section \<open>A move into paper\<close>

lemma moved_target:
  assumes "transition_stage now g sid mv id db = (Inr r, db')" and "md_outcome r = Moved"
  shows "md_to r = Some (normalize_stage (Some (mv_target mv))) \<or> md_to r = Some Retired"
proof (rule transition_moved [OF assms])
  fix row c
  assume c: "commit_move now g c (id db) = (r, db')" "c = make_ctx sid mv row"
  from c(1) assms(2) show ?thesis
  proof (cases rule: commit_cases)
    case (moved w t u e)
    then show ?thesis using thrash_tables(5) [OF moved(5)] c(2) by auto
  qed simp
qed

lemma promotion_update_reads:
  "gt_backtest_ok (g\<lparr>gt_promotion := p\<rparr>) = gt_backtest_ok g"
  "gt_reentry_blocked (g\<lparr>gt_promotion := p\<rparr>) = gt_reentry_blocked g"
  "gt_unloadable (g\<lparr>gt_promotion := p\<rparr>) = gt_unloadable g"
  "gt_duplicate (g\<lparr>gt_promotion := p\<rparr>) = gt_duplicate g"
  "gt_admits (g\<lparr>gt_promotion := p\<rparr>) = gt_admits g"
  "gt_wip_cap (g\<lparr>gt_promotion := p\<rparr>) = gt_wip_cap g"
  "gt_paper_closed (g\<lparr>gt_promotion := p\<rparr>) = gt_paper_closed g"
  "gt_config (g\<lparr>gt_promotion := p\<rparr>) = gt_config g"
  by simp_all

lemma promotion_update_guards:
  "live_admitted (g\<lparr>gt_promotion := p\<rparr>) = live_admitted g"
  "wip_room (g\<lparr>gt_promotion := p\<rparr>) = wip_room g"
  "paper_dethrone_soak_block now (g\<lparr>gt_promotion := p\<rparr>) = paper_dethrone_soak_block now g"
  unfolding live_admitted_def [abs_def] wip_room_def [abs_def] paper_dethrone_soak_block_def [abs_def] promotion_update_reads
  by (rule refl)+

lemma promotion_update_authority: "authority_guards now (g\<lparr>gt_promotion := p\<rparr>) db c = authority_guards now g db c"
  unfolding authority_guards_def promotion_update_guards ..

lemma promotion_update_admission: "admission_guards (g\<lparr>gt_promotion := p\<rparr>) db c = admission_guards g db c"
  unfolding admission_guards_def promotion_update_guards promotion_update_reads ..

lemma pool_verdict_guards [simp]:
  "authority_guards now (pool_verdict w g) db c = authority_guards now g db c"
  "admission_guards (pool_verdict w g) db c = admission_guards g db c"
  by (simp_all add: pool_verdict_def promotion_update_authority promotion_update_admission split: option.split)

text \<open>Without force no strategy enters paper unless the pool was asked and had a place.\<close>

lemma entered_through_pool:
  assumes "pooled_transition now kn rk g sid mv s = (Inr r, s')" and "md_outcome r = Moved" and "md_to r = Some Paper"
    and "\<not> (mv_force mv \<and> may_force (mv_actor mv))"
  obtains row q where "map_of (lf_rows (pp_life s)) sid = Some row"
    "admission_reason now kn rk True sid (pp_life s) (pp_queue s) = (None, q)"
proof -
  define db where "db = pp_life s"
  define asked where "asked = (case map_of (lf_rows db) sid of None \<Rightarrow> False | Some row \<Rightarrow> pool_asked now g db (make_ctx sid mv row))"
  obtain w q where wq: "(if asked then admission_reason now kn rk True sid db (pp_queue s) else (None, pp_queue s)) = (w, q)" by force
  obtain d where t: "transition_stage now (pool_verdict w g) sid mv id db = (Inr r, d)"
    using assms(1) wq by (auto simp: pooled_transition_def db_def [symmetric] asked_def [symmetric] Let_def split: prod.splits)
  have target: "normalize_stage (Some (mv_target mv)) = Paper" using moved_target [OF t assms(2)] assms(3) by auto
  show thesis
  proof (rule transition_moved [OF t assms(2)])
    fix row c
    assume row: "map_of (lf_rows db) sid = Some row" and c: "c = make_ctx sid mv row"
      and valid: "cx_target c \<in> set (VALID_TRANSITIONS (cx_cur c))" and block: "gate_block now (pool_verdict w g) db c = None"
    have ctx: "cx_target c = Paper" "\<not> cx_force c" "\<not> cx_probation c" using c target assms(4) by simp_all
    have none: "first_block (authority_guards now g db c @ admission_guards g db c) = None"
      and ev: "\<forall>p\<in>set (evidence_guards (pool_verdict w g) c). \<not> fst p"
      using block by (simp_all add: gate_block_def first_block_None ball_Un)
    have "fst (gt_promotion (pool_verdict w g))" using ev ctx by (simp add: evidence_guards_def Let_def)
    then have w: "w = None" and promoted: "fst (gt_promotion g)" by (cases w; simp add: pool_verdict_def)+
    have "asked" using row c valid none ctx promoted by (simp add: asked_def pool_asked_def)
    then show thesis using that [OF row [unfolded db_def]] wq w by (simp add: db_def)
  qed
qed

lemma rivals_record [simp]: "rivals db (record_waiting now sid cp sc m f q) sid = rivals db q sid"
proof -
  have "filter (\<lambda>p. fst p \<noteq> sid \<and> still_waiting db (fst p) \<and> wt_capacity (snd p)) (dict_set sid v q) =
      filter (\<lambda>p. fst p \<noteq> sid \<and> still_waiting db (fst p) \<and> wt_capacity (snd p)) q" for v
    by (induction q) auto
  then show ?thesis by (simp add: rivals_def record_waiting_def)
qed

lemma admitted_capacity:
  assumes "admission_reason now kn rk True sid db q = (None, q')" and "map_of (lf_rows db) sid = Some row"
    and "\<not> paper_row row" and "0 < pk_max kn"
  shows "int (length (filter (\<lambda>p. fst p \<noteq> sid) (paper_rows db))) < pk_max kn \<and>
    int (length (filter (\<lambda>v. rk_score rk sid row < v) (rivals db q sid))) <
      pk_max kn - int (length (filter (\<lambda>p. fst p \<noteq> sid) (paper_rows db)))"
  using assms
  by (auto simp: admission_reason_def capacity_reason_def queue_position_def Let_def split: option.splits if_splits)

text \<open>A free place goes to the best. With a cap on the pool, a strategy that enters paper without force found a free
  place, and fewer strategies of a strictly better rank were waiting for one than there were free places.\<close>

lemma free_places_go_to_the_best:
  assumes "pooled_transition now kn rk g sid mv s = (Inr r, s')" and "md_outcome r = Moved" and "md_to r = Some Paper"
    and "\<not> (mv_force mv \<and> may_force (mv_actor mv))" and "0 < pk_max kn" and "distinct (row_ids (pp_life s))"
    and "map_of (lf_rows (pp_life s)) sid = Some row" and "\<not> paper_row row"
  shows "int (in_paper (pp_life s)) < pk_max kn \<and>
    int (length (filter (\<lambda>v. rk_score rk sid row < v) (rivals (pp_life s) (pp_queue s) sid))) < pk_max kn - int (in_paper (pp_life s))"
proof -
  obtain q where "admission_reason now kn rk True sid (pp_life s) (pp_queue s) = (None, q)"
    by (rule entered_through_pool [OF assms(1-4)])
  note cap = admitted_capacity [OF this assms(7,8,5)]
  have "filter (\<lambda>p. fst p \<noteq> sid) (paper_rows (pp_life s)) = paper_rows (pp_life s)"
  proof (rule filter_True, rule ballI)
    fix p assume p: "p \<in> set (paper_rows (pp_life s))"
    then have "map_of (lf_rows (pp_life s)) (fst p) = Some (snd p)" using assms(6) by (auto simp: paper_rows_def)
    then show "fst p \<noteq> sid" using p assms(7,8) by (auto simp: paper_rows_def)
  qed
  then show ?thesis using cap by simp
qed

section \<open>The cap\<close>

text \<open>What happens to the pool: an unforced request for any move, or the scheduled pass.\<close>

datatype pool_event = Ask int gates string move
  | Pass int "string \<Rightarrow> gates" "string \<Rightarrow> life \<Rightarrow> forward_record option"

fun pool_step :: "pool_knobs \<Rightarrow> ranking \<Rightarrow> pooled \<Rightarrow> pool_event \<Rightarrow> pooled" where
  "pool_step kn rk s (Ask now g sid mv) = snd (pooled_transition now kn rk g sid mv s)"
| "pool_step kn rk s (Pass now g evidence) = paper_pool_tick now kn rk g evidence s"

fun unforced :: "pool_event \<Rightarrow> bool" where
  "unforced (Ask now g sid mv) \<longleftrightarrow> \<not> (mv_force mv \<and> may_force (mv_actor mv))"
| "unforced (Pass _ _ _) \<longleftrightarrow> True"

definition pool_within :: "pool_knobs \<Rightarrow> nat \<Rightarrow> life \<Rightarrow> bool" where
  "pool_within kn n db \<longleftrightarrow> 0 < pk_max kn \<and> pk_max kn \<le> int n \<and> distinct (row_ids db) \<and> in_paper db \<le> n"

lemma not_papered: "\<not> papered db sid \<Longrightarrow> map_of (lf_rows db) sid = Some row \<Longrightarrow> \<not> paper_row row"
  by (simp add: papered_def)

lemma pooled_within:
  assumes "pool_within kn n (pp_life s)" and "\<not> (mv_force mv \<and> may_force (mv_actor mv))"
    and "pooled_transition now kn rk g sid mv s = (res, s')"
  shows "pool_within kn n (pp_life s')"
proof -
  have w: "0 < pk_max kn" "pk_max kn \<le> int n" "distinct (row_ids (pp_life s))" "in_paper (pp_life s) \<le> n"
    using assms(1) by (simp_all add: pool_within_def)
  obtain g' where t: "transition_stage now g' sid mv id (pp_life s) = (res, pp_life s')"
    using assms(3) by (auto simp: pooled_transition_def Let_def split: prod.splits if_splits)
  have keys: "row_ids (pp_life s') = row_ids (pp_life s)" using transition_keys [of now g' sid mv "pp_life s"] t by simp
  have "in_paper (pp_life s') \<le> n"
    using count_after_move [OF t w(3)]
  proof (elim disjE conjE exE)
    fix r assume r: "res = Inr r" "md_outcome r = Moved" "md_to r = Some Paper" and np: "\<not> papered (pp_life s) sid"
      and eq: "in_paper (pp_life s') = length (filter (\<lambda>p. fst p \<noteq> sid) (paper_rows (pp_life s))) + 1"
    obtain row q where "map_of (lf_rows (pp_life s)) sid = Some row"
        "admission_reason now kn rk True sid (pp_life s) (pp_queue s) = (None, q)"
      by (rule entered_through_pool [OF assms(3) [unfolded r(1)] r(2,3) assms(2)])
    from admitted_capacity [OF this(2,1) not_papered [OF np this(1)] w(1)] show ?thesis using eq w(2) by linarith
  qed (use w(4) in linarith)
  then show ?thesis using w keys by (simp add: pool_within_def)
qed

lemma retire_within:
  assumes "pool_within kn n db"
  shows "pool_within kn n (retire_one now kn g evidence db sid)"
proof -
  have "pool_within kn n (snd (transition_stage now (g sid) sid (retire_move code) id db))" for code
  proof -
    obtain res d where t: "transition_stage now (g sid) sid (retire_move code) id db = (res, d)" by force
    have keys: "row_ids d = row_ids db" using transition_keys [of now "g sid" sid "retire_move code" db] t by simp
    have target: "normalize_stage (Some (mv_target (retire_move code))) = Retired"
    proof -
      have "normalize_stage (Some ''archived'') = Retired" by code_simp
      then show ?thesis by (simp add: retire_move_def)
    qed
    have "in_paper d \<le> in_paper db"
      using count_after_move [OF t] assms moved_target [of now "g sid" sid "retire_move code" db _ d] t target
      by (auto simp: pool_within_def)
    then show ?thesis using assms keys t by (simp add: pool_within_def)
  qed
  then show ?thesis using assms by (simp add: retire_one_def split: option.split)
qed

lemma admit_within:
  "pool_within kn n (pp_life (snd st)) \<Longrightarrow> pool_within kn n (pp_life (snd (admit_one now kn rk g st sid)))"
proof -
  assume w: "pool_within kn n (pp_life (snd st))"
  obtain free s where st: "st = (free, s)" by (cases st)
  obtain res s' where t: "pooled_transition now kn rk (g sid) sid admission_move s = (res, s')" by force
  have "pool_within kn n (pp_life s')"
    by (rule pooled_within [OF _ _ t]) (use w st in \<open>simp_all add: admission_move_def\<close>)
  then show ?thesis using w by (simp add: admit_one_def st t split: sum.split)
qed

interpretation admission: invariant_run "admit_one now kn rk g" "\<lambda>st. pool_within kn n (pp_life (snd st))" for now kn rk g n
  by unfold_locales (rule admit_within)

interpretation retirement: invariant_run "retire_one now kn g evidence" "pool_within kn n" for now kn g evidence n
  by unfold_locales (rule retire_within)

lemma tick_within: "pool_within kn n (pp_life s) \<Longrightarrow> pool_within kn n (pp_life (paper_pool_tick now kn rk g evidence s))"
  by (simp add: paper_pool_tick_def paper_admit_from_queue_def paper_retire_sweep_def Let_def admission.run_inv retirement.run_inv)

interpretation pool_run: guarded_run "pool_step kn rk" "\<lambda>s. pool_within kn n (pp_life s)" unforced for kn rk n
proof unfold_locales
  fix s :: pooled and e
  assume "pool_within kn n (pp_life s)" "unforced e"
  then show "pool_within kn n (pp_life (pool_step kn rk s e))"
    by (cases e) (auto intro: pooled_within tick_within prod.collapse [symmetric])
qed

text \<open>C39: The paper pool keeps its cap. With a cap on the pool, no serial run of stage moves that nobody forces, of
  retirements and of admissions from the queue takes the number of paper strategies past the cap, or past what it was
  when the run began if that was more.\<close>

theorem paper_pool_keeps_cap:
  fixes s :: pooled
  assumes "0 < pk_max kn" and "distinct (row_ids (pp_life s))" and "\<forall>e\<in>set es. unforced e"
  shows "int (in_paper (pp_life (foldl (pool_step kn rk) s es))) \<le> max (pk_max kn) (int (in_paper (pp_life s)))"
proof -
  define n where "n = max (nat (pk_max kn)) (in_paper (pp_life s))"
  have "pool_within kn n (pp_life s)" using assms(1,2) by (simp add: pool_within_def n_def)
  from pool_run.guarded_inv [OF this assms(3), of rk] show ?thesis using assms(1) by (auto simp: pool_within_def n_def)
qed

section \<open>Demonstrations\<close>

definition demo_pool :: pool_knobs where
  "demo_pool = \<lparr>pk_max = 1, pk_market = 0, pk_family = 0, pk_retire = True, pk_min_trades = 15, pk_t_stat = - 1, pk_drawdown = 3/20,
     pk_idle = 60, pk_sequential = True, pk_ports = 5\<rparr>"

definition demo_ranking :: ranking where
  "demo_ranking = \<lparr>rk_family = (\<lambda>_ _. ''trend''), rk_score = (\<lambda>_ _. 0)\<rparr>"

definition demo_pooled :: pooled where
  "demo_pooled = \<lparr>pp_life = demo_life InGauntlet [] [], pp_queue = []\<rparr>"

definition demo_entry_gates :: gates where
  "demo_entry_gates = demo_gates\<lparr>gt_settings := JObj [(''auto_approve_promotions'', JBool True)]\<rparr>"

lemma demo_enters:
  "case pooled_transition 5 demo_pool demo_ranking demo_entry_gates ''S1'' admission_move demo_pooled of
     (Inl e, s) \<Rightarrow> False | (Inr r, s) \<Rightarrow> md_outcome r = Moved \<and> md_to r = Some Paper"
  by code_simp

lemma paper_pool_keeps_cap_witness:
  "int (in_paper (pp_life (foldl (pool_step demo_pool demo_ranking) demo_pooled
     [Ask 5 demo_entry_gates ''S1'' admission_move, Ask 6 demo_entry_gates ''S1'' admission_move]))) \<le> 1"
proof -
  have "\<not> mv_force admission_move" by (simp add: admission_move_def)
  then have a: "\<forall>e\<in>set [Ask 5 demo_entry_gates ''S1'' admission_move, Ask 6 demo_entry_gates ''S1'' admission_move]. unforced e"
    by simp
  have b: "0 < pk_max demo_pool" "distinct (row_ids (pp_life demo_pooled))"
    "max (pk_max demo_pool) (int (in_paper (pp_life demo_pooled))) = 1" by code_simp+
  from paper_pool_keeps_cap [OF b(1,2) a, of demo_ranking] show ?thesis unfolding b(3) .
qed

end
