(* ===== verification/Spec2Isabelle.thy ===== *)
theory Spec2Isabelle
  imports Prelude Pytime Sizing Sizing_Props Kernel Kernel_Walk Reconcile Reconcile_Sync Reconcile_Props Paper_Parity
    Gauntlet Gauntlet_Engine Gauntlet_Inv Gauntlet_Props Breaker Breaker_Props Venue_Calls Venue_Props
    Pyfloat Trade_State Trade_Props Risk_Guard Risk_Props
    Books Risk_Admission Risk_Budget Can_Open Budget_Props Admission_Props
    Probation_Rules Dethrone_Cooldown Probation_Record Lifecycle Lifecycle_Commit Lifecycle_Props Lifecycle_Authority
    Lifecycle_Effects Probation Probation_Knobs Probation_Props Probation_Watchdog
    Paper_Door Quick_Screen Live_Evidence Paper_Pool Paper_Pool_Props
begin

text \<open>
  A verification library for Forven (\<open>src/forven\<close>), a program that develops trading strategies, tries them on
  paper and trades the graduates with real money. The library models the parts that decide: how large a
  position is, when the bar walk opens and closes one, how the paper book is brought in step with it, which
  tests a strategy passes before it is promoted, which stage it may move to and who may move it, how it is put
  to work with real money at a small size, what the account guard refuses and halts, how a trade is
  closed and booked, and how calls to a venue pass its circuit breaker. Indicators, prompts, downloads, HTTP
  handlers and the database engine are outside it.

  \<^bold>\<open>How the parts interact.\<close> A strategy's signals and its execution profile (\<open>Sizing\<close>) enter the execution
  kernel (\<open>Kernel\<close>), which the backtest and the paper scanner share. The scanner replays the kernel and applies
  the actions of \<open>Reconcile\<close> to the recorded trades. A strategy reaches paper through the gauntlet
  (\<open>Gauntlet\<close>, \<open>Gauntlet_Engine\<close>) and the paper pool (\<open>Paper_Pool\<close>), and changes its stage only by \<open>transition_stage\<close> (\<open>Lifecycle\<close>, \<open>Lifecycle_Commit\<close>),
  which also cancels or restarts its gauntlet workflow and closes its paper trades; it goes live through probation
  (\<open>Probation\<close>), whose record scales its orders and whose watchdog moves it back. A live open asks \<open>can_open\<close> (\<open>Can_Open\<close>), which reads the guard's state
  (\<open>Risk_Guard\<close>) and the settings (\<open>Risk_Admission\<close>), and then the portfolio budget (\<open>Risk_Budget\<close>) for the wallet
  the order is routed to (\<open>Books\<close>). Every trade is closed by \<open>Trade_State\<close>; every venue call goes through
  \<open>Venue_Calls\<close> and a breaker (\<open>Breaker\<close>).

  \<^bold>\<open>Theories and sources.\<close>
  \<^item> \<open>Prelude\<close>, \<open>Pytime\<close>, \<open>Pyfloat\<close>: Python numbers, rounding, strings, JSON values, dicts, \<open>datetime.fromisoformat\<close> and
    arithmetic with infinities and NaN; the interfaces \<open>append_log\<close> (a log that only grows), \<open>invariant_run\<close> and
    \<open>guarded_run\<close> (a state machine with an invariant, kept by all or by the admissible events).
  \<^item> \<open>Sizing\<close>, \<open>Sizing_Props\<close>: \<open>strategies/sizing.py\<close>.
  \<^item> \<open>Kernel\<close>, \<open>Kernel_Walk\<close>: \<open>strategies/execution_kernel.py\<close>; the walk's state is \<open>kstate\<close>, a bar is one
    \<open>kernel_step\<close>, the whole replay is \<open>simulate\<close>.
  \<^item> \<open>Reconcile\<close>, \<open>Reconcile_Sync\<close>, \<open>Reconcile_Props\<close>, \<open>Paper_Parity\<close>: \<open>strategies/paper_reconcile.py\<close>.
  \<^item> \<open>Gauntlet\<close>, \<open>Gauntlet_Engine\<close>, \<open>Gauntlet_Inv\<close>, \<open>Gauntlet_Props\<close>: \<open>gauntlet/models.py\<close>, \<open>definition.py\<close>, \<open>store.py\<close>,
    \<open>engine.py\<close> and \<open>status.py\<close>; the state is the two tables, the events are the engine's operations.
  \<^item> \<open>Breaker\<close>, \<open>Breaker_Props\<close>: \<open>circuit_breaker.py\<close> and \<open>rate_limiter.py\<close>. \<open>Venue_Calls\<close>, \<open>Venue_Props\<close>: the
    call wrappers of \<open>exchange/hyperliquid.py\<close> and \<open>exchange/propr.py\<close>.
  \<^item> \<open>Trade_State\<close>, \<open>Trade_Props\<close>: \<open>trade_state.py\<close>, the bot ledger of \<open>db.py\<close>, a manual close of
    \<open>api_domains/paper_control.py\<close>.
  \<^item> \<open>Risk_Guard\<close>, \<open>Risk_Props\<close>: the equity guard of \<open>exchange/risk.py\<close>. \<open>Books\<close>: \<open>exchange/books.py\<close>.
    \<open>Risk_Admission\<close>, \<open>Risk_Budget\<close>, \<open>Can_Open\<close>: the admission of a position in \<open>exchange/risk.py\<close>, with
    \<open>portfolio_correlation.py\<close> and the flip of \<open>api_domains/paper_control.py\<close>. \<open>Budget_Props\<close>, \<open>Admission_Props\<close>:
    their properties.
  \<^item> \<open>Lifecycle\<close>, \<open>Lifecycle_Commit\<close>: \<open>transition_stage\<close> of \<open>brain.py\<close>, \<open>normalize_stage\<close> of \<open>util.py\<close>; the state \<open>life\<close> holds
    the tables a move reads and writes, the checks of other modules are the record \<open>gates\<close>. \<open>Dethrone_Cooldown\<close>:
    \<open>dethrone_cooldown.py\<close>. \<open>Lifecycle_Props\<close>, \<open>Lifecycle_Authority\<close>, \<open>Lifecycle_Effects\<close>: their properties.
  \<^item> \<open>Probation_Rules\<close>: \<open>probation_rules.py\<close>. \<open>Probation_Record\<close>, \<open>Probation\<close>: \<open>probation.py\<close>, its table and its
    operations. \<open>Probation_Knobs\<close>, \<open>Probation_Props\<close>, \<open>Probation_Watchdog\<close>: their properties.
  \<^item> \<open>Paper_Door\<close>: \<open>paper_door.py\<close>. \<open>Quick_Screen\<close>: \<open>quick_screen_rule.py\<close>. \<open>Live_Evidence\<close>: \<open>live_evidence.py\<close>.
    \<open>Paper_Pool\<close>, \<open>Paper_Pool_Props\<close>: \<open>paper_pool.py\<close> with its scheduled pass in \<open>evolution.py\<close>; the state \<open>pooled\<close> is the
    state of the stage machine and the queue.
  A function of the source keeps its name, without the leading underscore; a function too long for one
  definition is split where the source has a comment or an early return.

  \<^bold>\<open>What the lemmas show.\<close>
  \<^item> Trading: paper trading equals the backtest, a replay never revises a reported trade, the equity is the
    ledger, stops are on the right side, margin is never allocated twice, an exit inside a bar is read
    pessimistically, pending orders are executed as projected.
  \<^item> Reconcile: what a round may open, and that one round brings the recorded book in step.
  \<^item> Gauntlet: the steps run alone and in order under every interleaving, promotion needs every robustness
    step, the workflow never stalls, and where its two status functions agree.
  \<^item> Guard: the kill switch and the daily halt arm only on confirmed real losses and stay armed, the open
    path refuses a breach, the limits bind.
  \<^item> Admission: an admitted order keeps every cap of the account, one position per asset and wallet, paper is
    independent of the real account, failed opens are braked, the settings can only tighten on real capital.
  \<^item> Stages: no move strands a live position, who may take a strategy live or dethrone it, the history is a path of
    the stage machine, one of two racing moves wins, what a terminal move and a restore leave behind.
  \<^item> Probation: starting never bypasses the account's checks, a demotion stops entries, the watchdog only
    reduces risk unless it was allowed more, the settings are bounded, the drawdown is the deepest fall.
  \<^item> Paper pool: stored door settings read back, the window ladder ends, luck in a large pool is discounted, the pool
    keeps its cap and a free place goes to the best.
  \<^item> Closing and calling: a closed trade is final, what is booked is the price move, ledgers follow; a breaker
    trips at its threshold and what its probes do.
  \<^bold>\<open>Bounds and parameters.\<close> A Python float is a rational number (\<open>pyfloat\<close> where the code meets infinities or
  NaN): comparisons and the explicit \<open>round\<close> calls are exact, the rounding of each operation is left out. Clock readings
  are integers of microseconds. Every loop of the modelled code but one walks a finite list, so the definitions are
  total and no fuel is needed; the doubling loop of the window ladder is an option recursion that is proved to return; the retry loops of the venue calls are bounded by the attempts the source fixes.
  Code outside the sources is an argument: the outcome of a venue call, the account a venue reads, the measured
  correlation of two assets, the result of a gauntlet step, the verdicts of the promotion policy and of the code checks, the pseudo-random draws of
  the expected band, the quantiles of the normal distribution, the rank and family of a strategy, the intrabar resolver, the clock. A stage move is two steps, the gates and the transaction, between
  which other moves may run; an approval mode that applies a queued approval calls it again. A function that holds a
  lock or an immediate transaction is one step, and a concurrent execution is a sequence of steps.

  \<^bold>\<open>Not modelled.\<close> \<open>scanner.py\<close>, \<open>daemon.py\<close> and \<open>runtime_worker.py\<close> (process loops around the modelled functions), the
  construction of orders in the venue adapters (an SDK that is not in the repository), \<open>strategies/backtest.py\<close> and
  the optimisers (numpy and pandas computations), \<open>dataeng\<close> and \<open>data.py\<close> (downloads and parquet), \<open>agents\<close>, \<open>ai.py\<close>
  and the orchestration of \<open>brain.py\<close> (prompts and model calls), the HTTP routers, the SQL schema, and of
  \<open>exchange/risk.py\<close> the recovery and reconciliation with the venue and the capacity reports. The promotion policy
  (\<open>policy.py\<close>) compares metrics that those computations produce with thresholds; its verdict is an argument. Texts,
  display ids, log and audit lines, notifications and the payloads of screens are left out everywhere: no modelled
  decision reads them.
\<close>

section \<open>Properties that span components\<close>



end
